(* ===== verification/Prelude.thy ===== *)
theory Prelude imports Main "HOL-Library.Word" "HOL-Library.Monad_Syntax" begin

text \<open>
  Shared vocabulary of the development: the machine integers of the Rust program, its
  \<open>Result\<close> type with the early return of the \<open>?\<close> operator, the checked and saturating
  arithmetic of the standard library, little-endian byte strings, and the loops over
  fallible bodies. Nothing here is specific to one component.
\<close>

section \<open>Collections\<close>

named_theorems res_simps \<open>inversion of successful fallible computations\<close>
named_theorems int_simps \<open>machine arithmetic read in nat and int\<close>
named_theorems byte_eval \<open>evaluation of byte strings at numerals\<close>

section \<open>Machine integers\<close>

type_synonym u8 = "8 word"
type_synonym u32 = "32 word"
type_synonym u64 = "64 word"
type_synonym i64 = "64 word"
type_synonym byte = "8 word"

text \<open>
  \<open>checked_add\<close>, \<open>checked_sub\<close>, \<open>saturating_sub\<close> and \<open>saturating_add\<close> of the Rust
  standard library on unsigned words of any width.
\<close>

definition checked_add :: "'w::len word \<Rightarrow> 'w word \<Rightarrow> 'w word option" where
  "checked_add a b = (if unat a + unat b < 2 ^ LENGTH('w) then Some (a + b) else None)"

definition checked_sub :: "'w::len word \<Rightarrow> 'w word \<Rightarrow> 'w word option" where
  "checked_sub a b = (if b \<le> a then Some (a - b) else None)"

definition saturating_sub :: "'w::len word \<Rightarrow> 'w word \<Rightarrow> 'w word" where
  "saturating_sub a b = (if b \<le> a then a - b else 0)"

definition saturating_add :: "'w::len word \<Rightarrow> 'w word \<Rightarrow> 'w word" where
  "saturating_add a b = (if unat a + unat b < 2 ^ LENGTH('w) then a + b else - 1)"

lemma unat_add_small: "unat a + unat b < 2 ^ LENGTH('w) \<Longrightarrow> unat (a + b) = unat a + unat b"
  for a b :: "'w::len word"
  by (simp add: unat_word_ariths)

lemma unat_sub_le: "b \<le> a \<Longrightarrow> unat (a - b) = unat a - unat b"
  for a b :: "'w::len word"
  by (simp add: unat_sub_if' word_le_nat_alt)

lemma checked_add_eq_Some [int_simps]:
  "checked_add a b = Some c \<longleftrightarrow> unat c = unat a + unat b"
  for a b c :: "'w::len word"
proof
  assume "checked_add a b = Some c"
  then show "unat c = unat a + unat b"
    by (auto simp: checked_add_def unat_add_small split: if_splits)
next
  assume eq: "unat c = unat a + unat b"
  then have lt: "unat a + unat b < 2 ^ LENGTH('w)"
    by (metis unsigned_less)
  with eq have "unat (a + b) = unat c"
    by (simp add: unat_add_small)
  then have "a + b = c"
    by (simp add: word_unat_eq_iff)
  with lt show "checked_add a b = Some c"
    by (simp add: checked_add_def)
qed

lemma checked_add_eq_None [int_simps]:
  "checked_add a b = None \<longleftrightarrow> 2 ^ LENGTH('w) \<le> unat a + unat b"
  for a b :: "'w::len word"
  by (auto simp: checked_add_def)

lemma checked_sub_eq_Some [int_simps]:
  "checked_sub a b = Some c \<longleftrightarrow> unat b \<le> unat a \<and> unat c = unat a - unat b"
  for a b c :: "'w::len word"
proof -
  have "unat (a - b) = unat c \<longleftrightarrow> a - b = c"
    by (simp add: word_unat_eq_iff)
  then show ?thesis
    by (auto simp: checked_sub_def word_le_nat_alt unat_sub_le split: if_splits)
qed

lemma checked_sub_eq_None [int_simps]:
  "checked_sub a b = None \<longleftrightarrow> unat a < unat b"
  for a b :: "'w::len word"
  by (auto simp: checked_sub_def word_le_nat_alt not_le)

lemma unat_saturating_sub [int_simps]:
  "unat (saturating_sub a b) = unat a - unat b"
  for a b :: "'w::len word"
  by (auto simp: saturating_sub_def word_le_nat_alt unat_sub_le not_le)

lemma unat_saturating_add [int_simps]:
  "unat (saturating_add a b) = min (unat a + unat b) (2 ^ LENGTH('w) - 1)"
  for a b :: "'w::len word"
  by (auto simp: saturating_add_def unat_add_small unsigned_minus_1_eq_mask min_def mask_eq_exp_minus_1)

section \<open>Signed 64-bit values\<close>

text \<open>
  An \<open>i64\<close> is the word of its two's complement; \<open>sint\<close> reads it. The release profile
  has \<open>overflow-checks = true\<close>, so a signed subtraction that leaves the range panics;
  Rust's division truncates towards zero and panics on a zero divisor and on
  \<open>i64::MIN / -1\<close>.
\<close>

definition i64_sub :: "i64 \<Rightarrow> i64 \<Rightarrow> i64 option" where
  "i64_sub a b =
     (let d = sint a - sint b
      in if - (2 ^ 63) \<le> d \<and> d < 2 ^ 63 then Some (a - b) else None)"

definition trunc_div :: "int \<Rightarrow> int \<Rightarrow> int" where
  "trunc_div a b = sgn a * sgn b * (\<bar>a\<bar> div \<bar>b\<bar>)"

definition i64_div :: "i64 \<Rightarrow> i64 \<Rightarrow> i64 option" where
  "i64_div a b =
     (if b = 0 \<or> (sint a = - (2 ^ 63) \<and> sint b = - 1) then None
      else Some (word_of_int (trunc_div (sint a) (sint b))))"

lemma sint_i64_range: "- (2 ^ 63) \<le> sint a" "sint a < 2 ^ 63"
  for a :: i64
  using sint_greater_eq [of a] sint_less [of a] by simp_all

lemma sint_word_of_int_small:
  "- (2 ^ 63) \<le> n \<Longrightarrow> n < 2 ^ 63 \<Longrightarrow> sint (word_of_int n :: i64) = n"
  by (simp add: signed_of_int signed_take_bit_int_eq_self)

lemma sint_sub_small:
  "- (2 ^ 63) \<le> sint a - sint b \<Longrightarrow> sint a - sint b < 2 ^ 63 \<Longrightarrow>
   sint (a - b) = sint a - sint b"
  for a b :: i64
proof -
  assume lo: "- (2 ^ 63) \<le> sint a - sint b" and hi: "sint a - sint b < 2 ^ 63"
  have "a - b = word_of_int (sint a - sint b)"
    by (simp add: of_int_sint)
  then show ?thesis
    using sint_word_of_int_small [OF lo hi] by simp
qed

lemma trunc_div_nonneg: "0 \<le> a \<Longrightarrow> 0 < b \<Longrightarrow> trunc_div a b = a div b"
  by (cases "a = 0") (simp_all add: trunc_div_def)

section \<open>Fallible computations\<close>

text \<open>
  Rust's \<open>Result\<close>: \<open>Inl\<close> is \<open>Err\<close>, \<open>Inr\<close> is \<open>Ok\<close>. \<open>and_then m f\<close> is the \<open>?\<close>
  operator: the rest of the body \<open>f\<close> runs only when \<open>m\<close> is \<open>Ok\<close>.
\<close>

primrec and_then :: "'e + 'a \<Rightarrow> ('a \<Rightarrow> 'e + 'b) \<Rightarrow> 'e + 'b" where
  "and_then (Inl e) f = Inl e"
| "and_then (Inr x) f = f x"

definition ensure :: "bool \<Rightarrow> 'e \<Rightarrow> 'e + unit" where
  "ensure c e = (if c then Inr () else Inl e)"

primrec ok_or :: "'a option \<Rightarrow> 'e \<Rightarrow> 'e + 'a" where
  "ok_or None e = Inl e"
| "ok_or (Some x) e = Inr x"

lemma and_then_eq_Inr [res_simps]:
  "and_then m f = Inr y \<longleftrightarrow> (\<exists>x. m = Inr x \<and> f x = Inr y)"
  by (cases m) auto

lemma and_then_eq_Inl:
  "and_then m f = Inl e \<longleftrightarrow> m = Inl e \<or> (\<exists>x. m = Inr x \<and> f x = Inl e)"
  by (cases m) auto

lemma ensure_eq_Inr [res_simps]: "ensure c e = Inr u \<longleftrightarrow> c"
  by (simp add: ensure_def)

lemma ensure_eq_Inl [res_simps]: "ensure c e = Inl e' \<longleftrightarrow> \<not> c \<and> e' = e"
  by (auto simp: ensure_def)

lemma ensure_True [simp]: "ensure True e = Inr ()"
  by (simp add: ensure_def)

lemma ensure_False [simp]: "ensure False e = Inl e"
  by (simp add: ensure_def)

lemma ensure_when [simp]: "c \<Longrightarrow> ensure c e = Inr ()"
  by (simp add: ensure_def)

lemma ok_or_eq_Inr [res_simps]: "ok_or m e = Inr x \<longleftrightarrow> m = Some x"
  by (cases m) auto

lemma ok_or_eq_Inl [res_simps]: "ok_or m e = Inl e' \<longleftrightarrow> m = None \<and> e' = e"
  by (cases m) auto

lemma if_eq_Inr [res_simps]:
  "(if c then m else n) = Inr y \<longleftrightarrow> (c \<and> m = Inr y) \<or> (\<not> c \<and> n = Inr y)"
  by simp

text \<open>A \<open>for\<close> loop whose body only checks, and one whose body threads a state.\<close>

primrec for_all :: "('a \<Rightarrow> 'e + unit) \<Rightarrow> 'a list \<Rightarrow> 'e + unit" where
  "for_all f [] = Inr ()"
| "for_all f (x # xs) = and_then (f x) (\<lambda>_. for_all f xs)"

primrec for_each :: "('a \<Rightarrow> 's \<Rightarrow> 'e + 's) \<Rightarrow> 'a list \<Rightarrow> 's \<Rightarrow> 'e + 's" where
  "for_each f [] s = Inr s"
| "for_each f (x # xs) s = and_then (f x s) (for_each f xs)"

lemma for_all_eq_Inr [res_simps]: "for_all f xs = Inr u \<longleftrightarrow> (\<forall>x \<in> set xs. f x = Inr ())"
  by (induction xs) (auto simp: res_simps)

lemma for_each_invariant:
  assumes "for_each f xs s = Inr t" and "P s"
    and "\<And>x s t. x \<in> set xs \<Longrightarrow> f x s = Inr t \<Longrightarrow> P s \<Longrightarrow> P t"
  shows "P t"
  using assms by (induction xs arbitrary: s) (auto simp: res_simps)

section \<open>Little-endian bytes\<close>

fun le_bytes :: "nat \<Rightarrow> nat \<Rightarrow> byte list" where
  "le_bytes 0 n = []"
| "le_bytes (Suc k) n = word_of_nat (n mod 256) # le_bytes k (n div 256)"

fun of_le_bytes :: "byte list \<Rightarrow> nat" where
  "of_le_bytes [] = 0"
| "of_le_bytes (b # bs) = unat b + 256 * of_le_bytes bs"

lemma le_bytes_numeral [byte_eval]:
  "le_bytes (numeral k) n = word_of_nat (n mod 256) # le_bytes (pred_numeral k) (n div 256)"
  using le_bytes.simps(2) [of "pred_numeral k" n] by (simp only: numeral_eq_Suc [of k])

lemma length_le_bytes [simp]: "length (le_bytes k n) = k"
  by (induction k arbitrary: n) auto

lemma unat_byte_mod: "unat (word_of_nat (n mod 256) :: byte) = n mod 256"
  by (simp add: unat_of_nat)

lemma of_le_bytes_le_bytes: "of_le_bytes (le_bytes k n) = n mod 256 ^ k"
proof (induction k arbitrary: n)
  case 0
  then show ?case by simp
next
  case (Suc k)
  have "n mod 256 ^ Suc k = n mod 256 + 256 * (n div 256 mod 256 ^ k)"
    by (simp add: mod_mult2_eq mult.commute)
  with Suc show ?case
    by (simp add: unat_byte_mod)
qed

lemma of_le_bytes_bound: "of_le_bytes bs < 256 ^ length bs"
proof (induction bs)
  case Nil
  then show ?case by simp
next
  case (Cons b bs)
  have "unat b < 256"
    using unsigned_less [of b] by simp
  with Cons show ?case
    by simp
qed

lemma le_bytes_of_le_bytes: "le_bytes (length bs) (of_le_bytes bs) = bs"
proof (induction bs)
  case Nil
  then show ?case by simp
next
  case (Cons b bs)
  have "unat b < 256"
    using unsigned_less [of b] by simp
  with Cons show ?case
    by simp
qed

text \<open>Words of a whole number of bytes, in the order of \<open>to_le_bytes\<close>.\<close>

definition word_bytes :: "'w::len word \<Rightarrow> byte list" where
  "word_bytes w = le_bytes (LENGTH('w) div 8) (unat w)"

definition word_of_bytes :: "byte list \<Rightarrow> 'w::len word" where
  "word_of_bytes bs = word_of_nat (of_le_bytes bs)"

lemma length_word_bytes [simp]: "length (word_bytes (w :: 'w::len word)) = LENGTH('w) div 8"
  by (simp add: word_bytes_def)

lemma word_of_bytes_word_bytes:
  assumes "8 dvd LENGTH('w)"
  shows "word_of_bytes (word_bytes w) = (w :: 'w::len word)"
proof -
  have "(256 :: nat) ^ (LENGTH('w) div 8) = 2 ^ (8 * (LENGTH('w) div 8))"
    by (simp only: power_mult) simp
  also have "\<dots> = 2 ^ LENGTH('w)"
    using assms by simp
  finally have "(256 :: nat) ^ (LENGTH('w) div 8) = 2 ^ LENGTH('w)" .
  then show ?thesis
    by (simp add: word_of_bytes_def word_bytes_def of_le_bytes_le_bytes)
qed

lemma word_bytes_word_of_bytes:
  assumes "8 dvd LENGTH('w)" and "length bs = LENGTH('w::len) div 8"
  shows "word_bytes (word_of_bytes bs :: 'w word) = bs"
proof -
  have "(256 :: nat) ^ length bs = 2 ^ (8 * (LENGTH('w) div 8))"
    by (simp only: power_mult assms(2)) simp
  then have "of_le_bytes bs < 2 ^ LENGTH('w)"
    using of_le_bytes_bound [of bs] assms(1) by simp
  then have "unat (word_of_nat (of_le_bytes bs) :: 'w word) = of_le_bytes bs"
    by (simp add: unat_of_nat)
  then show ?thesis
    using le_bytes_of_le_bytes [of bs] assms(2)
    by (simp add: word_bytes_def word_of_bytes_def)
qed

end
