(* ===== verification/Errors.thy ===== *)
theory Errors imports Prelude begin

text \<open>
  The error codes of \<open>errors.rs\<close> and the errors a transaction can end with. The enum
  \<open>IntentsError\<close> has 96 variants; it is split along its numbering into five families (vault
  and intent errors 0 to 18, pump errors 19 to 42, withdrawal, swap, payment and
  subscription errors 43 to 71, fee errors 72 to 77, sub-grant errors 78 to 95), each with
  the source's variant names, and \<open>error_code\<close> gives every variant its explicit
  discriminant.
\<close>

section \<open>The variants and their discriminants\<close>

datatype base_error =
    UnauthorizedRoot
  | AgentMismatch
  | ZeroPayAmount
  | ZeroAmount
  | InsufficientSpendVault
  | InsufficientPaymaster
  | PaymasterPaused
  | RelayerMismatch
  | NotSponsorEligible
  | SponsorAccountsRequired
  | SponsorCapExceeded
  | IntentStub
  | GrokAccountMismatch
  | LamportOverflow
  | InvalidCoreProgram
  | MinOutNotMet
  | CallTargetMismatch
  | TargetNotExecutable
  | ProtectedAccountInRemaining

datatype pump_error =
    PumpProgramMismatch
  | PumpAccountCountMismatch
  | PumpUserMustBeVault
  | AgentCannotFeePay
  | PumpEmptyDataForbidden
  | PumpAtaCreateRequiresFeePayer
  | InvalidTokenProgram
  | PumpPdaMismatch
  | PumpUserMustBeTrader
  | PumpTraderNotSystemOwned
  | PumpTraderAlreadyExists
  | PumpTraderNotInitialized
  | PumpMintMustBeSigner
  | PumpCreateNameTooLong
  | PumpCreateSymbolTooLong
  | PumpCreateUriTooLong
  | PumpAmmProgramMismatch
  | PumpAmmAccountCountMismatch
  | PumpAmmPoolInvalid
  | PumpAmmQuoteMustBeWsol
  | PumpAmmFeeRecipientInvalid
  | PumpTraderUnderfunded
  | PumpAmmSellCheckGrantAmountMustBeZero
  | PumpAmmSellAccountCountMismatch

datatype token_error =
    WithdrawRemainingAccountsOdd
  | WithdrawTokenAccountInvalid
  | WithdrawTokenOwnerNotTrader
  | WithdrawTokenMintMismatch
  | WithdrawTokenDestOwnerNotRoot
  | InsufficientPumpTrader
  | JupiterProgramMismatch
  | JupiterEmptyDataForbidden
  | JupiterInAmountMismatch
  | JupiterSourceOwnerNotTrader
  | JupiterDestOwnerNotTrader
  | TokenWrapMintMustBeWsol
  | JupiterOverspent
  | JupiterMinOutNotMet
  | PayTokenMintNotRegistered
  | PayTokenMintMismatch
  | PayTokenSourceOwnerNotTrader
  | PayTokenPayeeNotAllowed
  | PayTokenDecimalsMismatch
  | PayTokenInsufficient
  | PayTokenAccountInvalid
  | MerchantRegistryFull
  | MerchantAlreadyListed
  | MerchantNotListed
  | SubscriptionInactive
  | SubscriptionPeriodTooShort
  | SubscriptionNotStarted
  | SubscriptionPeriodMismatch
  | SubscriptionAlreadyPaid

datatype fee_error =
    SponsorFeeTooHigh
  | SponsorFeeMintMismatch
  | SponsorFeeVaultOwnerMismatch
  | SponsorFeeVaultMalformed
  | NothingToBurn
  | BurnIncomplete

datatype sub_error =
    SubGrantExceedsParent
  | SubGrantOutlivesParent
  | SubGrantTooDeep
  | SubGrantNotIssuer
  | SubGrantSelfIssue
  | SubGrantParentRevoked
  | SubGrantParentExpired
  | SubGrantExpiryInPast
  | SubGrantCannotWiden
  | SubGrantCapBelowSpent
  | SubGrantAlreadyRevoked
  | SubGrantRevoked
  | SubGrantExpired
  | SubGrantCapExceeded
  | SubGrantNotHolder
  | SubGrantChainEmpty
  | SubGrantChainBroken
  | SubGrantChainTruncated

datatype intents_error =
    Base base_error
  | Pump pump_error
  | Token token_error
  | Fee fee_error
  | Sub sub_error

primrec base_code :: "base_error \<Rightarrow> nat" where
  "base_code UnauthorizedRoot = 0"
| "base_code AgentMismatch = 1"
| "base_code ZeroPayAmount = 2"
| "base_code ZeroAmount = 3"
| "base_code InsufficientSpendVault = 4"
| "base_code InsufficientPaymaster = 5"
| "base_code PaymasterPaused = 6"
| "base_code RelayerMismatch = 7"
| "base_code NotSponsorEligible = 8"
| "base_code SponsorAccountsRequired = 9"
| "base_code SponsorCapExceeded = 10"
| "base_code IntentStub = 11"
| "base_code GrokAccountMismatch = 12"
| "base_code LamportOverflow = 13"
| "base_code InvalidCoreProgram = 14"
| "base_code MinOutNotMet = 15"
| "base_code CallTargetMismatch = 16"
| "base_code TargetNotExecutable = 17"
| "base_code ProtectedAccountInRemaining = 18"

primrec pump_code :: "pump_error \<Rightarrow> nat" where
  "pump_code PumpProgramMismatch = 19"
| "pump_code PumpAccountCountMismatch = 20"
| "pump_code PumpUserMustBeVault = 21"
| "pump_code AgentCannotFeePay = 22"
| "pump_code PumpEmptyDataForbidden = 23"
| "pump_code PumpAtaCreateRequiresFeePayer = 24"
| "pump_code InvalidTokenProgram = 25"
| "pump_code PumpPdaMismatch = 26"
| "pump_code PumpUserMustBeTrader = 27"
| "pump_code PumpTraderNotSystemOwned = 28"
| "pump_code PumpTraderAlreadyExists = 29"
| "pump_code PumpTraderNotInitialized = 30"
| "pump_code PumpMintMustBeSigner = 31"
| "pump_code PumpCreateNameTooLong = 32"
| "pump_code PumpCreateSymbolTooLong = 33"
| "pump_code PumpCreateUriTooLong = 34"
| "pump_code PumpAmmProgramMismatch = 35"
| "pump_code PumpAmmAccountCountMismatch = 36"
| "pump_code PumpAmmPoolInvalid = 37"
| "pump_code PumpAmmQuoteMustBeWsol = 38"
| "pump_code PumpAmmFeeRecipientInvalid = 39"
| "pump_code PumpTraderUnderfunded = 40"
| "pump_code PumpAmmSellCheckGrantAmountMustBeZero = 41"
| "pump_code PumpAmmSellAccountCountMismatch = 42"

primrec token_code :: "token_error \<Rightarrow> nat" where
  "token_code WithdrawRemainingAccountsOdd = 43"
| "token_code WithdrawTokenAccountInvalid = 44"
| "token_code WithdrawTokenOwnerNotTrader = 45"
| "token_code WithdrawTokenMintMismatch = 46"
| "token_code WithdrawTokenDestOwnerNotRoot = 47"
| "token_code InsufficientPumpTrader = 48"
| "token_code JupiterProgramMismatch = 49"
| "token_code JupiterEmptyDataForbidden = 50"
| "token_code JupiterInAmountMismatch = 51"
| "token_code JupiterSourceOwnerNotTrader = 52"
| "token_code JupiterDestOwnerNotTrader = 53"
| "token_code TokenWrapMintMustBeWsol = 54"
| "token_code JupiterOverspent = 55"
| "token_code JupiterMinOutNotMet = 56"
| "token_code PayTokenMintNotRegistered = 57"
| "token_code PayTokenMintMismatch = 58"
| "token_code PayTokenSourceOwnerNotTrader = 59"
| "token_code PayTokenPayeeNotAllowed = 60"
| "token_code PayTokenDecimalsMismatch = 61"
| "token_code PayTokenInsufficient = 62"
| "token_code PayTokenAccountInvalid = 63"
| "token_code MerchantRegistryFull = 64"
| "token_code MerchantAlreadyListed = 65"
| "token_code MerchantNotListed = 66"
| "token_code SubscriptionInactive = 67"
| "token_code SubscriptionPeriodTooShort = 68"
| "token_code SubscriptionNotStarted = 69"
| "token_code SubscriptionPeriodMismatch = 70"
| "token_code SubscriptionAlreadyPaid = 71"

primrec fee_code :: "fee_error \<Rightarrow> nat" where
  "fee_code SponsorFeeTooHigh = 72"
| "fee_code SponsorFeeMintMismatch = 73"
| "fee_code SponsorFeeVaultOwnerMismatch = 74"
| "fee_code SponsorFeeVaultMalformed = 75"
| "fee_code NothingToBurn = 76"
| "fee_code BurnIncomplete = 77"

primrec sub_code :: "sub_error \<Rightarrow> nat" where
  "sub_code SubGrantExceedsParent = 78"
| "sub_code SubGrantOutlivesParent = 79"
| "sub_code SubGrantTooDeep = 80"
| "sub_code SubGrantNotIssuer = 81"
| "sub_code SubGrantSelfIssue = 82"
| "sub_code SubGrantParentRevoked = 83"
| "sub_code SubGrantParentExpired = 84"
| "sub_code SubGrantExpiryInPast = 85"
| "sub_code SubGrantCannotWiden = 86"
| "sub_code SubGrantCapBelowSpent = 87"
| "sub_code SubGrantAlreadyRevoked = 88"
| "sub_code SubGrantRevoked = 89"
| "sub_code SubGrantExpired = 90"
| "sub_code SubGrantCapExceeded = 91"
| "sub_code SubGrantNotHolder = 92"
| "sub_code SubGrantChainEmpty = 93"
| "sub_code SubGrantChainBroken = 94"
| "sub_code SubGrantChainTruncated = 95"

primrec error_code :: "intents_error \<Rightarrow> nat" where
  "error_code (Base e) = base_code e"
| "error_code (Pump e) = pump_code e"
| "error_code (Token e) = token_code e"
| "error_code (Fee e) = fee_code e"
| "error_code (Sub e) = sub_code e"

text \<open>
  What Anchor reports when an account does not meet its declaration, as far as the program
  can observe it.
\<close>

datatype anchor_error =
    ConstraintMut
  | ConstraintSeeds
  | ConstraintExecutable
  | ConstraintAddress
  | AccountNotInitialized
  | AccountOwnedByWrongProgram
  | AccountDiscriminatorNotFound
  | AccountDiscriminatorMismatch
  | AccountDidNotDeserialize
  | AccountDidNotSerialize
  | AccountNotSigner
  | InvalidProgramId
  | InvalidProgramExecutable
  | TryingToInitPayerAsProgramAccount

text \<open>
  A failed transaction: an error of this program, an error of Anchor's account validation,
  the error a cross-program invocation returned, a failed Borsh write, or a Rust panic (an index
  out of range, an arithmetic overflow under \<open>overflow-checks\<close>).
\<close>

datatype prog_error =
    Intents intents_error
  | Anchor anchor_error
  | Cpi nat
  | BorshIoError
  | Panic

type_synonym 'a res = "prog_error + 'a"

text \<open>The \<open>require!\<close> macro,
      and a \<open>require\<close> of an account declaration.\<close>

definition require :: "bool \<Rightarrow> intents_error \<Rightarrow> unit res" where
  "require c e = ensure c (Intents e)"

definition constraint :: "bool \<Rightarrow> anchor_error \<Rightarrow> unit res" where
  "constraint c e = ensure c (Anchor e)"

lemma require_eq_Inr [res_simps]: "require c e = Inr u \<longleftrightarrow> c"
  by (simp add: require_def res_simps)

lemma require_eq_Inl [res_simps]: "require c e = Inl x \<longleftrightarrow> \<not> c \<and> x = Intents e"
  by (simp add: require_def res_simps)

lemma require_when [simp]: "c \<Longrightarrow> require c e = Inr ()"
  by (simp add: require_def)

lemma require_unless [simp]: "\<not> c \<Longrightarrow> require c e = Inl (Intents e)"
  by (simp add: require_def)

lemma constraint_eq_Inr [res_simps]: "constraint c e = Inr u \<longleftrightarrow> c"
  by (simp add: constraint_def res_simps)

lemma constraint_eq_Inl [res_simps]: "constraint c e = Inl x \<longleftrightarrow> \<not> c \<and> x = Anchor e"
  by (simp add: constraint_def res_simps)

lemma constraint_when [simp]: "c \<Longrightarrow> constraint c e = Inr ()"
  by (simp add: constraint_def)

lemma constraint_unless [simp]: "\<not> c \<Longrightarrow> constraint c e = Inl (Anchor e)"
  by (simp add: constraint_def)

section \<open>The numbering is a bijection onto 0 to 95\<close>

lemma base_code_range: "0 \<le> base_code e \<and> base_code e \<le> 18"
  by (cases e) simp_all

lemma base_code_inj: "base_code d = base_code e \<Longrightarrow> d = e"
  by (cases d; cases e; simp)

lemma pump_code_range: "19 \<le> pump_code e \<and> pump_code e \<le> 42"
  by (cases e) simp_all

lemma pump_code_inj: "pump_code d = pump_code e \<Longrightarrow> d = e"
  by (cases d; cases e; simp)

lemma token_code_range: "43 \<le> token_code e \<and> token_code e \<le> 71"
  by (cases e) simp_all

lemma token_code_inj: "token_code d = token_code e \<Longrightarrow> d = e"
  by (cases d; cases e; simp)

lemma fee_code_range: "72 \<le> fee_code e \<and> fee_code e \<le> 77"
  by (cases e) simp_all

lemma fee_code_inj: "fee_code d = fee_code e \<Longrightarrow> d = e"
  by (cases d; cases e; simp)

lemma sub_code_range: "78 \<le> sub_code e \<and> sub_code e \<le> 95"
  by (cases e) simp_all

lemma sub_code_inj: "sub_code d = sub_code e \<Longrightarrow> d = e"
  by (cases d; cases e; simp)

lemma codes_disjoint:
  shows "base_code a \<noteq> pump_code b"
    and "base_code a \<noteq> token_code c"
    and "base_code a \<noteq> fee_code d"
    and "base_code a \<noteq> sub_code e"
    and "pump_code b \<noteq> token_code c"
    and "pump_code b \<noteq> fee_code d"
    and "pump_code b \<noteq> sub_code e"
    and "token_code c \<noteq> fee_code d"
    and "token_code c \<noteq> sub_code e"
    and "fee_code d \<noteq> sub_code e"
  using base_code_range [of a]
    pump_code_range [of b]
    token_code_range [of c]
    fee_code_range [of d]
    sub_code_range [of e]
  by linarith+

lemmas codes_inj = base_code_inj pump_code_inj token_code_inj fee_code_inj sub_code_inj

lemma error_code_inj: "inj error_code"
proof (rule injI)
  fix d e assume "error_code d = error_code e"
  then show "d = e"
    by (cases d; cases e) (auto dest: codes_inj simp: codes_disjoint codes_disjoint [symmetric])
qed

text \<open>The variants in the order of the source.\<close>

definition all_errors :: "intents_error list" where
  "all_errors =
    map Base [UnauthorizedRoot, AgentMismatch, ZeroPayAmount, ZeroAmount, InsufficientSpendVault,
      InsufficientPaymaster, PaymasterPaused, RelayerMismatch, NotSponsorEligible,
      SponsorAccountsRequired, SponsorCapExceeded, IntentStub, GrokAccountMismatch,
      LamportOverflow, InvalidCoreProgram, MinOutNotMet, CallTargetMismatch, TargetNotExecutable,
      ProtectedAccountInRemaining]
    @ map Pump [PumpProgramMismatch, PumpAccountCountMismatch, PumpUserMustBeVault,
      AgentCannotFeePay, PumpEmptyDataForbidden, PumpAtaCreateRequiresFeePayer,
      InvalidTokenProgram, PumpPdaMismatch, PumpUserMustBeTrader, PumpTraderNotSystemOwned,
      PumpTraderAlreadyExists, PumpTraderNotInitialized, PumpMintMustBeSigner,
      PumpCreateNameTooLong, PumpCreateSymbolTooLong, PumpCreateUriTooLong,
      PumpAmmProgramMismatch, PumpAmmAccountCountMismatch, PumpAmmPoolInvalid,
      PumpAmmQuoteMustBeWsol, PumpAmmFeeRecipientInvalid, PumpTraderUnderfunded,
      PumpAmmSellCheckGrantAmountMustBeZero, PumpAmmSellAccountCountMismatch]
    @ map Token [WithdrawRemainingAccountsOdd, WithdrawTokenAccountInvalid,
      WithdrawTokenOwnerNotTrader, WithdrawTokenMintMismatch, WithdrawTokenDestOwnerNotRoot,
      InsufficientPumpTrader, JupiterProgramMismatch, JupiterEmptyDataForbidden,
      JupiterInAmountMismatch, JupiterSourceOwnerNotTrader, JupiterDestOwnerNotTrader,
      TokenWrapMintMustBeWsol, JupiterOverspent, JupiterMinOutNotMet, PayTokenMintNotRegistered,
      PayTokenMintMismatch, PayTokenSourceOwnerNotTrader, PayTokenPayeeNotAllowed,
      PayTokenDecimalsMismatch, PayTokenInsufficient, PayTokenAccountInvalid,
      MerchantRegistryFull, MerchantAlreadyListed, MerchantNotListed, SubscriptionInactive,
      SubscriptionPeriodTooShort, SubscriptionNotStarted, SubscriptionPeriodMismatch,
      SubscriptionAlreadyPaid]
    @ map Fee [SponsorFeeTooHigh, SponsorFeeMintMismatch, SponsorFeeVaultOwnerMismatch,
      SponsorFeeVaultMalformed, NothingToBurn, BurnIncomplete]
    @ map Sub [SubGrantExceedsParent, SubGrantOutlivesParent, SubGrantTooDeep, SubGrantNotIssuer,
      SubGrantSelfIssue, SubGrantParentRevoked, SubGrantParentExpired, SubGrantExpiryInPast,
      SubGrantCannotWiden, SubGrantCapBelowSpent, SubGrantAlreadyRevoked, SubGrantRevoked,
      SubGrantExpired, SubGrantCapExceeded, SubGrantNotHolder, SubGrantChainEmpty,
      SubGrantChainBroken, SubGrantChainTruncated]"

lemma all_errors_codes: "map error_code all_errors = [0..<96]"
  by (simp add: all_errors_def upt_rec)

lemma error_code_le: "error_code e \<le> 95"
  using base_code_range pump_code_range token_code_range fee_code_range sub_code_range
  by (cases e) (simp_all add: le_trans [of _ 42 95] le_trans [of _ 18 95] le_trans [of _ 71 95]
      le_trans [of _ 77 95])

instantiation intents_error :: linorder
begin

definition less_eq_intents_error :: "intents_error \<Rightarrow> intents_error \<Rightarrow> bool" where
  "less_eq_intents_error d e \<longleftrightarrow> error_code d \<le> error_code e"

definition less_intents_error :: "intents_error \<Rightarrow> intents_error \<Rightarrow> bool" where
  "less_intents_error d e \<longleftrightarrow> error_code d < error_code e"

instance
  by standard
    (auto simp: less_eq_intents_error_def less_intents_error_def dest: injD [OF error_code_inj])

end

end
