(* ===== verification/Constants.thy ===== *)
theory Constants imports Errors begin

text \<open>
  Public keys and \<open>constants.rs\<close>: program ids, PDA seeds, instruction discriminators, account
  counts and indices, the fee-recipient lists, and the encoders of the instruction data this
  program hands to pump.fun and PumpSwap.
\<close>

section \<open>Public keys\<close>

text \<open>
  A \<open>Pubkey\<close> is 32 bytes. It is kept as the 256-bit number those bytes spell in big-endian
  order, which is also the number a base58 string denotes; \<open>pubkey_bytes\<close> and
  \<open>pubkey_of_bytes\<close> are \<open>as_ref\<close> and \<open>try_from\<close>. \<open>base58\<close> is the \<open>pubkey!\<close> macro.
\<close>

type_synonym pubkey = "256 word"

definition pubkey_bytes :: "pubkey \<Rightarrow> byte list" where
  "pubkey_bytes k = rev (word_bytes k)"

definition pubkey_of_bytes :: "byte list \<Rightarrow> pubkey" where
  "pubkey_of_bytes bs = word_of_bytes (rev bs)"

lemma length_pubkey_bytes [simp]: "length (pubkey_bytes k) = 32"
  by (simp add: pubkey_bytes_def)

lemma pubkey_of_bytes_pubkey_bytes [simp]: "pubkey_of_bytes (pubkey_bytes k) = k"
  by (simp add: pubkey_bytes_def pubkey_of_bytes_def word_of_bytes_word_bytes)

lemma pubkey_bytes_pubkey_of_bytes:
  "length bs = 32 \<Longrightarrow> pubkey_bytes (pubkey_of_bytes bs) = bs"
  by (simp add: pubkey_bytes_def pubkey_of_bytes_def word_bytes_word_of_bytes)

lemma pubkey_bytes_inject [simp]: "pubkey_bytes j = pubkey_bytes k \<longleftrightarrow> j = k"
  by (metis pubkey_of_bytes_pubkey_bytes)

definition base58_alphabet :: string where
  "base58_alphabet = ''123456789ABCDEFGHJKLMNPQRSTUVWXYZabcdefghijkmnopqrstuvwxyz''"

fun position :: "'a \<Rightarrow> 'a list \<Rightarrow> int" where
  "position x [] = 0"
| "position x (y # ys) = (if x = y then 0 else 1 + position x ys)"

fun base58_value :: "int \<Rightarrow> string \<Rightarrow> int" where
  "base58_value n [] = n"
| "base58_value n (c # cs) = base58_value (58 * n + position c base58_alphabet) cs"

definition base58 :: "string \<Rightarrow> pubkey" where
  "base58 s = word_of_int (base58_value 0 s)"

section \<open>Program ids and mints\<close>

text \<open>
  The ids of this program and of CORE are declared in \<open>lib.rs\<close>; \<open>Pubkey::default()\<close> and the
  System Program's id are 32 zero bytes.
\<close>

definition SYSTEM_PROGRAM_ID :: pubkey where
  "SYSTEM_PROGRAM_ID = 0"

definition DEFAULT_PUBKEY :: pubkey where
  "DEFAULT_PUBKEY = 0"

definition INTENTS_ID :: pubkey where
  "INTENTS_ID = base58 ''3HCErAFs93FMk2J25Qq1xRRMp6B4FyGvif8ZV8hYxQKw''"

definition CORE_ID :: pubkey where
  "CORE_ID = base58 ''44fxwzuEyNxZtgDr87mTtMYYJ1LJm6cB5aZNLyBsPjNd''"

definition PUMP_PROGRAM_ID :: pubkey where
  "PUMP_PROGRAM_ID = base58 ''6EF8rrecthR5Dkzon8Nwu78hRvfCKubJ14M5uBEwF6P''"

definition MAYHEM_PROGRAM_ID :: pubkey where
  "MAYHEM_PROGRAM_ID = base58 ''MAyhSmzXzV1pTf7LsNkrNwkWKTo4ougAJ1PPg47MD4e''"

definition TOKEN_2022_PROGRAM_ID :: pubkey where
  "TOKEN_2022_PROGRAM_ID = base58 ''TokenzQdBNbLqP5VEhdkAS6EPFLC1PHnBqCXEpPxuEb''"

definition TOKEN_PROGRAM_ID :: pubkey where
  "TOKEN_PROGRAM_ID = base58 ''TokenkegQfeZyiNwAJbNbGKPFXCWuBvf9Ss623VQ5DA''"

definition ASSOCIATED_TOKEN_PROGRAM_ID :: pubkey where
  "ASSOCIATED_TOKEN_PROGRAM_ID = base58 ''ATokenGPvbdGVxr1b2hvZbsiqW5xWH25efTNsLJA8knL''"

definition GROK_TOKEN_MINT :: pubkey where
  "GROK_TOKEN_MINT = base58 ''2x4iY5AaiGyRfxzHzSY1KzQJ7K82SDqmkMApwbcRpump''"

definition PUMP_AMM_PROGRAM_ID :: pubkey where
  "PUMP_AMM_PROGRAM_ID = base58 ''pAMMBay6oceH9fJKBRHGP5D4bD4sWpmSwMn52FMfXEA''"

definition PUMP_AMM_FEE_PROGRAM_ID :: pubkey where
  "PUMP_AMM_FEE_PROGRAM_ID = base58 ''pfeeUxB6jkeY1Hxd7CsFCAjcbHA9rWtchMGdZ6VojVZ''"

definition WSOL_MINT :: pubkey where
  "WSOL_MINT = base58 ''So11111111111111111111111111111111111111112''"

definition JUPITER_V6_PROGRAM_ID :: pubkey where
  "JUPITER_V6_PROGRAM_ID = base58 ''JUP6LkbZbjS1jKKwapdHNy74zcZ3tLUZoi5QNyVTaV4''"

definition USDC_MINT :: pubkey where
  "USDC_MINT = base58 ''EPjFWdd5AufqSSqeM2qN1xzybapC8G4wEGGkZwyTDt1v''"

definition PUMP_AMM_PROTOCOL_FEE_RECIPIENTS :: "pubkey list" where
  "PUMP_AMM_PROTOCOL_FEE_RECIPIENTS = map base58
    [''62qc2CNXwrYqQScmEdiZFFAnJR262PxWEuNQtxfafNgV'',
     ''7VtfL8fvgNfhz17qKRMjzQEXgbdpnHHHQRh54R9jP2RJ'',
     ''7hTckgnGnLQR6sdH7YkqFTAA7VwTfYFaZ6EhEsU3saCX'',
     ''9rPYyANsfQZw3DnDmKE3YCQF5E8oD89UXoHn9JFEhJUz'',
     ''AVmoTthdrX6tKt4nDjco2D775W2YK3sDhxPcMmzUAmTY'',
     ''FWsW1xNtWscwNmKv6wVsU1iTzRN6wmmk3MjxRP5tT7hz'',
     ''G5UZAVbAf46s7cKWoyKu8kYTip9DGTpbLZ2qa9Aq69dP'',
     ''JCRGumoE9Qi5BBgULTgdgTLjSgkCMSbF62ZZfGs84JeU'']"

definition PUMP_AMM_RESERVED_FEE_RECIPIENTS :: "pubkey list" where
  "PUMP_AMM_RESERVED_FEE_RECIPIENTS = map base58
    [''GesfTA3X2arioaHp8bbKdjG9vJtskViWACZoYvxp4twS'',
     ''4budycTjhs9fD6xw62VBducVTNgMgJJ5BgtKq7mAZwn6'',
     ''8SBKzEQU4nLSzcwF4a74F2iaUDQyTfjGndn6qUWBnrpR'',
     ''4UQeTP1T39KZ9Sfxzo3WR5skgsaP6NZa87BAkuazLEKH'',
     ''8sNeir4QsLsJdYpc9RZacohhK1Y5FLU3nC5LXgYB4aa6'',
     ''Fh9HmeLNUMVCvejxCtCL2DbYaRyBFVJ5xrWkLnMH6fdk'',
     ''463MEnMeGyJekNZFQSTUABBEbLnvMTALbT6ZmsxAbAdq'',
     ''6AUH3WEHucYZyC61hqpqYUWVto5qA5hjHuNQ32GNnNxA'']"

definition PUMP_AMM_BREAKING_FEE_RECIPIENTS :: "pubkey list" where
  "PUMP_AMM_BREAKING_FEE_RECIPIENTS = map base58
    [''5YxQFdt3Tr9zJLvkFccqXVUwhdTWJQc1fFg2YPbxvxeD'',
     ''9M4giFFMxmFGXtc3feFzRai56WbBqehoSeRE5GK7gf7'',
     ''GXPFM2caqTtQYC2cJ5yJRi9VDkpsYZXzYdwYpGnLmtDL'',
     ''3BpXnfJaUTiwXnJNe7Ej1rcbzqTTQUvLShZaWazebsVR'',
     ''5cjcW9wExnJJiqgLjq7DEG75Pm6JBgE1hNv4B2vHXUW6'',
     ''EHAAiTxcdDwQ3U4bU6YcMsQGaekdzLS3B5SmYo46kJtL'',
     ''5eHhjP8JaYkz83CWwvGU2uMUXefd3AazWGx4gpcuEEYD'',
     ''A7hAgCzFw14fejgCp387JUJRMNyz4j89JKnhtKU8piqW'']"

section \<open>Seeds\<close>

text \<open>
  The PDA seeds as byte strings. The last two belong to CORE and are asserted in \<open>lib.rs\<close>.
\<close>

definition ascii :: "string \<Rightarrow> byte list" where
  "ascii s = map (\<lambda>c. of_char c) s"

definition SEED_SPEND_VAULT :: "byte list" where
  "SEED_SPEND_VAULT = ascii ''spend-vault''"

definition SEED_PAYMASTER :: "byte list" where
  "SEED_PAYMASTER = ascii ''paymaster''"

definition SEED_PUMP_TRADER :: "byte list" where
  "SEED_PUMP_TRADER = ascii ''pump-trader''"

definition SEED_MERCHANTS :: "byte list" where
  "SEED_MERCHANTS = ascii ''merchants''"

definition SEED_SUBSCRIPTION :: "byte list" where
  "SEED_SUBSCRIPTION = ascii ''subscription''"

definition SEED_SPONSOR_FEE :: "byte list" where
  "SEED_SPONSOR_FEE = ascii ''sponsor-fee''"

definition SEED_FEE_VAULT :: "byte list" where
  "SEED_FEE_VAULT = ascii ''fee-vault''"

definition SEED_SUB_GRANT :: "byte list" where
  "SEED_SUB_GRANT = ascii ''sub-grant''"

definition SEED_GROK_ACCOUNT :: "byte list" where
  "SEED_GROK_ACCOUNT = ascii ''grok-account''"

definition SEED_GRANT :: "byte list" where
  "SEED_GRANT = ascii ''grant''"

section \<open>Numeric constants\<close>

definition MAX_MERCHANTS :: nat where
  "MAX_MERCHANTS = 32"

definition PUMP_TRADER_SPACE :: nat where
  "PUMP_TRADER_SPACE = 0"

definition MAX_SPONSOR_LAMPORTS :: u64 where
  "MAX_SPONSOR_LAMPORTS = 10000000"

definition PUMP_BUY_V2_ACCOUNT_COUNT :: nat where
  "PUMP_BUY_V2_ACCOUNT_COUNT = 27"

definition PUMP_SELL_V2_ACCOUNT_COUNT :: nat where
  "PUMP_SELL_V2_ACCOUNT_COUNT = 26"

definition PUMP_USER_INDEX :: nat where
  "PUMP_USER_INDEX = 13"

definition PUMP_PROGRAM_INDEX_BUY :: nat where
  "PUMP_PROGRAM_INDEX_BUY = 26"

definition PUMP_PROGRAM_INDEX_SELL :: nat where
  "PUMP_PROGRAM_INDEX_SELL = 25"

definition PUMP_TRADE_IX_DATA_LEN :: nat where
  "PUMP_TRADE_IX_DATA_LEN = 24"

definition PUMP_CREATE_V2_ACCOUNT_COUNT :: nat where
  "PUMP_CREATE_V2_ACCOUNT_COUNT = 16"

definition PUMP_CREATE_V2_ACCOUNT_COUNT_WITH_QUOTE :: nat where
  "PUMP_CREATE_V2_ACCOUNT_COUNT_WITH_QUOTE = 19"

definition PUMP_CREATE_MINT_INDEX :: nat where
  "PUMP_CREATE_MINT_INDEX = 0"

definition PUMP_CREATE_USER_INDEX :: nat where
  "PUMP_CREATE_USER_INDEX = 5"

definition PUMP_CREATE_PROGRAM_INDEX :: nat where
  "PUMP_CREATE_PROGRAM_INDEX = 15"

definition PUMP_CREATE_NAME_MAX :: nat where
  "PUMP_CREATE_NAME_MAX = 32"

definition PUMP_CREATE_SYMBOL_MAX :: nat where
  "PUMP_CREATE_SYMBOL_MAX = 13"

definition PUMP_CREATE_URI_MAX :: nat where
  "PUMP_CREATE_URI_MAX = 200"

definition PUMP_CREATE_V2_IX_DATA_MIN :: nat where
  "PUMP_CREATE_V2_IX_DATA_MIN = 8 + 4 + 4 + 4 + 32 + 1 + 1"

definition PUMP_AMM_BUY_ACCOUNT_COUNT :: nat where
  "PUMP_AMM_BUY_ACCOUNT_COUNT = 26"

definition PUMP_AMM_BUY_ACCOUNT_COUNT_CASHBACK :: nat where
  "PUMP_AMM_BUY_ACCOUNT_COUNT_CASHBACK = 27"

definition PUMP_AMM_USER_INDEX :: nat where
  "PUMP_AMM_USER_INDEX = 1"

definition PUMP_AMM_PROGRAM_INDEX :: nat where
  "PUMP_AMM_PROGRAM_INDEX = 16"

definition PUMP_AMM_BUY_EXACT_QUOTE_IN_DATA_LEN :: nat where
  "PUMP_AMM_BUY_EXACT_QUOTE_IN_DATA_LEN = 25"

definition PUMP_AMM_SELL_ACCOUNT_COUNT :: nat where
  "PUMP_AMM_SELL_ACCOUNT_COUNT = 24"

definition PUMP_AMM_SELL_ACCOUNT_COUNT_CASHBACK :: nat where
  "PUMP_AMM_SELL_ACCOUNT_COUNT_CASHBACK = 26"

definition PUMP_AMM_SELL_IDL_ACCOUNT_COUNT :: nat where
  "PUMP_AMM_SELL_IDL_ACCOUNT_COUNT = 21"

definition PUMP_AMM_SELL_DATA_LEN :: nat where
  "PUMP_AMM_SELL_DATA_LEN = 24"

section \<open>Instruction discriminators\<close>

definition CHECK_GRANT_DISCRIMINATOR :: "byte list" where
  "CHECK_GRANT_DISCRIMINATOR = [223, 172, 131, 140, 15, 133, 209, 250]"

definition PUMP_BUY_V2_DISC :: "byte list" where
  "PUMP_BUY_V2_DISC = [184, 23, 238, 97, 103, 197, 211, 61]"

definition PUMP_SELL_V2_DISC :: "byte list" where
  "PUMP_SELL_V2_DISC = [93, 246, 130, 60, 231, 233, 64, 178]"

definition PUMP_CREATE_V2_DISC :: "byte list" where
  "PUMP_CREATE_V2_DISC = [214, 144, 76, 236, 95, 139, 49, 180]"

definition PUMP_AMM_BUY_EXACT_QUOTE_IN_DISC :: "byte list" where
  "PUMP_AMM_BUY_EXACT_QUOTE_IN_DISC = [198, 46, 21, 82, 180, 217, 232, 112]"

definition PUMP_AMM_SELL_DISC :: "byte list" where
  "PUMP_AMM_SELL_DISC = [51, 230, 133, 164, 1, 127, 131, 173]"

definition CHECK_GRANT_META_WRITABLE :: "bool list" where
  "CHECK_GRANT_META_WRITABLE = [False, True, False, False]"

definition CHECK_GRANT_META_SIGNER :: "bool list" where
  "CHECK_GRANT_META_SIGNER = [False, False, True, False]"

section \<open>Encoders of inner instruction data\<close>

definition encode_pump_buy_v2 :: "u64 \<Rightarrow> u64 \<Rightarrow> byte list" where
  "encode_pump_buy_v2 amount max_sol_cost =
     PUMP_BUY_V2_DISC @ word_bytes amount @ word_bytes max_sol_cost"

definition encode_pump_sell_v2 :: "u64 \<Rightarrow> u64 \<Rightarrow> byte list" where
  "encode_pump_sell_v2 amount min_sol_output =
     PUMP_SELL_V2_DISC @ word_bytes amount @ word_bytes min_sol_output"

text \<open>
  A Rust \<open>&str\<close> is a sequence of Unicode scalar values: \<open>chars().count()\<close> counts them,
  \<open>as_bytes()\<close> is their UTF-8 encoding.
\<close>

type_synonym rust_str = "nat list"

definition utf8_char :: "nat \<Rightarrow> byte list" where
  "utf8_char c =
     (if c < 128 then [word_of_nat c]
      else if c < 2048 then [word_of_nat (192 + c div 64), word_of_nat (128 + c mod 64)]
      else if c < 65536 then
        [word_of_nat (224 + c div 4096), word_of_nat (128 + c div 64 mod 64),
         word_of_nat (128 + c mod 64)]
      else
        [word_of_nat (240 + c div 262144), word_of_nat (128 + c div 4096 mod 64),
         word_of_nat (128 + c div 64 mod 64), word_of_nat (128 + c mod 64)])"

definition as_bytes :: "rust_str \<Rightarrow> byte list" where
  "as_bytes s = concat (map utf8_char s)"

definition encode_borsh_string :: "rust_str \<Rightarrow> byte list" where
  "encode_borsh_string s = word_bytes (word_of_nat (length (as_bytes s)) :: u32) @ as_bytes s"

definition bool_byte :: "bool \<Rightarrow> byte" where
  "bool_byte b = (if b then 1 else 0)"

definition encode_pump_create_v2 ::
  "rust_str \<Rightarrow> rust_str \<Rightarrow> rust_str \<Rightarrow> pubkey \<Rightarrow> bool \<Rightarrow> bool \<Rightarrow> byte list" where
  "encode_pump_create_v2 name symbol uri creator is_mayhem_mode is_cashback_enabled =
     PUMP_CREATE_V2_DISC @ encode_borsh_string name @ encode_borsh_string symbol
       @ encode_borsh_string uri @ pubkey_bytes creator
       @ [bool_byte is_mayhem_mode] @ [bool_byte is_cashback_enabled]"

definition encode_pump_amm_buy_exact_quote_in :: "u64 \<Rightarrow> u64 \<Rightarrow> bool \<Rightarrow> byte list" where
  "encode_pump_amm_buy_exact_quote_in spendable_quote_in min_base_amount_out track_volume =
     PUMP_AMM_BUY_EXACT_QUOTE_IN_DISC @ word_bytes spendable_quote_in
       @ word_bytes min_base_amount_out @ [bool_byte track_volume]"

definition encode_pump_amm_sell :: "u64 \<Rightarrow> u64 \<Rightarrow> byte list" where
  "encode_pump_amm_sell base_amount_in min_quote_amount_out =
     PUMP_AMM_SELL_DISC @ word_bytes base_amount_in @ word_bytes min_quote_amount_out"

section \<open>The ids as numbers\<close>

named_theorems key_simps \<open>program ids as numerals\<close>

lemma SYSTEM_PROGRAM_ID_num [key_simps]: "SYSTEM_PROGRAM_ID = 0"
  by (simp add: SYSTEM_PROGRAM_ID_def)

lemma INTENTS_ID_num [key_simps]:
  "INTENTS_ID = 15317458879224494382602863914431808978123127808726703952016602905883877170894"
  by (simp add: INTENTS_ID_def base58_def base58_alphabet_def)

lemma CORE_ID_num [key_simps]:
  "CORE_ID = 20587055785401056423311925163245869589302608682882123203899867373954265092126"
  by (simp add: CORE_ID_def base58_def base58_alphabet_def)

lemma PUMP_PROGRAM_ID_num [key_simps]:
  "PUMP_PROGRAM_ID = 605814335005781813025241542787157911726959411820757128006101511735853521072"
  by (simp add: PUMP_PROGRAM_ID_def base58_def base58_alphabet_def)

lemma MAYHEM_PROGRAM_ID_num [key_simps]:
  "MAYHEM_PROGRAM_ID = 2337358133616073855948894339178586883989451750106024394083291849817847588259"
  by (simp add: MAYHEM_PROGRAM_ID_def base58_def base58_alphabet_def)

lemma TOKEN_2022_PROGRAM_ID_num [key_simps]:
  "TOKEN_2022_PROGRAM_ID = 3106054213517619466333521364411816883583182866730275619636245252638471457788"
  by (simp add: TOKEN_2022_PROGRAM_ID_def base58_def base58_alphabet_def)

lemma TOKEN_PROGRAM_ID_num [key_simps]:
  "TOKEN_PROGRAM_ID = 3106054211088883198575105191760876350940303353676611666299516346430146937001"
  by (simp add: TOKEN_PROGRAM_ID_def base58_def base58_alphabet_def)

lemma ASSOCIATED_TOKEN_PROGRAM_ID_num [key_simps]:
  "ASSOCIATED_TOKEN_PROGRAM_ID = 63590851936555425018482094543133168213809614203979002813017495418995103889497"
  by (simp add: ASSOCIATED_TOKEN_PROGRAM_ID_def base58_def base58_alphabet_def)

lemma GROK_TOKEN_MINT_num [key_simps]:
  "GROK_TOKEN_MINT = 13100876399969133682018475212873887265019328595645062696141829296394692844975"
  by (simp add: GROK_TOKEN_MINT_def base58_def base58_alphabet_def)

lemma PUMP_AMM_PROGRAM_ID_num [key_simps]:
  "PUMP_AMM_PROGRAM_ID = 5464630119619898166266341678619113288817485149253204375108042491183227316323"
  by (simp add: PUMP_AMM_PROGRAM_ID_def base58_def base58_alphabet_def)

lemma PUMP_AMM_FEE_PROGRAM_ID_num [key_simps]:
  "PUMP_AMM_FEE_PROGRAM_ID = 5523161579545683411560766772452059568836141597500650743062411982055873346672"
  by (simp add: PUMP_AMM_FEE_PROGRAM_ID_def base58_def base58_alphabet_def)

lemma WSOL_MINT_num [key_simps]:
  "WSOL_MINT = 2988679396378646993494765771507681406623014513651778753134412041978399162369"
  by (simp add: WSOL_MINT_def base58_def base58_alphabet_def)

lemma JUPITER_V6_PROGRAM_ID_num [key_simps]:
  "JUPITER_V6_PROGRAM_ID = 2024512440004304401218460610310738430137902625605816137218628783959189492623"
  by (simp add: JUPITER_V6_PROGRAM_ID_def base58_def base58_alphabet_def)

lemma USDC_MINT_num [key_simps]:
  "USDC_MINT = 90000504370102394704099784797280792267247599056409324908524740370261802442081"
  by (simp add: USDC_MINT_def base58_def base58_alphabet_def)

end
