(* ===== verification/Borsh.thy ===== *)
theory Borsh imports Constants begin

text \<open>
  The Borsh wire format of the account layouts and instruction arguments: fixed-width
  little-endian integers, 32-byte keys, one-byte booleans, and vectors with a \<open>u32\<close> length.
  A decoder consumes a prefix and returns what is left. \<open>borsh\<close> is the contract every
  codec of the program meets: decoding succeeds exactly on an encoding followed by
  anything. \<open>account_codec\<close> adds the 8-byte discriminator that Anchor writes in front of
  an account's state.
\<close>

section \<open>Primitive codecs\<close>

named_theorems borsh_simps \<open>inversion of decoders\<close>

type_synonym 'a decoder = "byte list \<Rightarrow> ('a \<times> byte list) option"

definition dec_word :: "('w::len word) decoder" where
  "dec_word bs =
     (let n = LENGTH('w) div 8
      in if n \<le> length bs then Some (word_of_bytes (take n bs), drop n bs) else None)"

definition dec_pubkey :: "pubkey decoder" where
  "dec_pubkey bs =
     (if 32 \<le> length bs then Some (pubkey_of_bytes (take 32 bs), drop 32 bs) else None)"

fun dec_bool :: "bool decoder" where
  "dec_bool [] = None"
| "dec_bool (b # bs) = (if b = 0 then Some (False, bs) else if b = 1 then Some (True, bs) else None)"

primrec dec_many :: "'a decoder \<Rightarrow> nat \<Rightarrow> ('a list) decoder" where
  "dec_many d 0 bs = Some ([], bs)"
| "dec_many d (Suc n) bs =
     do { (x, bs) \<leftarrow> d bs; (xs, bs) \<leftarrow> dec_many d n bs; Some (x # xs, bs) }"

definition enc_vec :: "('a \<Rightarrow> byte list) \<Rightarrow> 'a list \<Rightarrow> byte list" where
  "enc_vec e xs = word_bytes (word_of_nat (length xs) :: u32) @ concat (map e xs)"

definition dec_vec :: "'a decoder \<Rightarrow> ('a list) decoder" where
  "dec_vec d bs = do { (n, bs) \<leftarrow> (dec_word :: u32 decoder) bs; dec_many d (unat n) bs }"

lemma take_drop_eq_append:
  "n \<le> length bs \<and> take n bs = xs \<and> drop n bs = ys \<longleftrightarrow> length xs = n \<and> bs = xs @ ys"
  by (metis append_eq_conv_conj append_take_drop_id length_append length_take min.absorb2
      le_add1)

lemma dec_word_iff:
  assumes "8 dvd LENGTH('w::len)"
  shows "dec_word bs = Some (w :: 'w word, r) \<longleftrightarrow> bs = word_bytes w @ r"
proof -
  let ?n = "LENGTH('w) div 8"
  have "word_of_bytes (take ?n bs) = w \<longleftrightarrow> take ?n bs = word_bytes w" if "?n \<le> length bs"
    using that assms word_bytes_word_of_bytes [of "take ?n bs", where 'w = 'w]
    by (auto simp: word_of_bytes_word_bytes)
  then show ?thesis
    using take_drop_eq_append [of ?n bs "word_bytes w" r]
    by (auto simp: dec_word_def Let_def)
qed

lemmas dec_word_iffs [borsh_simps] =
  dec_word_iff [where 'w = 8, simplified] dec_word_iff [where 'w = 32, simplified]
  dec_word_iff [where 'w = 64, simplified]

lemma dec_pubkey_iff [borsh_simps]:
  "dec_pubkey bs = Some (k, r) \<longleftrightarrow> bs = pubkey_bytes k @ r"
proof -
  have "pubkey_of_bytes (take 32 bs) = k \<longleftrightarrow> take 32 bs = pubkey_bytes k" if "32 \<le> length bs"
    using that pubkey_bytes_pubkey_of_bytes [of "take 32 bs"] by auto
  then show ?thesis
    using take_drop_eq_append [of 32 bs "pubkey_bytes k" r]
    by (auto simp: dec_pubkey_def)
qed

lemma dec_bool_iff [borsh_simps]: "dec_bool bs = Some (b, r) \<longleftrightarrow> bs = bool_byte b # r"
  by (cases bs) (auto simp: bool_byte_def)

section \<open>The contract of a codec\<close>

locale borsh =
  fixes enc :: "'a \<Rightarrow> byte list" and dec :: "'a decoder" and valid :: "'a \<Rightarrow> bool"
  assumes dec_iff: "dec bs = Some (x, r) \<longleftrightarrow> valid x \<and> bs = enc x @ r"
begin

lemma dec_enc: "valid x \<Longrightarrow> dec (enc x @ r) = Some (x, r)"
  by (simp add: dec_iff)

lemma dec_enc_exact: "valid x \<Longrightarrow> dec (enc x) = Some (x, [])"
  using dec_enc [of x "[]"] by simp

lemma enc_prefix_free:
  assumes "valid x" and "valid y" and "enc x @ r = enc y @ s"
  shows "x = y \<and> r = s"
  using assms by (metis dec_enc option.inject prod.inject)

lemma dec_length: "dec bs = Some (x, r) \<Longrightarrow> length r = length bs - length (enc x)"
  by (simp add: dec_iff)

lemma dec_extend: "dec bs = Some (x, r) \<Longrightarrow> dec (bs @ s) = Some (x, r @ s)"
  by (simp add: dec_iff)

lemma dec_many_iff:
  "dec_many dec n bs = Some (xs, r) \<longleftrightarrow>
   length xs = n \<and> (\<forall>x \<in> set xs. valid x) \<and> bs = concat (map enc xs) @ r"
proof (induction n arbitrary: bs xs)
  case 0
  then show ?case by auto
next
  case (Suc n)
  show ?case
    by (cases xs) (auto simp: bind_eq_Some_conv dec_iff Suc)
qed

lemma dec_vec_iff:
  "dec_vec dec bs = Some (xs, r) \<longleftrightarrow>
   length xs < 2 ^ 32 \<and> (\<forall>x \<in> set xs. valid x) \<and> bs = enc_vec enc xs @ r"
proof -
  have len: "n = word_of_nat (length xs) \<longleftrightarrow> length xs = unat n" if "length xs < 2 ^ 32" for n :: u32
    using that by (auto simp: word_unat_eq_iff unat_of_nat)
  have "unat n < 2 ^ 32" for n :: u32
    using unsigned_less [of n] by simp
  with len show ?thesis
    by (auto simp: dec_vec_def bind_eq_Some_conv borsh_simps dec_many_iff enc_vec_def)
qed

end

locale fixed_borsh = borsh +
  fixes size :: nat
  assumes enc_length: "length (enc x) = size"
begin

lemma dec_short: "length bs < size \<Longrightarrow> dec bs = None"
  by (metis dec_iff enc_length length_append not_add_less1 not_Some_eq old.prod.exhaust)

lemma enc_vec_length: "length (enc_vec enc xs) = 4 + size * length xs"
  by (induction xs) (auto simp: enc_vec_def enc_length)

end

interpretation u8_codec: fixed_borsh word_bytes "dec_word :: u8 decoder" "\<lambda>_. True" 1
  by unfold_locales (auto simp: borsh_simps)

interpretation u32_codec: fixed_borsh word_bytes "dec_word :: u32 decoder" "\<lambda>_. True" 4
  by unfold_locales (auto simp: borsh_simps)

interpretation u64_codec: fixed_borsh word_bytes "dec_word :: u64 decoder" "\<lambda>_. True" 8
  by unfold_locales (auto simp: borsh_simps)

interpretation pubkey_codec: fixed_borsh pubkey_bytes dec_pubkey "\<lambda>_. True" 32
  by unfold_locales (auto simp: borsh_simps)

interpretation bool_codec: fixed_borsh "\<lambda>b. [bool_byte b]" dec_bool "\<lambda>_. True" 1
  by unfold_locales (auto simp: borsh_simps)

lemmas dec_pubkeys_iff [borsh_simps] = pubkey_codec.dec_vec_iff [simplified]

text \<open>Equal encodings are encodings of equal values.\<close>

lemma word_bytes_inject [borsh_simps]:
  shows "word_bytes (a :: u8) = word_bytes b \<longleftrightarrow> a = b"
    and "word_bytes (c :: u32) = word_bytes d \<longleftrightarrow> c = d"
    and "word_bytes (e :: u64) = word_bytes f \<longleftrightarrow> e = f"
  using u8_codec.enc_prefix_free [of a "[]" b "[]"] u32_codec.enc_prefix_free [of c "[]" d "[]"]
    u64_codec.enc_prefix_free [of e "[]" f "[]"] by auto

lemma bool_byte_inject [borsh_simps]: "bool_byte a = bool_byte b \<longleftrightarrow> a = b"
  by (simp add: bool_byte_def)

lemma enc_pubkeys_inject [borsh_simps]:
  assumes "length xs < 2 ^ 32" and "length ys < 2 ^ 32"
  shows "enc_vec pubkey_bytes xs = enc_vec pubkey_bytes ys \<longleftrightarrow> xs = ys"
proof
  assume eq: "enc_vec pubkey_bytes xs = enc_vec pubkey_bytes ys"
  have "dec_vec dec_pubkey (enc_vec pubkey_bytes zs) = Some (zs, [])" if "length zs < 2 ^ 32" for zs
    unfolding pubkey_codec.dec_vec_iff using that by blast
  from this [OF assms(1)] this [OF assms(2)] show "xs = ys"
    unfolding eq by (metis option.inject prod.inject)
next
  assume "xs = ys"
  then show "enc_vec pubkey_bytes xs = enc_vec pubkey_bytes ys"
    by (rule arg_cong)
qed

section \<open>Account data\<close>

text \<open>
  What Anchor does with the data of a typed account: \<open>try_deserialize\<close> checks the
  discriminator and decodes what follows; \<open>try_serialize\<close> overwrites a prefix of the buffer
  and fails when it does not fit.
\<close>

definition try_deserialize :: "byte list \<Rightarrow> 'a decoder \<Rightarrow> byte list \<Rightarrow> 'a res" where
  "try_deserialize disc dec bs =
     (if length bs < 8 then Inl (Anchor AccountDiscriminatorNotFound)
      else if take 8 bs \<noteq> disc then Inl (Anchor AccountDiscriminatorMismatch)
      else case dec (drop 8 bs) of
             None \<Rightarrow> Inl (Anchor AccountDidNotDeserialize)
           | Some (x, _) \<Rightarrow> Inr x)"

definition try_serialize ::
  "byte list \<Rightarrow> ('a \<Rightarrow> byte list) \<Rightarrow> 'a \<Rightarrow> byte list \<Rightarrow> byte list res" where
  "try_serialize disc enc x bs =
     (let out = disc @ enc x
      in if length out \<le> length bs then Inr (out @ drop (length out) bs)
         else Inl (Anchor AccountDidNotSerialize))"

locale account_codec = borsh +
  fixes disc :: "byte list"
  assumes disc_length: "length disc = 8"
begin

lemma deserialize_iff:
  "try_deserialize disc dec bs = Inr x \<longleftrightarrow> valid x \<and> (\<exists>r. bs = disc @ enc x @ r)"
proof -
  have "try_deserialize disc dec bs = Inr x \<longleftrightarrow>
      8 \<le> length bs \<and> take 8 bs = disc \<and> (\<exists>r. dec (drop 8 bs) = Some (x, r))"
    by (auto simp: try_deserialize_def split: option.splits)
  also have "\<dots> \<longleftrightarrow> valid x \<and> (\<exists>r. bs = disc @ enc x @ r)"
    using take_drop_eq_append [of 8 bs disc] disc_length by (auto simp: dec_iff)
  finally show ?thesis .
qed

lemma serialize_iff:
  "try_serialize disc enc x bs = Inr bs' \<longleftrightarrow>
   8 + length (enc x) \<le> length bs \<and> bs' = disc @ enc x @ drop (8 + length (enc x)) bs"
  by (auto simp: try_serialize_def Let_def disc_length)

lemma serialize_then_deserialize:
  "valid x \<Longrightarrow> try_serialize disc enc x bs = Inr bs' \<Longrightarrow> try_deserialize disc dec bs' = Inr x"
  by (auto simp: serialize_iff deserialize_iff)

lemma deserialize_then_serialize:
  "try_deserialize disc dec bs = Inr x \<Longrightarrow> try_serialize disc enc x bs = Inr bs"
  by (auto simp: serialize_iff deserialize_iff disc_length)

lemma serialize_length: "try_serialize disc enc x bs = Inr bs' \<Longrightarrow> length bs' = length bs"
  by (auto simp: serialize_iff disc_length)

lemma serialize_fits:
  "8 + length (enc x) \<le> length bs \<Longrightarrow> \<exists>bs'. try_serialize disc enc x bs = Inr bs'"
  by (simp add: serialize_iff)

end

end
