(* ===== verification/Layouts.thy ===== *)
theory Layouts imports Borsh begin

text \<open>
  \<open>state.rs\<close>: the six account types of the program with their Borsh codecs (field order is
  the byte order), the 8-byte discriminators Anchor derives from their names (the first
  bytes of the SHA-256 of \<open>account:<Name>\<close>), the declared sizes, and the argument structs of the
  instructions (their codecs are in \<open>Arguments\<close>). Every codec is interpreted as \<open>borsh\<close> or \<open>fixed_borsh\<close> and as \<open>account_codec\<close>.
\<close>

section \<open>SpendVault\<close>

record spend_vault =
  sv_grok_account :: pubkey
  sv_root :: pubkey
  sv_bump :: u8

definition sv_disc :: "byte list" where
  "sv_disc = [75, 166, 253, 76, 235, 57, 134, 93]"

definition spend_vault_SPACE :: nat where
  "spend_vault_SPACE = 8 + 32 + 32 + 1"

definition enc_spend_vault :: "spend_vault \<Rightarrow> byte list" where
  "enc_spend_vault x =
    pubkey_bytes (sv_grok_account x) @ pubkey_bytes (sv_root x) @ word_bytes (sv_bump x)"

definition dec_spend_vault :: "spend_vault decoder" where
  "dec_spend_vault bs = do {
      (grok_account, bs) \<leftarrow> dec_pubkey bs;
      (root, bs) \<leftarrow> dec_pubkey bs; (bump, bs) \<leftarrow> dec_word bs;
      Some (\<lparr>sv_grok_account = grok_account, sv_root = root,
        sv_bump = bump\<rparr>, bs) }"

interpretation sv_codec: fixed_borsh enc_spend_vault dec_spend_vault "\<lambda>_. True" "spend_vault_SPACE - 8"
  by unfold_locales
    (auto simp: enc_spend_vault_def dec_spend_vault_def spend_vault_SPACE_def bind_eq_Some_conv
      borsh_simps)

interpretation sv_account: account_codec enc_spend_vault dec_spend_vault "\<lambda>_. True" sv_disc
  by unfold_locales (simp add: sv_disc_def)

section \<open>Paymaster\<close>

record paymaster =
  pm_grok_account :: pubkey
  pm_root :: pubkey
  pm_relayer :: pubkey
  pm_bump :: u8
  pm_paused :: bool

definition pm_disc :: "byte list" where
  "pm_disc = [79, 131, 123, 96, 75, 37, 131, 106]"

definition paymaster_SPACE :: nat where
  "paymaster_SPACE = 8 + 32 + 32 + 32 + 1 + 1"

definition enc_paymaster :: "paymaster \<Rightarrow> byte list" where
  "enc_paymaster x =
    pubkey_bytes (pm_grok_account x) @ pubkey_bytes (pm_root x) @ pubkey_bytes (pm_relayer x)
    @ word_bytes (pm_bump x) @ [bool_byte (pm_paused x)]"

definition dec_paymaster :: "paymaster decoder" where
  "dec_paymaster bs = do {
      (grok_account, bs) \<leftarrow> dec_pubkey bs;
      (root, bs) \<leftarrow> dec_pubkey bs; (relayer, bs) \<leftarrow> dec_pubkey bs;
      (bump, bs) \<leftarrow> dec_word bs; (paused, bs) \<leftarrow> dec_bool bs;
      Some (\<lparr>pm_grok_account = grok_account, pm_root = root, pm_relayer = relayer,
        pm_bump = bump, pm_paused = paused\<rparr>, bs) }"

interpretation pm_codec: fixed_borsh enc_paymaster dec_paymaster "\<lambda>_. True" "paymaster_SPACE - 8"
  by unfold_locales
    (auto simp: enc_paymaster_def dec_paymaster_def paymaster_SPACE_def bind_eq_Some_conv
      borsh_simps)

interpretation pm_account: account_codec enc_paymaster dec_paymaster "\<lambda>_. True" pm_disc
  by unfold_locales (simp add: pm_disc_def)

section \<open>MerchantRegistry\<close>

record merchant_registry =
  mr_grok_account :: pubkey
  mr_root :: pubkey
  mr_mint :: pubkey
  mr_bump :: u8
  mr_merchants :: "pubkey list"

definition mr_disc :: "byte list" where
  "mr_disc = [30, 206, 224, 3, 61, 48, 215, 115]"

definition merchant_registry_SPACE :: nat where
  "merchant_registry_SPACE = 8 + 32 + 32 + 32 + 1 + 4 + 32 * MAX_MERCHANTS"

definition enc_merchant_registry :: "merchant_registry \<Rightarrow> byte list" where
  "enc_merchant_registry x =
    pubkey_bytes (mr_grok_account x) @ pubkey_bytes (mr_root x) @ pubkey_bytes (mr_mint x)
    @ word_bytes (mr_bump x) @ enc_vec pubkey_bytes (mr_merchants x)"

definition dec_merchant_registry :: "merchant_registry decoder" where
  "dec_merchant_registry bs = do {
      (grok_account, bs) \<leftarrow> dec_pubkey bs;
      (root, bs) \<leftarrow> dec_pubkey bs; (mint, bs) \<leftarrow> dec_pubkey bs;
      (bump, bs) \<leftarrow> dec_word bs;
      (merchants, bs) \<leftarrow> dec_vec dec_pubkey bs;
      Some (\<lparr>mr_grok_account = grok_account, mr_root = root, mr_mint = mint,
        mr_bump = bump, mr_merchants = merchants\<rparr>, bs) }"

interpretation mr_codec: borsh enc_merchant_registry dec_merchant_registry "\<lambda>x. length (mr_merchants x) < 2 ^ 32"
  by unfold_locales
    (auto simp: enc_merchant_registry_def dec_merchant_registry_def bind_eq_Some_conv borsh_simps cong: conj_cong)

interpretation mr_account: account_codec enc_merchant_registry dec_merchant_registry "\<lambda>x. length (mr_merchants x) < 2 ^ 32" mr_disc
  by unfold_locales (simp add: mr_disc_def)

section \<open>Subscription\<close>

record subscription =
  sb_grok_account :: pubkey
  sb_root :: pubkey
  sb_merchant :: pubkey
  sb_mint :: pubkey
  sb_amount :: u64
  sb_period_seconds :: i64
  sb_start_unix :: i64
  sb_last_paid_period :: i64
  sb_payments :: u32
  sb_active :: bool
  sb_bump :: u8

definition sb_disc :: "byte list" where
  "sb_disc = [64, 7, 26, 135, 102, 132, 98, 33]"

definition subscription_SPACE :: nat where
  "subscription_SPACE = 8 + 32 + 32 + 32 + 32 + 8 + 8 + 8 + 8 + 4 + 1 + 1"

definition enc_subscription :: "subscription \<Rightarrow> byte list" where
  "enc_subscription x =
    pubkey_bytes (sb_grok_account x) @ pubkey_bytes (sb_root x) @ pubkey_bytes (sb_merchant x)
    @ pubkey_bytes (sb_mint x) @ word_bytes (sb_amount x) @ word_bytes (sb_period_seconds x)
    @ word_bytes (sb_start_unix x) @ word_bytes (sb_last_paid_period x)
    @ word_bytes (sb_payments x) @ [bool_byte (sb_active x)] @ word_bytes (sb_bump x)"

definition dec_subscription :: "subscription decoder" where
  "dec_subscription bs = do {
      (grok_account, bs) \<leftarrow> dec_pubkey bs;
      (root, bs) \<leftarrow> dec_pubkey bs; (merchant, bs) \<leftarrow> dec_pubkey bs;
      (mint, bs) \<leftarrow> dec_pubkey bs; (amount, bs) \<leftarrow> dec_word bs;
      (period_seconds, bs) \<leftarrow> dec_word bs;
      (start_unix, bs) \<leftarrow> dec_word bs;
      (last_paid_period, bs) \<leftarrow> dec_word bs;
      (payments, bs) \<leftarrow> dec_word bs; (active, bs) \<leftarrow> dec_bool bs;
      (bump, bs) \<leftarrow> dec_word bs;
      Some (\<lparr>sb_grok_account = grok_account, sb_root = root, sb_merchant = merchant,
        sb_mint = mint, sb_amount = amount, sb_period_seconds = period_seconds,
        sb_start_unix = start_unix, sb_last_paid_period = last_paid_period,
        sb_payments = payments, sb_active = active, sb_bump = bump\<rparr>, bs) }"

interpretation sb_codec: fixed_borsh enc_subscription dec_subscription "\<lambda>_. True" "subscription_SPACE - 8"
  by unfold_locales
    (auto simp: enc_subscription_def dec_subscription_def subscription_SPACE_def bind_eq_Some_conv
      borsh_simps)

interpretation sb_account: account_codec enc_subscription dec_subscription "\<lambda>_. True" sb_disc
  by unfold_locales (simp add: sb_disc_def)

section \<open>SubGrant\<close>

record sub_grant =
  sg_grok_account :: pubkey
  sg_parent :: pubkey
  sg_issuer :: pubkey
  sg_agent :: pubkey
  sg_cap :: u64
  sg_spent :: u64
  sg_expires_at :: i64
  sg_revoked :: bool
  sg_depth :: u8
  sg_generation :: u32
  sg_bump :: u8

definition sg_disc :: "byte list" where
  "sg_disc = [91, 57, 227, 202, 184, 84, 153, 215]"

definition sub_grant_SPACE :: nat where
  "sub_grant_SPACE = 8 + 32 + 32 + 32 + 32 + 8 + 8 + 8 + 1 + 1 + 4 + 1"

definition enc_sub_grant :: "sub_grant \<Rightarrow> byte list" where
  "enc_sub_grant x =
    pubkey_bytes (sg_grok_account x) @ pubkey_bytes (sg_parent x) @ pubkey_bytes (sg_issuer x)
    @ pubkey_bytes (sg_agent x) @ word_bytes (sg_cap x) @ word_bytes (sg_spent x)
    @ word_bytes (sg_expires_at x) @ [bool_byte (sg_revoked x)] @ word_bytes (sg_depth x)
    @ word_bytes (sg_generation x) @ word_bytes (sg_bump x)"

definition dec_sub_grant :: "sub_grant decoder" where
  "dec_sub_grant bs = do {
      (grok_account, bs) \<leftarrow> dec_pubkey bs;
      (parent, bs) \<leftarrow> dec_pubkey bs; (issuer, bs) \<leftarrow> dec_pubkey bs;
      (agent, bs) \<leftarrow> dec_pubkey bs; (cap, bs) \<leftarrow> dec_word bs;
      (spent, bs) \<leftarrow> dec_word bs; (expires_at, bs) \<leftarrow> dec_word bs;
      (revoked, bs) \<leftarrow> dec_bool bs; (depth, bs) \<leftarrow> dec_word bs;
      (generation, bs) \<leftarrow> dec_word bs; (bump, bs) \<leftarrow> dec_word bs;
      Some (\<lparr>sg_grok_account = grok_account, sg_parent = parent, sg_issuer = issuer,
        sg_agent = agent, sg_cap = cap, sg_spent = spent, sg_expires_at = expires_at,
        sg_revoked = revoked, sg_depth = depth, sg_generation = generation,
        sg_bump = bump\<rparr>, bs) }"

interpretation sg_codec: fixed_borsh enc_sub_grant dec_sub_grant "\<lambda>_. True" "sub_grant_SPACE - 8"
  by unfold_locales
    (auto simp: enc_sub_grant_def dec_sub_grant_def sub_grant_SPACE_def bind_eq_Some_conv
      borsh_simps)

interpretation sg_account: account_codec enc_sub_grant dec_sub_grant "\<lambda>_. True" sg_disc
  by unfold_locales (simp add: sg_disc_def)

section \<open>SponsorFeeConfig\<close>

record sponsor_fee_config =
  sf_grok_account :: pubkey
  sf_root :: pubkey
  sf_fee_per_intent :: u64
  sf_bump :: u8

definition sf_disc :: "byte list" where
  "sf_disc = [123, 234, 179, 51, 92, 31, 243, 48]"

definition sponsor_fee_config_SPACE :: nat where
  "sponsor_fee_config_SPACE = 8 + 32 + 32 + 8 + 1"

definition enc_sponsor_fee_config :: "sponsor_fee_config \<Rightarrow> byte list" where
  "enc_sponsor_fee_config x =
    pubkey_bytes (sf_grok_account x) @ pubkey_bytes (sf_root x)
    @ word_bytes (sf_fee_per_intent x) @ word_bytes (sf_bump x)"

definition dec_sponsor_fee_config :: "sponsor_fee_config decoder" where
  "dec_sponsor_fee_config bs = do {
      (grok_account, bs) \<leftarrow> dec_pubkey bs;
      (root, bs) \<leftarrow> dec_pubkey bs;
      (fee_per_intent, bs) \<leftarrow> dec_word bs; (bump, bs) \<leftarrow> dec_word bs;
      Some (\<lparr>sf_grok_account = grok_account, sf_root = root,
        sf_fee_per_intent = fee_per_intent, sf_bump = bump\<rparr>, bs) }"

interpretation sf_codec: fixed_borsh enc_sponsor_fee_config dec_sponsor_fee_config "\<lambda>_. True" "sponsor_fee_config_SPACE - 8"
  by unfold_locales
    (auto simp: enc_sponsor_fee_config_def dec_sponsor_fee_config_def sponsor_fee_config_SPACE_def bind_eq_Some_conv
      borsh_simps)

interpretation sf_account: account_codec enc_sponsor_fee_config dec_sponsor_fee_config "\<lambda>_. True" sf_disc
  by unfold_locales (simp add: sf_disc_def)


section \<open>Instruction arguments\<close>

record pay_args =
  pa_amount_lamports :: u64
  pa_sponsor_lamports :: u64

record swap_args =
  sw_amount_in_lamports :: u64
  sw_min_out_lamports :: u64
  sw_sponsor_lamports :: u64

record deploy_args =
  dp_sponsor_lamports :: u64
  dp_program_id :: pubkey

record call_args =
  ca_amount_lamports :: u64
  ca_sponsor_lamports :: u64
  ca_target_program :: pubkey

record pump_buy_args =
  pb_amount :: u64
  pb_max_sol_cost :: u64
  pb_sponsor_lamports :: u64

record pump_sell_args =
  ps_amount :: u64
  ps_min_sol_output :: u64
  ps_sponsor_lamports :: u64

record pump_create_args =
  pc_name :: rust_str
  pc_symbol :: rust_str
  pc_uri :: rust_str
  pc_is_mayhem_mode :: bool
  pc_is_cashback_enabled :: bool
  pc_max_sol_cost :: u64
  pc_sponsor_lamports :: u64

record pump_amm_buy_args =
  ab_spendable_quote_in :: u64
  ab_min_base_amount_out :: u64
  ab_max_sol_cost :: u64
  ab_sponsor_lamports :: u64

record pump_amm_sell_args =
  as_base_amount_in :: u64
  as_min_quote_amount_out :: u64
  as_sponsor_lamports :: u64

record token_buy_args =
  tb_in_amount :: u64
  tb_min_out :: u64
  tb_sponsor_lamports :: u64
  tb_input_mint :: pubkey
  tb_output_mint :: pubkey
  tb_wrap_sol :: bool
  tb_jupiter_data :: "byte list"

record token_sell_args =
  ts_in_amount :: u64
  ts_min_out :: u64
  ts_sponsor_lamports :: u64
  ts_input_mint :: pubkey
  ts_output_mint :: pubkey
  ts_wrap_sol :: bool
  ts_jupiter_data :: "byte list"

record pay_token_args =
  pt_amount :: u64
  pt_decimals :: u8
  pt_sponsor_lamports :: u64

record subscription_args =
  su_merchant :: pubkey
  su_amount :: u64
  su_period_seconds :: i64
  su_start_unix :: i64

record pay_subscription_args =
  py_period :: i64
  py_sponsor_lamports :: u64

section \<open>Sizes\<close>

lemma registry_encoded_length: "length (enc_merchant_registry x) = 101 + 32 * length (mr_merchants x)"
  by (simp add: enc_merchant_registry_def pubkey_codec.enc_vec_length)

end
