(* ===== verification/Events.thy ===== *)
theory Events imports Layouts begin

text \<open>
  \<open>events.rs\<close>: the events a successful instruction leaves in the transaction log, grouped by
  the component that emits them, each constructor with the fields of the source's struct in
  their order. Two names that are also error variants carry the suffix \<open>_event\<close>.
\<close>

datatype vault_event =
    SpendVaultInitialized pubkey pubkey pubkey
  | SpendVaultFunded pubkey pubkey pubkey u64
  | SpendVaultWithdrawn pubkey pubkey pubkey u64
  | PaymasterInitialized pubkey pubkey pubkey pubkey
  | PaymasterFunded pubkey pubkey pubkey u64
  | PaymasterWithdrawn pubkey pubkey pubkey u64
  | RelayerSet pubkey pubkey pubkey pubkey
  | PaymasterPaused_event pubkey pubkey pubkey
  | PaymasterUnpaused pubkey pubkey pubkey

datatype intent_event =
    Paid pubkey pubkey u64 pubkey pubkey u32
  | Sponsored pubkey pubkey u64 pubkey u32
  | Swapped pubkey pubkey u64 u64 pubkey pubkey u32
  | DeployRequested pubkey pubkey pubkey u32
  | Called pubkey pubkey u64 u32 pubkey pubkey u32

datatype trader_event =
    PumpTraderInitialized pubkey pubkey pubkey
  | PumpTraderFunded pubkey pubkey pubkey pubkey u64
  | PumpBought pubkey pubkey pubkey u64 u64 pubkey pubkey u32
  | PumpSold pubkey pubkey pubkey u64 u64 pubkey pubkey u32
  | PumpCreated pubkey pubkey pubkey pubkey u64 bool bool pubkey pubkey u32
  | PumpAmmBought pubkey pubkey pubkey pubkey u64 u64 u64 pubkey pubkey u32
  | PumpAmmSold pubkey pubkey pubkey pubkey u64 u64 pubkey pubkey u32
  | PumpTraderWithdrawn pubkey pubkey pubkey u64
  | TokenBought pubkey pubkey pubkey pubkey u64 u64 u64 u64 pubkey pubkey u32
  | TokenSold pubkey pubkey pubkey pubkey u64 u64 u64 u64 pubkey pubkey u32

datatype payment_event =
    TokenPaid pubkey pubkey pubkey pubkey u64 u8 "pubkey option" pubkey pubkey u32
  | MerchantRegistryInitialized pubkey pubkey pubkey pubkey
  | MerchantAdded pubkey pubkey pubkey pubkey u32
  | MerchantRemoved pubkey pubkey pubkey pubkey u32
  | SubscriptionCreated pubkey pubkey pubkey pubkey pubkey u64 i64 i64
  | SubscriptionCancelled pubkey pubkey pubkey pubkey u32 i64
  | SubscriptionPaid pubkey pubkey pubkey pubkey u64 i64 u32 "pubkey option" pubkey pubkey
         u32

datatype fee_event =
    SponsorFeeSet pubkey pubkey u64
  | SponsorFeeCollected pubkey pubkey u64
  | SponsorFeesBurned pubkey u64 pubkey

datatype sub_event =
    SubGrantIssued pubkey pubkey pubkey pubkey u64 i64 u8 u32
  | SubGrantRevised pubkey pubkey u64 i64 u64
  | SubGrantRevoked_event pubkey pubkey u64 u8 u32
  | SubGrantSpent pubkey pubkey u64 u8 u64

datatype event =
    Vault_event vault_event
  | Intent_event intent_event
  | Trader_event trader_event
  | Payment_event payment_event
  | Fee_event fee_event
  | Sub_event sub_event

text \<open>The one event that notes a settled period of a subscription.\<close>

fun settles :: "event \<Rightarrow> bool" where
  "settles (Payment_event (SubscriptionPaid sub grok merchant mint amount period n ref agent gr gen)) = True"
| "settles _ = False"

end
