(* ===== verification/Chain.thy ===== *)
theory Chain imports Events begin

text \<open>
  The ledger the program runs on, and what the program uses of the Solana runtime and of
  Anchor. A \<open>chain\<close> is the accounts by key and the events emitted so far. Everything that is
  not source of this repository is a field of \<open>runtime\<close>: rent, clock, address derivation, other
  programs (\<open>invoke_cpi\<close>), Anchor's \<open>init\<close>, and the account decoders of CORE. What the
  program relies on of them are the named predicates at the end.
\<close>

section \<open>Accounts and instructions\<close>

record account =
  acc_lamports :: u64
  acc_owner :: pubkey
  acc_data :: "byte list"
  acc_executable :: bool

type_synonym ledger = "pubkey \<Rightarrow> account"

record chain =
  accts :: ledger
  events :: "event list"

text \<open>An \<open>AccountInfo\<close> is a key with the privileges of this instruction; its balance, owner
  and data are read from the ledger, so two infos with one key alias.\<close>

record account_info =
  key :: pubkey
  is_signer :: bool
  is_writable :: bool

record account_meta =
  meta_pubkey :: pubkey
  meta_signer :: bool
  meta_writable :: bool

definition meta_new :: "pubkey \<Rightarrow> bool \<Rightarrow> account_meta" where
  "meta_new k s = \<lparr>meta_pubkey = k, meta_signer = s, meta_writable = True\<rparr>"

definition meta_new_readonly :: "pubkey \<Rightarrow> bool \<Rightarrow> account_meta" where
  "meta_new_readonly k s = \<lparr>meta_pubkey = k, meta_signer = s, meta_writable = False\<rparr>"

record instruction =
  ix_program_id :: pubkey
  ix_accounts :: "account_meta list"
  ix_data :: "byte list"

section \<open>The runtime\<close>

text \<open>The fields of CORE's accounts this program reads.\<close>

record grok_account =
  ga_root :: pubkey
  ga_bump :: u8

record grant =
  gr_grok_account :: pubkey
  gr_agent :: pubkey
  gr_bump :: u8
  gr_generation :: u32
  gr_sponsor_eligible :: bool
  gr_revoked :: bool
  gr_expires_at_unix :: i64
  gr_spend_cap_lamports :: u64
  gr_spent_lamports :: u64

type_synonym seeds = "byte list list"

record runtime =
  min_balance :: "nat \<Rightarrow> u64"
  unix_now :: i64
  find_program_address :: "seeds \<Rightarrow> pubkey \<Rightarrow> pubkey \<times> u8"
  create_program_address :: "seeds \<Rightarrow> pubkey \<Rightarrow> pubkey option"
  invoke_cpi :: "instruction \<Rightarrow> account_info list \<Rightarrow> seeds list \<Rightarrow> ledger \<Rightarrow> nat + ledger"
  init_pda :: "pubkey \<Rightarrow> pubkey \<Rightarrow> nat \<Rightarrow> seeds \<Rightarrow> ledger \<Rightarrow> nat + ledger"
  decode_grok_account :: "byte list \<Rightarrow> grok_account res"
  decode_grant :: "byte list \<Rightarrow> grant res"

section \<open>Reading and writing the ledger\<close>

definition lamports_of :: "chain \<Rightarrow> pubkey \<Rightarrow> u64" where
  "lamports_of c k = acc_lamports (accts c k)"

definition owner_of :: "chain \<Rightarrow> pubkey \<Rightarrow> pubkey" where
  "owner_of c k = acc_owner (accts c k)"

definition data_of :: "chain \<Rightarrow> pubkey \<Rightarrow> byte list" where
  "data_of c k = acc_data (accts c k)"

definition with_lamports :: "pubkey \<Rightarrow> u64 \<Rightarrow> chain \<Rightarrow> chain" where
  "with_lamports k v c = c\<lparr>accts := (accts c)(k := (accts c k)\<lparr>acc_lamports := v\<rparr>)\<rparr>"

definition with_data :: "pubkey \<Rightarrow> byte list \<Rightarrow> chain \<Rightarrow> chain" where
  "with_data k bs c = c\<lparr>accts := (accts c)(k := (accts c k)\<lparr>acc_data := bs\<rparr>)\<rparr>"

definition emit :: "event \<Rightarrow> chain \<Rightarrow> chain" where
  "emit e c = c\<lparr>events := events c @ [e]\<rparr>"

lemma with_lamports_reads [simp]:
  "lamports_of (with_lamports k v c) j = (if j = k then v else lamports_of c j)"
  "owner_of (with_lamports k v c) j = owner_of c j"
  "data_of (with_lamports k v c) j = data_of c j"
  "events (with_lamports k v c) = events c"
  by (simp_all add: with_lamports_def lamports_of_def owner_of_def data_of_def)

lemma with_data_reads [simp]:
  "lamports_of (with_data k bs c) j = lamports_of c j"
  "owner_of (with_data k bs c) j = owner_of c j"
  "data_of (with_data k bs c) j = (if j = k then bs else data_of c j)"
  "events (with_data k bs c) = events c"
  by (simp_all add: with_data_def lamports_of_def owner_of_def data_of_def)

lemma emit_reads [simp]:
  "lamports_of (emit e c) j = lamports_of c j"
  "owner_of (emit e c) j = owner_of c j"
  "data_of (emit e c) j = data_of c j"
  "events (emit e c) = events c @ [e]"
  "accts (emit e c) = accts c"
  by (simp_all add: emit_def lamports_of_def owner_of_def data_of_def)

lemma with_lamports_accts_other [simp]: "j \<noteq> k \<Longrightarrow> accts (with_lamports k v c) j = accts c j"
  by (simp add: with_lamports_def)

lemma with_data_accts_other [simp]: "j \<noteq> k \<Longrightarrow> accts (with_data k bs c) j = accts c j"
  by (simp add: with_data_def)

lemma account_eqI:
  "lamports_of c k = lamports_of d k \<Longrightarrow> owner_of c k = owner_of d k \<Longrightarrow>
   data_of c k = data_of d k \<Longrightarrow> acc_executable (accts c k) = acc_executable (accts d k) \<Longrightarrow>
   accts c k = accts d k"
  by (simp add: lamports_of_def owner_of_def data_of_def)

section \<open>Cross-program invocation\<close>

definition invoke_signed ::
  "runtime \<Rightarrow> instruction \<Rightarrow> account_info list \<Rightarrow> seeds list \<Rightarrow> chain \<Rightarrow> chain res" where
  "invoke_signed rt ix infos signer_seeds c =
     (case invoke_cpi rt ix infos signer_seeds (accts c) of
        Inl e \<Rightarrow> Inl (Cpi e)
      | Inr m \<Rightarrow> Inr (c\<lparr>accts := m\<rparr>))"

definition invoke ::
  "runtime \<Rightarrow> instruction \<Rightarrow> account_info list \<Rightarrow> chain \<Rightarrow> chain res" where
  "invoke rt ix infos c = invoke_signed rt ix infos [] c"

lemma invoke_signed_eq_Inr [res_simps]:
  "invoke_signed rt ix infos ss c = Inr d \<longleftrightarrow>
   (\<exists>m. invoke_cpi rt ix infos ss (accts c) = Inr m \<and> d = c\<lparr>accts := m\<rparr>)"
  by (auto simp: invoke_signed_def split: sum.splits)

lemma invoke_signed_events: "invoke_signed rt ix infos ss c = Inr d \<Longrightarrow> events d = events c"
  by (auto simp: invoke_signed_eq_Inr)

text \<open>
  The System instructions the program builds, in the bincode layout of the SDK: a \<open>u32\<close>
  variant index (\<open>CreateAccount\<close> 0, \<open>Transfer\<close> 2) and the fields.
\<close>

definition system_transfer :: "pubkey \<Rightarrow> pubkey \<Rightarrow> u64 \<Rightarrow> instruction" where
  "system_transfer src dst amount =
     \<lparr>ix_program_id = SYSTEM_PROGRAM_ID,
      ix_accounts = [meta_new src True, meta_new dst False],
      ix_data = word_bytes (2 :: u32) @ word_bytes amount\<rparr>"

definition system_create_account ::
  "pubkey \<Rightarrow> pubkey \<Rightarrow> u64 \<Rightarrow> u64 \<Rightarrow> pubkey \<Rightarrow> instruction" where
  "system_create_account src new amount space own =
     \<lparr>ix_program_id = SYSTEM_PROGRAM_ID,
      ix_accounts = [meta_new src True, meta_new new True],
      ix_data = word_bytes (0 :: u32) @ word_bytes amount @ word_bytes space @ pubkey_bytes own\<rparr>"

section \<open>Account declarations\<close>

text \<open>
  \<open>Account<'info, T>\<close>: not the empty system account, owned by the program that declares \<open>T\<close>,
  and decodable. \<open>store_typed\<close> is Anchor's write-back of a changed account at the end of the
  instruction.
\<close>

definition load_typed :: "pubkey \<Rightarrow> (byte list \<Rightarrow> 'a res) \<Rightarrow> chain \<Rightarrow> pubkey \<Rightarrow> 'a res" where
  "load_typed own de c k =
     (if owner_of c k = SYSTEM_PROGRAM_ID \<and> lamports_of c k = 0
      then Inl (Anchor AccountNotInitialized)
      else if owner_of c k \<noteq> own then Inl (Anchor AccountOwnedByWrongProgram)
      else de (data_of c k))"

definition store_typed ::
  "('a \<Rightarrow> byte list \<Rightarrow> byte list res) \<Rightarrow> 'a \<Rightarrow> pubkey \<Rightarrow> chain \<Rightarrow> chain res" where
  "store_typed ser x k c = and_then (ser x (data_of c k)) (\<lambda>bs. Inr (with_data k bs c))"

text \<open>
  The interface the handlers rely on: what is stored is what the next load returns, storing
  what was loaded changes nothing, and a store touches only the data of its account.
\<close>

locale typed_account =
  fixes load :: "chain \<Rightarrow> pubkey \<Rightarrow> 'a res"
    and store :: "'a \<Rightarrow> pubkey \<Rightarrow> chain \<Rightarrow> chain res"
    and valid :: "'a \<Rightarrow> bool"
  assumes load_store:
      "load c k = Inr y \<Longrightarrow> valid x \<Longrightarrow> store x k c = Inr d \<Longrightarrow> load d k = Inr x"
    and store_load: "load c k = Inr x \<Longrightarrow> store x k c = Inr c"
    and store_frame:
      "store x k c = Inr d \<Longrightarrow>
       lamports_of d j = lamports_of c j \<and> owner_of d j = owner_of c j
       \<and> (j \<noteq> k \<longrightarrow> accts d j = accts c j) \<and> events d = events c"
    and load_local: "accts c k = accts d k \<Longrightarrow> load c k = load d k"
begin

lemma load_store_other:
  "store x k c = Inr d \<Longrightarrow> j \<noteq> k \<Longrightarrow> load d j = load c j"
  using store_frame load_local by metis

lemma store_lamports: "store x k c = Inr d \<Longrightarrow> lamports_of d j = lamports_of c j"
  using store_frame by blast

lemma store_events: "store x k c = Inr d \<Longrightarrow> events d = events c"
  using store_frame by blast

lemma load_same_state: "(\<And>k. accts c k = accts d k) \<Longrightarrow> load c = load d"
  by (intro ext load_local)

end

lemma load_typed_local: "accts c k = accts d k \<Longrightarrow> load_typed own de c k = load_typed own de d k"
  by (simp add: load_typed_def lamports_of_def owner_of_def data_of_def)

lemma load_typed_eq_Inr [res_simps]:
  "own \<noteq> SYSTEM_PROGRAM_ID \<Longrightarrow>
   load_typed own de c k = Inr x \<longleftrightarrow> owner_of c k = own \<and> de (data_of c k) = Inr x"
  by (auto simp: load_typed_def)

lemma intents_not_system [simp]: "INTENTS_ID \<noteq> SYSTEM_PROGRAM_ID"
  by (simp add: key_simps)

lemma core_not_system [simp]: "CORE_ID \<noteq> SYSTEM_PROGRAM_ID"
  by (simp add: key_simps)

lemma core_not_intents [simp]: "CORE_ID \<noteq> INTENTS_ID"
  by (simp add: key_simps)

sublocale account_codec \<subseteq>
  acct: typed_account "load_typed INTENTS_ID (try_deserialize disc dec)"
    "store_typed (try_serialize disc enc)" valid
proof unfold_locales
  fix c d :: chain and k :: pubkey and x y :: 'a
  assume "load_typed INTENTS_ID (try_deserialize disc dec) c k = Inr y" "valid x"
    "store_typed (try_serialize disc enc) x k c = Inr d"
  then show "load_typed INTENTS_ID (try_deserialize disc dec) d k = Inr x"
    by (auto simp: store_typed_def res_simps serialize_then_deserialize)
next
  fix c :: chain and k :: pubkey and x :: 'a
  assume "load_typed INTENTS_ID (try_deserialize disc dec) c k = Inr x"
  then have "try_serialize disc enc x (data_of c k) = Inr (data_of c k)"
    by (simp add: res_simps deserialize_then_serialize)
  then show "store_typed (try_serialize disc enc) x k c = Inr c"
    by (simp add: store_typed_def with_data_def data_of_def)
next
  fix c d :: chain and k j :: pubkey and x :: 'a
  assume "store_typed (try_serialize disc enc) x k c = Inr d"
  then show "lamports_of d j = lamports_of c j \<and> owner_of d j = owner_of c j
       \<and> (j \<noteq> k \<longrightarrow> accts d j = accts c j) \<and> events d = events c"
    by (auto simp: store_typed_def res_simps)
next
  fix c d :: chain and k :: pubkey
  assume "accts c k = accts d k"
  then show "load_typed INTENTS_ID (try_deserialize disc dec) c k
      = load_typed INTENTS_ID (try_deserialize disc dec) d k"
    by (rule load_typed_local)
qed

abbreviation load_spend_vault :: "chain \<Rightarrow> pubkey \<Rightarrow> spend_vault res" where
  "load_spend_vault \<equiv> load_typed INTENTS_ID (try_deserialize sv_disc dec_spend_vault)"

abbreviation load_paymaster :: "chain \<Rightarrow> pubkey \<Rightarrow> paymaster res" where
  "load_paymaster \<equiv> load_typed INTENTS_ID (try_deserialize pm_disc dec_paymaster)"

abbreviation load_merchant_registry :: "chain \<Rightarrow> pubkey \<Rightarrow> merchant_registry res" where
  "load_merchant_registry \<equiv> load_typed INTENTS_ID (try_deserialize mr_disc dec_merchant_registry)"

abbreviation load_subscription :: "chain \<Rightarrow> pubkey \<Rightarrow> subscription res" where
  "load_subscription \<equiv> load_typed INTENTS_ID (try_deserialize sb_disc dec_subscription)"

abbreviation load_sub_grant :: "chain \<Rightarrow> pubkey \<Rightarrow> sub_grant res" where
  "load_sub_grant \<equiv> load_typed INTENTS_ID (try_deserialize sg_disc dec_sub_grant)"

abbreviation load_sponsor_fee_config :: "chain \<Rightarrow> pubkey \<Rightarrow> sponsor_fee_config res" where
  "load_sponsor_fee_config \<equiv> load_typed INTENTS_ID (try_deserialize sf_disc dec_sponsor_fee_config)"

abbreviation store_spend_vault :: "spend_vault \<Rightarrow> pubkey \<Rightarrow> chain \<Rightarrow> chain res" where
  "store_spend_vault \<equiv> store_typed (try_serialize sv_disc enc_spend_vault)"

abbreviation store_paymaster :: "paymaster \<Rightarrow> pubkey \<Rightarrow> chain \<Rightarrow> chain res" where
  "store_paymaster \<equiv> store_typed (try_serialize pm_disc enc_paymaster)"

abbreviation store_merchant_registry :: "merchant_registry \<Rightarrow> pubkey \<Rightarrow> chain \<Rightarrow> chain res" where
  "store_merchant_registry \<equiv> store_typed (try_serialize mr_disc enc_merchant_registry)"

abbreviation store_subscription :: "subscription \<Rightarrow> pubkey \<Rightarrow> chain \<Rightarrow> chain res" where
  "store_subscription \<equiv> store_typed (try_serialize sb_disc enc_subscription)"

abbreviation store_sub_grant :: "sub_grant \<Rightarrow> pubkey \<Rightarrow> chain \<Rightarrow> chain res" where
  "store_sub_grant \<equiv> store_typed (try_serialize sg_disc enc_sub_grant)"

abbreviation store_sponsor_fee_config ::
  "sponsor_fee_config \<Rightarrow> pubkey \<Rightarrow> chain \<Rightarrow> chain res" where
  "store_sponsor_fee_config \<equiv> store_typed (try_serialize sf_disc enc_sponsor_fee_config)"

text \<open>The accounts of CORE.\<close>

definition load_grok_account :: "runtime \<Rightarrow> chain \<Rightarrow> pubkey \<Rightarrow> grok_account res" where
  "load_grok_account rt c k = load_typed CORE_ID (decode_grok_account rt) c k"

definition load_grant :: "runtime \<Rightarrow> chain \<Rightarrow> pubkey \<Rightarrow> grant res" where
  "load_grant rt c k = load_typed CORE_ID (decode_grant rt) c k"

lemma load_emit [simp]:
  "load_typed own de (emit e c) k = load_typed own de c k"
  "load_grok_account rt (emit e c) k = load_grok_account rt c k"
  "load_grant rt (emit e c) k = load_grant rt c k"
  by (simp_all add: load_grok_account_def load_grant_def load_typed_def)

text \<open>
  The checks of \<open>Signer\<close>, \<open>Program\<close>, \<open>mut\<close>, \<open>address\<close> and \<open>seeds\<close>: with a stored bump the address
  is re-derived from it, with a plain \<open>bump\<close> it is the canonical one and the bump is kept.
\<close>

definition signer :: "account_info \<Rightarrow> unit res" where
  "signer ai = constraint (is_signer ai) AccountNotSigner"

definition writable :: "account_info \<Rightarrow> unit res" where
  "writable ai = constraint (is_writable ai) ConstraintMut"

definition program :: "chain \<Rightarrow> account_info \<Rightarrow> pubkey \<Rightarrow> unit res" where
  "program c ai i =
     and_then (constraint (key ai = i) InvalidProgramId)
       (\<lambda>_. constraint (acc_executable (accts c (key ai))) InvalidProgramExecutable)"

definition address_is :: "account_info \<Rightarrow> pubkey \<Rightarrow> unit res" where
  "address_is ai k = constraint (key ai = k) ConstraintAddress"

definition seeds_bump :: "runtime \<Rightarrow> seeds \<Rightarrow> u8 \<Rightarrow> pubkey \<Rightarrow> account_info \<Rightarrow> unit res" where
  "seeds_bump rt ss bump pid ai =
     constraint (create_program_address rt (ss @ [[bump]]) pid = Some (key ai)) ConstraintSeeds"

definition seeds_canonical :: "runtime \<Rightarrow> seeds \<Rightarrow> pubkey \<Rightarrow> account_info \<Rightarrow> u8 res" where
  "seeds_canonical rt ss pid ai =
     (case find_program_address rt ss pid of
        (k, bump) \<Rightarrow> and_then (constraint (key ai = k) ConstraintSeeds) (\<lambda>_. Inr bump))"

lemma account_checks_eq_Inr [res_simps]:
  "signer ai = Inr u \<longleftrightarrow> is_signer ai"
  "writable ai = Inr u \<longleftrightarrow> is_writable ai"
  "program c ai i = Inr u \<longleftrightarrow> key ai = i \<and> acc_executable (accts c (key ai))"
  "address_is ai k = Inr u \<longleftrightarrow> key ai = k"
  "seeds_bump rt ss bump pid ai = Inr u \<longleftrightarrow>
     create_program_address rt (ss @ [[bump]]) pid = Some (key ai)"
  "seeds_canonical rt ss pid ai = Inr b \<longleftrightarrow> find_program_address rt ss pid = (key ai, b)"
  by (auto simp: signer_def writable_def program_def address_is_def seeds_bump_def
      seeds_canonical_def res_simps split: prod.splits)

text \<open>
  \<open>init\<close> with \<open>payer\<close>, \<open>space\<close>, \<open>seeds\<close> and a canonical bump: the address is checked, the
  account is created and assigned to this program (one that was sent lamports before may not be the
  payer itself), and \<open>init\<close> implies \<open>mut\<close>.
\<close>

definition create_pda_account ::
  "runtime \<Rightarrow> pubkey \<Rightarrow> pubkey \<Rightarrow> nat \<Rightarrow> seeds \<Rightarrow> chain \<Rightarrow> chain res" where
  "create_pda_account rt payer k space ss c =
     (case init_pda rt payer k space ss (accts c) of
        Inl e \<Rightarrow> Inl (Cpi e)
      | Inr m \<Rightarrow> Inr (c\<lparr>accts := m\<rparr>))"

definition init_account ::
  "runtime \<Rightarrow> account_info \<Rightarrow> nat \<Rightarrow> seeds \<Rightarrow> account_info \<Rightarrow> chain \<Rightarrow> (u8 \<times> chain) res" where
  "init_account rt payer space ss ai c =
     and_then (seeds_canonical rt ss INTENTS_ID ai) (\<lambda>bump.
     and_then (constraint (lamports_of c (key ai) \<noteq> 0 \<longrightarrow> key payer \<noteq> key ai)
       TryingToInitPayerAsProgramAccount) (\<lambda>_.
     and_then (create_pda_account rt (key payer) (key ai) space (ss @ [[bump]]) c) (\<lambda>d.
     and_then (writable ai) (\<lambda>_.
     Inr (bump, d)))))"

lemma create_pda_account_eq_Inr [res_simps]:
  "create_pda_account rt payer k space ss c = Inr d \<longleftrightarrow>
   (\<exists>m. init_pda rt payer k space ss (accts c) = Inr m \<and> d = c\<lparr>accts := m\<rparr>)"
  by (auto simp: create_pda_account_def split: sum.splits)

lemma init_account_eq_Inr [res_simps]:
  "init_account rt payer space ss ai c = Inr (bump, d) \<longleftrightarrow>
   find_program_address rt ss INTENTS_ID = (key ai, bump)
   \<and> (lamports_of c (key ai) \<noteq> 0 \<longrightarrow> key payer \<noteq> key ai) \<and> is_writable ai
   \<and> create_pda_account rt (key payer) (key ai) space (ss @ [[bump]]) c = Inr d"
  by (auto simp: init_account_def and_then_eq_Inr account_checks_eq_Inr constraint_eq_Inr)

section \<open>What the program relies on\<close>

text \<open>
  Documented behaviour of the code outside the repository. \<open>foreign_frame\<close>: the runtime lets
  only an account's owner debit it or write its data, so another program leaves an account of
  this one with its owner and data and no poorer. \<open>transfer_exact\<close>: a System transfer moves
  the amount. \<open>init_fresh\<close>: \<open>init\<close> succeeds only on an account the System Program still owns
  and leaves it zeroed, sized, owned by this program and rent exempt.
\<close>

definition foreign_frame :: "runtime \<Rightarrow> bool" where
  "foreign_frame rt \<longleftrightarrow>
     (\<forall>ix infos ss m m' k. ix_program_id ix \<noteq> INTENTS_ID \<longrightarrow>
        invoke_cpi rt ix infos ss m = Inr m' \<longrightarrow> acc_owner (m k) = INTENTS_ID \<longrightarrow>
        acc_owner (m' k) = INTENTS_ID \<and> acc_data (m' k) = acc_data (m k)
        \<and> acc_lamports (m k) \<le> acc_lamports (m' k))"

definition transfer_exact :: "runtime \<Rightarrow> bool" where
  "transfer_exact rt \<longleftrightarrow>
     (\<forall>src dst amount infos ss m m'. src \<noteq> dst \<longrightarrow>
        invoke_cpi rt (system_transfer src dst amount) infos ss m = Inr m' \<longrightarrow>
        unat (acc_lamports (m src)) = unat (acc_lamports (m' src)) + unat amount
        \<and> m' src = (m src)\<lparr>acc_lamports := acc_lamports (m' src)\<rparr>
        \<and> unat (acc_lamports (m' dst)) = unat (acc_lamports (m dst)) + unat amount
        \<and> m' dst = (m dst)\<lparr>acc_lamports := acc_lamports (m' dst)\<rparr>
        \<and> (\<forall>k. k \<noteq> src \<longrightarrow> k \<noteq> dst \<longrightarrow> m' k = m k))"

definition init_fresh :: "runtime \<Rightarrow> bool" where
  "init_fresh rt \<longleftrightarrow>
     (\<forall>payer k space ss m m'. init_pda rt payer k space ss m = Inr m' \<longrightarrow>
        acc_owner (m k) = SYSTEM_PROGRAM_ID
        \<and> acc_owner (m' k) = INTENTS_ID \<and> acc_data (m' k) = replicate space 0
        \<and> min_balance rt space \<le> acc_lamports (m' k)
        \<and> (\<forall>j. j \<noteq> k \<longrightarrow> j \<noteq> payer \<longrightarrow> m' j = m j)
        \<and> acc_owner (m' payer) = acc_owner (m payer) \<and> acc_data (m' payer) = acc_data (m payer))"

end
