(* ===== verification/Policy.thy ===== *)
theory Policy imports Chain "HOL-Library.Sublist" begin

text \<open>
  \<open>policy.rs\<close>: the pure checks the handlers run before any cross-program invocation, in the
  order of the source, and when each of them passes. A slice length is a \<open>nat\<close>; indexing
  \<open>data[..8]\<close> after a length check is \<open>take 8\<close>.
\<close>

section \<open>Grant amounts and plain intents\<close>

definition DEPLOY_CHECK_GRANT_AMOUNT :: u64 where
  "DEPLOY_CHECK_GRANT_AMOUNT = 0"

definition PUMP_SELL_CHECK_GRANT_AMOUNT :: u64 where
  "PUMP_SELL_CHECK_GRANT_AMOUNT = 0"

definition PUMP_AMM_SELL_CHECK_GRANT_AMOUNT :: u64 where
  "PUMP_AMM_SELL_CHECK_GRANT_AMOUNT = 0"

definition require_pump_amm_sell_check_grant_amount :: "u64 \<Rightarrow> unit res" where
  "require_pump_amm_sell_check_grant_amount amount =
     require (amount = 0) (Pump PumpAmmSellCheckGrantAmountMustBeZero)"

definition require_pay_amount :: "u64 \<Rightarrow> unit res" where
  "require_pay_amount amount_lamports = require (0 < amount_lamports) (Base ZeroPayAmount)"

definition require_swap_amounts :: "u64 \<Rightarrow> u64 \<Rightarrow> unit res" where
  "require_swap_amounts amount_in_lamports min_out_lamports =
     and_then (require (0 < amount_in_lamports) (Base ZeroAmount))
       (\<lambda>_. require (min_out_lamports \<le> amount_in_lamports) (Base MinOutNotMet))"

definition require_sponsor_cap :: "u64 \<Rightarrow> unit res" where
  "require_sponsor_cap sponsor_lamports =
     (if 0 < sponsor_lamports
      then require (sponsor_lamports \<le> MAX_SPONSOR_LAMPORTS) (Base SponsorCapExceeded)
      else Inr ())"

definition require_sponsor_accounts :: "u64 \<Rightarrow> bool \<Rightarrow> unit res" where
  "require_sponsor_accounts sponsor_lamports present =
     and_then (require_sponsor_cap sponsor_lamports) (\<lambda>_.
       if 0 < sponsor_lamports then require present (Base SponsorAccountsRequired) else Inr ())"

section \<open>pump.fun\<close>

definition require_pump_program :: "pubkey \<Rightarrow> unit res" where
  "require_pump_program i = require (i = PUMP_PROGRAM_ID) (Pump PumpProgramMismatch)"

definition require_agent_not_fee_payer :: "pubkey \<Rightarrow> pubkey option \<Rightarrow> unit res" where
  "require_agent_not_fee_payer agent fee_payer =
     (case fee_payer of
        Some fp \<Rightarrow> require (agent \<noteq> fp) (Pump AgentCannotFeePay)
      | None \<Rightarrow> Inr ())"

definition require_pump_user_is_vault :: "pubkey \<Rightarrow> pubkey \<Rightarrow> unit res" where
  "require_pump_user_is_vault user vault = require (user = vault) (Pump PumpUserMustBeVault)"

definition require_pump_user_is_trader :: "pubkey \<Rightarrow> pubkey \<Rightarrow> unit res" where
  "require_pump_user_is_trader user trader = require (user = trader) (Pump PumpUserMustBeTrader)"

definition require_pump_user_not_vault :: "pubkey \<Rightarrow> pubkey \<Rightarrow> unit res" where
  "require_pump_user_not_vault user vault = require (user \<noteq> vault) (Pump PumpUserMustBeTrader)"

definition require_pump_trader_system_owned :: "pubkey \<Rightarrow> unit res" where
  "require_pump_trader_system_owned own =
     require (own = SYSTEM_PROGRAM_ID) (Pump PumpTraderNotSystemOwned)"

definition require_pump_account_count :: "nat \<Rightarrow> nat \<Rightarrow> unit res" where
  "require_pump_account_count got expected =
     require (got = expected) (Pump PumpAccountCountMismatch)"

definition require_nonempty_pump_data :: "byte list \<Rightarrow> unit res" where
  "require_nonempty_pump_data bs =
     and_then (require (bs \<noteq> []) (Pump PumpEmptyDataForbidden))
       (\<lambda>_. require (length bs = PUMP_TRADE_IX_DATA_LEN) (Pump PumpEmptyDataForbidden))"

definition require_pump_buy_amounts :: "u64 \<Rightarrow> u64 \<Rightarrow> unit res" where
  "require_pump_buy_amounts amount max_sol_cost =
     and_then (require (0 < amount) (Base ZeroAmount))
       (\<lambda>_. require (0 < max_sol_cost) (Base ZeroAmount))"

definition require_pump_sell_amounts :: "u64 \<Rightarrow> u64 \<Rightarrow> unit res" where
  "require_pump_sell_amounts amount min_sol_output = require (0 < amount) (Base ZeroAmount)"

definition require_pump_create_strings :: "rust_str \<Rightarrow> rust_str \<Rightarrow> rust_str \<Rightarrow> unit res" where
  "require_pump_create_strings name symbol uri =
     and_then (require (length name \<le> PUMP_CREATE_NAME_MAX) (Pump PumpCreateNameTooLong)) (\<lambda>_.
     and_then (require (length symbol \<le> PUMP_CREATE_SYMBOL_MAX) (Pump PumpCreateSymbolTooLong)) (\<lambda>_.
     require (length uri \<le> PUMP_CREATE_URI_MAX) (Pump PumpCreateUriTooLong)))"

definition require_pump_create_amounts :: "u64 \<Rightarrow> unit res" where
  "require_pump_create_amounts max_sol_cost = require (0 < max_sol_cost) (Base ZeroAmount)"

definition require_pump_mint_is_signer :: "bool \<Rightarrow> unit res" where
  "require_pump_mint_is_signer s = require s (Pump PumpMintMustBeSigner)"

definition require_pump_create_account_count :: "nat \<Rightarrow> unit res" where
  "require_pump_create_account_count got =
     require (got = PUMP_CREATE_V2_ACCOUNT_COUNT \<or> got = PUMP_CREATE_V2_ACCOUNT_COUNT_WITH_QUOTE)
       (Pump PumpAccountCountMismatch)"

definition require_nonempty_pump_create_data :: "byte list \<Rightarrow> unit res" where
  "require_nonempty_pump_create_data bs =
     and_then (require (bs \<noteq> []) (Pump PumpEmptyDataForbidden)) (\<lambda>_.
     and_then (require (PUMP_CREATE_V2_IX_DATA_MIN \<le> length bs) (Pump PumpEmptyDataForbidden)) (\<lambda>_.
     require (8 \<le> length bs \<and> take 8 bs = PUMP_CREATE_V2_DISC) (Pump PumpEmptyDataForbidden)))"

section \<open>PumpSwap\<close>

definition require_pump_amm_program :: "pubkey \<Rightarrow> unit res" where
  "require_pump_amm_program i = require (i = PUMP_AMM_PROGRAM_ID) (Pump PumpAmmProgramMismatch)"

definition require_pump_amm_account_count :: "nat \<Rightarrow> unit res" where
  "require_pump_amm_account_count got =
     require (got = PUMP_AMM_BUY_ACCOUNT_COUNT \<or> got = PUMP_AMM_BUY_ACCOUNT_COUNT_CASHBACK)
       (Pump PumpAmmAccountCountMismatch)"

definition require_nonempty_pump_amm_data :: "byte list \<Rightarrow> unit res" where
  "require_nonempty_pump_amm_data bs =
     and_then (require (bs \<noteq> []) (Pump PumpEmptyDataForbidden)) (\<lambda>_.
     and_then (require (length bs = PUMP_AMM_BUY_EXACT_QUOTE_IN_DATA_LEN)
       (Pump PumpEmptyDataForbidden)) (\<lambda>_.
     require (take 8 bs = PUMP_AMM_BUY_EXACT_QUOTE_IN_DISC) (Pump PumpEmptyDataForbidden)))"

definition require_pump_amm_buy_amounts :: "u64 \<Rightarrow> u64 \<Rightarrow> u64 \<Rightarrow> unit res" where
  "require_pump_amm_buy_amounts spendable_quote_in min_base_amount_out max_sol_cost =
     and_then (require (0 < spendable_quote_in) (Base ZeroAmount)) (\<lambda>_.
     and_then (require (0 < min_base_amount_out) (Base ZeroAmount)) (\<lambda>_.
     and_then (require (0 < max_sol_cost) (Base ZeroAmount)) (\<lambda>_.
     require (spendable_quote_in \<le> max_sol_cost) (Base MinOutNotMet))))"

definition require_pump_amm_sell_account_count :: "nat \<Rightarrow> unit res" where
  "require_pump_amm_sell_account_count got =
     require (got = PUMP_AMM_SELL_ACCOUNT_COUNT) (Pump PumpAmmSellAccountCountMismatch)"

definition require_nonempty_pump_amm_sell_data :: "byte list \<Rightarrow> unit res" where
  "require_nonempty_pump_amm_sell_data bs =
     and_then (require (bs \<noteq> []) (Pump PumpEmptyDataForbidden)) (\<lambda>_.
     and_then (require (length bs = PUMP_AMM_SELL_DATA_LEN) (Pump PumpEmptyDataForbidden)) (\<lambda>_.
     require (take 8 bs = PUMP_AMM_SELL_DISC) (Pump PumpEmptyDataForbidden)))"

definition require_pump_amm_sell_amounts :: "u64 \<Rightarrow> u64 \<Rightarrow> unit res" where
  "require_pump_amm_sell_amounts base_amount_in min_quote_amount_out =
     require (0 < base_amount_in) (Base ZeroAmount)"

definition require_pump_amm_protocol_fee_recipient :: "pubkey \<Rightarrow> unit res" where
  "require_pump_amm_protocol_fee_recipient i =
     (let good = list_ex (\<lambda>p. p = i) PUMP_AMM_PROTOCOL_FEE_RECIPIENTS
                 \<or> list_ex (\<lambda>p. p = i) PUMP_AMM_RESERVED_FEE_RECIPIENTS
      in require good (Pump PumpAmmFeeRecipientInvalid))"

definition require_pump_amm_breaking_fee_recipient :: "pubkey \<Rightarrow> unit res" where
  "require_pump_amm_breaking_fee_recipient i =
     require (list_ex (\<lambda>p. p = i) PUMP_AMM_BREAKING_FEE_RECIPIENTS) (Pump PumpAmmFeeRecipientInvalid)"

definition require_pump_trader_prefunded :: "u64 \<Rightarrow> u64 \<Rightarrow> u64 \<Rightarrow> unit res" where
  "require_pump_trader_prefunded trader_lamports spendable_quote_in rent0 =
     and_then (ok_or (checked_add spendable_quote_in rent0) (Intents (Base LamportOverflow)))
       (\<lambda>need. require (need \<le> trader_lamports) (Pump PumpTraderUnderfunded))"

section \<open>Jupiter\<close>

definition TOKEN_NON_SOL_CHECK_GRANT_AMOUNT :: u64 where
  "TOKEN_NON_SOL_CHECK_GRANT_AMOUNT = 0"

definition token_check_grant_amount :: "pubkey \<Rightarrow> bool \<Rightarrow> u64 \<Rightarrow> u64" where
  "token_check_grant_amount input_mint wrap_sol in_amount =
     (if wrap_sol \<or> input_mint = WSOL_MINT then in_amount else TOKEN_NON_SOL_CHECK_GRANT_AMOUNT)"

definition require_token_amounts :: "u64 \<Rightarrow> unit res" where
  "require_token_amounts in_amount = require (0 < in_amount) (Base ZeroAmount)"

definition enforce_swap_outcome :: "u64 \<Rightarrow> u64 \<Rightarrow> u64 \<Rightarrow> u64 \<Rightarrow> unit res" where
  "enforce_swap_outcome spent received in_amount min_out =
     and_then (require (spent \<le> in_amount) (Token JupiterOverspent))
       (\<lambda>_. require (min_out \<le> received) (Token JupiterMinOutNotMet))"

definition require_token_mints_distinct :: "pubkey \<Rightarrow> pubkey \<Rightarrow> unit res" where
  "require_token_mints_distinct input_mint output_mint =
     require (input_mint \<noteq> output_mint) (Base ZeroAmount)"

definition require_wrap_mint :: "bool \<Rightarrow> pubkey \<Rightarrow> unit res" where
  "require_wrap_mint wrap_sol input_mint =
     (if wrap_sol then require (input_mint = WSOL_MINT) (Token TokenWrapMintMustBeWsol)
      else Inr ())"

definition require_jupiter_program :: "pubkey \<Rightarrow> unit res" where
  "require_jupiter_program i = require (i = JUPITER_V6_PROGRAM_ID) (Token JupiterProgramMismatch)"

definition require_nonempty_jupiter_data :: "byte list \<Rightarrow> unit res" where
  "require_nonempty_jupiter_data bs =
     and_then (require (bs \<noteq> []) (Token JupiterEmptyDataForbidden))
       (\<lambda>_. require (8 \<le> length bs) (Token JupiterEmptyDataForbidden))"

text \<open>\<open>windows(n)\<close> on a slice: every contiguous sublist of length \<open>n\<close>, left to right.\<close>

fun windows :: "nat \<Rightarrow> 'a list \<Rightarrow> 'a list list" where
  "windows n [] = []"
| "windows n (x # xs) =
     (if n \<le> length (x # xs) then take n (x # xs) # windows n xs else [])"

definition require_jupiter_in_amount :: "byte list \<Rightarrow> u64 \<Rightarrow> unit res" where
  "require_jupiter_in_amount bs in_amount =
     and_then (require_nonempty_jupiter_data bs) (\<lambda>_.
       let needle = word_bytes in_amount;
           hay = drop 8 bs;
           found = list_ex (\<lambda>w. w = needle) (windows 8 hay)
       in require found (Token JupiterInAmountMismatch))"

section \<open>When the checks pass\<close>

lemma policy_ok [res_simps]:
  "require_pump_amm_sell_check_grant_amount a = Inr u \<longleftrightarrow> a = 0"
  "require_pay_amount a = Inr u \<longleftrightarrow> 0 < a"
  "require_swap_amounts a b = Inr u \<longleftrightarrow> 0 < a \<and> b \<le> a"
  "require_sponsor_accounts a present = Inr u \<longleftrightarrow> a = 0 \<or> a \<le> MAX_SPONSOR_LAMPORTS \<and> present"
  "require_pump_program k = Inr u \<longleftrightarrow> k = PUMP_PROGRAM_ID"
  "require_agent_not_fee_payer k fp = Inr u \<longleftrightarrow> fp \<noteq> Some k"
  "require_pump_user_is_trader k j = Inr u \<longleftrightarrow> k = j"
  "require_pump_user_not_vault k j = Inr u \<longleftrightarrow> k \<noteq> j"
  "require_pump_trader_system_owned k = Inr u \<longleftrightarrow> k = SYSTEM_PROGRAM_ID"
  by (auto simp: require_pump_amm_sell_check_grant_amount_def require_pay_amount_def
      require_swap_amounts_def require_sponsor_accounts_def require_sponsor_cap_def
      require_pump_program_def require_agent_not_fee_payer_def require_pump_user_is_trader_def
      require_pump_user_not_vault_def require_pump_trader_system_owned_def res_simps
      word_gt_0 split: option.splits)

lemma jupiter_policy_ok [res_simps]:
  "require_token_amounts a = Inr u \<longleftrightarrow> 0 < a"
  "enforce_swap_outcome spent received a b = Inr u \<longleftrightarrow> spent \<le> a \<and> b \<le> received"
  "require_token_mints_distinct j k = Inr u \<longleftrightarrow> j \<noteq> k"
  "require_wrap_mint w k = Inr u \<longleftrightarrow> (w \<longrightarrow> k = WSOL_MINT)"
  "require_jupiter_program k = Inr u \<longleftrightarrow> k = JUPITER_V6_PROGRAM_ID"
  "require_nonempty_jupiter_data bs = Inr u \<longleftrightarrow> 8 \<le> length bs"
  by (auto simp: require_token_amounts_def enforce_swap_outcome_def require_token_mints_distinct_def
      require_wrap_mint_def require_jupiter_program_def require_nonempty_jupiter_data_def res_simps)

lemma prefix_of_length: "prefix w ys \<and> length w = n \<longleftrightarrow> n \<le> length ys \<and> w = take n ys"
  by (auto simp: prefix_def) (metis append_take_drop_id)

lemma set_windows: "0 < n \<Longrightarrow> set (windows n xs) = {w. length w = n \<and> sublist w xs}"
proof (induction n xs rule: windows.induct)
  case (1 n)
  then show ?case by auto
next
  case (2 n x xs)
  have short: "sublist w xs \<Longrightarrow> length w \<le> length xs" for w
    by (rule sublist_length_le)
  show ?case
  proof (cases "n \<le> length (x # xs)")
    case True
    then have "w \<in> set (windows n (x # xs)) \<longleftrightarrow> w = take n (x # xs) \<or> length w = n \<and> sublist w xs" for w
      using 2 by (simp del: take_Cons)
    moreover have "length w = n \<and> sublist w (x # xs) \<longleftrightarrow>
        w = take n (x # xs) \<or> length w = n \<and> sublist w xs" for w
      using prefix_of_length [of w "x # xs" n] True by (auto simp: sublist_Cons_right)
    ultimately show ?thesis
      by blast
  next
    case False
    then have "\<not> (length w = n \<and> sublist w (x # xs))" for w
      using sublist_length_le [of w "x # xs"] by auto
    with False show ?thesis
      by simp
  qed
qed

lemma require_jupiter_in_amount_ok [res_simps]:
  "require_jupiter_in_amount bs a = Inr u \<longleftrightarrow>
   (\<exists>pre suf. bs = pre @ word_bytes a @ suf \<and> 8 \<le> length pre)"
proof -
  have "require_jupiter_in_amount bs a = Inr u \<longleftrightarrow>
      8 \<le> length bs \<and> word_bytes a \<in> set (windows 8 (drop 8 bs))"
    by (auto simp: require_jupiter_in_amount_def res_simps list_ex_iff Let_def)
  also have "\<dots> \<longleftrightarrow> 8 \<le> length bs \<and> (\<exists>ps ss. drop 8 bs = ps @ word_bytes a @ ss)"
    by (simp add: set_windows sublist_def)
  also have "\<dots> \<longleftrightarrow> (\<exists>pre suf. bs = pre @ word_bytes a @ suf \<and> 8 \<le> length pre)"
  proof
    assume l: "8 \<le> length bs \<and> (\<exists>ps ss. drop 8 bs = ps @ word_bytes a @ ss)"
    then obtain ps ss where "drop 8 bs = ps @ word_bytes a @ ss"
      by blast
    then have "bs = (take 8 bs @ ps) @ word_bytes a @ ss"
      by (metis append.assoc append_take_drop_id)
    moreover have "8 \<le> length (take 8 bs @ ps)"
      using l by simp
    ultimately show "\<exists>pre suf. bs = pre @ word_bytes a @ suf \<and> 8 \<le> length pre"
      by blast
  next
    assume "\<exists>pre suf. bs = pre @ word_bytes a @ suf \<and> 8 \<le> length pre"
    then obtain pre suf where "bs = pre @ word_bytes a @ suf" "8 \<le> length pre"
      by blast
    then show "8 \<le> length bs \<and> (\<exists>ps ss. drop 8 bs = ps @ word_bytes a @ ss)"
      by (auto intro: exI [of _ "drop 8 pre"])
  qed
  finally show ?thesis .
qed

lemma u64_bound: "unat (a :: u64) < 2 ^ 64"
  using unsigned_less [of a] by simp

lemma prefunded_ok [res_simps]:
  "require_pump_trader_prefunded have_lamports spend rent0 = Inr u \<longleftrightarrow>
   unat spend + unat rent0 \<le> unat have_lamports"
proof
  assume "require_pump_trader_prefunded have_lamports spend rent0 = Inr u"
  then show "unat spend + unat rent0 \<le> unat have_lamports"
    by (auto simp: require_pump_trader_prefunded_def res_simps int_simps word_le_nat_alt)
next
  assume le: "unat spend + unat rent0 \<le> unat have_lamports"
  then have lt: "unat spend + unat rent0 < 2 ^ 64"
    using u64_bound [of have_lamports] by linarith
  then have "checked_add spend rent0 = Some (spend + rent0)"
    by (simp add: checked_add_def)
  moreover have "unat (spend + rent0) = unat spend + unat rent0"
    using lt by (intro unat_add_small) simp
  ultimately show "require_pump_trader_prefunded have_lamports spend rent0 = Inr u"
    using le by (simp add: require_pump_trader_prefunded_def word_le_nat_alt)
qed

end
