(* ===== verification/Core_Cpi.thy ===== *)
theory Core_Cpi imports Policy begin

text \<open>
  \<open>core_cpi.rs\<close>: the one call into CORE, and what CORE promises in return. CORE is another
  repository: \<open>core_meters\<close> is its documented contract (a revoked or expired grant is refused,
  the amount is added to the grant's spent counter and may not pass the cap, nothing but the
  grant is written).
\<close>

section \<open>The call\<close>

definition check_grant_ix ::
  "account_info \<Rightarrow> account_info \<Rightarrow> account_info \<Rightarrow> account_info \<Rightarrow> u64 \<Rightarrow> instruction" where
  "check_grant_ix grok gr agent target amount_lamports =
     \<lparr>ix_program_id = CORE_ID,
      ix_accounts = [meta_new_readonly (key grok) False, meta_new (key gr) False,
        meta_new_readonly (key agent) True, meta_new_readonly (key target) False],
      ix_data = CHECK_GRANT_DISCRIMINATOR @ word_bytes amount_lamports\<rparr>"

definition check_grant ::
  "runtime \<Rightarrow> account_info \<Rightarrow> account_info \<Rightarrow> account_info \<Rightarrow> account_info \<Rightarrow> account_info
   \<Rightarrow> u64 \<Rightarrow> chain \<Rightarrow> chain res" where
  "check_grant rt core_program grok gr agent target amount_lamports c =
     and_then (require (key core_program = CORE_ID) (Base InvalidCoreProgram)) (\<lambda>_.
     invoke rt (check_grant_ix grok gr agent target amount_lamports)
       [grok, gr, agent, target, core_program] c)"

lemma check_grant_ix_program [simp]: "ix_program_id (check_grant_ix g gr a t n) = CORE_ID"
  by (simp add: check_grant_ix_def)

lemma check_grant_metas:
  "map meta_writable (ix_accounts (check_grant_ix g gr a t n)) = CHECK_GRANT_META_WRITABLE"
  "map meta_signer (ix_accounts (check_grant_ix g gr a t n)) = CHECK_GRANT_META_SIGNER"
  by (simp_all add: check_grant_ix_def meta_new_def meta_new_readonly_def
      CHECK_GRANT_META_WRITABLE_def CHECK_GRANT_META_SIGNER_def)

section \<open>CORE's contract\<close>

definition metered :: "runtime \<Rightarrow> grant \<Rightarrow> u64 \<Rightarrow> grant \<Rightarrow> bool" where
  "metered rt g amount g' \<longleftrightarrow>
     \<not> gr_revoked g \<and> sint (unix_now rt) < sint (gr_expires_at_unix g)
     \<and> unat (gr_spent_lamports g') = unat (gr_spent_lamports g) + unat amount
     \<and> gr_spent_lamports g' \<le> gr_spend_cap_lamports g'
     \<and> g' = g\<lparr>gr_spent_lamports := gr_spent_lamports g'\<rparr>"

definition core_meters :: "runtime \<Rightarrow> bool" where
  "core_meters rt \<longleftrightarrow>
     (\<forall>grok gr agent target amount infos m m'.
        invoke_cpi rt (check_grant_ix grok gr agent target amount) infos [] m = Inr m' \<longrightarrow>
        (\<exists>g g'. decode_grant rt (acc_data (m (key gr))) = Inr g
           \<and> decode_grant rt (acc_data (m' (key gr))) = Inr g' \<and> metered rt g amount g')
        \<and> acc_lamports (m' (key gr)) = acc_lamports (m (key gr))
        \<and> acc_owner (m' (key gr)) = acc_owner (m (key gr))
        \<and> (\<forall>k. k \<noteq> key gr \<longrightarrow> m' k = m k))"

text \<open>The chain after a successful \<open>check_grant\<close>: only the grant's data differ.\<close>

definition core_step :: "runtime \<Rightarrow> pubkey \<Rightarrow> u64 \<Rightarrow> chain \<Rightarrow> chain \<Rightarrow> bool" where
  "core_step rt gk amount c d \<longleftrightarrow>
     (\<exists>g g'. decode_grant rt (data_of c gk) = Inr g \<and> decode_grant rt (data_of d gk) = Inr g'
        \<and> metered rt g amount g')
     \<and> (\<forall>k. lamports_of d k = lamports_of c k \<and> owner_of d k = owner_of c k)
     \<and> (\<forall>k. k \<noteq> gk \<longrightarrow> accts d k = accts c k) \<and> events d = events c"

lemma core_stepD:
  assumes "core_step rt gk amount c d"
  shows "lamports_of d k = lamports_of c k" and "owner_of d k = owner_of c k"
    and "k \<noteq> gk \<Longrightarrow> accts d k = accts c k" and "k \<noteq> gk \<Longrightarrow> data_of d k = data_of c k"
    and "events d = events c"
  using assms by (auto simp: core_step_def data_of_def)

lemma check_grant_step:
  assumes "check_grant rt core grok gr agent target amount c = Inr d" and "core_meters rt"
  shows "core_step rt (key gr) amount c d" and "key core = CORE_ID"
proof -
  obtain m where m: "invoke_cpi rt (check_grant_ix grok gr agent target amount)
      [grok, gr, agent, target, core] [] (accts c) = Inr m" and d: "d = c\<lparr>accts := m\<rparr>"
    and core: "key core = CORE_ID"
    using assms(1) by (auto simp: check_grant_def invoke_def res_simps)
  have contract: "(\<exists>g g'. decode_grant rt (acc_data (accts c (key gr))) = Inr g
        \<and> decode_grant rt (acc_data (m (key gr))) = Inr g' \<and> metered rt g amount g')
      \<and> acc_lamports (m (key gr)) = acc_lamports (accts c (key gr))
      \<and> acc_owner (m (key gr)) = acc_owner (accts c (key gr))
      \<and> (\<forall>k. k \<noteq> key gr \<longrightarrow> m k = accts c k)"
    using assms(2) [unfolded core_meters_def, rule_format, OF m] by blast
  have "acc_lamports (m k) = acc_lamports (accts c k) \<and> acc_owner (m k) = acc_owner (accts c k)" for k
    using contract by (cases "k = key gr") auto
  with contract show "core_step rt (key gr) amount c d"
    by (simp add: core_step_def d data_of_def lamports_of_def owner_of_def)
  show "key core = CORE_ID"
    by (rule core)
qed

lemma core_step_load_grant:
  assumes "core_step rt gk amount c d" and "load_grant rt c gk = Inr g"
  shows "\<exists>g'. load_grant rt d gk = Inr g' \<and> metered rt g amount g'"
  using assms by (auto simp: core_step_def load_grant_def res_simps)

end
