(* ===== verification/Common.thy ===== *)
theory Common imports Core_Cpi begin

text \<open>
  \<open>instructions/mod.rs\<close> and \<open>instructions/common.rs\<close>: the debit of a program-owned account, the
  sponsor reimbursement, the vault debit, and the checks on remaining accounts. The contract
  of a guarded debit is the locale \<open>lamport_mover\<close>, interpreted on both debits.
\<close>

section \<open>Moving lamports\<close>

definition try_debit_program_owned ::
  "pubkey \<Rightarrow> pubkey \<Rightarrow> u64 \<Rightarrow> u64 \<Rightarrow> chain \<Rightarrow> (bool \<times> chain) res" where
  "try_debit_program_owned src dst amount min_from c =
     (case checked_sub (lamports_of c src) amount of
        None \<Rightarrow> Inr (False, c)
      | Some after \<Rightarrow>
          if after < min_from then Inr (False, c)
          else and_then (ok_or (checked_add (lamports_of c dst) amount) (Intents (Base LamportOverflow)))
                 (\<lambda>dest. Inr (True, with_lamports dst dest (with_lamports src after c))))"

definition require_debit ::
  "intents_error \<Rightarrow> u64 \<Rightarrow> pubkey \<Rightarrow> pubkey \<Rightarrow> u64 \<Rightarrow> chain \<Rightarrow> chain res" where
  "require_debit err min_from src dst amount c =
     and_then (try_debit_program_owned src dst amount min_from c)
       (\<lambda>(paid, d). and_then (require paid err) (\<lambda>_. Inr d))"

definition total :: "pubkey set \<Rightarrow> chain \<Rightarrow> nat" where
  "total S c = (\<Sum>k\<in>S. unat (lamports_of c k))"

definition balance :: "chain \<Rightarrow> pubkey \<Rightarrow> int" where
  "balance c k = int (unat (lamports_of c k))"

text \<open>The net change at \<open>k\<close> of a payment of \<open>a\<close> from \<open>src\<close> to \<open>dst\<close>.\<close>

definition flow :: "pubkey \<Rightarrow> pubkey \<Rightarrow> u64 \<Rightarrow> pubkey \<Rightarrow> int" where
  "flow src dst a k =
     (if k = dst then int (unat a) else 0) - (if k = src then int (unat a) else 0)"

lemma balance_emit [simp]: "balance (emit e c) k = balance c k"
  by (simp add: balance_def)

definition moved :: "pubkey \<Rightarrow> pubkey \<Rightarrow> u64 \<Rightarrow> chain \<Rightarrow> chain" where
  "moved src dst amount c =
     with_lamports dst (lamports_of c dst + amount) (with_lamports src (lamports_of c src - amount) c)"

locale lamport_mover =
  fixes move :: "pubkey \<Rightarrow> pubkey \<Rightarrow> u64 \<Rightarrow> chain \<Rightarrow> chain res" and reserve :: u64
  assumes move_iff:
    "src \<noteq> dst \<Longrightarrow> move src dst a c = Inr d \<longleftrightarrow>
       unat a + unat reserve \<le> unat (lamports_of c src)
       \<and> unat (lamports_of c dst) + unat a < 2 ^ 64 \<and> d = moved src dst a c"
    and move_effect: "move src dst a c = Inr d \<Longrightarrow> d = moved src dst a c"
begin

lemma src_after:
  assumes "move src dst a c = Inr d" and "src \<noteq> dst"
  shows "unat (lamports_of d src) = unat (lamports_of c src) - unat a"
    and "unat reserve \<le> unat (lamports_of d src)"
    and "unat (lamports_of c src) = unat (lamports_of d src) + unat a"
  using assms by (auto simp: move_iff moved_def unat_sub_le word_le_nat_alt)

lemma dst_after:
  assumes "move src dst a c = Inr d" and "src \<noteq> dst"
  shows "unat (lamports_of d dst) = unat (lamports_of c dst) + unat a"
  using assms by (auto simp: move_iff moved_def unat_add_small)

lemma frame:
  assumes "move src dst a c = Inr d"
  shows "k \<noteq> src \<Longrightarrow> k \<noteq> dst \<Longrightarrow> accts d k = accts c k"
    and "owner_of d k = owner_of c k" and "data_of d k = data_of c k" and "events d = events c"
  using move_effect [OF assms] by (simp_all add: moved_def)

lemma balances:
  assumes "move src dst a c = Inr d" and "src \<noteq> dst"
  shows "balance d k = balance c k + flow src dst a k"
proof -
  have "balance d src = balance c src - int (unat a)"
    using src_after(3) [OF assms] by (simp add: balance_def)
  moreover have "balance d dst = balance c dst + int (unat a)"
    using dst_after [OF assms] by (simp add: balance_def)
  moreover have "balance d k = balance c k" if "k \<noteq> src" "k \<noteq> dst"
    using frame(1) [OF assms(1) that] by (simp add: balance_def lamports_of_def)
  ultimately show ?thesis
    using assms(2) by (auto simp: flow_def)
qed

lemma total_kept:
  assumes mv: "move src dst a c = Inr d" and ne: "src \<noteq> dst"
    and S: "finite S" "src \<in> S" "dst \<in> S"
  shows "total S d = total S c"
proof -
  let ?R = "S - {src, dst}"
  have split: "total S e = unat (lamports_of e src) + unat (lamports_of e dst) + total ?R e" for e
  proof -
    have "S = insert src (insert dst ?R)"
      using S by auto
    then have "total S e = total (insert src (insert dst ?R)) e"
      by simp
    also have "\<dots> = unat (lamports_of e src) + unat (lamports_of e dst) + total ?R e"
      using S ne by (simp add: total_def)
    finally show ?thesis .
  qed
  have "total ?R d = total ?R c"
    unfolding total_def using frame(1) [OF mv] by (intro sum.cong) (auto simp: lamports_of_def)
  then show ?thesis
    using src_after(3) [OF mv ne] dst_after [OF mv ne] split [of c] split [of d] by simp
qed

end

lemma try_debit_cases:
  "try_debit_program_owned src dst amount min_from c =
     (if unat (lamports_of c src) < unat amount + unat min_from then Inr (False, c)
      else if 2 ^ 64 \<le> unat (lamports_of c dst) + unat amount
      then Inl (Intents (Base LamportOverflow))
      else Inr (True, moved src dst amount c))"
proof (cases "amount \<le> lamports_of c src")
  case False
  then show ?thesis
    by (auto simp: try_debit_program_owned_def checked_sub_def word_le_nat_alt)
next
  case True
  then have sub: "checked_sub (lamports_of c src) amount = Some (lamports_of c src - amount)"
    by (simp add: checked_sub_def)
  have less: "lamports_of c src - amount < min_from \<longleftrightarrow>
      unat (lamports_of c src) < unat amount + unat min_from"
    using True by (auto simp: word_less_nat_alt unat_sub_le word_le_nat_alt)
  have add: "checked_add (lamports_of c dst) amount =
      (if 2 ^ 64 \<le> unat (lamports_of c dst) + unat amount then None
       else Some (lamports_of c dst + amount))"
    by (auto simp: checked_add_def)
  show ?thesis
    unfolding try_debit_program_owned_def sub option.case less add by (simp add: moved_def)
qed

lemma require_debit_eq_Inr:
  "require_debit err m src dst a c = Inr d \<longleftrightarrow>
     unat a + unat m \<le> unat (lamports_of c src) \<and> unat (lamports_of c dst) + unat a < 2 ^ 64
     \<and> d = moved src dst a c"
  by (auto simp: require_debit_def try_debit_cases res_simps)

interpretation debit: lamport_mover "require_debit err reserve" reserve for err reserve
  by unfold_locales (auto simp: require_debit_eq_Inr)

lemma require_debit_eq_Inl:
  "require_debit err m src dst a c = Inl e \<longleftrightarrow>
     (unat (lamports_of c src) < unat a + unat m \<and> e = Intents err)
     \<or> (unat a + unat m \<le> unat (lamports_of c src) \<and> 2 ^ 64 \<le> unat (lamports_of c dst) + unat a
        \<and> e = Intents (Base LamportOverflow))"
  by (auto simp: require_debit_def try_debit_cases and_then_eq_Inl res_simps)

text \<open>When source and destination are one account the second write wins.\<close>

lemma moved_self: "lamports_of (moved k k a c) k = lamports_of c k + a"
  by (simp add: moved_def)

section \<open>Vault debit and sponsor\<close>

definition debit_spend_vault :: "runtime \<Rightarrow> pubkey \<Rightarrow> pubkey \<Rightarrow> u64 \<Rightarrow> chain \<Rightarrow> chain res" where
  "debit_spend_vault rt vault dest amount_lamports c =
     (let min_vault = min_balance rt spend_vault_SPACE
      in require_debit (Base InsufficientSpendVault) min_vault vault dest amount_lamports c)"

interpretation vault: lamport_mover "debit_spend_vault rt" "min_balance rt spend_vault_SPACE" for rt
  by unfold_locales (auto simp: debit_spend_vault_def require_debit_eq_Inr)

definition precheck_sponsor ::
  "u64 \<Rightarrow> (account_info \<times> paymaster) option \<Rightarrow> account_info option \<Rightarrow> unit res" where
  "precheck_sponsor sponsor_lamports pm fee_payer =
     require_sponsor_accounts sponsor_lamports (pm \<noteq> None \<and> fee_payer \<noteq> None)"

definition reimburse_sponsor ::
  "runtime \<Rightarrow> account_info \<Rightarrow> grant \<Rightarrow> (account_info \<times> paymaster) option \<Rightarrow> account_info option
   \<Rightarrow> u64 \<Rightarrow> chain \<Rightarrow> chain res" where
  "reimburse_sponsor rt grant_ai gr paymaster_opt fee_payer_opt sponsor_lamports c =
     (if sponsor_lamports = 0 then Inr c
      else
        and_then (ok_or paymaster_opt (Intents (Base SponsorAccountsRequired))) (\<lambda>(pm_ai, pm).
        and_then (ok_or fee_payer_opt (Intents (Base SponsorAccountsRequired))) (\<lambda>fee_payer.
        and_then (require (gr_sponsor_eligible gr) (Base NotSponsorEligible)) (\<lambda>_.
        and_then (require (\<not> pm_paused pm) (Base PaymasterPaused)) (\<lambda>_.
        and_then (require (key fee_payer = pm_relayer pm) (Base RelayerMismatch)) (\<lambda>_.
        let min_pm = min_balance rt paymaster_SPACE in
        and_then (require_debit (Base InsufficientPaymaster) min_pm
                    (key pm_ai) (key fee_payer) sponsor_lamports c) (\<lambda>c.
        Inr (emit (Intent_event (Sponsored (key pm_ai) (key fee_payer) sponsor_lamports
               (key grant_ai) (gr_generation gr))) c))))))))"

lemma precheck_sponsor_eq_Inr [res_simps]:
  "precheck_sponsor a pm fp = Inr u \<longleftrightarrow>
   a = 0 \<or> a \<le> MAX_SPONSOR_LAMPORTS \<and> pm \<noteq> None \<and> fp \<noteq> None"
  by (auto simp: precheck_sponsor_def res_simps)

text \<open>What a successful reimbursement has checked and done.\<close>

definition sponsored ::
  "runtime \<Rightarrow> account_info \<Rightarrow> grant \<Rightarrow> (account_info \<times> paymaster) option \<Rightarrow> account_info option
   \<Rightarrow> u64 \<Rightarrow> chain \<Rightarrow> chain \<Rightarrow> bool" where
  "sponsored rt grant_ai gr pm_opt fp_opt a c d \<longleftrightarrow>
     (case (pm_opt, fp_opt) of
        (Some (pm_ai, pm), Some fp) \<Rightarrow>
          gr_sponsor_eligible gr \<and> \<not> pm_paused pm \<and> key fp = pm_relayer pm
          \<and> unat a + unat (min_balance rt paymaster_SPACE) \<le> unat (lamports_of c (key pm_ai))
          \<and> unat (lamports_of c (key fp)) + unat a < 2 ^ 64
          \<and> d = emit (Intent_event (Sponsored (key pm_ai) (key fp) a (key grant_ai)
                 (gr_generation gr))) (moved (key pm_ai) (key fp) a c)
      | _ \<Rightarrow> False)"

lemma reimburse_sponsor_eq_Inr [res_simps]:
  "reimburse_sponsor rt gai gr pm fp a c = Inr d \<longleftrightarrow>
   (if a = 0 then d = c else sponsored rt gai gr pm fp a c d)"
  by (cases pm; cases fp)
    (auto simp: reimburse_sponsor_def sponsored_def and_then_eq_Inr require_eq_Inr
      require_debit_eq_Inr Let_def split: prod.splits)

definition sponsor_flow ::
  "account_info option \<Rightarrow> account_info option \<Rightarrow> u64 \<Rightarrow> pubkey \<Rightarrow> int" where
  "sponsor_flow pm_opt fp_opt a k =
     (case (pm_opt, fp_opt) of
        (Some pm_ai, Some fp) \<Rightarrow> flow (key pm_ai) (key fp) a k
      | _ \<Rightarrow> 0)"

lemma flow_zero [simp]: "flow src dst 0 k = 0"
  by (simp add: flow_def)

lemma reimburse_balances:
  assumes "reimburse_sponsor rt gai gr pm fp a c = Inr d"
    and ne: "\<And>ai p f. pm = Some (ai, p) \<Longrightarrow> fp = Some f \<Longrightarrow> key ai \<noteq> key f"
  shows "balance d k = balance c k + sponsor_flow (map_option fst pm) fp a k"
proof (cases "a = 0")
  case True
  then show ?thesis
    using assms(1) by (auto simp: res_simps sponsor_flow_def split: option.splits)
next
  case False
  then have "sponsored rt gai gr pm fp a c d"
    using assms(1) by (simp add: reimburse_sponsor_eq_Inr)
  then obtain ai p f e where pm: "pm = Some (ai, p)" "fp = Some f"
    and mv: "require_debit (Base InsufficientPaymaster) (min_balance rt paymaster_SPACE)
      (key ai) (key f) a c = Inr (moved (key ai) (key f) a c)"
    and d: "d = emit e (moved (key ai) (key f) a c)"
    by (auto simp: sponsored_def require_debit_eq_Inr split: option.splits)
  show ?thesis
    using debit.balances [OF mv ne [OF pm]] by (simp add: d pm sponsor_flow_def)
qed

lemma reimburse_frame:
  assumes "reimburse_sponsor rt gai gr pm fp a c = Inr d"
  shows "owner_of d k = owner_of c k" and "data_of d k = data_of c k"
    and "(\<And>ai p. pm = Some (ai, p) \<Longrightarrow> k \<noteq> key ai) \<Longrightarrow> (\<And>f. fp = Some f \<Longrightarrow> k \<noteq> key f) \<Longrightarrow>
         accts d k = accts c k"
  using assms by (auto simp: res_simps sponsored_def moved_def split: if_splits option.splits)

section \<open>Trader and remaining accounts\<close>

definition require_pump_trader_ready :: "runtime \<Rightarrow> account_info \<Rightarrow> chain \<Rightarrow> unit res" where
  "require_pump_trader_ready rt trader c =
     and_then (require (owner_of c (key trader) = SYSTEM_PROGRAM_ID) (Pump PumpTraderNotSystemOwned)) (\<lambda>_.
     and_then (require (data_of c (key trader) = []) (Pump PumpTraderNotSystemOwned)) (\<lambda>_.
     let min_trader = min_balance rt PUMP_TRADER_SPACE in
     require (min_trader \<le> lamports_of c (key trader)) (Pump PumpTraderNotInitialized)))"

definition reject_protected_remaining ::
  "account_info list \<Rightarrow> pubkey \<Rightarrow> pubkey option \<Rightarrow> unit res" where
  "reject_protected_remaining remaining vault pm =
     for_all (\<lambda>acc.
       and_then (require (key acc \<noteq> vault) (Base ProtectedAccountInRemaining)) (\<lambda>_.
       case pm of
         Some k \<Rightarrow> require (key acc \<noteq> k) (Base ProtectedAccountInRemaining)
       | None \<Rightarrow> Inr ())) remaining"

definition reject_paymaster_in_remaining :: "account_info list \<Rightarrow> pubkey option \<Rightarrow> unit res" where
  "reject_paymaster_in_remaining remaining pm =
     (case pm of
        Some k \<Rightarrow> for_all (\<lambda>acc. require (key acc \<noteq> k) (Base ProtectedAccountInRemaining)) remaining
      | None \<Rightarrow> Inr ())"

lemma remaining_checks_eq_Inr [res_simps]:
  "require_pump_trader_ready rt trader c = Inr u \<longleftrightarrow>
     owner_of c (key trader) = SYSTEM_PROGRAM_ID \<and> data_of c (key trader) = []
     \<and> min_balance rt PUMP_TRADER_SPACE \<le> lamports_of c (key trader)"
  "reject_protected_remaining rs vault pm = Inr u \<longleftrightarrow>
     (\<forall>acc \<in> set rs. key acc \<noteq> vault \<and> Some (key acc) \<noteq> pm)"
  "reject_paymaster_in_remaining rs pm = Inr u \<longleftrightarrow> (\<forall>acc \<in> set rs. Some (key acc) \<noteq> pm)"
  by (auto simp: require_pump_trader_ready_def reject_protected_remaining_def
      reject_paymaster_in_remaining_def res_simps Let_def split: option.splits)

end
