(* ===== verification/Demo.thy ===== *)
theory Demo imports Common begin

text \<open>
  A concrete runtime and ledger: addresses derived from the first seed, a CORE that meters an
  8-byte spent counter against a fixed cap, and a System Program with transfer and account
  creation. It meets every contract the development assumes, and the witnesses of the
  properties run on it.
\<close>

section \<open>Keys and addresses\<close>

abbreviation k_root :: pubkey where "k_root \<equiv> 11"
abbreviation k_grok :: pubkey where "k_grok \<equiv> 12"
abbreviation k_agent :: pubkey where "k_agent \<equiv> 13"
abbreviation k_grant :: pubkey where "k_grant \<equiv> 14"
abbreviation k_vault :: pubkey where "k_vault \<equiv> 15"
abbreviation k_paymaster :: pubkey where "k_paymaster \<equiv> 16"
abbreviation k_relayer :: pubkey where "k_relayer \<equiv> 17"
abbreviation k_payee :: pubkey where "k_payee \<equiv> 18"
abbreviation k_trader :: pubkey where "k_trader \<equiv> 19"
abbreviation k_merchants :: pubkey where "k_merchants \<equiv> 20"
abbreviation k_subscription :: pubkey where "k_subscription \<equiv> 21"
abbreviation k_sub_grant :: pubkey where "k_sub_grant \<equiv> 22"
abbreviation k_sponsor_fee :: pubkey where "k_sponsor_fee \<equiv> 23"
abbreviation k_program :: pubkey where "k_program \<equiv> 25"
abbreviation k_fee_vault :: pubkey where "k_fee_vault \<equiv> 24"

definition demo_pda :: "seeds \<Rightarrow> pubkey" where
  "demo_pda ss =
     (case hd ss of s \<Rightarrow>
        if s = SEED_GROK_ACCOUNT then k_grok
        else if s = SEED_GRANT then k_grant
        else if s = SEED_SPEND_VAULT then k_vault
        else if s = SEED_PAYMASTER then k_paymaster
        else if s = SEED_PUMP_TRADER then k_trader
        else if s = SEED_MERCHANTS then k_merchants
        else if s = SEED_SUBSCRIPTION then k_subscription
        else if s = SEED_SUB_GRANT then k_sub_grant
        else if s = SEED_SPONSOR_FEE then k_sponsor_fee
        else k_fee_vault)"

lemmas seed_defs = SEED_GROK_ACCOUNT_def SEED_GRANT_def SEED_SPEND_VAULT_def SEED_PAYMASTER_def
  SEED_PUMP_TRADER_def SEED_MERCHANTS_def SEED_SUBSCRIPTION_def SEED_SUB_GRANT_def
  SEED_SPONSOR_FEE_def SEED_FEE_VAULT_def ascii_def

lemma demo_pda_simps [simp]:
  "demo_pda (SEED_GROK_ACCOUNT # ss) = k_grok"
  "demo_pda (SEED_GRANT # ss) = k_grant"
  "demo_pda (SEED_SPEND_VAULT # ss) = k_vault"
  "demo_pda (SEED_PAYMASTER # ss) = k_paymaster"
  "demo_pda (SEED_PUMP_TRADER # ss) = k_trader"
  "demo_pda (SEED_MERCHANTS # ss) = k_merchants"
  "demo_pda (SEED_SUBSCRIPTION # ss) = k_subscription"
  "demo_pda (SEED_SUB_GRANT # ss) = k_sub_grant"
  "demo_pda (SEED_SPONSOR_FEE # ss) = k_sponsor_fee"
  "demo_pda (SEED_FEE_VAULT # ss) = k_fee_vault"
  by (simp_all add: demo_pda_def seed_defs)

section \<open>Other programs\<close>

definition demo_grant :: "u64 \<Rightarrow> grant" where
  "demo_grant spent =
     \<lparr>gr_grok_account = k_grok, gr_agent = k_agent, gr_bump = 255, gr_generation = 7,
      gr_sponsor_eligible = True, gr_revoked = False, gr_expires_at_unix = 2000000,
      gr_spend_cap_lamports = 1000000, gr_spent_lamports = spent\<rparr>"

definition demo_decode_grant :: "byte list \<Rightarrow> grant res" where
  "demo_decode_grant bs =
     (if length bs = 8 then Inr (demo_grant (word_of_bytes bs))
      else Inl (Anchor AccountDidNotDeserialize))"

definition demo_core :: "instruction \<Rightarrow> ledger \<Rightarrow> nat + ledger" where
  "demo_core ix m =
     (let gk = meta_pubkey (ix_accounts ix ! 1);
          amount = word_of_bytes (drop 8 (ix_data ix)) :: u64;
          spent = word_of_bytes (acc_data (m gk)) :: u64
      in if acc_owner (m gk) = CORE_ID \<and> length (acc_data (m gk)) = 8
            \<and> unat spent + unat amount \<le> 1000000
         then Inr (m(gk := (m gk)\<lparr>acc_data := word_bytes (spent + amount)\<rparr>))
         else Inl 6000)"

definition demo_system :: "instruction \<Rightarrow> ledger \<Rightarrow> nat + ledger" where
  "demo_system ix m =
     (let src = meta_pubkey (ix_accounts ix ! 0);
          dst = meta_pubkey (ix_accounts ix ! 1);
          amount = word_of_bytes (take 8 (drop 4 (ix_data ix))) :: u64
      in if take 4 (ix_data ix) = word_bytes (2 :: u32) \<and> src \<noteq> dst
            \<and> acc_owner (m src) = SYSTEM_PROGRAM_ID \<and> unat amount \<le> unat (acc_lamports (m src))
            \<and> unat (acc_lamports (m dst)) + unat amount < 2 ^ 64
         then Inr (m(src := (m src)\<lparr>acc_lamports := acc_lamports (m src) - amount\<rparr>,
                     dst := (m dst)\<lparr>acc_lamports := acc_lamports (m dst) + amount\<rparr>))
         else Inl 1)"

definition demo_cpi :: "instruction \<Rightarrow> account_info list \<Rightarrow> seeds list \<Rightarrow> ledger \<Rightarrow> nat + ledger" where
  "demo_cpi ix infos ss m =
     (if ix_program_id ix = CORE_ID then demo_core ix m
      else if ix_program_id ix = SYSTEM_PROGRAM_ID then demo_system ix m
      else Inr m)"

definition demo_rent :: "nat \<Rightarrow> u64" where
  "demo_rent n = word_of_nat (128 + n)"

definition demo_init ::
  "pubkey \<Rightarrow> pubkey \<Rightarrow> nat \<Rightarrow> seeds \<Rightarrow> ledger \<Rightarrow> nat + ledger" where
  "demo_init payer k space ss m =
     (if acc_owner (m k) = SYSTEM_PROGRAM_ID \<and> acc_data (m k) = [] \<and> acc_lamports (m k) = 0
         \<and> payer \<noteq> k \<and> k_trader \<notin> {payer, k} \<and> acc_owner (m payer) = SYSTEM_PROGRAM_ID
         \<and> demo_rent space \<le> acc_lamports (m payer)
      then Inr (m(payer := (m payer)\<lparr>acc_lamports := acc_lamports (m payer) - demo_rent space\<rparr>,
                  k := \<lparr>acc_lamports = demo_rent space, acc_owner = INTENTS_ID,
                        acc_data = replicate space 0, acc_executable = False\<rparr>))
      else Inl 0)"

definition demo_rt :: runtime where
  "demo_rt =
     \<lparr>min_balance = demo_rent, unix_now = 1000000,
      find_program_address = (\<lambda>ss pid. (demo_pda ss, 255)),
      create_program_address = (\<lambda>ss pid. Some (demo_pda ss)),
      invoke_cpi = demo_cpi, init_pda = demo_init,
      decode_grok_account = (\<lambda>bs. Inr \<lparr>ga_root = k_root, ga_bump = 255\<rparr>),
      decode_grant = demo_decode_grant\<rparr>"

lemma demo_rt_simps [simp]:
  "min_balance demo_rt = demo_rent" "unix_now demo_rt = 1000000"
  "find_program_address demo_rt ss pid = (demo_pda ss, 255)"
  "create_program_address demo_rt ss pid = Some (demo_pda ss)"
  "invoke_cpi demo_rt = demo_cpi" "init_pda demo_rt = demo_init"
  "decode_grok_account demo_rt bs = Inr \<lparr>ga_root = k_root, ga_bump = 255\<rparr>"
  "decode_grant demo_rt = demo_decode_grant"
  by (simp_all add: demo_rt_def)

lemma word_of_bytes_u64 [simp]: "word_of_bytes (word_bytes (a :: u64)) = a"
  by (rule word_of_bytes_word_bytes) simp

section \<open>The contracts hold\<close>

lemma demo_core_meters: "core_meters demo_rt"
  unfolding core_meters_def
proof (intro allI impI)
  fix grok gr agent target :: account_info and amount :: u64 and infos and m m' :: ledger
  let ?gk = "key gr" and ?spent = "word_of_bytes (acc_data (m (key gr))) :: u64"
  assume "invoke_cpi demo_rt (check_grant_ix grok gr agent target amount) infos [] m = Inr m'"
  then have "demo_core (check_grant_ix grok gr agent target amount) m = Inr m'"
    by (simp add: demo_cpi_def)
  then have len: "length (acc_data (m ?gk)) = 8" and cap: "unat ?spent + unat amount \<le> 1000000"
    and m': "m' = m(?gk := (m ?gk)\<lparr>acc_data := word_bytes (?spent + amount)\<rparr>)"
    by (auto simp: demo_core_def check_grant_ix_def meta_new_def CHECK_GRANT_DISCRIMINATOR_def
        Let_def split: if_splits)
  have sum: "unat (?spent + amount) = unat ?spent + unat amount"
    by (rule unat_add_small) (use cap in simp)
  have "metered demo_rt (demo_grant ?spent) amount (demo_grant (?spent + amount))"
    using sum cap by (simp add: metered_def demo_grant_def word_le_nat_alt)
  then show "(\<exists>g g'. decode_grant demo_rt (acc_data (m ?gk)) = Inr g
        \<and> decode_grant demo_rt (acc_data (m' ?gk)) = Inr g' \<and> metered demo_rt g amount g')
      \<and> acc_lamports (m' ?gk) = acc_lamports (m ?gk) \<and> acc_owner (m' ?gk) = acc_owner (m ?gk)
      \<and> (\<forall>k. k \<noteq> ?gk \<longrightarrow> m' k = m k)"
    using len by (simp add: m' demo_decode_grant_def)
qed

lemma demo_transfer_exact: "transfer_exact demo_rt"
  unfolding transfer_exact_def
proof (intro allI impI)
  fix src dst :: pubkey and amount :: u64 and infos ss and m m' :: ledger
  assume ne: "src \<noteq> dst" and "invoke_cpi demo_rt (system_transfer src dst amount) infos ss m = Inr m'"
  then have "demo_system (system_transfer src dst amount) m = Inr m'"
    by (simp add: demo_cpi_def system_transfer_def core_not_system [symmetric])
  then have "unat amount \<le> unat (acc_lamports (m src))"
    "unat (acc_lamports (m dst)) + unat amount < 2 ^ 64"
    "m' = m(src := (m src)\<lparr>acc_lamports := acc_lamports (m src) - amount\<rparr>,
            dst := (m dst)\<lparr>acc_lamports := acc_lamports (m dst) + amount\<rparr>)"
    by (auto simp: demo_system_def system_transfer_def meta_new_def Let_def split: if_splits)
  with ne show "unat (acc_lamports (m src)) = unat (acc_lamports (m' src)) + unat amount
        \<and> m' src = (m src)\<lparr>acc_lamports := acc_lamports (m' src)\<rparr>
        \<and> unat (acc_lamports (m' dst)) = unat (acc_lamports (m dst)) + unat amount
        \<and> m' dst = (m dst)\<lparr>acc_lamports := acc_lamports (m' dst)\<rparr>
        \<and> (\<forall>k. k \<noteq> src \<longrightarrow> k \<noteq> dst \<longrightarrow> m' k = m k)"
    by (simp add: unat_sub_le word_le_nat_alt unat_add_small)
qed

lemma demo_core_frame:
  assumes "demo_core ix m = Inr m'" and "acc_owner (m k) = INTENTS_ID"
  shows "m' k = m k"
proof -
  let ?gk = "meta_pubkey (ix_accounts ix ! 1)"
  obtain v where "m' = m(?gk := v)" and "acc_owner (m ?gk) = CORE_ID"
    using assms(1) unfolding demo_core_def Let_def by (simp split: if_splits) metis
  with assms(2) show ?thesis
    using core_not_intents by (metis fun_upd_other)
qed

lemma demo_system_frame:
  assumes "demo_system ix m = Inr m'" and own: "acc_owner (m k) = INTENTS_ID"
  shows "acc_owner (m' k) = acc_owner (m k) \<and> acc_data (m' k) = acc_data (m k)
    \<and> acc_lamports (m k) \<le> acc_lamports (m' k)"
proof -
  let ?src = "meta_pubkey (ix_accounts ix ! 0)" and ?dst = "meta_pubkey (ix_accounts ix ! 1)"
  obtain a :: u64 and v where m': "m' = m(?src := v,
      ?dst := (m ?dst)\<lparr>acc_lamports := acc_lamports (m ?dst) + a\<rparr>)"
    and src: "acc_owner (m ?src) = SYSTEM_PROGRAM_ID"
    and lt: "unat (acc_lamports (m ?dst)) + unat a < 2 ^ 64"
    using assms(1) unfolding demo_system_def Let_def by (simp split: if_splits) metis
  have "k \<noteq> ?src"
    using own src intents_not_system by metis
  moreover have "acc_lamports (m ?dst) \<le> acc_lamports (m ?dst) + a"
    using lt by (simp add: word_le_nat_alt unat_add_small)
  ultimately show ?thesis
    by (simp add: m')
qed

lemma demo_foreign_frame: "foreign_frame demo_rt"
  unfolding foreign_frame_def
proof (intro allI impI)
  fix ix infos ss and m m' :: ledger and k
  assume run: "invoke_cpi demo_rt ix infos ss m = Inr m'" and own: "acc_owner (m k) = INTENTS_ID"
  have "demo_cpi ix infos ss m = Inr m'"
    using run by simp
  then consider "demo_core ix m = Inr m'" | "demo_system ix m = Inr m'" | "m' = m"
    unfolding demo_cpi_def by (metis sum.inject(2))
  then show "acc_owner (m' k) = INTENTS_ID \<and> acc_data (m' k) = acc_data (m k)
      \<and> acc_lamports (m k) \<le> acc_lamports (m' k)"
  proof cases
    case 1
    from demo_core_frame [OF this own] own show ?thesis
      by simp
  next
    case 2
    from demo_system_frame [OF this own] own show ?thesis
      by simp
  qed (use own in simp)
qed

lemma demo_init_fresh: "init_fresh demo_rt"
  unfolding init_fresh_def
  by (auto simp: demo_init_def split: if_splits)

section \<open>The ledger\<close>

definition demo_account :: "u64 \<Rightarrow> pubkey \<Rightarrow> byte list \<Rightarrow> account" where
  "demo_account l own bs =
     \<lparr>acc_lamports = l, acc_owner = own, acc_data = bs, acc_executable = False\<rparr>"

definition demo_program :: account where
  "demo_program = \<lparr>acc_lamports = 1, acc_owner = 0, acc_data = [], acc_executable = True\<rparr>"

definition demo_vault :: spend_vault where
  "demo_vault = \<lparr>sv_grok_account = k_grok, sv_root = k_root, sv_bump = 255\<rparr>"

definition demo_paymaster :: paymaster where
  "demo_paymaster =
     \<lparr>pm_grok_account = k_grok, pm_root = k_root, pm_relayer = k_relayer, pm_bump = 255,
      pm_paused = False\<rparr>"

definition demo_chain :: chain where
  "demo_chain =
     \<lparr>accts = (\<lambda>_. demo_account 0 SYSTEM_PROGRAM_ID [])
        (k_root := demo_account 900000 SYSTEM_PROGRAM_ID [],
         k_relayer := demo_account 5000 SYSTEM_PROGRAM_ID [],
         k_payee := demo_account 10 SYSTEM_PROGRAM_ID [],
         k_grok := demo_account 300 CORE_ID [],
         k_grant := demo_account 300 CORE_ID (word_bytes (400 :: u64)),
         k_vault := demo_account 70000 INTENTS_ID (sv_disc @ enc_spend_vault demo_vault),
         k_paymaster := demo_account 80000 INTENTS_ID (pm_disc @ enc_paymaster demo_paymaster),
         k_program := demo_program,
         SYSTEM_PROGRAM_ID := demo_program,
         CORE_ID := demo_program),
      events = []\<rparr>"

definition info :: "pubkey \<Rightarrow> bool \<Rightarrow> bool \<Rightarrow> account_info" where
  "info k s w = \<lparr>key = k, is_signer = s, is_writable = w\<rparr>"

lemma info_simps [simp]:
  "key (info k s w) = k" "is_signer (info k s w) = s" "is_writable (info k s w) = w"
  by (simp_all add: info_def)

lemma demo_program_ids [simp]:
  "k_program \<noteq> CORE_ID" "k_program \<noteq> SYSTEM_PROGRAM_ID" "k_program \<noteq> INTENTS_ID"
  by (simp_all add: key_simps)

lemma demo_account_simps [simp]:
  "acc_lamports (demo_account l own bs) = l" "acc_owner (demo_account l own bs) = own"
  "acc_data (demo_account l own bs) = bs" "acc_executable (demo_account l own bs) = False"
  "acc_executable demo_program"
  by (simp_all add: demo_account_def demo_program_def)

lemma demo_accts [simp]:
  "accts demo_chain k_root = demo_account 900000 SYSTEM_PROGRAM_ID []"
  "accts demo_chain k_relayer = demo_account 5000 SYSTEM_PROGRAM_ID []"
  "accts demo_chain k_payee = demo_account 10 SYSTEM_PROGRAM_ID []"
  "accts demo_chain k_grok = demo_account 300 CORE_ID []"
  "accts demo_chain k_grant = demo_account 300 CORE_ID (word_bytes (400 :: u64))"
  "accts demo_chain k_vault = demo_account 70000 INTENTS_ID (sv_disc @ enc_spend_vault demo_vault)"
  "accts demo_chain k_paymaster = demo_account 80000 INTENTS_ID (pm_disc @ enc_paymaster demo_paymaster)"
  "accts demo_chain k_program = demo_program"
  "accts demo_chain SYSTEM_PROGRAM_ID = demo_program"
  "accts demo_chain CORE_ID = demo_program"
  by (simp_all add: demo_chain_def key_simps)

lemma demo_loads [simp]:
  "load_spend_vault demo_chain k_vault = Inr demo_vault"
  "load_paymaster demo_chain k_paymaster = Inr demo_paymaster"
  "load_grant demo_rt demo_chain k_grant = Inr (demo_grant 400)"
  "load_grok_account demo_rt demo_chain k_grok = Inr \<lparr>ga_root = k_root, ga_bump = 255\<rparr>"
  by (simp_all add: load_grant_def load_grok_account_def res_simps owner_of_def data_of_def
      sv_account.deserialize_iff pm_account.deserialize_iff demo_decode_grant_def)

end
