(* ===== verification/Vaults.thy ===== *)
theory Vaults imports Demo begin

text \<open>
  \<open>instructions/spend_vault.rs\<close> and \<open>instructions/paymaster.rs\<close>: the root's operations on the
  two custody accounts. Each instruction is its account declaration (\<open>*_accounts\<close>: first the
  loads in field order, then \<open>init\<close>, then the constraints in field order) followed by its
  handler; a handler that changes a typed account ends with Anchor's write-back.
\<close>

section \<open>Constraint blocks the declarations share\<close>

definition grok_seeds :: "runtime \<Rightarrow> account_info \<Rightarrow> grok_account \<Rightarrow> unit res" where
  "grok_seeds rt grok_ai ga =
     seeds_bump rt [SEED_GROK_ACCOUNT, pubkey_bytes (ga_root ga)] (ga_bump ga) CORE_ID grok_ai"

definition grok_of_root :: "runtime \<Rightarrow> account_info \<Rightarrow> grok_account \<Rightarrow> account_info \<Rightarrow> unit res" where
  "grok_of_root rt grok_ai ga root =
     and_then (grok_seeds rt grok_ai ga) (\<lambda>_. require (ga_root ga = key root) (Base UnauthorizedRoot))"

definition vault_seeds :: "runtime \<Rightarrow> account_info \<Rightarrow> pubkey \<Rightarrow> spend_vault \<Rightarrow> unit res" where
  "vault_seeds rt vault_ai grok sv =
     seeds_bump rt [SEED_SPEND_VAULT, pubkey_bytes grok] (sv_bump sv) INTENTS_ID vault_ai"

definition vault_constraints ::
  "runtime \<Rightarrow> account_info \<Rightarrow> pubkey \<Rightarrow> pubkey \<Rightarrow> spend_vault \<Rightarrow> unit res" where
  "vault_constraints rt vault_ai grok root sv =
     and_then (vault_seeds rt vault_ai grok sv) (\<lambda>_.
     and_then (writable vault_ai) (\<lambda>_.
     and_then (require (sv_grok_account sv = grok) (Base GrokAccountMismatch)) (\<lambda>_.
     require (sv_root sv = root) (Base UnauthorizedRoot))))"

definition paymaster_constraints ::
  "runtime \<Rightarrow> account_info \<Rightarrow> pubkey \<Rightarrow> pubkey \<Rightarrow> paymaster \<Rightarrow> unit res" where
  "paymaster_constraints rt pm_ai grok root pm =
     and_then (seeds_bump rt [SEED_PAYMASTER, pubkey_bytes grok] (pm_bump pm) INTENTS_ID pm_ai) (\<lambda>_.
     and_then (writable pm_ai) (\<lambda>_.
     and_then (require (pm_grok_account pm = grok) (Base GrokAccountMismatch)) (\<lambda>_.
     require (pm_root pm = root) (Base UnauthorizedRoot))))"

lemma blocks_eq_Inr [res_simps]:
  "grok_seeds rt ai ga = Inr u \<longleftrightarrow>
     create_program_address rt ([SEED_GROK_ACCOUNT, pubkey_bytes (ga_root ga)] @ [[ga_bump ga]]) CORE_ID
       = Some (key ai)"
  "grok_of_root rt ai ga root = Inr u \<longleftrightarrow> grok_seeds rt ai ga = Inr () \<and> ga_root ga = key root"
  "vault_seeds rt vai g sv = Inr u \<longleftrightarrow>
     create_program_address rt ([SEED_SPEND_VAULT, pubkey_bytes g] @ [[sv_bump sv]]) INTENTS_ID
       = Some (key vai)"
  "vault_constraints rt vai g r sv = Inr u \<longleftrightarrow>
     vault_seeds rt vai g sv = Inr () \<and> is_writable vai \<and> sv_grok_account sv = g \<and> sv_root sv = r"
  "paymaster_constraints rt pai g r pm = Inr u \<longleftrightarrow>
     create_program_address rt ([SEED_PAYMASTER, pubkey_bytes g] @ [[pm_bump pm]]) INTENTS_ID
       = Some (key pai)
     \<and> is_writable pai \<and> pm_grok_account pm = g \<and> pm_root pm = r"
  by (simp_all add: grok_seeds_def grok_of_root_def vault_seeds_def vault_constraints_def
      paymaster_constraints_def and_then_eq_Inr require_eq_Inr account_checks_eq_Inr)

section \<open>SpendVault\<close>

record init_spend_vault_infos =
  isv_root :: account_info
  isv_grok_account :: account_info
  isv_spend_vault :: account_info
  isv_system_program :: account_info

definition init_spend_vault_accounts ::
  "runtime \<Rightarrow> init_spend_vault_infos \<Rightarrow> chain \<Rightarrow> (u8 \<times> chain) res" where
  "init_spend_vault_accounts rt A c =
     and_then (signer (isv_root A)) (\<lambda>_.
     and_then (load_grok_account rt c (key (isv_grok_account A))) (\<lambda>ga.
     and_then (program c (isv_system_program A) SYSTEM_PROGRAM_ID) (\<lambda>_.
     and_then (init_account rt (isv_root A) spend_vault_SPACE
       [SEED_SPEND_VAULT, pubkey_bytes (key (isv_grok_account A))] (isv_spend_vault A) c) (\<lambda>(bump, c).
     and_then (writable (isv_root A)) (\<lambda>_.
     and_then (grok_of_root rt (isv_grok_account A) ga (isv_root A)) (\<lambda>_.
     Inr (bump, c)))))))"

definition spend_vault_init :: "init_spend_vault_infos \<Rightarrow> u8 \<Rightarrow> chain \<Rightarrow> chain res" where
  "spend_vault_init A bump c =
     (let vault = \<lparr>sv_grok_account = key (isv_grok_account A), sv_root = key (isv_root A), sv_bump = bump\<rparr>;
          c = emit (Vault_event (SpendVaultInitialized (key (isv_spend_vault A))
                (sv_grok_account vault) (sv_root vault))) c
      in store_spend_vault vault (key (isv_spend_vault A)) c)"

definition init_spend_vault :: "runtime \<Rightarrow> init_spend_vault_infos \<Rightarrow> chain \<Rightarrow> chain res" where
  "init_spend_vault rt A c =
     and_then (init_spend_vault_accounts rt A c) (\<lambda>(bump, c). spend_vault_init A bump c)"

record fund_spend_vault_infos =
  fsv_root :: account_info
  fsv_grok_account :: account_info
  fsv_spend_vault :: account_info
  fsv_system_program :: account_info

definition fund_spend_vault_accounts ::
  "runtime \<Rightarrow> fund_spend_vault_infos \<Rightarrow> chain \<Rightarrow> unit res" where
  "fund_spend_vault_accounts rt A c =
     and_then (signer (fsv_root A)) (\<lambda>_.
     and_then (load_grok_account rt c (key (fsv_grok_account A))) (\<lambda>ga.
     and_then (load_spend_vault c (key (fsv_spend_vault A))) (\<lambda>sv.
     and_then (program c (fsv_system_program A) SYSTEM_PROGRAM_ID) (\<lambda>_.
     and_then (writable (fsv_root A)) (\<lambda>_.
     and_then (grok_of_root rt (fsv_grok_account A) ga (fsv_root A)) (\<lambda>_.
     vault_constraints rt (fsv_spend_vault A) (key (fsv_grok_account A)) (key (fsv_root A)) sv))))))"

definition spend_vault_fund :: "runtime \<Rightarrow> fund_spend_vault_infos \<Rightarrow> u64 \<Rightarrow> chain \<Rightarrow> chain res" where
  "spend_vault_fund rt A lamports c =
     and_then (require (0 < lamports) (Base ZeroAmount)) (\<lambda>_.
     and_then (invoke rt (system_transfer (key (fsv_root A)) (key (fsv_spend_vault A)) lamports)
       [fsv_root A, fsv_spend_vault A, fsv_system_program A] c) (\<lambda>c.
     Inr (emit (Vault_event (SpendVaultFunded (key (fsv_spend_vault A))
            (key (fsv_grok_account A)) (key (fsv_root A)) lamports)) c)))"

definition fund_spend_vault :: "runtime \<Rightarrow> fund_spend_vault_infos \<Rightarrow> u64 \<Rightarrow> chain \<Rightarrow> chain res" where
  "fund_spend_vault rt A lamports c =
     and_then (fund_spend_vault_accounts rt A c) (\<lambda>_. spend_vault_fund rt A lamports c)"

record withdraw_spend_vault_infos =
  wsv_root :: account_info
  wsv_grok_account :: account_info
  wsv_spend_vault :: account_info

definition withdraw_spend_vault_accounts ::
  "runtime \<Rightarrow> withdraw_spend_vault_infos \<Rightarrow> chain \<Rightarrow> unit res" where
  "withdraw_spend_vault_accounts rt A c =
     and_then (signer (wsv_root A)) (\<lambda>_.
     and_then (load_grok_account rt c (key (wsv_grok_account A))) (\<lambda>ga.
     and_then (load_spend_vault c (key (wsv_spend_vault A))) (\<lambda>sv.
     and_then (writable (wsv_root A)) (\<lambda>_.
     and_then (grok_of_root rt (wsv_grok_account A) ga (wsv_root A)) (\<lambda>_.
     vault_constraints rt (wsv_spend_vault A) (key (wsv_grok_account A)) (key (wsv_root A)) sv)))))"

definition spend_vault_withdraw ::
  "runtime \<Rightarrow> withdraw_spend_vault_infos \<Rightarrow> u64 \<Rightarrow> chain \<Rightarrow> chain res" where
  "spend_vault_withdraw rt A lamports c =
     and_then (require (0 < lamports) (Base ZeroAmount)) (\<lambda>_.
     let min_vault = min_balance rt spend_vault_SPACE in
     and_then (require_debit (Base InsufficientSpendVault) min_vault
       (key (wsv_spend_vault A)) (key (wsv_root A)) lamports c) (\<lambda>c.
     Inr (emit (Vault_event (SpendVaultWithdrawn (key (wsv_spend_vault A))
            (key (wsv_grok_account A)) (key (wsv_root A)) lamports)) c)))"

definition withdraw_spend_vault ::
  "runtime \<Rightarrow> withdraw_spend_vault_infos \<Rightarrow> u64 \<Rightarrow> chain \<Rightarrow> chain res" where
  "withdraw_spend_vault rt A lamports c =
     and_then (withdraw_spend_vault_accounts rt A c) (\<lambda>_. spend_vault_withdraw rt A lamports c)"

section \<open>Paymaster\<close>

record init_paymaster_infos =
  ipm_root :: account_info
  ipm_grok_account :: account_info
  ipm_paymaster :: account_info
  ipm_system_program :: account_info

definition init_paymaster_accounts ::
  "runtime \<Rightarrow> init_paymaster_infos \<Rightarrow> chain \<Rightarrow> (u8 \<times> chain) res" where
  "init_paymaster_accounts rt A c =
     and_then (signer (ipm_root A)) (\<lambda>_.
     and_then (load_grok_account rt c (key (ipm_grok_account A))) (\<lambda>ga.
     and_then (program c (ipm_system_program A) SYSTEM_PROGRAM_ID) (\<lambda>_.
     and_then (init_account rt (ipm_root A) paymaster_SPACE
       [SEED_PAYMASTER, pubkey_bytes (key (ipm_grok_account A))] (ipm_paymaster A) c) (\<lambda>(bump, c).
     and_then (writable (ipm_root A)) (\<lambda>_.
     and_then (grok_of_root rt (ipm_grok_account A) ga (ipm_root A)) (\<lambda>_.
     Inr (bump, c)))))))"

definition paymaster_init :: "init_paymaster_infos \<Rightarrow> pubkey \<Rightarrow> u8 \<Rightarrow> chain \<Rightarrow> chain res" where
  "paymaster_init A relayer bump c =
     (let pm = \<lparr>pm_grok_account = key (ipm_grok_account A), pm_root = key (ipm_root A),
                pm_relayer = relayer, pm_bump = bump, pm_paused = False\<rparr>;
          c = emit (Vault_event (PaymasterInitialized (key (ipm_paymaster A))
                (pm_grok_account pm) (pm_root pm) relayer)) c
      in store_paymaster pm (key (ipm_paymaster A)) c)"

definition init_paymaster :: "runtime \<Rightarrow> init_paymaster_infos \<Rightarrow> pubkey \<Rightarrow> chain \<Rightarrow> chain res" where
  "init_paymaster rt A relayer c =
     and_then (init_paymaster_accounts rt A c) (\<lambda>(bump, c). paymaster_init A relayer bump c)"

record fund_paymaster_infos =
  fpm_root :: account_info
  fpm_grok_account :: account_info
  fpm_paymaster :: account_info
  fpm_system_program :: account_info

definition fund_paymaster_accounts :: "runtime \<Rightarrow> fund_paymaster_infos \<Rightarrow> chain \<Rightarrow> unit res" where
  "fund_paymaster_accounts rt A c =
     and_then (signer (fpm_root A)) (\<lambda>_.
     and_then (load_grok_account rt c (key (fpm_grok_account A))) (\<lambda>ga.
     and_then (load_paymaster c (key (fpm_paymaster A))) (\<lambda>pm.
     and_then (program c (fpm_system_program A) SYSTEM_PROGRAM_ID) (\<lambda>_.
     and_then (writable (fpm_root A)) (\<lambda>_.
     and_then (grok_of_root rt (fpm_grok_account A) ga (fpm_root A)) (\<lambda>_.
     paymaster_constraints rt (fpm_paymaster A) (key (fpm_grok_account A)) (key (fpm_root A)) pm))))))"

definition paymaster_fund :: "runtime \<Rightarrow> fund_paymaster_infos \<Rightarrow> u64 \<Rightarrow> chain \<Rightarrow> chain res" where
  "paymaster_fund rt A lamports c =
     and_then (require (0 < lamports) (Base ZeroAmount)) (\<lambda>_.
     and_then (invoke rt (system_transfer (key (fpm_root A)) (key (fpm_paymaster A)) lamports)
       [fpm_root A, fpm_paymaster A, fpm_system_program A] c) (\<lambda>c.
     Inr (emit (Vault_event (PaymasterFunded (key (fpm_paymaster A))
            (key (fpm_grok_account A)) (key (fpm_root A)) lamports)) c)))"

definition fund_paymaster :: "runtime \<Rightarrow> fund_paymaster_infos \<Rightarrow> u64 \<Rightarrow> chain \<Rightarrow> chain res" where
  "fund_paymaster rt A lamports c =
     and_then (fund_paymaster_accounts rt A c) (\<lambda>_. paymaster_fund rt A lamports c)"

record withdraw_paymaster_infos =
  wpm_root :: account_info
  wpm_grok_account :: account_info
  wpm_paymaster :: account_info

definition withdraw_paymaster_accounts ::
  "runtime \<Rightarrow> withdraw_paymaster_infos \<Rightarrow> chain \<Rightarrow> unit res" where
  "withdraw_paymaster_accounts rt A c =
     and_then (signer (wpm_root A)) (\<lambda>_.
     and_then (load_grok_account rt c (key (wpm_grok_account A))) (\<lambda>ga.
     and_then (load_paymaster c (key (wpm_paymaster A))) (\<lambda>pm.
     and_then (writable (wpm_root A)) (\<lambda>_.
     and_then (grok_of_root rt (wpm_grok_account A) ga (wpm_root A)) (\<lambda>_.
     paymaster_constraints rt (wpm_paymaster A) (key (wpm_grok_account A)) (key (wpm_root A)) pm)))))"

definition paymaster_withdraw ::
  "runtime \<Rightarrow> withdraw_paymaster_infos \<Rightarrow> u64 \<Rightarrow> chain \<Rightarrow> chain res" where
  "paymaster_withdraw rt A lamports c =
     and_then (require (0 < lamports) (Base ZeroAmount)) (\<lambda>_.
     let min_pm = min_balance rt paymaster_SPACE in
     and_then (require_debit (Base InsufficientPaymaster) min_pm
       (key (wpm_paymaster A)) (key (wpm_root A)) lamports c) (\<lambda>c.
     Inr (emit (Vault_event (PaymasterWithdrawn (key (wpm_paymaster A))
            (key (wpm_grok_account A)) (key (wpm_root A)) lamports)) c)))"

definition withdraw_paymaster ::
  "runtime \<Rightarrow> withdraw_paymaster_infos \<Rightarrow> u64 \<Rightarrow> chain \<Rightarrow> chain res" where
  "withdraw_paymaster rt A lamports c =
     and_then (withdraw_paymaster_accounts rt A c) (\<lambda>_. paymaster_withdraw rt A lamports c)"

text \<open>\<open>SetRelayer\<close>, \<open>PausePaymaster\<close> and \<open>UnpausePaymaster\<close> declare the same three accounts.\<close>

record manage_paymaster_infos =
  mpm_root :: account_info
  mpm_grok_account :: account_info
  mpm_paymaster :: account_info

definition manage_paymaster_accounts ::
  "runtime \<Rightarrow> manage_paymaster_infos \<Rightarrow> chain \<Rightarrow> paymaster res" where
  "manage_paymaster_accounts rt A c =
     and_then (signer (mpm_root A)) (\<lambda>_.
     and_then (load_grok_account rt c (key (mpm_grok_account A))) (\<lambda>ga.
     and_then (load_paymaster c (key (mpm_paymaster A))) (\<lambda>pm.
     and_then (grok_of_root rt (mpm_grok_account A) ga (mpm_root A)) (\<lambda>_.
     and_then (paymaster_constraints rt (mpm_paymaster A) (key (mpm_grok_account A))
       (key (mpm_root A)) pm) (\<lambda>_.
     Inr pm)))))"

definition set_relayer :: "runtime \<Rightarrow> manage_paymaster_infos \<Rightarrow> pubkey \<Rightarrow> chain \<Rightarrow> chain res" where
  "set_relayer rt A relayer c =
     and_then (manage_paymaster_accounts rt A c) (\<lambda>pm.
     let pm = pm\<lparr>pm_relayer := relayer\<rparr>;
         c = emit (Vault_event (RelayerSet (key (mpm_paymaster A)) (key (mpm_grok_account A))
               (key (mpm_root A)) relayer)) c
     in store_paymaster pm (key (mpm_paymaster A)) c)"

definition pause_paymaster :: "runtime \<Rightarrow> manage_paymaster_infos \<Rightarrow> chain \<Rightarrow> chain res" where
  "pause_paymaster rt A c =
     and_then (manage_paymaster_accounts rt A c) (\<lambda>pm.
     let pm = pm\<lparr>pm_paused := True\<rparr>;
         c = emit (Vault_event (PaymasterPaused_event (key (mpm_paymaster A))
               (key (mpm_grok_account A)) (key (mpm_root A)))) c
     in store_paymaster pm (key (mpm_paymaster A)) c)"

definition unpause_paymaster :: "runtime \<Rightarrow> manage_paymaster_infos \<Rightarrow> chain \<Rightarrow> chain res" where
  "unpause_paymaster rt A c =
     and_then (manage_paymaster_accounts rt A c) (\<lambda>pm.
     let pm = pm\<lparr>pm_paused := False\<rparr>;
         c = emit (Vault_event (PaymasterUnpaused (key (mpm_paymaster A))
               (key (mpm_grok_account A)) (key (mpm_root A)))) c
     in store_paymaster pm (key (mpm_paymaster A)) c)"

section \<open>What the operations have checked and done\<close>

lemma withdraw_spend_vaultE:
  assumes "withdraw_spend_vault rt A lamports c = Inr d"
  obtains ga sv e where
    "is_signer (wsv_root A)" "load_grok_account rt c (key (wsv_grok_account A)) = Inr ga"
    "load_spend_vault c (key (wsv_spend_vault A)) = Inr sv" "ga_root ga = key (wsv_root A)"
    "sv_root sv = key (wsv_root A)" "sv_grok_account sv = key (wsv_grok_account A)"
    "0 < lamports"
    "require_debit (Base InsufficientSpendVault) (min_balance rt spend_vault_SPACE)
       (key (wsv_spend_vault A)) (key (wsv_root A)) lamports c = Inr e"
    "d = emit (Vault_event (SpendVaultWithdrawn (key (wsv_spend_vault A))
       (key (wsv_grok_account A)) (key (wsv_root A)) lamports)) e"
  using assms
  by (auto simp: withdraw_spend_vault_def withdraw_spend_vault_accounts_def spend_vault_withdraw_def
      and_then_eq_Inr account_checks_eq_Inr blocks_eq_Inr require_eq_Inr Let_def)

lemma fund_spend_vaultE:
  assumes "fund_spend_vault rt A lamports c = Inr d"
  obtains ga sv e where
    "is_signer (fsv_root A)" "load_grok_account rt c (key (fsv_grok_account A)) = Inr ga"
    "load_spend_vault c (key (fsv_spend_vault A)) = Inr sv" "ga_root ga = key (fsv_root A)"
    "sv_root sv = key (fsv_root A)" "0 < lamports"
    "invoke rt (system_transfer (key (fsv_root A)) (key (fsv_spend_vault A)) lamports)
       [fsv_root A, fsv_spend_vault A, fsv_system_program A] c = Inr e"
    "d = emit (Vault_event (SpendVaultFunded (key (fsv_spend_vault A))
       (key (fsv_grok_account A)) (key (fsv_root A)) lamports)) e"
  using assms
  by (auto simp: fund_spend_vault_def fund_spend_vault_accounts_def spend_vault_fund_def
      and_then_eq_Inr account_checks_eq_Inr blocks_eq_Inr require_eq_Inr)

lemma transfer_balances:
  assumes "transfer_exact rt" and "invoke_signed rt (system_transfer src dst a) infos ss c = Inr d"
    and "src \<noteq> dst"
  shows "balance d k = balance c k + flow src dst a k"
    and "owner_of d k = owner_of c k" and "data_of d k = data_of c k"
proof -
  obtain m where m: "invoke_cpi rt (system_transfer src dst a) infos ss (accts c) = Inr m"
    and d: "d = c\<lparr>accts := m\<rparr>"
    using assms(2) by (auto simp: invoke_signed_eq_Inr)
  have t: "unat (acc_lamports (accts c src)) = unat (acc_lamports (m src)) + unat a"
      "m src = (accts c src)\<lparr>acc_lamports := acc_lamports (m src)\<rparr>"
      "unat (acc_lamports (m dst)) = unat (acc_lamports (accts c dst)) + unat a"
      "m dst = (accts c dst)\<lparr>acc_lamports := acc_lamports (m dst)\<rparr>"
      "\<And>k. k \<noteq> src \<Longrightarrow> k \<noteq> dst \<Longrightarrow> m k = accts c k"
    using assms(1) [unfolded transfer_exact_def, rule_format, OF assms(3) m] by blast+
  consider "k = src" | "k = dst" | "k \<noteq> src" "k \<noteq> dst"
    by blast
  then show "balance d k = balance c k + flow src dst a k"
    using t(1,3) t(5) [of k] assms(3)
    by cases (auto simp: balance_def lamports_of_def d flow_def simp del: of_nat_unat)
  have "acc_owner (m k) = acc_owner (accts c k) \<and> acc_data (m k) = acc_data (accts c k)"
    using t(5) [of k] arg_cong [OF t(2), of acc_owner] arg_cong [OF t(2), of acc_data]
      arg_cong [OF t(4), of acc_owner] arg_cong [OF t(4), of acc_data]
    by (cases "k = src"; cases "k = dst") simp_all
  then show "owner_of d k = owner_of c k" and "data_of d k = data_of c k"
    by (simp_all add: owner_of_def data_of_def d)
qed

lemma init_accountE:
  assumes "init_fresh rt" and "init_account rt payer space ss ai c = Inr (bump, d)"
  obtains "find_program_address rt ss INTENTS_ID = (key ai, bump)"
    "owner_of c (key ai) = SYSTEM_PROGRAM_ID" "owner_of d (key ai) = INTENTS_ID"
    "data_of d (key ai) = replicate space 0" "min_balance rt space \<le> lamports_of d (key ai)"
    "\<And>k. k \<noteq> key ai \<Longrightarrow> k \<noteq> key payer \<Longrightarrow> accts d k = accts c k"
    "\<And>k. k \<noteq> key ai \<Longrightarrow> owner_of d k = owner_of c k \<and> data_of d k = data_of c k"
    "events d = events c"
proof -
  obtain m where f: "find_program_address rt ss INTENTS_ID = (key ai, bump)"
    and m: "init_pda rt (key payer) (key ai) space (ss @ [[bump]]) (accts c) = Inr m"
    and d: "d = c\<lparr>accts := m\<rparr>"
    using assms(2) by (auto simp: init_account_eq_Inr create_pda_account_eq_Inr)
  have i: "acc_owner (accts c (key ai)) = SYSTEM_PROGRAM_ID"
    "acc_owner (m (key ai)) = INTENTS_ID" "acc_data (m (key ai)) = replicate space 0"
    "min_balance rt space \<le> acc_lamports (m (key ai))"
    "\<And>k. k \<noteq> key ai \<Longrightarrow> k \<noteq> key payer \<Longrightarrow> m k = accts c k"
    "acc_owner (m (key payer)) = acc_owner (accts c (key payer))"
    "acc_data (m (key payer)) = acc_data (accts c (key payer))"
    using assms(1) [unfolded init_fresh_def, rule_format, OF m] by blast+
  show ?thesis
  proof (rule that [OF f])
    show "owner_of d k = owner_of c k \<and> data_of d k = data_of c k" if "k \<noteq> key ai" for k
      using i(5) [OF that] i(6,7) by (cases "k = key payer") (simp_all add: d owner_of_def data_of_def)
  qed (use i in \<open>simp_all add: d owner_of_def data_of_def lamports_of_def\<close>)
qed

text \<open>A first store into an account \<open>init\<close> has just made is what the next load returns.\<close>

context account_codec begin

lemma first_store_loads:
  assumes "store_typed (try_serialize disc enc) x k c = Inr d" and "owner_of c k = INTENTS_ID"
    and "valid x"
  shows "load_typed INTENTS_ID (try_deserialize disc dec) d k = Inr x"
  using assms by (auto simp: store_typed_def res_simps intro: serialize_then_deserialize)

end

section \<open>Properties\<close>

text \<open>C24: Only the root that the GrokAccount and the vault name, signing, can withdraw; the vault
  pays the root exactly the amount and keeps its rent reserve, and nothing else changes.\<close>

theorem withdraw_spend_vault_effect:
  assumes "withdraw_spend_vault rt A lamports c = Inr d" and "key (wsv_spend_vault A) \<noteq> key (wsv_root A)"
  shows "is_signer (wsv_root A)
    \<and> (\<exists>ga sv. load_grok_account rt c (key (wsv_grok_account A)) = Inr ga
         \<and> load_spend_vault c (key (wsv_spend_vault A)) = Inr sv
         \<and> ga_root ga = key (wsv_root A) \<and> sv_root sv = key (wsv_root A)
         \<and> sv_grok_account sv = key (wsv_grok_account A))
    \<and> (\<forall>k. balance d k = balance c k + flow (key (wsv_spend_vault A)) (key (wsv_root A)) lamports k)
    \<and> min_balance rt spend_vault_SPACE \<le> lamports_of d (key (wsv_spend_vault A))
    \<and> (\<forall>k. owner_of d k = owner_of c k \<and> data_of d k = data_of c k)"
proof -
  obtain ga sv e where "is_signer (wsv_root A)"
    "load_grok_account rt c (key (wsv_grok_account A)) = Inr ga"
    "load_spend_vault c (key (wsv_spend_vault A)) = Inr sv" "ga_root ga = key (wsv_root A)"
    "sv_root sv = key (wsv_root A)" "sv_grok_account sv = key (wsv_grok_account A)"
    and mv: "require_debit (Base InsufficientSpendVault) (min_balance rt spend_vault_SPACE)
       (key (wsv_spend_vault A)) (key (wsv_root A)) lamports c = Inr e"
    and d: "d = emit (Vault_event (SpendVaultWithdrawn (key (wsv_spend_vault A))
       (key (wsv_grok_account A)) (key (wsv_root A)) lamports)) e"
    by (rule withdraw_spend_vaultE [OF assms(1)])
  then show ?thesis
    using debit.balances [OF mv assms(2)] debit.src_after(2) [OF mv assms(2)] debit.frame(2,3) [OF mv]
    by (simp add: d word_le_nat_alt)
qed

definition demo_withdraw_infos :: withdraw_spend_vault_infos where
  "demo_withdraw_infos =
     \<lparr>wsv_root = info k_root True True, wsv_grok_account = info k_grok False False,
      wsv_spend_vault = info k_vault False True\<rparr>"

lemmas root_defs = signer_def writable_def program_def seeds_bump_def grok_seeds_def grok_of_root_def
  vault_seeds_def vault_constraints_def paymaster_constraints_def demo_vault_def demo_paymaster_def
  require_debit_def try_debit_cases demo_rent_def spend_vault_SPACE_def paymaster_SPACE_def

lemma demo_withdraw_ok: "\<exists>d. withdraw_spend_vault demo_rt demo_withdraw_infos 6000 demo_chain = Inr d"
  by (simp add: withdraw_spend_vault_def withdraw_spend_vault_accounts_def spend_vault_withdraw_def
      demo_withdraw_infos_def root_defs lamports_of_def)

lemma withdraw_spend_vault_effect_witness:
  "\<exists>d. withdraw_spend_vault demo_rt demo_withdraw_infos 6000 demo_chain = Inr d
     \<and> balance d k_vault = 64000 \<and> balance d k_root = 906000"
proof -
  obtain d where d: "withdraw_spend_vault demo_rt demo_withdraw_infos 6000 demo_chain = Inr d"
    using demo_withdraw_ok by blast
  from withdraw_spend_vault_effect [OF d]
  have "\<forall>k. balance d k = balance demo_chain k + flow k_vault k_root 6000 k"
    by (simp add: demo_withdraw_infos_def)
  with d show ?thesis
    by (auto simp: balance_def lamports_of_def flow_def)
qed

text \<open>Funding moves exactly the amount from the root, who signs, into the vault, given that a
  System transfer moves what it says.\<close>

theorem fund_spend_vault_effect:
  assumes "transfer_exact rt" and "fund_spend_vault rt A lamports c = Inr d"
    and "key (fsv_root A) \<noteq> key (fsv_spend_vault A)"
  shows "is_signer (fsv_root A) \<and> 0 < lamports
    \<and> (\<forall>k. balance d k = balance c k + flow (key (fsv_root A)) (key (fsv_spend_vault A)) lamports k)
    \<and> (\<forall>k. owner_of d k = owner_of c k \<and> data_of d k = data_of c k)
    \<and> events d = events c @ [Vault_event (SpendVaultFunded (key (fsv_spend_vault A))
         (key (fsv_grok_account A)) (key (fsv_root A)) lamports)]"
proof -
  obtain e where "is_signer (fsv_root A)" "0 < lamports"
    and t: "invoke_signed rt (system_transfer (key (fsv_root A)) (key (fsv_spend_vault A)) lamports)
       [fsv_root A, fsv_spend_vault A, fsv_system_program A] [] c = Inr e"
    and d: "d = emit (Vault_event (SpendVaultFunded (key (fsv_spend_vault A))
       (key (fsv_grok_account A)) (key (fsv_root A)) lamports)) e"
    by (rule fund_spend_vaultE [OF assms(2)]) (simp add: invoke_def)
  then show ?thesis
    using transfer_balances [OF assms(1) t assms(3)] invoke_signed_events [OF t] by (simp add: d)
qed

definition demo_fund_infos :: fund_spend_vault_infos where
  "demo_fund_infos =
     \<lparr>fsv_root = info k_root True True, fsv_grok_account = info k_grok False False,
      fsv_spend_vault = info k_vault False True,
      fsv_system_program = info SYSTEM_PROGRAM_ID False False\<rparr>"

lemma demo_fund_ok: "\<exists>d. fund_spend_vault demo_rt demo_fund_infos 6000 demo_chain = Inr d"
  by (simp add: fund_spend_vault_def fund_spend_vault_accounts_def spend_vault_fund_def
      demo_fund_infos_def root_defs invoke_def invoke_signed_def demo_cpi_def demo_system_def
      system_transfer_def meta_new_def core_not_system [symmetric])

lemma fund_spend_vault_effect_witness:
  "\<exists>d. fund_spend_vault demo_rt demo_fund_infos 6000 demo_chain = Inr d
     \<and> balance d k_vault = 76000 \<and> balance d k_root = 894000"
proof -
  obtain d where d: "fund_spend_vault demo_rt demo_fund_infos 6000 demo_chain = Inr d"
    using demo_fund_ok by blast
  from fund_spend_vault_effect [OF demo_transfer_exact d]
  have "\<forall>k. balance d k = balance demo_chain k + flow k_root k_vault 6000 k"
    by (simp add: demo_fund_infos_def)
  with d show ?thesis
    by (auto simp: balance_def lamports_of_def flow_def)
qed

text \<open>Initialisation needs a signing root that the GrokAccount names and an address the System
  Program still owns, so a vault is initialised once; afterwards the account at the canonical
  address decodes to the vault of that GrokAccount and root with the canonical bump, and holds
  its rent.\<close>

theorem init_spend_vault_effect:
  assumes "init_fresh rt" and "init_spend_vault rt A c = Inr d"
  shows "is_signer (isv_root A)
    \<and> (\<exists>ga. load_grok_account rt c (key (isv_grok_account A)) = Inr ga \<and> ga_root ga = key (isv_root A))
    \<and> owner_of c (key (isv_spend_vault A)) = SYSTEM_PROGRAM_ID
    \<and> (\<exists>bump. find_program_address rt [SEED_SPEND_VAULT, pubkey_bytes (key (isv_grok_account A))] INTENTS_ID
            = (key (isv_spend_vault A), bump)
         \<and> load_spend_vault d (key (isv_spend_vault A))
            = Inr \<lparr>sv_grok_account = key (isv_grok_account A), sv_root = key (isv_root A), sv_bump = bump\<rparr>)
    \<and> min_balance rt spend_vault_SPACE \<le> lamports_of d (key (isv_spend_vault A))
    \<and> (\<forall>k. k \<noteq> key (isv_spend_vault A) \<longrightarrow> owner_of d k = owner_of c k \<and> data_of d k = data_of c k)"
proof -
  let ?v = "key (isv_spend_vault A)"
  obtain ga bump c1 where sg: "is_signer (isv_root A)"
    and ga: "load_grok_account rt c (key (isv_grok_account A)) = Inr ga" "ga_root ga = key (isv_root A)"
    and init: "init_account rt (isv_root A) spend_vault_SPACE
       [SEED_SPEND_VAULT, pubkey_bytes (key (isv_grok_account A))] (isv_spend_vault A) c = Inr (bump, c1)"
    and st: "spend_vault_init A bump c1 = Inr d"
    using assms(2)
    by (auto simp: init_spend_vault_def init_spend_vault_accounts_def and_then_eq_Inr
        account_checks_eq_Inr blocks_eq_Inr)
  let ?sv = "\<lparr>sv_grok_account = key (isv_grok_account A), sv_root = key (isv_root A), sv_bump = bump\<rparr>"
  let ?c2 = "emit (Vault_event (SpendVaultInitialized ?v (key (isv_grok_account A)) (key (isv_root A)))) c1"
  have st': "store_spend_vault ?sv ?v ?c2 = Inr d"
    using st by (simp add: spend_vault_init_def Let_def)
  show ?thesis
  proof (rule init_accountE [OF assms(1) init])
    assume f: "find_program_address rt [SEED_SPEND_VAULT, pubkey_bytes (key (isv_grok_account A))] INTENTS_ID
        = (?v, bump)"
      and own: "owner_of c ?v = SYSTEM_PROGRAM_ID" "owner_of c1 ?v = INTENTS_ID"
      and rent: "min_balance rt spend_vault_SPACE \<le> lamports_of c1 ?v"
      and frame: "\<And>k. k \<noteq> ?v \<Longrightarrow> owner_of c1 k = owner_of c k \<and> data_of c1 k = data_of c k"
    have "load_spend_vault d ?v = Inr ?sv"
      by (rule sv_account.first_store_loads [OF st']) (simp_all add: own)
    moreover have "owner_of d k = owner_of c k \<and> data_of d k = data_of c k" if "k \<noteq> ?v" for k
    proof -
      have "accts d k = accts c1 k"
        using sv_account.acct.store_frame [OF st', of k] that by simp
      then show ?thesis
        using frame [OF that] by (simp add: owner_of_def data_of_def)
    qed
    ultimately show ?thesis
      using sg ga f own rent sv_account.acct.store_lamports [OF st', of ?v] by simp
  qed
qed

definition demo_init_infos :: init_spend_vault_infos where
  "demo_init_infos =
     \<lparr>isv_root = info k_root True True, isv_grok_account = info k_grok False False,
      isv_spend_vault = info k_vault False True,
      isv_system_program = info SYSTEM_PROGRAM_ID False False\<rparr>"

text \<open>The ledger before the vault exists.\<close>

definition demo_bare :: chain where
  "demo_bare = demo_chain\<lparr>accts := (accts demo_chain)(k_vault := demo_account 0 SYSTEM_PROGRAM_ID [])\<rparr>"

lemma demo_bare_accts [simp]:
  "accts demo_bare k_root = demo_account 900000 SYSTEM_PROGRAM_ID []"
  "accts demo_bare k_grok = demo_account 300 CORE_ID []"
  "accts demo_bare k_vault = demo_account 0 SYSTEM_PROGRAM_ID []"
  "accts demo_bare SYSTEM_PROGRAM_ID = demo_program"
proof -
  have "k_vault \<noteq> SYSTEM_PROGRAM_ID"
    by (simp add: key_simps)
  then show "accts demo_bare SYSTEM_PROGRAM_ID = demo_program"
    by (simp add: demo_bare_def)
qed (simp_all add: demo_bare_def)

lemma demo_bare_loads [simp]:
  "load_grok_account demo_rt demo_bare k_grok = Inr \<lparr>ga_root = k_root, ga_bump = 255\<rparr>"
  by (simp add: load_grok_account_def res_simps owner_of_def)

lemma vault_lengths: "length sv_disc = 8" "length (enc_spend_vault x) = 65"
  using sv_codec.enc_length [of x] by (simp_all add: sv_disc_def spend_vault_SPACE_def)

lemma demo_init_ok: "\<exists>d. init_spend_vault demo_rt demo_init_infos demo_bare = Inr d"
  by (simp add: init_spend_vault_def init_spend_vault_accounts_def init_account_def
      create_pda_account_def demo_init_def seeds_canonical_def demo_init_infos_def root_defs
      spend_vault_init_def store_typed_def try_serialize_def vault_lengths data_of_def Let_def)

lemma init_spend_vault_effect_witness:
  "\<exists>d. init_spend_vault demo_rt demo_init_infos demo_bare = Inr d
     \<and> load_spend_vault d k_vault = Inr demo_vault"
proof -
  obtain d where d: "init_spend_vault demo_rt demo_init_infos demo_bare = Inr d"
    using demo_init_ok by blast
  from init_spend_vault_effect [OF demo_init_fresh d] d show ?thesis
    by (simp add: demo_init_infos_def demo_vault_def)
qed

lemma manage_paymaster_accounts_eq_Inr [res_simps]:
  "manage_paymaster_accounts rt A c = Inr pm \<longleftrightarrow>
   is_signer (mpm_root A)
   \<and> (\<exists>ga. load_grok_account rt c (key (mpm_grok_account A)) = Inr ga
        \<and> grok_of_root rt (mpm_grok_account A) ga (mpm_root A) = Inr ())
   \<and> load_paymaster c (key (mpm_paymaster A)) = Inr pm
   \<and> paymaster_constraints rt (mpm_paymaster A) (key (mpm_grok_account A)) (key (mpm_root A)) pm = Inr ()"
  by (auto simp: manage_paymaster_accounts_def and_then_eq_Inr account_checks_eq_Inr)

text \<open>Each management operation rewrites one field of the paymaster and nothing else.\<close>

lemma paymaster_rewrite:
  assumes "load_paymaster c k = Inr pm" and "store_paymaster pm' k (emit e c) = Inr d"
  shows "load_paymaster d k = Inr pm'" and "j \<noteq> k \<Longrightarrow> accts d j = accts c j"
    and "lamports_of d j = lamports_of c j" and "owner_of d j = owner_of c j"
proof -
  have "load_paymaster (emit e c) k = Inr pm"
    using assms(1) by simp
  then show "load_paymaster d k = Inr pm'"
    by (rule pm_account.acct.load_store) (simp_all add: assms(2))
  show "j \<noteq> k \<Longrightarrow> accts d j = accts c j" and "lamports_of d j = lamports_of c j"
    and "owner_of d j = owner_of c j"
    using pm_account.acct.store_frame [OF assms(2), of j] by simp_all
qed

text \<open>The root's three switches change exactly their field: after \<open>set_relayer\<close>,
  \<open>pause_paymaster\<close> or \<open>unpause_paymaster\<close> the paymaster decodes to its old state with the relayer
  or the pause flag replaced, its balance is the same, every other account is untouched, and
  only a signing root it names could do it.\<close>

theorem paymaster_switches:
  "(set_relayer rt A relayer c = Inr d \<longrightarrow>
      (\<exists>pm. is_signer (mpm_root A) \<and> load_paymaster c (key (mpm_paymaster A)) = Inr pm
         \<and> pm_root pm = key (mpm_root A)
         \<and> load_paymaster d (key (mpm_paymaster A)) = Inr (pm\<lparr>pm_relayer := relayer\<rparr>)
         \<and> lamports_of d (key (mpm_paymaster A)) = lamports_of c (key (mpm_paymaster A))
         \<and> (\<forall>k. k \<noteq> key (mpm_paymaster A) \<longrightarrow> accts d k = accts c k)))
   \<and> (pause_paymaster rt A c = Inr d \<longrightarrow>
      (\<exists>pm. is_signer (mpm_root A) \<and> load_paymaster c (key (mpm_paymaster A)) = Inr pm
         \<and> pm_root pm = key (mpm_root A)
         \<and> load_paymaster d (key (mpm_paymaster A)) = Inr (pm\<lparr>pm_paused := True\<rparr>)
         \<and> lamports_of d (key (mpm_paymaster A)) = lamports_of c (key (mpm_paymaster A))
         \<and> (\<forall>k. k \<noteq> key (mpm_paymaster A) \<longrightarrow> accts d k = accts c k)))
   \<and> (unpause_paymaster rt A c = Inr d \<longrightarrow>
      (\<exists>pm. is_signer (mpm_root A) \<and> load_paymaster c (key (mpm_paymaster A)) = Inr pm
         \<and> pm_root pm = key (mpm_root A)
         \<and> load_paymaster d (key (mpm_paymaster A)) = Inr (pm\<lparr>pm_paused := False\<rparr>)
         \<and> lamports_of d (key (mpm_paymaster A)) = lamports_of c (key (mpm_paymaster A))
         \<and> (\<forall>k. k \<noteq> key (mpm_paymaster A) \<longrightarrow> accts d k = accts c k)))"
proof -
  have step: "\<exists>pm. is_signer (mpm_root A) \<and> load_paymaster c (key (mpm_paymaster A)) = Inr pm
         \<and> pm_root pm = key (mpm_root A)
         \<and> load_paymaster d (key (mpm_paymaster A)) = Inr (f pm)
         \<and> lamports_of d (key (mpm_paymaster A)) = lamports_of c (key (mpm_paymaster A))
         \<and> (\<forall>k. k \<noteq> key (mpm_paymaster A) \<longrightarrow> accts d k = accts c k)"
    if run: "and_then (manage_paymaster_accounts rt A c)
          (\<lambda>pm. store_paymaster (f pm) (key (mpm_paymaster A)) (emit e c)) = Inr d" for f e
  proof -
    obtain pm where pm: "manage_paymaster_accounts rt A c = Inr pm"
      and st: "store_paymaster (f pm) (key (mpm_paymaster A)) (emit e c) = Inr d"
      using run by (auto simp: and_then_eq_Inr)
    have load: "load_paymaster c (key (mpm_paymaster A)) = Inr pm"
      and "is_signer (mpm_root A)" "pm_root pm = key (mpm_root A)"
      using pm unfolding manage_paymaster_accounts_eq_Inr blocks_eq_Inr by blast+
    then show ?thesis
      using paymaster_rewrite [OF load st] by blast
  qed
  show ?thesis
    unfolding set_relayer_def pause_paymaster_def unpause_paymaster_def Let_def
    by (intro conjI impI; rule step)
qed

definition demo_manage_infos :: manage_paymaster_infos where
  "demo_manage_infos =
     \<lparr>mpm_root = info k_root True True, mpm_grok_account = info k_grok False False,
      mpm_paymaster = info k_paymaster False True\<rparr>"

lemma demo_manage_ok:
  "manage_paymaster_accounts demo_rt demo_manage_infos demo_chain = Inr demo_paymaster"
  by (simp add: manage_paymaster_accounts_def demo_manage_infos_def root_defs)

lemma paymaster_lengths: "length pm_disc = 8" "length (enc_paymaster x) = 98"
  using pm_codec.enc_length [of x] by (simp_all add: pm_disc_def paymaster_SPACE_def)

lemma demo_pause_ok: "\<exists>d. pause_paymaster demo_rt demo_manage_infos demo_chain = Inr d"
  by (simp add: pause_paymaster_def demo_manage_ok [unfolded demo_manage_infos_def] store_typed_def try_serialize_def
      paymaster_lengths data_of_def demo_manage_infos_def Let_def)

lemma paymaster_switches_witness:
  "\<exists>d. pause_paymaster demo_rt demo_manage_infos demo_chain = Inr d
     \<and> load_paymaster d k_paymaster = Inr (demo_paymaster\<lparr>pm_paused := True\<rparr>)"
proof -
  obtain d where d: "pause_paymaster demo_rt demo_manage_infos demo_chain = Inr d"
    using demo_pause_ok by blast
  from paymaster_switches [of demo_rt demo_manage_infos _ demo_chain d] d show ?thesis
    by (auto simp: demo_manage_infos_def)
qed

end
