(* ===== verification/Sub_Grants.thy ===== *)
theory Sub_Grants imports Vaults begin

text \<open>
  \<open>instructions/sub_grant.rs\<close>: delegated authority. Issuing attenuates against the CORE grant
  or the parent sub-grant, revising narrows, revoking marks one node; \<open>walk_and_meter\<close>
  validates a leaf-to-root chain and \<open>commit_meter\<close> adds the amount to every node. No
  instruction of the program calls the last two yet.
\<close>

definition MAX_SUB_DEPTH :: u8 where
  "MAX_SUB_DEPTH = 3"

section \<open>issue\<close>

record issue_sub_grant_infos =
  isg_issuer :: account_info
  isg_payer :: account_info
  isg_grok_account :: account_info
  isg_grant :: account_info
  isg_parent :: "account_info option"
  isg_sub_grant :: account_info
  isg_system_program :: account_info

definition load_parent_opt ::
  "chain \<Rightarrow> account_info option \<Rightarrow> (account_info \<times> sub_grant) option res" where
  "load_parent_opt c opt =
     (case opt of
        None \<Rightarrow> Inr None
      | Some ai \<Rightarrow> and_then (load_sub_grant c (key ai)) (\<lambda>sg. Inr (Some (ai, sg))))"

definition issue_sub_grant_accounts ::
  "runtime \<Rightarrow> issue_sub_grant_infos \<Rightarrow> pubkey \<Rightarrow> chain
   \<Rightarrow> (grant \<times> (account_info \<times> sub_grant) option \<times> u8 \<times> chain) res" where
  "issue_sub_grant_accounts rt A agent c =
     and_then (signer (isg_issuer A)) (\<lambda>_.
     and_then (signer (isg_payer A)) (\<lambda>_.
     and_then (load_grok_account rt c (key (isg_grok_account A))) (\<lambda>ga.
     and_then (load_grant rt c (key (isg_grant A))) (\<lambda>gr.
     and_then (load_parent_opt c (isg_parent A)) (\<lambda>parent.
     and_then (program c (isg_system_program A) SYSTEM_PROGRAM_ID) (\<lambda>_.
     and_then (init_account rt (isg_payer A) sub_grant_SPACE
       [SEED_SUB_GRANT, pubkey_bytes (key (isg_grok_account A)), pubkey_bytes agent]
       (isg_sub_grant A) c) (\<lambda>(bump, c).
     and_then (writable (isg_payer A)) (\<lambda>_.
     and_then (seeds_canonical rt [SEED_GROK_ACCOUNT, pubkey_bytes (ga_root ga)] CORE_ID
       (isg_grok_account A)) (\<lambda>_.
     and_then (seeds_canonical rt [SEED_GRANT, pubkey_bytes (key (isg_grok_account A)),
       pubkey_bytes (gr_agent gr)] CORE_ID (isg_grant A)) (\<lambda>_.
     and_then (require (gr_grok_account gr = key (isg_grok_account A)) (Base GrokAccountMismatch)) (\<lambda>_.
     Inr (gr, parent, bump, c))))))))))))"

text \<open>Depth, parent key, headroom and expiry limit of what the issuer holds.\<close>

definition issuer_authority ::
  "runtime \<Rightarrow> pubkey \<Rightarrow> grant \<Rightarrow> (account_info \<times> sub_grant) option
   \<Rightarrow> (u8 \<times> pubkey \<times> u64 \<times> i64) res" where
  "issuer_authority rt issuer core parent_opt =
     (case parent_opt of
        Some (ai, parent) \<Rightarrow>
          and_then (require (sg_agent parent = issuer) (Sub SubGrantNotIssuer)) (\<lambda>_.
          and_then (require (\<not> sg_revoked parent) (Sub SubGrantParentRevoked)) (\<lambda>_.
          and_then (require (sint (unix_now rt) < sint (sg_expires_at parent)) (Sub SubGrantParentExpired)) (\<lambda>_.
          and_then (require (sg_depth parent < MAX_SUB_DEPTH) (Sub SubGrantTooDeep)) (\<lambda>_.
          Inr (sg_depth parent + 1, key ai, saturating_sub (sg_cap parent) (sg_spent parent),
               sg_expires_at parent)))))
      | None \<Rightarrow>
          and_then (require (gr_agent core = issuer) (Sub SubGrantNotIssuer)) (\<lambda>_.
          Inr (1, DEFAULT_PUBKEY, saturating_sub (gr_spend_cap_lamports core) (gr_spent_lamports core),
               gr_expires_at_unix core)))"

definition sub_grant_issue ::
  "runtime \<Rightarrow> issue_sub_grant_infos \<Rightarrow> pubkey \<Rightarrow> u64 \<Rightarrow> i64 \<Rightarrow> grant
   \<Rightarrow> (account_info \<times> sub_grant) option \<Rightarrow> u8 \<Rightarrow> chain \<Rightarrow> chain res" where
  "sub_grant_issue rt A agent cap expires_at_unix core parent bump c =
     and_then (require (0 < cap) (Base ZeroAmount)) (\<lambda>_.
     and_then (require (agent \<noteq> key (isg_issuer A)) (Sub SubGrantSelfIssue)) (\<lambda>_.
     let now = unix_now rt in
     and_then (require (sint now < sint expires_at_unix) (Sub SubGrantExpiryInPast)) (\<lambda>_.
     and_then (require (\<not> gr_revoked core) (Sub SubGrantParentRevoked)) (\<lambda>_.
     and_then (require (sint now < sint (gr_expires_at_unix core)) (Sub SubGrantParentExpired)) (\<lambda>_.
     and_then (issuer_authority rt (key (isg_issuer A)) core parent)
       (\<lambda>(depth, parent_key, headroom, parent_expiry).
     and_then (require (cap \<le> headroom) (Sub SubGrantExceedsParent)) (\<lambda>_.
     and_then (require (sint expires_at_unix \<le> sint parent_expiry) (Sub SubGrantOutlivesParent)) (\<lambda>_.
     let sg = \<lparr>sg_grok_account = key (isg_grok_account A), sg_parent = parent_key,
               sg_issuer = key (isg_issuer A), sg_agent = agent, sg_cap = cap, sg_spent = 0,
               sg_expires_at = expires_at_unix, sg_revoked = False, sg_depth = depth,
               sg_generation = 1, sg_bump = bump\<rparr>;
         c = emit (Sub_event (SubGrantIssued (sg_grok_account sg) parent_key (sg_issuer sg) agent cap
               expires_at_unix depth (sg_generation sg))) c
     in store_sub_grant sg (key (isg_sub_grant A)) c))))))))"

definition issue_sub_grant ::
  "runtime \<Rightarrow> issue_sub_grant_infos \<Rightarrow> pubkey \<Rightarrow> u64 \<Rightarrow> i64 \<Rightarrow> chain \<Rightarrow> chain res" where
  "issue_sub_grant rt A agent cap expires_at_unix c =
     and_then (issue_sub_grant_accounts rt A agent c) (\<lambda>(core, parent, bump, c).
     sub_grant_issue rt A agent cap expires_at_unix core parent bump c)"

section \<open>revise and revoke\<close>

record manage_sub_grant_infos =
  msg_authority :: account_info
  msg_grok_account :: account_info
  msg_sub_grant :: account_info

definition manage_sub_grant_accounts ::
  "runtime \<Rightarrow> manage_sub_grant_infos \<Rightarrow> chain \<Rightarrow> sub_grant res" where
  "manage_sub_grant_accounts rt A c =
     and_then (signer (msg_authority A)) (\<lambda>_.
     and_then (load_grok_account rt c (key (msg_grok_account A))) (\<lambda>ga.
     and_then (load_sub_grant c (key (msg_sub_grant A))) (\<lambda>sg.
     and_then (seeds_canonical rt [SEED_GROK_ACCOUNT, pubkey_bytes (ga_root ga)] CORE_ID
       (msg_grok_account A)) (\<lambda>_.
     and_then (seeds_bump rt [SEED_SUB_GRANT, pubkey_bytes (key (msg_grok_account A)),
       pubkey_bytes (sg_agent sg)] (sg_bump sg) INTENTS_ID (msg_sub_grant A)) (\<lambda>_.
     and_then (writable (msg_sub_grant A)) (\<lambda>_.
     and_then (require (sg_grok_account sg = key (msg_grok_account A)) (Base GrokAccountMismatch)) (\<lambda>_.
     and_then (require (sg_issuer sg = key (msg_authority A) \<or> ga_root ga = key (msg_authority A))
       (Sub SubGrantNotIssuer)) (\<lambda>_.
     Inr sg))))))))"

definition sub_grant_revise :: "u64 \<Rightarrow> i64 \<Rightarrow> sub_grant \<Rightarrow> sub_grant res" where
  "sub_grant_revise cap expires_at_unix sg =
     and_then (require (cap \<le> sg_cap sg) (Sub SubGrantCannotWiden)) (\<lambda>_.
     and_then (require (sg_spent sg \<le> cap) (Sub SubGrantCapBelowSpent)) (\<lambda>_.
     and_then (require (sint expires_at_unix \<le> sint (sg_expires_at sg)) (Sub SubGrantCannotWiden)) (\<lambda>_.
     Inr (sg\<lparr>sg_cap := cap, sg_expires_at := expires_at_unix\<rparr>))))"

definition revise_sub_grant ::
  "runtime \<Rightarrow> manage_sub_grant_infos \<Rightarrow> u64 \<Rightarrow> i64 \<Rightarrow> chain \<Rightarrow> chain res" where
  "revise_sub_grant rt A cap expires_at_unix c =
     and_then (manage_sub_grant_accounts rt A c) (\<lambda>sg.
     and_then (sub_grant_revise cap expires_at_unix sg) (\<lambda>sg.
     let c = emit (Sub_event (SubGrantRevised (sg_grok_account sg) (sg_agent sg) cap expires_at_unix
               (sg_spent sg))) c
     in store_sub_grant sg (key (msg_sub_grant A)) c))"

definition sub_grant_revoke :: "sub_grant \<Rightarrow> sub_grant res" where
  "sub_grant_revoke sg =
     and_then (require (\<not> sg_revoked sg) (Sub SubGrantAlreadyRevoked)) (\<lambda>_.
     Inr (sg\<lparr>sg_revoked := True, sg_generation := saturating_add (sg_generation sg) 1\<rparr>))"

definition revoke_sub_grant :: "runtime \<Rightarrow> manage_sub_grant_infos \<Rightarrow> chain \<Rightarrow> chain res" where
  "revoke_sub_grant rt A c =
     and_then (manage_sub_grant_accounts rt A c) (\<lambda>sg.
     and_then (sub_grant_revoke sg) (\<lambda>sg.
     let c = emit (Sub_event (SubGrantRevoked_event (sg_grok_account sg) (sg_agent sg) (sg_spent sg)
               (sg_depth sg) (sg_generation sg))) c
     in store_sub_grant sg (key (msg_sub_grant A)) c))"

section \<open>Walking and metering a chain\<close>

text \<open>\<open>AccountLoaderChain\<close>: a decoded node with its address; its account info has that key.\<close>

record chain_node =
  cn_key :: pubkey
  cn_data :: sub_grant

definition check_node ::
  "chain_node list \<Rightarrow> pubkey \<Rightarrow> u64 \<Rightarrow> i64 \<Rightarrow> nat \<Rightarrow> unit res" where
  "check_node nodes spender amount now i =
     (let node = nodes ! i; sg = cn_data node in
      and_then (require (\<not> sg_revoked sg) (Sub SubGrantRevoked)) (\<lambda>_.
      and_then (require (sint now < sint (sg_expires_at sg)) (Sub SubGrantExpired)) (\<lambda>_.
      and_then (require (amount \<le> saturating_sub (sg_cap sg) (sg_spent sg)) (Sub SubGrantCapExceeded)) (\<lambda>_.
      and_then (if i = 0 then require (sg_agent sg = spender) (Sub SubGrantNotHolder)
                else require (sg_parent (cn_data (nodes ! (i - 1))) = cn_key node)
                       (Sub SubGrantChainBroken)) (\<lambda>_.
      if i = length nodes - 1 then require (sg_parent sg = DEFAULT_PUBKEY) (Sub SubGrantChainTruncated)
      else Inr ())))))"

definition walk_and_meter :: "chain_node list \<Rightarrow> pubkey \<Rightarrow> u64 \<Rightarrow> i64 \<Rightarrow> unit res" where
  "walk_and_meter nodes spender amount now =
     and_then (require (nodes \<noteq> []) (Sub SubGrantChainEmpty)) (\<lambda>_.
     and_then (require (length nodes \<le> unat MAX_SUB_DEPTH) (Sub SubGrantTooDeep)) (\<lambda>_.
     for_all (check_node nodes spender amount now) [0..<length nodes]))"

text \<open>The write through a cursor on \<open>data[8..]\<close>: slicing a shorter buffer panics, and the
  serializer fails when the rest is too short.\<close>

definition write_after_disc :: "byte list \<Rightarrow> byte list \<Rightarrow> byte list res" where
  "write_after_disc out bs =
     (if length bs < 8 then Inl Panic
      else if length out \<le> length bs - 8 then Inr (take 8 bs @ out @ drop (8 + length out) bs)
      else Inl BorshIoError)"

definition meter_node :: "u64 \<Rightarrow> chain_node \<Rightarrow> chain \<Rightarrow> (chain_node \<times> chain) res" where
  "meter_node amount node c =
     and_then (ok_or (checked_add (sg_spent (cn_data node)) amount) (Intents (Sub SubGrantCapExceeded)))
       (\<lambda>spent.
     let sg = (cn_data node)\<lparr>sg_spent := spent\<rparr> in
     and_then (write_after_disc (enc_sub_grant sg) (data_of c (cn_key node))) (\<lambda>bs.
     Inr (node\<lparr>cn_data := sg\<rparr>, with_data (cn_key node) bs c)))"

primrec meter_nodes :: "u64 \<Rightarrow> chain_node list \<Rightarrow> chain \<Rightarrow> (chain_node list \<times> chain) res" where
  "meter_nodes amount [] c = Inr ([], c)"
| "meter_nodes amount (n # ns) c =
     and_then (meter_node amount n c) (\<lambda>(n, c).
     and_then (meter_nodes amount ns c) (\<lambda>(ns, c). Inr (n # ns, c)))"

definition commit_meter :: "chain_node list \<Rightarrow> u64 \<Rightarrow> chain \<Rightarrow> (chain_node list \<times> chain) res" where
  "commit_meter nodes amount c =
     and_then (meter_nodes amount nodes c) (\<lambda>(nodes, c).
     case nodes of
       [] \<Rightarrow> Inr (nodes, c)
     | leaf # _ \<Rightarrow>
         Inr (nodes, emit (Sub_event (SubGrantSpent (sg_grok_account (cn_data leaf))
           (sg_agent (cn_data leaf)) amount (sg_depth (cn_data leaf)) (sg_spent (cn_data leaf)))) c))"

section \<open>Inversion\<close>

lemma headroom_iff:
  "0 < a \<Longrightarrow> a \<le> saturating_sub cap spent \<longleftrightarrow> unat a + unat spent \<le> unat cap"
  for a cap spent :: u64
  by (simp add: word_le_nat_alt unat_saturating_sub word_less_nat_alt) linarith

lemma check_node_eq_Inr:
  "check_node nodes spender amount now i = Inr u \<longleftrightarrow>
   \<not> sg_revoked (cn_data (nodes ! i)) \<and> sint now < sint (sg_expires_at (cn_data (nodes ! i)))
   \<and> amount \<le> saturating_sub (sg_cap (cn_data (nodes ! i))) (sg_spent (cn_data (nodes ! i)))
   \<and> (if i = 0 then sg_agent (cn_data (nodes ! i)) = spender
      else sg_parent (cn_data (nodes ! (i - 1))) = cn_key (nodes ! i))
   \<and> (i = length nodes - 1 \<longrightarrow> sg_parent (cn_data (nodes ! i)) = DEFAULT_PUBKEY)"
  by (auto simp: check_node_def and_then_eq_Inr require_eq_Inr Let_def)

lemma manage_sub_grant_accounts_eq_Inr:
  "manage_sub_grant_accounts rt A c = Inr sg \<Longrightarrow>
   is_signer (msg_authority A) \<and> load_sub_grant c (key (msg_sub_grant A)) = Inr sg
   \<and> (\<exists>ga. load_grok_account rt c (key (msg_grok_account A)) = Inr ga
        \<and> (sg_issuer sg = key (msg_authority A) \<or> ga_root ga = key (msg_authority A)))"
  by (auto simp: manage_sub_grant_accounts_def and_then_eq_Inr account_checks_eq_Inr require_eq_Inr)

lemma sub_grant_rewrite:
  assumes "load_sub_grant c k = Inr sg" and "store_sub_grant sg' k (emit e c) = Inr d"
  shows "load_sub_grant d k = Inr sg'" and "j \<noteq> k \<Longrightarrow> accts d j = accts c j"
    and "lamports_of d j = lamports_of c j" and "owner_of d j = owner_of c j"
proof -
  have "load_sub_grant (emit e c) k = Inr sg"
    using assms(1) by simp
  then show "load_sub_grant d k = Inr sg'"
    by (rule sg_account.acct.load_store) (simp_all add: assms(2))
  show "j \<noteq> k \<Longrightarrow> accts d j = accts c j" and "lamports_of d j = lamports_of c j"
    and "owner_of d j = owner_of c j"
    using sg_account.acct.store_frame [OF assms(2), of j] by simp_all
qed

section \<open>Issuing\<close>

lemma issue_sub_grantE:
  assumes "issue_sub_grant rt A agent cap ex c = Inr d"
  obtains core parent bump c1 depth pk headroom pex sg e where
    "is_signer (isg_issuer A)" "load_grant rt c (key (isg_grant A)) = Inr core"
    "load_parent_opt c (isg_parent A) = Inr parent"
    "init_account rt (isg_payer A) sub_grant_SPACE
       [SEED_SUB_GRANT, pubkey_bytes (key (isg_grok_account A)), pubkey_bytes agent]
       (isg_sub_grant A) c = Inr (bump, c1)"
    "gr_grok_account core = key (isg_grok_account A)"
    "0 < cap" "agent \<noteq> key (isg_issuer A)" "sint (unix_now rt) < sint ex" "\<not> gr_revoked core"
    "sint (unix_now rt) < sint (gr_expires_at_unix core)"
    "issuer_authority rt (key (isg_issuer A)) core parent = Inr (depth, pk, headroom, pex)"
    "cap \<le> headroom" "sint ex \<le> sint pex"
    "sg = \<lparr>sg_grok_account = key (isg_grok_account A), sg_parent = pk,
           sg_issuer = key (isg_issuer A), sg_agent = agent, sg_cap = cap, sg_spent = 0,
           sg_expires_at = ex, sg_revoked = False, sg_depth = depth, sg_generation = 1, sg_bump = bump\<rparr>"
    "store_sub_grant sg (key (isg_sub_grant A)) (emit (Sub_event e) c1) = Inr d"
  using assms
  by (auto simp: issue_sub_grant_def issue_sub_grant_accounts_def sub_grant_issue_def Let_def
      and_then_eq_Inr require_eq_Inr account_checks_eq_Inr)

lemma depth_step: "d < MAX_SUB_DEPTH \<Longrightarrow> unat (d + 1) = unat d + 1" for d :: u8
  by (rule trans [OF unat_add_small]) (simp_all add: MAX_SUB_DEPTH_def word_less_nat_alt)

text \<open>Whoever issues: what it may hand on is what its own authority has left.\<close>

lemma issuer_attenuates:
  assumes auth: "issuer_authority rt who core parent = Inr (depth, pk, headroom, pex)"
    and parent: "load_parent_opt c opt = Inr parent" and cap: "0 < cap" "cap \<le> headroom" "sint ex \<le> sint pex"
  shows "1 \<le> unat depth \<and> unat depth \<le> 3 \<and> (case opt of
         None \<Rightarrow> gr_agent core = who \<and> depth = 1 \<and> pk = DEFAULT_PUBKEY
           \<and> unat cap + unat (gr_spent_lamports core) \<le> unat (gr_spend_cap_lamports core)
           \<and> sint ex \<le> sint (gr_expires_at_unix core)
       | Some ai \<Rightarrow> (\<exists>p. load_sub_grant c (key ai) = Inr p \<and> sg_agent p = who
           \<and> \<not> sg_revoked p \<and> sint (unix_now rt) < sint (sg_expires_at p) \<and> pk = key ai
           \<and> unat depth = unat (sg_depth p) + 1
           \<and> unat cap + unat (sg_spent p) \<le> unat (sg_cap p)
           \<and> sint ex \<le> sint (sg_expires_at p)))"
proof (cases opt)
  case None
  then have "parent = None"
    using parent by (simp add: load_parent_opt_def)
  with None show ?thesis
    using auth cap headroom_iff [OF cap(1)]
    by (auto simp: issuer_authority_def and_then_eq_Inr require_eq_Inr)
next
  case (Some ai)
  then obtain p where p: "parent = Some (ai, p)" "load_sub_grant c (key ai) = Inr p"
    using parent by (auto simp: load_parent_opt_def and_then_eq_Inr)
  then have deep: "sg_depth p < MAX_SUB_DEPTH" and "depth = sg_depth p + 1"
    using auth by (auto simp: issuer_authority_def and_then_eq_Inr require_eq_Inr)
  moreover have "unat (sg_depth p) < 3"
    using deep by (simp add: MAX_SUB_DEPTH_def word_less_nat_alt)
  ultimately show ?thesis
    using Some p auth cap headroom_iff [OF cap(1)] depth_step [OF deep]
    by (auto simp: issuer_authority_def and_then_eq_Inr require_eq_Inr)
qed

text \<open>C13: Delegation attenuates: a new sub-grant is written at an address the System Program owned, by a
  signing issuer who holds what it delegates from, for a different agent; its cap fits in
  what the parent (the CORE grant, or a live sub-grant) has left, its expiry is no later than
  the parent's, and it is at most three levels deep.\<close>

theorem issue_attenuates:
  assumes "init_fresh rt" and "issue_sub_grant rt A agent cap ex c = Inr d"
  shows "\<exists>core sg. load_grant rt c (key (isg_grant A)) = Inr core
    \<and> load_sub_grant d (key (isg_sub_grant A)) = Inr sg
    \<and> owner_of c (key (isg_sub_grant A)) = SYSTEM_PROGRAM_ID
    \<and> is_signer (isg_issuer A) \<and> sg_issuer sg = key (isg_issuer A) \<and> sg_agent sg = agent
    \<and> agent \<noteq> key (isg_issuer A) \<and> sg_cap sg = cap \<and> 0 < cap \<and> sg_spent sg = 0
    \<and> \<not> sg_revoked sg \<and> sint (unix_now rt) < sint (sg_expires_at sg)
    \<and> 1 \<le> unat (sg_depth sg) \<and> unat (sg_depth sg) \<le> 3
    \<and> \<not> gr_revoked core \<and> sint (unix_now rt) < sint (gr_expires_at_unix core)
    \<and> (case isg_parent A of
         None \<Rightarrow> gr_agent core = key (isg_issuer A) \<and> sg_depth sg = 1 \<and> sg_parent sg = DEFAULT_PUBKEY
           \<and> unat cap + unat (gr_spent_lamports core) \<le> unat (gr_spend_cap_lamports core)
           \<and> sint (sg_expires_at sg) \<le> sint (gr_expires_at_unix core)
       | Some ai \<Rightarrow> (\<exists>p. load_sub_grant c (key ai) = Inr p \<and> sg_agent p = key (isg_issuer A)
           \<and> \<not> sg_revoked p \<and> sint (unix_now rt) < sint (sg_expires_at p) \<and> sg_parent sg = key ai
           \<and> unat (sg_depth sg) = unat (sg_depth p) + 1
           \<and> unat cap + unat (sg_spent p) \<le> unat (sg_cap p)
           \<and> sint (sg_expires_at sg) \<le> sint (sg_expires_at p)))"
proof -
  obtain core parent bump c1 depth pk headroom pex sg e where
    basic: "is_signer (isg_issuer A)" "load_grant rt c (key (isg_grant A)) = Inr core"
    "0 < cap" "agent \<noteq> key (isg_issuer A)" "sint (unix_now rt) < sint ex" "\<not> gr_revoked core"
    "sint (unix_now rt) < sint (gr_expires_at_unix core)"
    and parent: "load_parent_opt c (isg_parent A) = Inr parent"
    and init: "init_account rt (isg_payer A) sub_grant_SPACE
       [SEED_SUB_GRANT, pubkey_bytes (key (isg_grok_account A)), pubkey_bytes agent]
       (isg_sub_grant A) c = Inr (bump, c1)"
    and auth: "issuer_authority rt (key (isg_issuer A)) core parent = Inr (depth, pk, headroom, pex)"
    and le: "cap \<le> headroom" "sint ex \<le> sint pex"
    and sg: "sg = \<lparr>sg_grok_account = key (isg_grok_account A), sg_parent = pk,
           sg_issuer = key (isg_issuer A), sg_agent = agent, sg_cap = cap, sg_spent = 0,
           sg_expires_at = ex, sg_revoked = False, sg_depth = depth, sg_generation = 1, sg_bump = bump\<rparr>"
    and st: "store_sub_grant sg (key (isg_sub_grant A)) (emit (Sub_event e) c1) = Inr d"
    by (rule issue_sub_grantE [OF assms(2)])
  have fresh: "owner_of c (key (isg_sub_grant A)) = SYSTEM_PROGRAM_ID"
    and own: "owner_of c1 (key (isg_sub_grant A)) = INTENTS_ID"
    by (rule init_accountE [OF assms(1) init], simp)+
  have load: "load_sub_grant d (key (isg_sub_grant A)) = Inr sg"
    by (rule sg_account.first_store_loads [OF st]) (simp_all add: own)
  note issuer_attenuates [OF auth parent basic(3) le]
  then show ?thesis
    using basic fresh load by (intro exI [of _ core] exI [of _ sg]) (auto simp: sg split: option.splits)
qed

section \<open>Metering\<close>

text \<open>The declarative reading of a valid chain, leaf first.\<close>

definition valid_chain :: "chain_node list \<Rightarrow> pubkey \<Rightarrow> u64 \<Rightarrow> i64 \<Rightarrow> bool" where
  "valid_chain nodes spender amount now \<longleftrightarrow>
     nodes \<noteq> [] \<and> length nodes \<le> 3
     \<and> (\<forall>n \<in> set nodes. \<not> sg_revoked (cn_data n) \<and> sint now < sint (sg_expires_at (cn_data n))
          \<and> amount \<le> saturating_sub (sg_cap (cn_data n)) (sg_spent (cn_data n)))
     \<and> sg_agent (cn_data (hd nodes)) = spender
     \<and> (\<forall>i. Suc i < length nodes \<longrightarrow> sg_parent (cn_data (nodes ! i)) = cn_key (nodes ! Suc i))
     \<and> sg_parent (cn_data (last nodes)) = DEFAULT_PUBKEY"

lemma walk_iff_valid:
  "walk_and_meter nodes spender amount now = Inr () \<longleftrightarrow> valid_chain nodes spender amount now"
proof (cases "nodes = []")
  case True
  then show ?thesis
    by (simp add: walk_and_meter_def valid_chain_def)
next
  case False
  have len: "length nodes \<le> unat MAX_SUB_DEPTH \<longleftrightarrow> length nodes \<le> 3"
    by (simp add: MAX_SUB_DEPTH_def)
  have walk: "walk_and_meter nodes spender amount now = Inr () \<longleftrightarrow>
      length nodes \<le> 3 \<and> (\<forall>i < length nodes. check_node nodes spender amount now i = Inr ())"
    using False by (auto simp: walk_and_meter_def and_then_eq_Inr require_eq_Inr for_all_eq_Inr len)
  have ends: "hd nodes = nodes ! 0" "last nodes = nodes ! (length nodes - 1)" "0 < length nodes"
    using False by (simp_all add: hd_conv_nth last_conv_nth)
  show ?thesis
  proof
    assume "walk_and_meter nodes spender amount now = Inr ()"
    then have le: "length nodes \<le> 3"
      and node: "\<And>i. i < length nodes \<Longrightarrow> check_node nodes spender amount now i = Inr ()"
      by (simp_all add: walk)
    have "sg_parent (cn_data (nodes ! i)) = cn_key (nodes ! Suc i)" if "Suc i < length nodes" for i
      using node [OF that] by (simp add: check_node_eq_Inr)
    then show "valid_chain nodes spender amount now"
      using le False node ends node [of 0] node [of "length nodes - 1"]
      by (auto simp: valid_chain_def check_node_eq_Inr in_set_conv_nth)
  next
    assume v: "valid_chain nodes spender amount now"
    have "check_node nodes spender amount now i = Inr ()" if "i < length nodes" for i
      using v that ends by (cases i) (auto simp: valid_chain_def check_node_eq_Inr)
    with v show "walk_and_meter nodes spender amount now = Inr ()"
      by (simp add: walk valid_chain_def)
  qed
qed

definition charge :: "u64 \<Rightarrow> chain_node \<Rightarrow> chain_node" where
  "charge amount n =
     n\<lparr>cn_data := (cn_data n)\<lparr>sg_spent := sg_spent (cn_data n) + amount\<rparr>\<rparr>"

lemma charge_key [simp]: "cn_key (charge a n) = cn_key n"
  by (simp add: charge_def)

lemma write_after_disc_same:
  "length ds = 8 \<Longrightarrow> length a = length b \<Longrightarrow>
   write_after_disc b (ds @ a @ r) = Inr (ds @ b @ r)"
  by (simp add: write_after_disc_def)

lemma meter_node_ok:
  assumes load: "load_sub_grant c (cn_key n) = Inr (cn_data n)"
    and room: "unat amount + unat (sg_spent (cn_data n)) \<le> unat (sg_cap (cn_data n))"
  shows "\<exists>d. meter_node amount n c = Inr (charge amount n, d)
    \<and> load_sub_grant d (cn_key n) = Inr (cn_data (charge amount n))
    \<and> (\<forall>k. k \<noteq> cn_key n \<longrightarrow> accts d k = accts c k) \<and> events d = events c"
proof -
  define sg where "sg = cn_data (charge amount n)"
  have own: "owner_of c (cn_key n) = INTENTS_ID"
    and des: "try_deserialize sg_disc dec_sub_grant (data_of c (cn_key n)) = Inr (cn_data n)"
    using load by (simp_all only: load_typed_eq_Inr [OF intents_not_system])
  obtain r where bs: "data_of c (cn_key n) = sg_disc @ enc_sub_grant (cn_data n) @ r"
    using des unfolding sg_account.deserialize_iff by blast
  have "unat (sg_spent (cn_data n)) + unat amount < 2 ^ 64"
    using room u64_bound [of "sg_cap (cn_data n)"] by linarith
  then have sum: "checked_add (sg_spent (cn_data n)) amount = Some (sg_spent (cn_data n) + amount)"
    by (simp add: checked_add_def)
  have w: "write_after_disc (enc_sub_grant sg) (data_of c (cn_key n)) = Inr (sg_disc @ enc_sub_grant sg @ r)"
    unfolding bs by (rule write_after_disc_same) (simp_all only: sg_account.disc_length sg_codec.enc_length)
  define d where "d = with_data (cn_key n) (sg_disc @ enc_sub_grant sg @ r) c"
  have "meter_node amount n c = Inr (charge amount n, d)"
    unfolding meter_node_def sum ok_or.simps and_then.simps Let_def
    using w [unfolded sg_def charge_def] by (simp add: d_def sg_def charge_def)
  moreover have "load_sub_grant d (cn_key n) = Inr sg"
    unfolding load_typed_eq_Inr [OF intents_not_system] sg_account.deserialize_iff
    using own by (auto simp: d_def)
  ultimately show ?thesis
    by (intro exI [of _ d]) (simp add: sg_def d_def)
qed

lemma meter_nodes_ok:
  assumes "distinct (map cn_key ns)"
    and "\<forall>n \<in> set ns. load_sub_grant c (cn_key n) = Inr (cn_data n)
           \<and> unat amount + unat (sg_spent (cn_data n)) \<le> unat (sg_cap (cn_data n))"
  shows "\<exists>d. meter_nodes amount ns c = Inr (map (charge amount) ns, d)
    \<and> (\<forall>n \<in> set ns. load_sub_grant d (cn_key n) = Inr (cn_data (charge amount n)))
    \<and> (\<forall>k. k \<notin> cn_key ` set ns \<longrightarrow> accts d k = accts c k) \<and> events d = events c"
  using assms
proof (induction ns arbitrary: c)
  case Nil
  then show ?case by simp
next
  case (Cons n ns)
  obtain c1 where c1: "meter_node amount n c = Inr (charge amount n, c1)"
    "load_sub_grant c1 (cn_key n) = Inr (cn_data (charge amount n))"
    "\<forall>k. k \<noteq> cn_key n \<longrightarrow> accts c1 k = accts c k" "events c1 = events c"
    using meter_node_ok [of c n amount] Cons.prems(2) by auto
  have same: "load_sub_grant c1 k = load_sub_grant c k" if "k \<noteq> cn_key n" for k
    by (rule load_typed_local) (use c1(3) that in simp)
  have "\<forall>m \<in> set ns. load_sub_grant c1 (cn_key m) = Inr (cn_data m)
      \<and> unat amount + unat (sg_spent (cn_data m)) \<le> unat (sg_cap (cn_data m))"
  proof
    fix m assume m: "m \<in> set ns"
    moreover have "cn_key n \<notin> cn_key ` set ns"
      using Cons.prems(1) by simp
    ultimately have "cn_key m \<noteq> cn_key n"
      by (metis imageI)
    then show "load_sub_grant c1 (cn_key m) = Inr (cn_data m)
        \<and> unat amount + unat (sg_spent (cn_data m)) \<le> unat (sg_cap (cn_data m))"
      using Cons.prems(2) m same by simp
  qed
  then obtain d where d: "meter_nodes amount ns c1 = Inr (map (charge amount) ns, d)"
    "\<forall>m \<in> set ns. load_sub_grant d (cn_key m) = Inr (cn_data (charge amount m))"
    "\<forall>k. k \<notin> cn_key ` set ns \<longrightarrow> accts d k = accts c1 k" "events d = events c1"
    using Cons.IH [of c1] Cons.prems(1) by auto
  have "cn_key n \<notin> cn_key ` set ns"
    using Cons.prems(1) by simp
  then have "load_sub_grant d (cn_key n) = Inr (cn_data (charge amount n))"
    using load_typed_local [of d "cn_key n" c1] d(3) c1(2) by metis
  then show ?case
    using c1 d by auto
qed

text \<open>Two nodes at one key decode to one sub-grant, so their ancestors coincide as far as both go.\<close>

lemma same_key_same_node:
  assumes "\<forall>n \<in> set nodes. load_sub_grant c (cn_key n) = Inr (cn_data n)"
    and "i < length nodes" "j < length nodes" and "cn_key (nodes ! i) = cn_key (nodes ! j)"
  shows "cn_data (nodes ! i) = cn_data (nodes ! j)"
  using assms nth_mem [OF assms(2)] nth_mem [OF assms(3)] by (metis sum.inject(2))

lemma ancestors_coincide:
  assumes v: "valid_chain nodes spender amount now"
    and load: "\<forall>n \<in> set nodes. load_sub_grant c (cn_key n) = Inr (cn_data n)"
    and eq: "cn_key (nodes ! i) = cn_key (nodes ! j)" "i < j"
  shows "j + m < length nodes \<Longrightarrow> cn_key (nodes ! (i + m)) = cn_key (nodes ! (j + m))"
proof (induction m)
  case (Suc m)
  have link: "sg_parent (cn_data (nodes ! n)) = cn_key (nodes ! Suc n)" if "Suc n < length nodes" for n
    using v that by (simp add: valid_chain_def)
  have "cn_data (nodes ! (i + m)) = cn_data (nodes ! (j + m))"
    using Suc eq(2) by (intro same_key_same_node [OF load]) auto
  then show ?case
    using link [of "i + m"] link [of "j + m"] Suc.prems eq(2) by simp
qed (use eq in simp)

lemma valid_chain_distinct:
  assumes v: "valid_chain nodes spender amount now"
    and load: "\<forall>n \<in> set nodes. load_sub_grant c (cn_key n) = Inr (cn_data n)"
    and sys: "owner_of c DEFAULT_PUBKEY \<noteq> INTENTS_ID"
  shows "distinct (map cn_key nodes)"
proof -
  let ?k = "\<lambda>i. cn_key (nodes ! i)" and ?n = "length nodes"
  have link: "sg_parent (cn_data (nodes ! n)) = ?k (Suc n)" if "Suc n < ?n" for n
    using v that by (simp add: valid_chain_def)
  have "?k i \<noteq> ?k j" if "i < j" "j < ?n" for i j
  proof
    assume eq: "?k i = ?k j"
    let ?m = "?n - 1 - j"
    have "cn_data (nodes ! (i + ?m)) = cn_data (nodes ! (?n - 1))"
      using ancestors_coincide [OF v load eq that(1), of ?m] that
      by (intro same_key_same_node [OF load]) auto
    moreover have "sg_parent (cn_data (nodes ! (?n - 1))) = DEFAULT_PUBKEY"
      using v last_conv_nth [of nodes] by (auto simp: valid_chain_def)
    ultimately have "?k (Suc (i + ?m)) = DEFAULT_PUBKEY"
      using link [of "i + ?m"] that by simp
    moreover have "load_sub_grant c (?k (Suc (i + ?m))) = Inr (cn_data (nodes ! Suc (i + ?m)))"
      using load that by (intro bspec [OF load] nth_mem) simp
    ultimately show False
      using sys by (simp add: load_typed_eq_Inr)
  qed
  then have "\<forall>i < ?n. \<forall>j < ?n. i \<noteq> j \<longrightarrow> ?k i \<noteq> ?k j"
    by (metis nat_neq_iff)
  then show ?thesis
    by (simp add: distinct_conv_nth)
qed

text \<open>C14: A walk that succeeds makes the commit safe: on nodes decoded from the ledger, with a
  positive amount, \<open>commit_meter\<close> cannot fail, adds exactly the amount to the spent counter of
  every node without passing any cap, and writes nothing else.\<close>

theorem walk_then_commit:
  assumes walk: "walk_and_meter nodes spender amount now = Inr ()" and pos: "0 < amount"
    and load: "\<forall>n \<in> set nodes. load_sub_grant c (cn_key n) = Inr (cn_data n)"
    and sys: "owner_of c DEFAULT_PUBKEY \<noteq> INTENTS_ID"
  shows "\<exists>d. commit_meter nodes amount c = Inr (map (charge amount) nodes, d)
    \<and> (\<forall>n \<in> set nodes. \<exists>sg. load_sub_grant d (cn_key n) = Inr sg
         \<and> sg = (cn_data n)\<lparr>sg_spent := sg_spent sg\<rparr>
         \<and> unat (sg_spent sg) = unat (sg_spent (cn_data n)) + unat amount
         \<and> sg_spent sg \<le> sg_cap sg)
    \<and> (\<forall>k. k \<notin> cn_key ` set nodes \<longrightarrow> accts d k = accts c k)"
proof -
  have v: "valid_chain nodes spender amount now"
    using walk by (simp add: walk_iff_valid)
  have room: "unat amount + unat (sg_spent (cn_data n)) \<le> unat (sg_cap (cn_data n))"
    if "n \<in> set nodes" for n
    using v that headroom_iff [OF pos] by (auto simp: valid_chain_def)
  obtain d where d: "meter_nodes amount nodes c = Inr (map (charge amount) nodes, d)"
    "\<forall>n \<in> set nodes. load_sub_grant d (cn_key n) = Inr (cn_data (charge amount n))"
    "\<forall>k. k \<notin> cn_key ` set nodes \<longrightarrow> accts d k = accts c k"
    using meter_nodes_ok [OF valid_chain_distinct [OF v load sys]] load room by blast
  obtain leaf rest where nodes: "nodes = leaf # rest"
    using v by (cases nodes) (auto simp: valid_chain_def)
  let ?e = "Sub_event (SubGrantSpent (sg_grok_account (cn_data (charge amount leaf)))
    (sg_agent (cn_data (charge amount leaf))) amount (sg_depth (cn_data (charge amount leaf)))
    (sg_spent (cn_data (charge amount leaf))))"
  have commit: "commit_meter nodes amount c = Inr (map (charge amount) nodes, emit ?e d)"
    using d(1) by (simp add: commit_meter_def nodes)
  have "\<exists>sg. load_sub_grant (emit ?e d) (cn_key n) = Inr sg
         \<and> sg = (cn_data n)\<lparr>sg_spent := sg_spent sg\<rparr>
         \<and> unat (sg_spent sg) = unat (sg_spent (cn_data n)) + unat amount
         \<and> sg_spent sg \<le> sg_cap sg" if n: "n \<in> set nodes" for n
  proof -
    have "unat (sg_spent (cn_data n) + amount) = unat (sg_spent (cn_data n)) + unat amount"
      by (rule unat_add_small) (use room [OF n] u64_bound [of "sg_cap (cn_data n)"] in simp)
    then show ?thesis
      using d(2) n room [OF n] by (simp add: charge_def word_le_nat_alt)
  qed
  then show ?thesis
    using commit d(3) by (intro exI [of _ "emit ?e d"]) simp
qed

text \<open>A two-level tree below the demonstration grant.\<close>

definition demo_planner :: sub_grant where
  "demo_planner =
     \<lparr>sg_grok_account = k_grok, sg_parent = DEFAULT_PUBKEY, sg_issuer = k_agent, sg_agent = 70,
      sg_cap = 1000, sg_spent = 100, sg_expires_at = 1500000, sg_revoked = False, sg_depth = 1,
      sg_generation = 1, sg_bump = 255\<rparr>"

definition demo_buyer :: sub_grant where
  "demo_buyer =
     \<lparr>sg_grok_account = k_grok, sg_parent = k_sub_grant, sg_issuer = 70, sg_agent = 71,
      sg_cap = 500, sg_spent = 20, sg_expires_at = 1400000, sg_revoked = False, sg_depth = 2,
      sg_generation = 1, sg_bump = 255\<rparr>"

definition demo_tree :: chain where
  "demo_tree = demo_chain\<lparr>accts := (accts demo_chain)
     (k_sub_grant := demo_account 900 INTENTS_ID (sg_disc @ enc_sub_grant demo_planner),
      61 := demo_account 900 INTENTS_ID (sg_disc @ enc_sub_grant demo_buyer))\<rparr>"

definition demo_nodes :: "chain_node list" where
  "demo_nodes = [\<lparr>cn_key = 61, cn_data = demo_buyer\<rparr>, \<lparr>cn_key = k_sub_grant, cn_data = demo_planner\<rparr>]"

lemma demo_tree_accts [simp]:
  "accts demo_tree k_sub_grant = demo_account 900 INTENTS_ID (sg_disc @ enc_sub_grant demo_planner)"
  "accts demo_tree 61 = demo_account 900 INTENTS_ID (sg_disc @ enc_sub_grant demo_buyer)"
  "accts demo_tree k_grok = demo_account 300 CORE_ID []"
  by (simp_all add: demo_tree_def)

lemma demo_tree_loads [simp]:
  "load_sub_grant demo_tree k_sub_grant = Inr demo_planner"
  "load_sub_grant demo_tree 61 = Inr demo_buyer"
  "load_grok_account demo_rt demo_tree k_grok = Inr \<lparr>ga_root = k_root, ga_bump = 255\<rparr>"
  by (simp_all add: load_grok_account_def res_simps owner_of_def data_of_def sg_account.deserialize_iff)

lemma demo_walk: "walk_and_meter demo_nodes 71 50 1000000 = Inr ()"
  by (simp add: walk_iff_valid valid_chain_def demo_nodes_def demo_buyer_def demo_planner_def
      saturating_sub_def less_Suc_eq)

lemma walk_then_commit_witness:
  "\<exists>d sg. commit_meter demo_nodes 50 demo_tree = Inr (map (charge 50) demo_nodes, d)
     \<and> load_sub_grant d k_sub_grant = Inr sg \<and> unat (sg_spent sg) = 150"
proof -
  have load: "\<forall>n \<in> set demo_nodes. load_sub_grant demo_tree (cn_key n) = Inr (cn_data n)"
    by (simp add: demo_nodes_def)
  have sys: "owner_of demo_tree DEFAULT_PUBKEY \<noteq> INTENTS_ID"
  proof -
    have "accts demo_tree DEFAULT_PUBKEY = demo_program"
      using demo_accts(9) by (simp add: demo_tree_def DEFAULT_PUBKEY_def SYSTEM_PROGRAM_ID_def)
    then show ?thesis
      by (simp add: owner_of_def demo_program_def key_simps)
  qed
  have pos: "0 < (50 :: u64)"
    by simp
  obtain d where d: "commit_meter demo_nodes 50 demo_tree = Inr (map (charge 50) demo_nodes, d)"
    and each: "\<forall>n \<in> set demo_nodes. \<exists>sg. load_sub_grant d (cn_key n) = Inr sg
         \<and> unat (sg_spent sg) = unat (sg_spent (cn_data n)) + unat (50 :: u64)"
    using walk_then_commit [OF demo_walk pos load sys] by blast
  have "\<exists>sg. load_sub_grant d k_sub_grant = Inr sg \<and> unat (sg_spent sg) = 150"
    using each by (simp add: demo_nodes_def demo_planner_def)
  with d show ?thesis
    by blast
qed

section \<open>Narrowing and revoking\<close>

lemma sub_grant_revise_eq_Inr:
  "sub_grant_revise cap ex sg = Inr t \<longleftrightarrow>
   cap \<le> sg_cap sg \<and> sg_spent sg \<le> cap \<and> sint ex \<le> sint (sg_expires_at sg)
   \<and> t = sg\<lparr>sg_cap := cap, sg_expires_at := ex\<rparr>"
  by (auto simp: sub_grant_revise_def and_then_eq_Inr require_eq_Inr)

lemma sub_grant_revoke_eq_Inr:
  "sub_grant_revoke sg = Inr t \<longleftrightarrow>
   \<not> sg_revoked sg
   \<and> t = sg\<lparr>sg_revoked := True, sg_generation := saturating_add (sg_generation sg) 1\<rparr>"
  by (auto simp: sub_grant_revoke_def and_then_eq_Inr require_eq_Inr)


definition demo_manage_sub :: manage_sub_grant_infos where
  "demo_manage_sub =
     \<lparr>msg_authority = info k_root True False, msg_grok_account = info k_grok False False,
      msg_sub_grant = info k_sub_grant False True\<rparr>"

lemma demo_manage_sub_ok: "manage_sub_grant_accounts demo_rt demo_manage_sub demo_tree = Inr demo_planner"
  by (simp add: manage_sub_grant_accounts_def demo_manage_sub_def root_defs seeds_canonical_def)
    (simp add: demo_planner_def)

lemma sub_grant_lengths: "length sg_disc = 8" "length (enc_sub_grant x) = 159"
  using sg_codec.enc_length [of x] by (simp_all add: sg_disc_def sub_grant_SPACE_def)

lemma demo_store_sub: "\<exists>d. store_sub_grant t k_sub_grant (emit e demo_tree) = Inr d"
  by (simp add: store_typed_def try_serialize_def sub_grant_lengths data_of_def Let_def)


text \<open>C15: Revocation cascades without touching descendants: after one \<open>revoke\<close> no chain through
  the revoked node passes the walk, for any spender, amount or time, while every other
  account, the descendants' included, is exactly as before; a second revoke is refused.\<close>

theorem revocation_cascades:
  assumes "revoke_sub_grant rt A c = Inr d"
  shows "(\<exists>sg. load_sub_grant c (key (msg_sub_grant A)) = Inr sg \<and> \<not> sg_revoked sg
      \<and> load_sub_grant d (key (msg_sub_grant A))
          = Inr (sg\<lparr>sg_revoked := True, sg_generation := saturating_add (sg_generation sg) 1\<rparr>))
    \<and> (\<forall>k. k \<noteq> key (msg_sub_grant A) \<longrightarrow> accts d k = accts c k)
    \<and> (\<forall>nodes spender amount now.
         (\<forall>n \<in> set nodes. load_sub_grant d (cn_key n) = Inr (cn_data n))
         \<and> key (msg_sub_grant A) \<in> cn_key ` set nodes \<longrightarrow>
         walk_and_meter nodes spender amount now \<noteq> Inr ())
    \<and> (\<forall>d'. revoke_sub_grant rt A d \<noteq> Inr d')"
proof -
  obtain sg t e where acc: "manage_sub_grant_accounts rt A c = Inr sg"
    and t: "sub_grant_revoke sg = Inr t"
    and st: "store_sub_grant t (key (msg_sub_grant A)) (emit e c) = Inr d"
    using assms by (auto simp: revoke_sub_grant_def and_then_eq_Inr Let_def)
  have load: "load_sub_grant c (key (msg_sub_grant A)) = Inr sg"
    using manage_sub_grant_accounts_eq_Inr [OF acc] by blast
  note after = sub_grant_rewrite [OF load st]
  have dead: "sg_revoked t"
    using t by (simp add: sub_grant_revoke_eq_Inr)
  have "walk_and_meter nodes spender amount now \<noteq> Inr ()"
    if nodes: "\<forall>n \<in> set nodes. load_sub_grant d (cn_key n) = Inr (cn_data n)"
      "key (msg_sub_grant A) \<in> cn_key ` set nodes" for nodes spender amount now
  proof -
    obtain n where n: "n \<in> set nodes" "cn_key n = key (msg_sub_grant A)"
      using nodes(2) by auto
    then have "load_sub_grant d (key (msg_sub_grant A)) = Inr (cn_data n)"
      using nodes(1) by metis
    then have "n \<in> set nodes \<and> sg_revoked (cn_data n)"
      using n after(1) dead by simp
    then show ?thesis
      by (auto simp: walk_iff_valid valid_chain_def)
  qed
  moreover have "revoke_sub_grant rt A d \<noteq> Inr d'" for d'
  proof
    assume "revoke_sub_grant rt A d = Inr d'"
    then obtain sg' t' where "manage_sub_grant_accounts rt A d = Inr sg'" "sub_grant_revoke sg' = Inr t'"
      by (auto simp: revoke_sub_grant_def and_then_eq_Inr)
    then have "load_sub_grant d (key (msg_sub_grant A)) = Inr sg'" "\<not> sg_revoked sg'"
      using manage_sub_grant_accounts_eq_Inr by (auto simp: sub_grant_revoke_eq_Inr)
    with after(1) dead show False
      by simp
  qed
  ultimately show ?thesis
    using load after t [unfolded sub_grant_revoke_eq_Inr] by auto
qed

lemma revocation_cascades_witness:
  "\<exists>d. revoke_sub_grant demo_rt demo_manage_sub demo_tree = Inr d
     \<and> walk_and_meter [\<lparr>cn_key = 61, cn_data = demo_buyer\<rparr>,
          \<lparr>cn_key = k_sub_grant, cn_data = demo_planner\<lparr>sg_revoked := True, sg_generation := 2\<rparr>\<rparr>]
          71 50 1000000 \<noteq> Inr ()"
proof -
  let ?t = "demo_planner\<lparr>sg_revoked := True, sg_generation := 2\<rparr>"
  let ?nodes = "[\<lparr>cn_key = 61, cn_data = demo_buyer\<rparr>, \<lparr>cn_key = k_sub_grant, cn_data = ?t\<rparr>]"
  have t: "sub_grant_revoke demo_planner = Inr ?t"
    by (simp add: sub_grant_revoke_eq_Inr demo_planner_def saturating_add_def)
  have "\<exists>d. revoke_sub_grant demo_rt demo_manage_sub demo_tree = Inr d"
    using demo_store_sub [of ?t] by (simp add: revoke_sub_grant_def demo_manage_sub_ok t Let_def)
      (simp add: demo_manage_sub_def)
  then obtain d where d: "revoke_sub_grant demo_rt demo_manage_sub demo_tree = Inr d"
    by blast
  note eff = revocation_cascades [OF d]
  have "load_sub_grant d k_sub_grant = Inr ?t"
    using eff t by (auto simp: demo_manage_sub_def sub_grant_revoke_eq_Inr)
  moreover have "load_sub_grant d 61 = Inr demo_buyer"
  proof -
    have "accts d 61 = accts demo_tree 61"
      using eff by (simp add: demo_manage_sub_def)
    then show ?thesis
      using load_typed_local [of d 61 demo_tree] demo_tree_loads(2) by metis
  qed
  ultimately have "walk_and_meter ?nodes 71 50 1000000 \<noteq> Inr ()"
    using eff by (simp add: demo_manage_sub_def)
  with d show ?thesis
    by blast
qed

section \<open>Two issues, evaluated\<close>

definition demo_issue :: issue_sub_grant_infos where
  "demo_issue =
     \<lparr>isg_issuer = info k_agent True False, isg_payer = info k_relayer True True,
      isg_grok_account = info k_grok False False, isg_grant = info k_grant False False,
      isg_parent = None, isg_sub_grant = info k_sub_grant False True,
      isg_system_program = info SYSTEM_PROGRAM_ID False False\<rparr>"

lemma demo_vacant [simp]:
  "accts demo_chain k_sub_grant = demo_account 0 SYSTEM_PROGRAM_ID []"
  by (simp add: demo_chain_def key_simps)

lemmas issue_eval = issue_sub_grant_def issue_sub_grant_accounts_def sub_grant_issue_def
  load_parent_opt_def issuer_authority_def init_account_def create_pda_account_def demo_init_def
  seeds_canonical_def signer_def writable_def program_def demo_rent_def sub_grant_SPACE_def
  demo_grant_def saturating_sub_def MAX_SUB_DEPTH_def store_typed_def try_serialize_def
  sub_grant_lengths data_of_def

lemma demo_issue_ok: "\<exists>d. issue_sub_grant demo_rt demo_issue 70 1000 1500000 demo_chain = Inr d"
  by (simp add: issue_eval demo_issue_def Let_def)

lemma issue_attenuates_witness:
  "\<exists>d sg. issue_sub_grant demo_rt demo_issue 70 1000 1500000 demo_chain = Inr d
     \<and> load_sub_grant d k_sub_grant = Inr sg \<and> sg_cap sg = 1000 \<and> sg_depth sg = 1"
proof -
  obtain d where d: "issue_sub_grant demo_rt demo_issue 70 1000 1500000 demo_chain = Inr d"
    using demo_issue_ok by blast
  from issue_attenuates [OF demo_init_fresh d] d show ?thesis
    by (auto simp: demo_issue_def)
qed

text \<open>A sub-grant of another GrokAccount whose holder names it as parent.\<close>

definition demo_foreign :: sub_grant where
  "demo_foreign =
     \<lparr>sg_grok_account = 99, sg_parent = DEFAULT_PUBKEY, sg_issuer = 98, sg_agent = 70,
      sg_cap = 5000000, sg_spent = 0, sg_expires_at = 9000000, sg_revoked = False, sg_depth = 1,
      sg_generation = 1, sg_bump = 255\<rparr>"

definition demo_foreign_chain :: chain where
  "demo_foreign_chain = demo_chain\<lparr>accts := (accts demo_chain)
     (61 := demo_account 900 INTENTS_ID (sg_disc @ enc_sub_grant demo_foreign))\<rparr>"

definition demo_foreign_issue :: issue_sub_grant_infos where
  "demo_foreign_issue =
     demo_issue\<lparr>isg_issuer := info 70 True False, isg_parent := Some (info 61 False False)\<rparr>"

lemma demo_foreign_accts [simp]:
  "accts demo_foreign_chain 61 = demo_account 900 INTENTS_ID (sg_disc @ enc_sub_grant demo_foreign)"
  "accts demo_foreign_chain k_sub_grant = demo_account 0 SYSTEM_PROGRAM_ID []"
  "accts demo_foreign_chain k_relayer = demo_account 5000 SYSTEM_PROGRAM_ID []"
  "accts demo_foreign_chain k_grok = demo_account 300 CORE_ID []"
  "accts demo_foreign_chain k_grant = demo_account 300 CORE_ID (word_bytes (400 :: u64))"
  "accts demo_foreign_chain SYSTEM_PROGRAM_ID = demo_program"
proof -
  have "(61 :: pubkey) \<noteq> SYSTEM_PROGRAM_ID"
    by (simp add: key_simps)
  then show "accts demo_foreign_chain SYSTEM_PROGRAM_ID = demo_program"
    by (simp add: demo_foreign_chain_def)
qed (simp_all add: demo_foreign_chain_def)

lemma demo_foreign_loads [simp]:
  "load_sub_grant demo_foreign_chain 61 = Inr demo_foreign"
  "load_grok_account demo_rt demo_foreign_chain k_grok = Inr \<lparr>ga_root = k_root, ga_bump = 255\<rparr>"
  "load_grant demo_rt demo_foreign_chain k_grant = Inr (demo_grant 400)"
  by (simp_all add: load_grok_account_def load_grant_def demo_decode_grant_def res_simps owner_of_def
      data_of_def sg_account.deserialize_iff)

text \<open>C26: The parent of a sub-grant is not tied to the GrokAccount it is issued under: the holder
  of a sub-grant of account 99, who is not the agent of the CORE grant, issues a sub-grant
  under another account whose cap and expiry exceed those of that account's CORE grant.\<close>

theorem issue_accepts_foreign_parent:
  "\<exists>d sg core. issue_sub_grant demo_rt demo_foreign_issue 71 4000000 8000000 demo_foreign_chain = Inr d
     \<and> load_sub_grant d k_sub_grant = Inr sg
     \<and> load_grant demo_rt demo_foreign_chain (key (isg_grant demo_foreign_issue)) = Inr core
     \<and> sg_grok_account sg = k_grok \<and> sg_grok_account demo_foreign \<noteq> k_grok
     \<and> gr_agent core \<noteq> key (isg_issuer demo_foreign_issue)
     \<and> gr_spend_cap_lamports core < sg_cap sg
     \<and> sint (gr_expires_at_unix core) < sint (sg_expires_at sg)"
proof -
  have "\<exists>d. issue_sub_grant demo_rt demo_foreign_issue 71 4000000 8000000 demo_foreign_chain = Inr d"
    by (simp add: issue_eval demo_foreign_issue_def demo_issue_def Let_def) (simp add: demo_foreign_def)
  then obtain d where d: "issue_sub_grant demo_rt demo_foreign_issue 71 4000000 8000000 demo_foreign_chain = Inr d"
    by blast
  then obtain bump c1 depth pk sg e where
    init: "init_account demo_rt (isg_payer demo_foreign_issue) sub_grant_SPACE
       [SEED_SUB_GRANT, pubkey_bytes (key (isg_grok_account demo_foreign_issue)), pubkey_bytes 71]
       (isg_sub_grant demo_foreign_issue) demo_foreign_chain = Inr (bump, c1)"
    and sg: "sg = \<lparr>sg_grok_account = key (isg_grok_account demo_foreign_issue), sg_parent = pk,
           sg_issuer = key (isg_issuer demo_foreign_issue), sg_agent = 71, sg_cap = 4000000,
           sg_spent = 0, sg_expires_at = 8000000, sg_revoked = False, sg_depth = depth,
           sg_generation = 1, sg_bump = bump\<rparr>"
    and st: "store_sub_grant sg (key (isg_sub_grant demo_foreign_issue)) (emit (Sub_event e) c1) = Inr d"
    by (rule issue_sub_grantE)
  have own: "owner_of c1 (key (isg_sub_grant demo_foreign_issue)) = INTENTS_ID"
    by (rule init_accountE [OF demo_init_fresh init])
  have "load_sub_grant d (key (isg_sub_grant demo_foreign_issue)) = Inr sg"
    by (rule sg_account.first_store_loads [OF st]) (simp_all add: own)
  with d show ?thesis
    by (auto simp: demo_foreign_issue_def demo_issue_def sg demo_foreign_def demo_grant_def)
qed

end
