(* ===== verification/Intents.thy ===== *)
theory Intents imports Vaults begin

text \<open>
  \<open>instructions/pay.rs\<close>, \<open>swap.rs\<close>, \<open>deploy.rs\<close> and \<open>call.rs\<close>: the four intents an agent sends.
  They share the first five accounts (the mouth) and the shape precheck, CORE
  \<open>check_grant\<close>, effect, sponsor, event. The grant and the paymaster are the values decoded
  when the instruction started; the handlers do not reload them after the CPI.
\<close>

section \<open>The mouth\<close>

record mouth =
  m_agent :: account_info
  m_grok_account :: account_info
  m_grant :: account_info
  m_core_program :: account_info
  m_intents_program :: account_info

definition mouth_load :: "runtime \<Rightarrow> 'a mouth_scheme \<Rightarrow> chain \<Rightarrow> (grok_account \<times> grant) res" where
  "mouth_load rt A c =
     and_then (signer (m_agent A)) (\<lambda>_.
     and_then (load_grok_account rt c (key (m_grok_account A))) (\<lambda>ga.
     and_then (load_grant rt c (key (m_grant A))) (\<lambda>gr.
     and_then (program c (m_core_program A) CORE_ID) (\<lambda>_.
     Inr (ga, gr)))))"

definition grant_constraints :: "runtime \<Rightarrow> 'a mouth_scheme \<Rightarrow> grant \<Rightarrow> unit res" where
  "grant_constraints rt A gr =
     and_then (seeds_bump rt [SEED_GRANT, pubkey_bytes (key (m_grok_account A)),
       pubkey_bytes (key (m_agent A))] (gr_bump gr) CORE_ID (m_grant A)) (\<lambda>_.
     and_then (writable (m_grant A)) (\<lambda>_.
     and_then (require (gr_grok_account gr = key (m_grok_account A)) (Base GrokAccountMismatch)) (\<lambda>_.
     require (gr_agent gr = key (m_agent A)) (Base AgentMismatch))))"

definition mouth_constraints ::
  "runtime \<Rightarrow> 'a mouth_scheme \<Rightarrow> grok_account \<Rightarrow> grant \<Rightarrow> unit res" where
  "mouth_constraints rt A ga gr =
     and_then (grok_seeds rt (m_grok_account A) ga) (\<lambda>_.
     and_then (grant_constraints rt A gr) (\<lambda>_.
     address_is (m_intents_program A) INTENTS_ID))"

definition mouth_check_grant :: "runtime \<Rightarrow> 'a mouth_scheme \<Rightarrow> u64 \<Rightarrow> chain \<Rightarrow> chain res" where
  "mouth_check_grant rt A amount c =
     check_grant rt (m_core_program A) (m_grok_account A) (m_grant A) (m_agent A)
       (m_intents_program A) amount c"

text \<open>\<open>Option<Account<Paymaster>>\<close> and \<open>Option<Signer>\<close>: the program id in their place is \<open>None\<close>.\<close>

definition load_paymaster_opt ::
  "chain \<Rightarrow> account_info option \<Rightarrow> (account_info \<times> paymaster) option res" where
  "load_paymaster_opt c opt =
     (case opt of
        None \<Rightarrow> Inr None
      | Some ai \<Rightarrow> and_then (load_paymaster c (key ai)) (\<lambda>pm. Inr (Some (ai, pm))))"

definition signer_opt :: "account_info option \<Rightarrow> unit res" where
  "signer_opt opt = (case opt of None \<Rightarrow> Inr () | Some ai \<Rightarrow> signer ai)"

definition writable_opt :: "account_info option \<Rightarrow> unit res" where
  "writable_opt opt = (case opt of None \<Rightarrow> Inr () | Some ai \<Rightarrow> writable ai)"

definition paymaster_opt_constraints ::
  "runtime \<Rightarrow> (account_info \<times> paymaster) option \<Rightarrow> pubkey \<Rightarrow> pubkey \<Rightarrow> unit res" where
  "paymaster_opt_constraints rt opt grok root =
     (case opt of None \<Rightarrow> Inr () | Some (ai, pm) \<Rightarrow> paymaster_constraints rt ai grok root pm)"

section \<open>pay\<close>

record pay_infos = mouth +
  pay_spend_vault :: account_info
  pay_recipient :: account_info
  pay_system_program :: account_info
  pay_paymaster :: "account_info option"
  pay_fee_payer :: "account_info option"

definition pay_accounts ::
  "runtime \<Rightarrow> pay_infos \<Rightarrow> chain \<Rightarrow> (grant \<times> (account_info \<times> paymaster) option) res" where
  "pay_accounts rt A c =
     and_then (mouth_load rt A c) (\<lambda>(ga, gr).
     and_then (load_spend_vault c (key (pay_spend_vault A))) (\<lambda>sv.
     and_then (program c (pay_system_program A) SYSTEM_PROGRAM_ID) (\<lambda>_.
     and_then (load_paymaster_opt c (pay_paymaster A)) (\<lambda>pm.
     and_then (signer_opt (pay_fee_payer A)) (\<lambda>_.
     and_then (mouth_constraints rt A ga gr) (\<lambda>_.
     and_then (vault_constraints rt (pay_spend_vault A) (key (m_grok_account A)) (ga_root ga) sv) (\<lambda>_.
     and_then (writable (pay_recipient A)) (\<lambda>_.
     and_then (paymaster_opt_constraints rt pm (key (m_grok_account A)) (ga_root ga)) (\<lambda>_.
     and_then (writable_opt (pay_fee_payer A)) (\<lambda>_.
     Inr (gr, pm)))))))))))"

definition pay_handler ::
  "runtime \<Rightarrow> pay_infos \<Rightarrow> grant \<Rightarrow> (account_info \<times> paymaster) option \<Rightarrow> pay_args
   \<Rightarrow> chain \<Rightarrow> chain res" where
  "pay_handler rt A gr pm args c =
     and_then (require_pay_amount (pa_amount_lamports args)) (\<lambda>_.
     and_then (precheck_sponsor (pa_sponsor_lamports args) pm (pay_fee_payer A)) (\<lambda>_.
     and_then (mouth_check_grant rt A (pa_amount_lamports args) c) (\<lambda>c.
     and_then (debit_spend_vault rt (key (pay_spend_vault A)) (key (pay_recipient A))
       (pa_amount_lamports args) c) (\<lambda>c.
     and_then (reimburse_sponsor rt (m_grant A) gr pm (pay_fee_payer A)
       (pa_sponsor_lamports args) c) (\<lambda>c.
     Inr (emit (Intent_event (Paid (key (pay_spend_vault A)) (key (pay_recipient A))
       (pa_amount_lamports args) (key (m_agent A)) (key (m_grant A)) (gr_generation gr))) c))))))"

definition pay :: "runtime \<Rightarrow> pay_infos \<Rightarrow> pay_args \<Rightarrow> chain \<Rightarrow> chain res" where
  "pay rt A args c = and_then (pay_accounts rt A c) (\<lambda>(gr, pm). pay_handler rt A gr pm args c)"

section \<open>swap\<close>

record swap_infos = mouth +
  swap_spend_vault :: account_info
  swap_out_destination :: account_info
  swap_system_program :: account_info
  swap_paymaster :: "account_info option"
  swap_fee_payer :: "account_info option"

definition swap_accounts ::
  "runtime \<Rightarrow> swap_infos \<Rightarrow> chain \<Rightarrow> (grant \<times> (account_info \<times> paymaster) option) res" where
  "swap_accounts rt A c =
     and_then (mouth_load rt A c) (\<lambda>(ga, gr).
     and_then (load_spend_vault c (key (swap_spend_vault A))) (\<lambda>sv.
     and_then (program c (swap_system_program A) SYSTEM_PROGRAM_ID) (\<lambda>_.
     and_then (load_paymaster_opt c (swap_paymaster A)) (\<lambda>pm.
     and_then (signer_opt (swap_fee_payer A)) (\<lambda>_.
     and_then (mouth_constraints rt A ga gr) (\<lambda>_.
     and_then (vault_constraints rt (swap_spend_vault A) (key (m_grok_account A)) (ga_root ga) sv) (\<lambda>_.
     and_then (writable (swap_out_destination A)) (\<lambda>_.
     and_then (paymaster_opt_constraints rt pm (key (m_grok_account A)) (ga_root ga)) (\<lambda>_.
     and_then (writable_opt (swap_fee_payer A)) (\<lambda>_.
     Inr (gr, pm)))))))))))"

definition swap_handler ::
  "runtime \<Rightarrow> swap_infos \<Rightarrow> grant \<Rightarrow> (account_info \<times> paymaster) option \<Rightarrow> swap_args
   \<Rightarrow> chain \<Rightarrow> chain res" where
  "swap_handler rt A gr pm args c =
     and_then (require_swap_amounts (sw_amount_in_lamports args) (sw_min_out_lamports args)) (\<lambda>_.
     and_then (precheck_sponsor (sw_sponsor_lamports args) pm (swap_fee_payer A)) (\<lambda>_.
     and_then (mouth_check_grant rt A (sw_amount_in_lamports args) c) (\<lambda>c.
     and_then (debit_spend_vault rt (key (swap_spend_vault A)) (key (swap_out_destination A))
       (sw_amount_in_lamports args) c) (\<lambda>c.
     and_then (reimburse_sponsor rt (m_grant A) gr pm (swap_fee_payer A)
       (sw_sponsor_lamports args) c) (\<lambda>c.
     Inr (emit (Intent_event (Swapped (key (swap_spend_vault A)) (key (swap_out_destination A))
       (sw_amount_in_lamports args) (sw_min_out_lamports args) (key (m_agent A)) (key (m_grant A))
       (gr_generation gr))) c))))))"

definition swap :: "runtime \<Rightarrow> swap_infos \<Rightarrow> swap_args \<Rightarrow> chain \<Rightarrow> chain res" where
  "swap rt A args c = and_then (swap_accounts rt A c) (\<lambda>(gr, pm). swap_handler rt A gr pm args c)"

section \<open>deploy\<close>

record deploy_infos = mouth +
  deploy_spend_vault :: account_info
  deploy_system_program :: account_info
  deploy_paymaster :: "account_info option"
  deploy_fee_payer :: "account_info option"

definition deploy_accounts ::
  "runtime \<Rightarrow> deploy_infos \<Rightarrow> chain \<Rightarrow> (grant \<times> (account_info \<times> paymaster) option) res" where
  "deploy_accounts rt A c =
     and_then (mouth_load rt A c) (\<lambda>(ga, gr).
     and_then (load_spend_vault c (key (deploy_spend_vault A))) (\<lambda>sv.
     and_then (program c (deploy_system_program A) SYSTEM_PROGRAM_ID) (\<lambda>_.
     and_then (load_paymaster_opt c (deploy_paymaster A)) (\<lambda>pm.
     and_then (signer_opt (deploy_fee_payer A)) (\<lambda>_.
     and_then (mouth_constraints rt A ga gr) (\<lambda>_.
     and_then (vault_seeds rt (deploy_spend_vault A) (key (m_grok_account A)) sv) (\<lambda>_.
     and_then (require (sv_grok_account sv = key (m_grok_account A)) (Base GrokAccountMismatch)) (\<lambda>_.
     and_then (require (sv_root sv = ga_root ga) (Base UnauthorizedRoot)) (\<lambda>_.
     and_then (paymaster_opt_constraints rt pm (key (m_grok_account A)) (ga_root ga)) (\<lambda>_.
     and_then (writable_opt (deploy_fee_payer A)) (\<lambda>_.
     Inr (gr, pm))))))))))))"

definition deploy_handler ::
  "runtime \<Rightarrow> deploy_infos \<Rightarrow> grant \<Rightarrow> (account_info \<times> paymaster) option \<Rightarrow> deploy_args
   \<Rightarrow> chain \<Rightarrow> chain res" where
  "deploy_handler rt A gr pm args c =
     and_then (precheck_sponsor (dp_sponsor_lamports args) pm (deploy_fee_payer A)) (\<lambda>_.
     and_then (mouth_check_grant rt A DEPLOY_CHECK_GRANT_AMOUNT c) (\<lambda>c.
     and_then (reimburse_sponsor rt (m_grant A) gr pm (deploy_fee_payer A)
       (dp_sponsor_lamports args) c) (\<lambda>c.
     Inr (emit (Intent_event (DeployRequested (dp_program_id args) (key (m_agent A))
       (key (m_grant A)) (gr_generation gr))) c))))"

definition deploy :: "runtime \<Rightarrow> deploy_infos \<Rightarrow> deploy_args \<Rightarrow> chain \<Rightarrow> chain res" where
  "deploy rt A args c =
     and_then (deploy_accounts rt A c) (\<lambda>(gr, pm). deploy_handler rt A gr pm args c)"

section \<open>call\<close>

record call_infos = mouth +
  call_spend_vault :: account_info
  call_recipient :: account_info
  call_system_program :: account_info
  call_target :: account_info
  call_paymaster :: "account_info option"
  call_fee_payer :: "account_info option"

definition call_accounts ::
  "runtime \<Rightarrow> call_infos \<Rightarrow> chain \<Rightarrow> (grant \<times> (account_info \<times> paymaster) option) res" where
  "call_accounts rt A c =
     and_then (mouth_load rt A c) (\<lambda>(ga, gr).
     and_then (load_spend_vault c (key (call_spend_vault A))) (\<lambda>sv.
     and_then (program c (call_system_program A) SYSTEM_PROGRAM_ID) (\<lambda>_.
     and_then (load_paymaster_opt c (call_paymaster A)) (\<lambda>pm.
     and_then (signer_opt (call_fee_payer A)) (\<lambda>_.
     and_then (mouth_constraints rt A ga gr) (\<lambda>_.
     and_then (vault_constraints rt (call_spend_vault A) (key (m_grok_account A)) (ga_root ga) sv) (\<lambda>_.
     and_then (writable (call_recipient A)) (\<lambda>_.
     and_then (paymaster_opt_constraints rt pm (key (m_grok_account A)) (ga_root ga)) (\<lambda>_.
     and_then (writable_opt (call_fee_payer A)) (\<lambda>_.
     Inr (gr, pm)))))))))))"

definition inner_call_ix :: "pubkey \<Rightarrow> account_info list \<Rightarrow> instruction" where
  "inner_call_ix target_program remaining =
     \<lparr>ix_program_id = target_program,
      ix_accounts = map (\<lambda>a. if is_writable a then meta_new (key a) (is_signer a)
                             else meta_new_readonly (key a) (is_signer a))
                      (filter (\<lambda>a. key a \<noteq> target_program) remaining),
      ix_data = []\<rparr>"

definition call_inner :: "runtime \<Rightarrow> pubkey \<Rightarrow> account_info list \<Rightarrow> chain \<Rightarrow> chain res" where
  "call_inner rt target_program remaining c =
     (if remaining \<noteq> [] then
        and_then (require (list_ex (\<lambda>a. key a = target_program) remaining) (Base CallTargetMismatch)) (\<lambda>_.
        invoke rt (inner_call_ix target_program remaining) remaining c)
      else Inr c)"

definition call_handler ::
  "runtime \<Rightarrow> call_infos \<Rightarrow> grant \<Rightarrow> (account_info \<times> paymaster) option \<Rightarrow> call_args
   \<Rightarrow> account_info list \<Rightarrow> chain \<Rightarrow> chain res" where
  "call_handler rt A gr pm args remaining c =
     and_then (require (key (call_target A) = ca_target_program args) (Base CallTargetMismatch)) (\<lambda>_.
     and_then (require (acc_executable (accts c (key (call_target A)))) (Base TargetNotExecutable)) (\<lambda>_.
     and_then (precheck_sponsor (ca_sponsor_lamports args) pm (call_fee_payer A)) (\<lambda>_.
     and_then (reject_protected_remaining remaining (key (call_spend_vault A))
       (map_option (\<lambda>(ai, _). key ai) pm)) (\<lambda>_.
     and_then (mouth_check_grant rt A (ca_amount_lamports args) c) (\<lambda>c.
     and_then (if 0 < ca_amount_lamports args
               then debit_spend_vault rt (key (call_spend_vault A)) (key (call_recipient A))
                      (ca_amount_lamports args) c
               else Inr c) (\<lambda>c.
     and_then (call_inner rt (ca_target_program args) remaining c) (\<lambda>c.
     and_then (reimburse_sponsor rt (m_grant A) gr pm (call_fee_payer A)
       (ca_sponsor_lamports args) c) (\<lambda>c.
     let remaining_len = word_of_nat (length remaining) in
     Inr (emit (Intent_event (Called (ca_target_program args) (key (call_recipient A))
       (ca_amount_lamports args) remaining_len (key (m_agent A)) (key (m_grant A))
       (gr_generation gr))) c)))))))))"

definition call :: "runtime \<Rightarrow> call_infos \<Rightarrow> call_args \<Rightarrow> account_info list \<Rightarrow> chain \<Rightarrow> chain res" where
  "call rt A args remaining c =
     and_then (call_accounts rt A c) (\<lambda>(gr, pm). call_handler rt A gr pm args remaining c)"

section \<open>What the mouth has checked\<close>

lemma load_paymaster_opt_infos: "load_paymaster_opt c opt = Inr pm \<Longrightarrow> map_option fst pm = opt"
  by (auto simp: load_paymaster_opt_def and_then_eq_Inr split: option.splits)


lemma mouth_load_eq_Inr [res_simps]:
  "mouth_load rt A c = Inr (ga, gr) \<longleftrightarrow>
   is_signer (m_agent A) \<and> load_grok_account rt c (key (m_grok_account A)) = Inr ga
   \<and> load_grant rt c (key (m_grant A)) = Inr gr
   \<and> key (m_core_program A) = CORE_ID \<and> acc_executable (accts c (key (m_core_program A)))"
  by (auto simp: mouth_load_def and_then_eq_Inr account_checks_eq_Inr)

lemma grant_constraints_eq_Inr [res_simps]:
  "grant_constraints rt A gr = Inr u \<longleftrightarrow>
   create_program_address rt ([SEED_GRANT, pubkey_bytes (key (m_grok_account A)),
     pubkey_bytes (key (m_agent A))] @ [[gr_bump gr]]) CORE_ID = Some (key (m_grant A))
   \<and> is_writable (m_grant A) \<and> gr_grok_account gr = key (m_grok_account A)
   \<and> gr_agent gr = key (m_agent A)"
  by (simp add: grant_constraints_def and_then_eq_Inr require_eq_Inr account_checks_eq_Inr)

lemma mouth_constraints_eq_Inr [res_simps]:
  "mouth_constraints rt A ga gr = Inr u \<longleftrightarrow>
   grok_seeds rt (m_grok_account A) ga = Inr () \<and> grant_constraints rt A gr = Inr ()
   \<and> key (m_intents_program A) = INTENTS_ID"
  by (simp add: mouth_constraints_def and_then_eq_Inr account_checks_eq_Inr)

lemma load_paymaster_opt_eq_Inr [res_simps]:
  "load_paymaster_opt c opt = Inr pm \<longleftrightarrow>
   (case opt of None \<Rightarrow> pm = None
    | Some ai \<Rightarrow> (\<exists>p. pm = Some (ai, p) \<and> load_paymaster c (key ai) = Inr p))"
  by (auto simp: load_paymaster_opt_def and_then_eq_Inr split: option.splits)

text \<open>The effect every vault-spending intent has in common, before its event.\<close>

definition intent_effect ::
  "runtime \<Rightarrow> 'a mouth_scheme \<Rightarrow> account_info \<Rightarrow> account_info \<Rightarrow> grant
   \<Rightarrow> (account_info \<times> paymaster) option \<Rightarrow> account_info option \<Rightarrow> u64 \<Rightarrow> u64 \<Rightarrow> chain \<Rightarrow> chain res" where
  "intent_effect rt A vault_ai dest_ai gr pm fp amount sponsor c =
     and_then (mouth_check_grant rt A amount c) (\<lambda>c.
     and_then (debit_spend_vault rt (key vault_ai) (key dest_ai) amount c) (\<lambda>c.
     reimburse_sponsor rt (m_grant A) gr pm fp sponsor c))"

lemma and_then_assoc: "and_then (and_then m f) g = and_then m (\<lambda>x. and_then (f x) g)"
  by (cases m) simp_all

lemma pay_handler_alt:
  "pay_handler rt A gr pm args c =
     and_then (require_pay_amount (pa_amount_lamports args)) (\<lambda>_.
     and_then (precheck_sponsor (pa_sponsor_lamports args) pm (pay_fee_payer A)) (\<lambda>_.
     and_then (intent_effect rt A (pay_spend_vault A) (pay_recipient A) gr pm (pay_fee_payer A)
       (pa_amount_lamports args) (pa_sponsor_lamports args) c) (\<lambda>c.
     Inr (emit (Intent_event (Paid (key (pay_spend_vault A)) (key (pay_recipient A))
       (pa_amount_lamports args) (key (m_agent A)) (key (m_grant A)) (gr_generation gr))) c))))"
  by (simp add: pay_handler_def intent_effect_def and_then_assoc)

lemma swap_handler_alt:
  "swap_handler rt A gr pm args c =
     and_then (require_swap_amounts (sw_amount_in_lamports args) (sw_min_out_lamports args)) (\<lambda>_.
     and_then (precheck_sponsor (sw_sponsor_lamports args) pm (swap_fee_payer A)) (\<lambda>_.
     and_then (intent_effect rt A (swap_spend_vault A) (swap_out_destination A) gr pm (swap_fee_payer A)
       (sw_amount_in_lamports args) (sw_sponsor_lamports args) c) (\<lambda>c.
     Inr (emit (Intent_event (Swapped (key (swap_spend_vault A)) (key (swap_out_destination A))
       (sw_amount_in_lamports args) (sw_min_out_lamports args) (key (m_agent A)) (key (m_grant A))
       (gr_generation gr))) c))))"
  by (simp add: swap_handler_def intent_effect_def and_then_assoc)

lemma intent_effect_balances:
  assumes run: "intent_effect rt A vai dai gr pm fp amount sponsor c = Inr d"
    and core: "core_meters rt"
    and ne: "key vai \<noteq> key dai" "\<And>ai p f. pm = Some (ai, p) \<Longrightarrow> fp = Some f \<Longrightarrow> key ai \<noteq> key f"
  shows "balance d k = balance c k + flow (key vai) (key dai) amount k + sponsor_flow (map_option fst pm) fp sponsor k"
proof -
  obtain c1 c2 where 1: "mouth_check_grant rt A amount c = Inr c1"
    and 2: "debit_spend_vault rt (key vai) (key dai) amount c1 = Inr c2"
    and 3: "reimburse_sponsor rt (m_grant A) gr pm fp sponsor c2 = Inr d"
    using run by (auto simp: intent_effect_def and_then_eq_Inr)
  have "balance c1 k = balance c k"
    using core_stepD(1) [OF check_grant_step(1) [OF 1 [unfolded mouth_check_grant_def] core]]
    by (simp add: balance_def)
  moreover have "balance c2 k = balance c1 k + flow (key vai) (key dai) amount k"
    by (rule vault.balances [OF 2 ne(1)])
  moreover have "balance d k = balance c2 k + sponsor_flow (map_option fst pm) fp sponsor k"
    by (rule reimburse_balances [OF 3]) (rule ne(2))
  ultimately show ?thesis
    by simp
qed

text \<open>Owners and data: only the grant account's data change, and by the metered amount.\<close>

lemma intent_effect_state:
  assumes run: "intent_effect rt A vai dai gr pm fp amount sponsor c = Inr d"
    and core: "core_meters rt"
  shows "owner_of d k = owner_of c k" and "k \<noteq> key (m_grant A) \<Longrightarrow> data_of d k = data_of c k"
    and "load_grant rt c (key (m_grant A)) = Inr g \<Longrightarrow>
      \<exists>g'. load_grant rt d (key (m_grant A)) = Inr g' \<and> metered rt g amount g'"
    and "unat amount + unat (min_balance rt spend_vault_SPACE) \<le> unat (lamports_of c (key vai))"
proof -
  obtain c1 c2 where 1: "mouth_check_grant rt A amount c = Inr c1"
    and 2: "debit_spend_vault rt (key vai) (key dai) amount c1 = Inr c2"
    and 3: "reimburse_sponsor rt (m_grant A) gr pm fp sponsor c2 = Inr d"
    using run by (auto simp: intent_effect_def and_then_eq_Inr)
  have step: "core_step rt (key (m_grant A)) amount c c1"
    by (rule check_grant_step(1) [OF 1 [unfolded mouth_check_grant_def] core])
  note frames = core_stepD [OF step] vault.frame [OF 2] reimburse_frame [OF 3]
  show "owner_of d k = owner_of c k" and "k \<noteq> key (m_grant A) \<Longrightarrow> data_of d k = data_of c k"
    using frames by simp_all
  show "unat amount + unat (min_balance rt spend_vault_SPACE) \<le> unat (lamports_of c (key vai))"
    using 2 frames(1) by (simp add: debit_spend_vault_def require_debit_eq_Inr)
  assume g: "load_grant rt c (key (m_grant A)) = Inr g"
  obtain g' where g': "load_grant rt c1 (key (m_grant A)) = Inr g'" "metered rt g amount g'"
    using core_step_load_grant [OF step g] by blast
  then have "load_grant rt d (key (m_grant A)) = Inr g'"
    using frames by (simp add: load_grant_def res_simps)
  with g' show "\<exists>g'. load_grant rt d (key (m_grant A)) = Inr g' \<and> metered rt g amount g'"
    by blast
qed

lemma payE:
  assumes "pay rt A args c = Inr d"
  obtains ga gr sv pm e where
    "mouth_load rt A c = Inr (ga, gr)" "mouth_constraints rt A ga gr = Inr ()"
    "load_spend_vault c (key (pay_spend_vault A)) = Inr sv"
    "vault_constraints rt (pay_spend_vault A) (key (m_grok_account A)) (ga_root ga) sv = Inr ()"
    "load_paymaster_opt c (pay_paymaster A) = Inr pm"
    "paymaster_opt_constraints rt pm (key (m_grok_account A)) (ga_root ga) = Inr ()"
    "signer_opt (pay_fee_payer A) = Inr ()" "0 < pa_amount_lamports args"
    "precheck_sponsor (pa_sponsor_lamports args) pm (pay_fee_payer A) = Inr ()"
    "intent_effect rt A (pay_spend_vault A) (pay_recipient A) gr pm (pay_fee_payer A)
       (pa_amount_lamports args) (pa_sponsor_lamports args) c = Inr e"
    "d = emit (Intent_event (Paid (key (pay_spend_vault A)) (key (pay_recipient A))
       (pa_amount_lamports args) (key (m_agent A)) (key (m_grant A)) (gr_generation gr))) e"
  using assms
  by (auto simp: pay_def pay_accounts_def pay_handler_alt and_then_eq_Inr policy_ok(2))

lemma swapE:
  assumes "swap rt A args c = Inr d"
  obtains ga gr sv pm e where
    "mouth_load rt A c = Inr (ga, gr)" "mouth_constraints rt A ga gr = Inr ()"
    "load_spend_vault c (key (swap_spend_vault A)) = Inr sv"
    "vault_constraints rt (swap_spend_vault A) (key (m_grok_account A)) (ga_root ga) sv = Inr ()"
    "load_paymaster_opt c (swap_paymaster A) = Inr pm"
    "paymaster_opt_constraints rt pm (key (m_grok_account A)) (ga_root ga) = Inr ()"
    "signer_opt (swap_fee_payer A) = Inr ()"
    "0 < sw_amount_in_lamports args" "sw_min_out_lamports args \<le> sw_amount_in_lamports args"
    "precheck_sponsor (sw_sponsor_lamports args) pm (swap_fee_payer A) = Inr ()"
    "intent_effect rt A (swap_spend_vault A) (swap_out_destination A) gr pm (swap_fee_payer A)
       (sw_amount_in_lamports args) (sw_sponsor_lamports args) c = Inr e"
    "d = emit (Intent_event (Swapped (key (swap_spend_vault A)) (key (swap_out_destination A))
       (sw_amount_in_lamports args) (sw_min_out_lamports args) (key (m_agent A)) (key (m_grant A))
       (gr_generation gr))) e"
  using assms
  by (auto simp: swap_def swap_accounts_def swap_handler_alt and_then_eq_Inr policy_ok(3))

text \<open>\<open>swap\<close> is \<open>pay\<close> with a floor: the same accounts and the same effect.\<close>

definition swap_as_pay_infos :: "swap_infos \<Rightarrow> pay_infos" where
  "swap_as_pay_infos A =
     \<lparr>m_agent = m_agent A, m_grok_account = m_grok_account A, m_grant = m_grant A,
      m_core_program = m_core_program A, m_intents_program = m_intents_program A,
      pay_spend_vault = swap_spend_vault A, pay_recipient = swap_out_destination A,
      pay_system_program = swap_system_program A, pay_paymaster = swap_paymaster A,
      pay_fee_payer = swap_fee_payer A\<rparr>"

definition swap_as_pay_args :: "swap_args \<Rightarrow> pay_args" where
  "swap_as_pay_args args =
     \<lparr>pa_amount_lamports = sw_amount_in_lamports args, pa_sponsor_lamports = sw_sponsor_lamports args\<rparr>"

lemma metered_zero: "metered rt g 0 g' \<Longrightarrow> g' = g"
  by (cases g; cases g') (simp add: metered_def word_unat_eq_iff)

section \<open>Properties\<close>

definition demo_pay_infos :: pay_infos where
  "demo_pay_infos =
     \<lparr>m_agent = info k_agent True False, m_grok_account = info k_grok False False,
      m_grant = info k_grant False True, m_core_program = info CORE_ID False False,
      m_intents_program = info INTENTS_ID False False,
      pay_spend_vault = info k_vault False True, pay_recipient = info k_payee False True,
      pay_system_program = info SYSTEM_PROGRAM_ID False False,
      pay_paymaster = Some (info k_paymaster False True),
      pay_fee_payer = Some (info k_relayer True True)\<rparr>"

definition demo_pay_args :: pay_args where
  "demo_pay_args = \<lparr>pa_amount_lamports = 5000, pa_sponsor_lamports = 700\<rparr>"

lemmas mouth_defs = mouth_load_def mouth_constraints_def grant_constraints_def
  mouth_check_grant_def load_paymaster_opt_def signer_opt_def writable_opt_def
  paymaster_opt_constraints_def signer_def writable_def program_def address_is_def
  seeds_bump_def grok_seeds_def vault_seeds_def vault_constraints_def paymaster_constraints_def

lemma demo_check_grant:
  "unat a \<le> 999600 \<Longrightarrow>
   check_grant demo_rt (info CORE_ID s w) g (info k_grant s' w') ag t a demo_chain
     = Inr (with_data k_grant (word_bytes (400 + a)) demo_chain)"
  by (simp add: check_grant_def invoke_def invoke_signed_def demo_cpi_def demo_core_def
      check_grant_ix_def meta_new_def CHECK_GRANT_DISCRIMINATOR_def with_data_def)

lemma demo_pay_ok: "\<exists>d. pay demo_rt demo_pay_infos demo_pay_args demo_chain = Inr d"
  by (simp add: pay_def pay_accounts_def pay_handler_def mouth_defs demo_pay_infos_def
      demo_pay_args_def demo_vault_def demo_paymaster_def demo_grant_def require_pay_amount_def
      precheck_sponsor_def require_sponsor_accounts_def require_sponsor_cap_def
      MAX_SPONSOR_LAMPORTS_def demo_check_grant debit_spend_vault_def require_debit_def
      try_debit_cases reimburse_sponsor_def demo_rent_def spend_vault_SPACE_def paymaster_SPACE_def
      lamports_of_def moved_def)

text \<open>C1: A successful \<open>pay\<close> moves exactly the amount from the vault to the recipient and the
  sponsor share from the paymaster to the relayer, whatever other accounts coincide; it leaves
  every owner and, except for the grant, all account data as they were; CORE has added the
  amount to the grant's counter without passing its cap; and the vault keeps its rent reserve.\<close>

theorem pay_effect:
  assumes "core_meters rt" and "pay rt A args c = Inr d"
    and "key (pay_spend_vault A) \<noteq> key (pay_recipient A)"
    and "\<forall>pm fp. pay_paymaster A = Some pm \<and> pay_fee_payer A = Some fp \<longrightarrow> key pm \<noteq> key fp"
  shows "(\<forall>k. balance d k = balance c k
            + flow (key (pay_spend_vault A)) (key (pay_recipient A)) (pa_amount_lamports args) k
            + sponsor_flow (pay_paymaster A) (pay_fee_payer A) (pa_sponsor_lamports args) k)
       \<and> (\<forall>k. owner_of d k = owner_of c k)
       \<and> (\<forall>k. k \<noteq> key (m_grant A) \<longrightarrow> data_of d k = data_of c k)
       \<and> (\<exists>g g'. load_grant rt c (key (m_grant A)) = Inr g \<and> load_grant rt d (key (m_grant A)) = Inr g'
            \<and> metered rt g (pa_amount_lamports args) g')
       \<and> int (unat (pa_amount_lamports args)) + int (unat (min_balance rt spend_vault_SPACE))
            \<le> balance c (key (pay_spend_vault A))"
proof -
  obtain ga gr pm e where load: "mouth_load rt A c = Inr (ga, gr)"
    and pm: "load_paymaster_opt c (pay_paymaster A) = Inr pm"
    and run: "intent_effect rt A (pay_spend_vault A) (pay_recipient A) gr pm (pay_fee_payer A)
       (pa_amount_lamports args) (pa_sponsor_lamports args) c = Inr e"
    and d: "d = emit (Intent_event (Paid (key (pay_spend_vault A)) (key (pay_recipient A))
       (pa_amount_lamports args) (key (m_agent A)) (key (m_grant A)) (gr_generation gr))) e"
    by (rule payE [OF assms(2)])
  note pm_infos = load_paymaster_opt_infos [OF pm]
  have ne: "key ai \<noteq> key f" if "pm = Some (ai, p)" "pay_fee_payer A = Some f" for ai p f
    using assms(4) that pm_infos by auto
  have bal: "balance e k = balance c k
      + flow (key (pay_spend_vault A)) (key (pay_recipient A)) (pa_amount_lamports args) k
      + sponsor_flow (pay_paymaster A) (pay_fee_payer A) (pa_sponsor_lamports args) k" for k
    using intent_effect_balances [OF run assms(1,3) ne] by (simp add: pm_infos)
  have g: "load_grant rt c (key (m_grant A)) = Inr gr"
    using load by (simp add: res_simps)
  obtain g' where "load_grant rt e (key (m_grant A)) = Inr g'"
      and m: "metered rt gr (pa_amount_lamports args) g'"
    using intent_effect_state(3) [OF run assms(1) g] by blast
  then have "load_grant rt d (key (m_grant A)) = Inr g'"
    by (simp add: d)
  moreover have "int (unat (pa_amount_lamports args)) + int (unat (min_balance rt spend_vault_SPACE))
      \<le> balance c (key (pay_spend_vault A))"
    using intent_effect_state(4) [OF run assms(1)] unfolding balance_def by linarith
  ultimately show ?thesis
    using bal g m intent_effect_state(1,2) [OF run assms(1)] by (simp add: d)
qed

lemma pay_effect_witness:
  "\<exists>d. pay demo_rt demo_pay_infos demo_pay_args demo_chain = Inr d
     \<and> balance d k_vault = 65000 \<and> balance d k_payee = 5010 \<and> balance d k_relayer = 5700"
proof -
  obtain d where d: "pay demo_rt demo_pay_infos demo_pay_args demo_chain = Inr d"
    using demo_pay_ok by blast
  have "\<forall>k. balance d k = balance demo_chain k + flow k_vault k_payee 5000 k
      + sponsor_flow (pay_paymaster demo_pay_infos) (pay_fee_payer demo_pay_infos) 700 k"
    using pay_effect [OF demo_core_meters d] by (simp add: demo_pay_infos_def demo_pay_args_def)
  then have "balance d k_vault = 65000 \<and> balance d k_payee = 5010 \<and> balance d k_relayer = 5700"
    by (simp add: balance_def lamports_of_def flow_def sponsor_flow_def demo_pay_infos_def)
  with d show ?thesis
    by blast
qed

text \<open>C8: Who can make a vault pay: the agent of the grant signed, the grant, the vault and the
  paymaster belong to the one grok account, and a sponsor share is within the cap, on an
  eligible grant, from a paymaster that is not paused, to its relayer, who signed.\<close>

theorem pay_authorised:
  assumes "pay rt A args c = Inr d"
  shows "is_signer (m_agent A) \<and> 0 < pa_amount_lamports args
    \<and> key (m_core_program A) = CORE_ID \<and> key (m_intents_program A) = INTENTS_ID
    \<and> (\<exists>ga g sv. load_grok_account rt c (key (m_grok_account A)) = Inr ga
         \<and> load_grant rt c (key (m_grant A)) = Inr g
         \<and> load_spend_vault c (key (pay_spend_vault A)) = Inr sv
         \<and> gr_agent g = key (m_agent A) \<and> gr_grok_account g = key (m_grok_account A)
         \<and> sv_grok_account sv = key (m_grok_account A) \<and> sv_root sv = ga_root ga
         \<and> (pa_sponsor_lamports args \<noteq> 0 \<longrightarrow>
              pa_sponsor_lamports args \<le> MAX_SPONSOR_LAMPORTS \<and> gr_sponsor_eligible g
              \<and> (\<exists>pm_ai pm fp. pay_paymaster A = Some pm_ai \<and> pay_fee_payer A = Some fp
                   \<and> load_paymaster c (key pm_ai) = Inr pm \<and> \<not> pm_paused pm
                   \<and> pm_grok_account pm = key (m_grok_account A) \<and> pm_root pm = ga_root ga
                   \<and> is_signer fp \<and> key fp = pm_relayer pm)))"
proof -
  obtain ga gr sv pm e where load: "mouth_load rt A c = Inr (ga, gr)"
    and mouth: "mouth_constraints rt A ga gr = Inr ()"
    and sv: "load_spend_vault c (key (pay_spend_vault A)) = Inr sv"
    and vc: "vault_constraints rt (pay_spend_vault A) (key (m_grok_account A)) (ga_root ga) sv = Inr ()"
    and pm: "load_paymaster_opt c (pay_paymaster A) = Inr pm"
    and pc: "paymaster_opt_constraints rt pm (key (m_grok_account A)) (ga_root ga) = Inr ()"
    and fp: "signer_opt (pay_fee_payer A) = Inr ()" and pos: "0 < pa_amount_lamports args"
    and pre: "precheck_sponsor (pa_sponsor_lamports args) pm (pay_fee_payer A) = Inr ()"
    and run: "intent_effect rt A (pay_spend_vault A) (pay_recipient A) gr pm (pay_fee_payer A)
       (pa_amount_lamports args) (pa_sponsor_lamports args) c = Inr e"
    by (rule payE [OF assms])
  have "\<exists>c2. reimburse_sponsor rt (m_grant A) gr pm (pay_fee_payer A) (pa_sponsor_lamports args) c2 = Inr e"
    using run by (auto simp: intent_effect_def and_then_eq_Inr)
  then have "gr_sponsor_eligible gr \<and> (\<exists>pm_ai p f. pay_paymaster A = Some pm_ai
        \<and> pay_fee_payer A = Some f \<and> load_paymaster c (key pm_ai) = Inr p \<and> \<not> pm_paused p
        \<and> pm_grok_account p = key (m_grok_account A) \<and> pm_root p = ga_root ga
        \<and> is_signer f \<and> key f = pm_relayer p)" if "pa_sponsor_lamports args \<noteq> 0"
    using that pm pc fp unfolding load_paymaster_opt_eq_Inr reimburse_sponsor_eq_Inr
    by (auto simp: sponsored_def paymaster_opt_constraints_def signer_opt_def
        blocks_eq_Inr account_checks_eq_Inr split: option.splits)
  then show ?thesis
    using load mouth sv vc pos pre
    by (auto simp: mouth_load_eq_Inr mouth_constraints_eq_Inr grant_constraints_eq_Inr
        blocks_eq_Inr precheck_sponsor_eq_Inr)
qed

lemma pay_authorised_witness:
  "\<exists>d. pay demo_rt demo_pay_infos demo_pay_args demo_chain = Inr d \<and> is_signer (m_agent demo_pay_infos)"
  using demo_pay_ok pay_authorised by blast

text \<open>C21: \<open>swap\<close> succeeds exactly when \<open>pay\<close> on the same accounts and amount does and the amount
  reaches the floor, and then does the same to the ledger; only the event differs.\<close>

theorem swap_refines_pay:
  "swap rt A args c = Inr d \<longleftrightarrow>
     sw_min_out_lamports args \<le> sw_amount_in_lamports args
     \<and> (\<exists>e gen. pay rt (swap_as_pay_infos A) (swap_as_pay_args args) c =
            Inr (emit (Intent_event (Paid (key (swap_spend_vault A)) (key (swap_out_destination A))
              (sw_amount_in_lamports args) (key (m_agent A)) (key (m_grant A)) gen)) e)
          \<and> d = emit (Intent_event (Swapped (key (swap_spend_vault A)) (key (swap_out_destination A))
              (sw_amount_in_lamports args) (sw_min_out_lamports args) (key (m_agent A))
              (key (m_grant A)) gen)) e)"
proof -
  have acc: "pay_accounts rt (swap_as_pay_infos A) c = swap_accounts rt A c"
    by (simp add: pay_accounts_def swap_accounts_def swap_as_pay_infos_def mouth_load_def
        mouth_constraints_def grant_constraints_def)
  have eff: "intent_effect rt (swap_as_pay_infos A) = intent_effect rt A"
    by (intro ext) (simp add: intent_effect_def mouth_check_grant_def swap_as_pay_infos_def)
  have inj: "emit (Intent_event (Paid v r a ag gk gen)) e = emit (Intent_event (Paid v r a ag gk gen')) e'
      \<longleftrightarrow> gen = gen' \<and> e = e'" for v r a ag gk gen gen' e e'
    by (cases e; cases e') (auto simp: emit_def)
  show ?thesis
    unfolding swap_def pay_def acc pay_handler_alt swap_handler_alt eff
    by (auto simp: and_then_eq_Inr policy_ok(2,3) swap_as_pay_infos_def swap_as_pay_args_def inj)
qed

text \<open>\<open>deploy\<close> debits no vault: besides the sponsor share no balance changes, CORE meters
  zero, and no data but the grant's are written.\<close>

theorem deploy_moves_nothing:
  assumes "core_meters rt" and "deploy rt A args c = Inr d"
    and "\<forall>pm fp. deploy_paymaster A = Some pm \<and> deploy_fee_payer A = Some fp \<longrightarrow> key pm \<noteq> key fp"
  shows "(\<forall>k. balance d k = balance c k
            + sponsor_flow (deploy_paymaster A) (deploy_fee_payer A) (dp_sponsor_lamports args) k)
       \<and> (\<forall>k. owner_of d k = owner_of c k)
       \<and> (\<forall>k. k \<noteq> key (m_grant A) \<longrightarrow> data_of d k = data_of c k)
       \<and> (\<exists>g g'. load_grant rt c (key (m_grant A)) = Inr g
            \<and> load_grant rt d (key (m_grant A)) = Inr g' \<and> g' = g)"
proof -
  obtain ga gr pm c1 c2 where load: "mouth_load rt A c = Inr (ga, gr)"
    and pm: "load_paymaster_opt c (deploy_paymaster A) = Inr pm"
    and 1: "mouth_check_grant rt A DEPLOY_CHECK_GRANT_AMOUNT c = Inr c1"
    and 2: "reimburse_sponsor rt (m_grant A) gr pm (deploy_fee_payer A) (dp_sponsor_lamports args) c1 = Inr c2"
    and d: "d = emit (Intent_event (DeployRequested (dp_program_id args) (key (m_agent A))
       (key (m_grant A)) (gr_generation gr))) c2"
    using assms(2) by (auto simp: deploy_def deploy_accounts_def deploy_handler_def and_then_eq_Inr)
  note pm_infos = load_paymaster_opt_infos [OF pm]
  have step: "core_step rt (key (m_grant A)) DEPLOY_CHECK_GRANT_AMOUNT c c1"
    by (rule check_grant_step(1) [OF 1 [unfolded mouth_check_grant_def] assms(1)])
  have ne: "key ai \<noteq> key f" if "pm = Some (ai, p)" "deploy_fee_payer A = Some f" for ai p f
    using assms(3) that pm_infos by auto
  have bal: "balance c2 k = balance c k
      + sponsor_flow (deploy_paymaster A) (deploy_fee_payer A) (dp_sponsor_lamports args) k" for k
    using reimburse_balances [OF 2 ne] core_stepD(1) [OF step] by (simp add: pm_infos balance_def)
  have g: "load_grant rt c (key (m_grant A)) = Inr gr"
    using load by (simp add: res_simps)
  obtain g' where g': "load_grant rt c1 (key (m_grant A)) = Inr g'"
      and m: "metered rt gr DEPLOY_CHECK_GRANT_AMOUNT g'"
    using core_step_load_grant [OF step g] by blast
  have same: "g' = gr"
    using m by (simp add: DEPLOY_CHECK_GRANT_AMOUNT_def metered_zero)
  have "load_grant rt c2 (key (m_grant A)) = Inr g'"
    using g' reimburse_frame(1,2) [OF 2] by (simp add: load_grant_def res_simps)
  then show ?thesis
    using bal g same reimburse_frame(1,2) [OF 2] core_stepD(2,4) [OF step] by (simp add: d)
qed

definition demo_deploy_infos :: deploy_infos where
  "demo_deploy_infos =
     \<lparr>m_agent = info k_agent True False, m_grok_account = info k_grok False False,
      m_grant = info k_grant False True, m_core_program = info CORE_ID False False,
      m_intents_program = info INTENTS_ID False False,
      deploy_spend_vault = info k_vault False False,
      deploy_system_program = info SYSTEM_PROGRAM_ID False False,
      deploy_paymaster = Some (info k_paymaster False True),
      deploy_fee_payer = Some (info k_relayer True True)\<rparr>"

definition demo_deploy_args :: deploy_args where
  "demo_deploy_args = \<lparr>dp_sponsor_lamports = 700, dp_program_id = 99\<rparr>"

lemmas demo_eval = mouth_defs demo_vault_def demo_paymaster_def demo_grant_def
  precheck_sponsor_def require_sponsor_accounts_def require_sponsor_cap_def
  MAX_SPONSOR_LAMPORTS_def demo_check_grant debit_spend_vault_def require_debit_def
  try_debit_cases reimburse_sponsor_def demo_rent_def spend_vault_SPACE_def paymaster_SPACE_def
  lamports_of_def moved_def

lemma demo_deploy_ok: "\<exists>d. deploy demo_rt demo_deploy_infos demo_deploy_args demo_chain = Inr d"
  by (simp add: deploy_def deploy_accounts_def deploy_handler_def demo_deploy_infos_def
      demo_deploy_args_def DEPLOY_CHECK_GRANT_AMOUNT_def demo_eval)

lemma deploy_moves_nothing_witness:
  "\<exists>d. deploy demo_rt demo_deploy_infos demo_deploy_args demo_chain = Inr d
     \<and> balance d k_vault = 70000 \<and> balance d k_relayer = 5700"
proof -
  obtain d where d: "deploy demo_rt demo_deploy_infos demo_deploy_args demo_chain = Inr d"
    using demo_deploy_ok by blast
  have "\<forall>k. balance d k = balance demo_chain k
      + sponsor_flow (deploy_paymaster demo_deploy_infos) (deploy_fee_payer demo_deploy_infos) 700 k"
    using deploy_moves_nothing [OF demo_core_meters d]
    by (simp add: demo_deploy_infos_def demo_deploy_args_def)
  then have "balance d k_vault = 70000 \<and> balance d k_relayer = 5700"
    by (simp add: balance_def lamports_of_def flow_def sponsor_flow_def demo_deploy_infos_def)
  with d show ?thesis
    by blast
qed

text \<open>C22: Which error \<open>pay\<close> reports, in the order of its checks, once its accounts are valid:
  zero amount, sponsor cap, missing sponsor accounts, CORE's own refusal, a vault that cannot pay
  and keep its rent, and then the sponsor's eligibility, pause and relayer checks.\<close>

theorem pay_error_order:
  fixes args :: pay_args
  assumes acc: "pay_accounts rt A c = Inr (gr, pm)"
  defines "a \<equiv> pa_amount_lamports args" and "s \<equiv> pa_sponsor_lamports args"
    and "v \<equiv> key (pay_spend_vault A)" and "r \<equiv> key (pay_recipient A)"
  shows "(a = 0 \<longrightarrow> pay rt A args c = Inl (Intents (Base ZeroPayAmount)))
    \<and> (a \<noteq> 0 \<and> MAX_SPONSOR_LAMPORTS < s \<longrightarrow> pay rt A args c = Inl (Intents (Base SponsorCapExceeded)))
    \<and> (a \<noteq> 0 \<and> s \<noteq> 0 \<and> s \<le> MAX_SPONSOR_LAMPORTS \<and> (pm = None \<or> pay_fee_payer A = None) \<longrightarrow>
         pay rt A args c = Inl (Intents (Base SponsorAccountsRequired)))
    \<and> (a \<noteq> 0 \<and> precheck_sponsor s pm (pay_fee_payer A) = Inr () \<longrightarrow>
         (\<forall>e. mouth_check_grant rt A a c = Inl e \<longrightarrow> pay rt A args c = Inl e)
         \<and> (\<forall>c1. mouth_check_grant rt A a c = Inr c1 \<longrightarrow>
              (unat (lamports_of c1 v) < unat a + unat (min_balance rt spend_vault_SPACE) \<longrightarrow>
                 pay rt A args c = Inl (Intents (Base InsufficientSpendVault)))
              \<and> (unat a + unat (min_balance rt spend_vault_SPACE) \<le> unat (lamports_of c1 v)
                   \<and> unat (lamports_of c1 r) + unat a < 2 ^ 64 \<and> s \<noteq> 0 \<longrightarrow>
                   (\<not> gr_sponsor_eligible gr \<longrightarrow>
                      pay rt A args c = Inl (Intents (Base NotSponsorEligible)))
                   \<and> (gr_sponsor_eligible gr \<and> (\<exists>ai p. pm = Some (ai, p) \<and> pm_paused p) \<longrightarrow>
                        pay rt A args c = Inl (Intents (Base PaymasterPaused)))
                   \<and> (gr_sponsor_eligible gr \<and> (\<exists>ai p fp. pm = Some (ai, p) \<and> \<not> pm_paused p
                          \<and> pay_fee_payer A = Some fp \<and> key fp \<noteq> pm_relayer p) \<longrightarrow>
                        pay rt A args c = Inl (Intents (Base RelayerMismatch))))))"
proof -
  have run: "pay rt A args c = pay_handler rt A gr pm args c"
    by (simp add: pay_def acc)
  have pos: "a \<noteq> 0 \<Longrightarrow> require_pay_amount a = Inr ()"
    by (simp add: require_pay_amount_def word_gt_0)
  have debit: "debit_spend_vault rt v r a c1 = Inl (Intents (Base InsufficientSpendVault))"
    if "unat (lamports_of c1 v) < unat a + unat (min_balance rt spend_vault_SPACE)" for c1
    using that by (simp add: debit_spend_vault_def require_debit_eq_Inl)
  have ok: "debit_spend_vault rt v r a c1 = Inr (moved v r a c1)"
    if "unat a + unat (min_balance rt spend_vault_SPACE) \<le> unat (lamports_of c1 v)"
      "unat (lamports_of c1 r) + unat a < 2 ^ 64" for c1
    using that by (simp add: debit_spend_vault_def require_debit_eq_Inr)
  have ready: "\<exists>ai p fp. pm = Some (ai, p) \<and> pay_fee_payer A = Some fp"
    if "s \<noteq> 0" "precheck_sponsor s pm (pay_fee_payer A) = Inr ()"
    using that by (auto simp: precheck_sponsor_eq_Inr)
  have pre: "s \<noteq> 0 \<Longrightarrow> s \<le> MAX_SPONSOR_LAMPORTS \<Longrightarrow> pm = None \<or> pay_fee_payer A = None \<Longrightarrow>
      precheck_sponsor s pm (pay_fee_payer A) = Inl (Intents (Base SponsorAccountsRequired))"
    by (auto simp: precheck_sponsor_def require_sponsor_accounts_def require_sponsor_cap_def word_gt_0)
  have cap: "MAX_SPONSOR_LAMPORTS < s \<Longrightarrow>
      precheck_sponsor s pm (pay_fee_payer A) = Inl (Intents (Base SponsorCapExceeded))"
    by (auto simp: precheck_sponsor_def require_sponsor_accounts_def require_sponsor_cap_def
        word_gt_0 MAX_SPONSOR_LAMPORTS_def)
  show ?thesis
    unfolding run pay_handler_def a_def [symmetric] s_def [symmetric] v_def [symmetric] r_def [symmetric]
    using pos pre cap ready by (auto simp: require_pay_amount_def debit ok reimburse_sponsor_def)
qed

lemma pay_error_order_witness:
  "pay demo_rt demo_pay_infos \<lparr>pa_amount_lamports = 69900, pa_sponsor_lamports = 700\<rparr> demo_chain
     = Inl (Intents (Base InsufficientSpendVault))"
proof -
  have acc: "pay_accounts demo_rt demo_pay_infos demo_chain
      = Inr (demo_grant 400, Some (info k_paymaster False True, demo_paymaster))"
    by (simp add: pay_accounts_def demo_pay_infos_def mouth_defs demo_vault_def demo_paymaster_def
        demo_grant_def)
  show ?thesis
    using pay_error_order [OF acc, of "\<lparr>pa_amount_lamports = 69900, pa_sponsor_lamports = 700\<rparr>"]
    by (simp add: demo_pay_infos_def mouth_check_grant_def demo_check_grant demo_rent_def
        spend_vault_SPACE_def lamports_of_def precheck_sponsor_eq_Inr MAX_SPONSOR_LAMPORTS_def)
qed

text \<open>C25: A \<open>pay\<close> whose recipient is the vault itself credits the vault without debiting it: the
  second balance write overwrites the first, so the handler would create lamports and only the
  runtime's own balance check stands in the way.\<close>

theorem pay_to_vault_inflates:
  assumes "core_meters rt" and "pay rt A args c = Inr d"
    and "key (pay_recipient A) = key (pay_spend_vault A)" and "pa_sponsor_lamports args = 0"
  shows "lamports_of d (key (pay_spend_vault A))
    = lamports_of c (key (pay_spend_vault A)) + pa_amount_lamports args"
proof -
  obtain gr pm e where run: "intent_effect rt A (pay_spend_vault A) (pay_recipient A) gr pm
       (pay_fee_payer A) (pa_amount_lamports args) (pa_sponsor_lamports args) c = Inr e"
    and d: "lamports_of d = lamports_of e"
    by (rule payE [OF assms(2)]) (auto simp: fun_eq_iff)
  obtain c1 c2 where 1: "mouth_check_grant rt A (pa_amount_lamports args) c = Inr c1"
    and 2: "debit_spend_vault rt (key (pay_spend_vault A)) (key (pay_recipient A))
      (pa_amount_lamports args) c1 = Inr c2" and 3: "e = c2"
    using run assms(4) by (auto simp: intent_effect_def and_then_eq_Inr reimburse_sponsor_eq_Inr)
  show ?thesis
    using vault.move_effect [OF 2] core_stepD(1) [OF check_grant_step(1)
        [OF 1 [unfolded mouth_check_grant_def] assms(1)]]
    by (simp add: d 3 assms(3) moved_self)
qed

lemma pay_to_vault_inflates_witness:
  "\<exists>d. pay demo_rt (demo_pay_infos\<lparr>pay_recipient := info k_vault False True\<rparr>)
          \<lparr>pa_amount_lamports = 5000, pa_sponsor_lamports = 0\<rparr> demo_chain = Inr d
     \<and> lamports_of d k_vault = 75000"
proof -
  let ?A = "demo_pay_infos\<lparr>pay_recipient := info k_vault False True\<rparr>"
  let ?args = "\<lparr>pa_amount_lamports = 5000, pa_sponsor_lamports = 0\<rparr>"
  have "\<exists>d. pay demo_rt ?A ?args demo_chain = Inr d"
    by (simp add: pay_def pay_accounts_def pay_handler_def demo_pay_infos_def require_pay_amount_def
        demo_eval)
  then obtain d where d: "pay demo_rt ?A ?args demo_chain = Inr d"
    by blast
  from pay_to_vault_inflates [OF demo_core_meters d] d show ?thesis
    by (simp add: demo_pay_infos_def lamports_of_def)
qed

text \<open>What a debit or a reimbursement can take from any one account.\<close>

lemma debit_lower:
  assumes "require_debit err m src dst a c = Inr d"
  shows "balance c k - (if k = src then int (unat a) else 0) \<le> balance d k"
proof (cases "src = dst")
  case True
  have "lamports_of d k = (if k = dst then lamports_of c k + a else lamports_of c k)"
    using assms True by (auto simp: require_debit_eq_Inr moved_def)
  moreover have "unat (lamports_of c dst + a) = unat (lamports_of c dst) + unat a"
    by (rule unat_add_small) (use assms in \<open>simp add: require_debit_eq_Inr\<close>)
  ultimately show ?thesis
    by (auto simp: balance_def simp del: of_nat_unat)
next
  case False
  show ?thesis
    using debit.balances [OF assms False, of k] by (auto simp: flow_def)
qed

lemma reimburse_lower:
  assumes "reimburse_sponsor rt gai gr pm fp a c = Inr d"
  shows "balance c k - (if Some k = map_option (key \<circ> fst) pm then int (unat a) else 0) \<le> balance d k"
proof (cases "a = 0")
  case True
  then show ?thesis
    using assms by (simp add: reimburse_sponsor_eq_Inr)
next
  case False
  then have "sponsored rt gai gr pm fp a c d"
    using assms by (simp add: reimburse_sponsor_eq_Inr)
  then obtain ai p f e where pm: "pm = Some (ai, p)" "fp = Some f"
    and mv: "require_debit (Base InsufficientPaymaster) (min_balance rt paymaster_SPACE)
      (key ai) (key f) a c = Inr (moved (key ai) (key f) a c)"
    and d: "d = emit e (moved (key ai) (key f) a c)"
    by (auto simp: sponsored_def require_debit_eq_Inr split: option.splits)
  show ?thesis
    using debit_lower [OF mv, of k] by (auto simp: d pm)
qed

lemma foreign_frameD:
  assumes "foreign_frame rt" and "invoke_signed rt ix infos ss c = Inr d"
    and "ix_program_id ix \<noteq> INTENTS_ID" and "owner_of c k = INTENTS_ID"
  shows "owner_of d k = INTENTS_ID \<and> data_of d k = data_of c k \<and> balance c k \<le> balance d k"
proof -
  obtain m where m: "invoke_cpi rt ix infos ss (accts c) = Inr m" "d = c\<lparr>accts := m\<rparr>"
    using assms(2) by (auto simp: invoke_signed_eq_Inr)
  have "acc_owner (m k) = INTENTS_ID \<and> acc_data (m k) = acc_data (accts c k)
      \<and> acc_lamports (accts c k) \<le> acc_lamports (m k)"
    using assms(1) [unfolded foreign_frame_def, rule_format, OF assms(3) m(1)] assms(4)
    by (simp add: owner_of_def)
  then show ?thesis
    by (simp add: m(2) owner_of_def data_of_def balance_def lamports_of_def word_le_nat_alt
        del: of_nat_unat)
qed

lemma callE:
  assumes "call rt A args remaining c = Inr d"
  obtains ga gr pm c1 c2 c3 c4 where
    "mouth_load rt A c = Inr (ga, gr)" "load_paymaster_opt c (call_paymaster A) = Inr pm"
    "key (call_target A) = ca_target_program args"
    "reject_protected_remaining remaining (key (call_spend_vault A))
       (map_option (\<lambda>(ai, _). key ai) pm) = Inr ()"
    "mouth_check_grant rt A (ca_amount_lamports args) c = Inr c1"
    "(if 0 < ca_amount_lamports args
      then debit_spend_vault rt (key (call_spend_vault A)) (key (call_recipient A))
             (ca_amount_lamports args) c1
      else Inr c1) = Inr c2"
    "call_inner rt (ca_target_program args) remaining c2 = Inr c3"
    "reimburse_sponsor rt (m_grant A) gr pm (call_fee_payer A) (ca_sponsor_lamports args) c3 = Inr c4"
    "d = emit (Intent_event (Called (ca_target_program args) (key (call_recipient A))
       (ca_amount_lamports args) (word_of_nat (length remaining)) (key (m_agent A)) (key (m_grant A))
       (gr_generation gr))) c4"
  using assms
  by (auto simp: call_def call_accounts_def call_handler_def and_then_eq_Inr Let_def require_eq_Inr
      simp del: word_of_nat_eq_iff)

definition demo_call_infos :: call_infos where
  "demo_call_infos =
     \<lparr>m_agent = info k_agent True False, m_grok_account = info k_grok False False,
      m_grant = info k_grant False True, m_core_program = info CORE_ID False False,
      m_intents_program = info INTENTS_ID False False,
      call_spend_vault = info k_vault False True, call_recipient = info k_payee False True,
      call_system_program = info SYSTEM_PROGRAM_ID False False,
      call_target = info k_program False False,
      call_paymaster = Some (info k_paymaster False True),
      call_fee_payer = Some (info k_relayer True True)\<rparr>"

definition demo_call_args :: call_args where
  "demo_call_args =
     \<lparr>ca_amount_lamports = 5000, ca_sponsor_lamports = 700, ca_target_program = k_program\<rparr>"

definition demo_remaining :: "account_info list" where
  "demo_remaining = [info k_program False False, info k_payee False True]"

lemma demo_call_ok:
  "\<exists>d. call demo_rt demo_call_infos demo_call_args demo_remaining demo_chain = Inr d"
  by (simp add: call_def call_accounts_def call_handler_def demo_call_infos_def demo_call_args_def
      demo_remaining_def reject_protected_remaining_def call_inner_def invoke_def
      invoke_signed_def inner_call_ix_def demo_cpi_def demo_eval)

lemma paused_never_reimburses:
  assumes "load_paymaster c (key ai) = Inr p" and "pm_paused p" and "a \<noteq> 0"
    and "load_paymaster_opt c (Some ai) = Inr pm"
  shows "reimburse_sponsor rt gai gr pm fp a c' \<noteq> Inr d"
  using assms by (auto simp: load_paymaster_opt_eq_Inr reimburse_sponsor_eq_Inr sponsored_def
      split: option.splits)

text \<open>C23: Pausing stops sponsorship at once: on the ledger \<open>pause_paymaster\<close> leaves, no \<open>pay\<close>, \<open>swap\<close>,
  \<open>deploy\<close> or \<open>call\<close> that names this paymaster and asks for a sponsor share succeeds.\<close>

theorem pause_stops_sponsorship:
  assumes "pause_paymaster rt B c = Inr d" and pm_key: "key ai = key (mpm_paymaster B)"
  shows "(pay_paymaster P = Some ai \<and> pa_sponsor_lamports pa \<noteq> 0 \<longrightarrow> pay rt P pa d \<noteq> Inr e)
    \<and> (swap_paymaster S = Some ai \<and> sw_sponsor_lamports sa \<noteq> 0 \<longrightarrow> swap rt S sa d \<noteq> Inr e)
    \<and> (deploy_paymaster D = Some ai \<and> dp_sponsor_lamports da \<noteq> 0 \<longrightarrow> deploy rt D da d \<noteq> Inr e)
    \<and> (call_paymaster C = Some ai \<and> ca_sponsor_lamports ca \<noteq> 0 \<longrightarrow> call rt C ca rs d \<noteq> Inr e)"
proof -
  obtain pm where "load_paymaster c (key ai) = Inr pm"
    and "store_paymaster (pm\<lparr>pm_paused := True\<rparr>) (key ai) (emit (Vault_event
      (PaymasterPaused_event (key (mpm_paymaster B)) (key (mpm_grok_account B)) (key (mpm_root B)))) c)
      = Inr d"
    using assms(1) by (auto simp: pause_paymaster_def and_then_eq_Inr Let_def pm_key
        manage_paymaster_accounts_eq_Inr)
  then have p: "load_paymaster d (key ai) = Inr (pm\<lparr>pm_paused := True\<rparr>)"
    by (rule paymaster_rewrite)
  note no = paused_never_reimburses [OF p, simplified]
  have 1: "pay rt P pa d \<noteq> Inr e" if "pay_paymaster P = Some ai" "pa_sponsor_lamports pa \<noteq> 0"
    using that no by (auto simp: pay_def pay_accounts_def pay_handler_def and_then_eq_Inr)
  have 2: "swap rt S sa d \<noteq> Inr e" if "swap_paymaster S = Some ai" "sw_sponsor_lamports sa \<noteq> 0"
    using that no by (auto simp: swap_def swap_accounts_def swap_handler_def and_then_eq_Inr)
  have 3: "deploy rt D da d \<noteq> Inr e" if "deploy_paymaster D = Some ai" "dp_sponsor_lamports da \<noteq> 0"
    using that no by (auto simp: deploy_def deploy_accounts_def deploy_handler_def and_then_eq_Inr)
  have 4: "call rt C ca rs d \<noteq> Inr e" if "call_paymaster C = Some ai" "ca_sponsor_lamports ca \<noteq> 0"
    using that no by (auto simp: call_def call_accounts_def call_handler_def and_then_eq_Inr Let_def)
  show ?thesis
    using 1 2 3 4 by blast
qed

lemma pause_stops_sponsorship_witness:
  "\<exists>d. pause_paymaster demo_rt demo_manage_infos demo_chain = Inr d
     \<and> (\<forall>e. pay demo_rt demo_pay_infos demo_pay_args d \<noteq> Inr e)"
proof -
  obtain d where d: "pause_paymaster demo_rt demo_manage_infos demo_chain = Inr d"
    using demo_pause_ok by blast
  have "pay demo_rt demo_pay_infos demo_pay_args d \<noteq> Inr e" for e
    using pause_stops_sponsorship [OF d, of "info k_paymaster False True" demo_pay_infos]
    by (simp add: demo_manage_infos_def demo_pay_infos_def demo_pay_args_def)
  with d show ?thesis
    by blast
qed

end
