(* ===== verification/Tokens.thy ===== *)
theory Tokens imports Intents begin

text \<open>
  What the program reads of SPL token accounts and mints, the token instructions it builds,
  and what it relies on of the token programs. The four private copies of
  \<open>token_account_fields\<close> in the source differ in the accepted owners, the minimum length and
  the error; they are instances of \<open>token_fields\<close>. A demonstration token program extends the
  demonstration runtime.
\<close>

section \<open>Token accounts\<close>

definition token_mint :: "byte list \<Rightarrow> pubkey" where
  "token_mint bs = pubkey_of_bytes (take 32 bs)"

definition token_owner :: "byte list \<Rightarrow> pubkey" where
  "token_owner bs = pubkey_of_bytes (take 32 (drop 32 bs))"

definition token_amount :: "byte list \<Rightarrow> u64" where
  "token_amount bs = word_of_bytes (take 8 (drop 64 bs))"

definition token_fields ::
  "pubkey list \<Rightarrow> nat \<Rightarrow> intents_error \<Rightarrow> pubkey \<Rightarrow> chain \<Rightarrow> (pubkey \<times> pubkey \<times> u64) res" where
  "token_fields owners min_len err k c =
     and_then (require (owner_of c k \<in> set owners) (Pump InvalidTokenProgram)) (\<lambda>_.
     let bs = data_of c k in
     and_then (require (min_len \<le> length bs) err) (\<lambda>_.
     Inr (token_mint bs, token_owner bs, token_amount bs)))"

definition TOKEN_ACCOUNT_MIN_LEN :: nat where
  "TOKEN_ACCOUNT_MIN_LEN = 165"

definition MINT_DECIMALS_OFFSET :: nat where
  "MINT_DECIMALS_OFFSET = 44"

text \<open>\<open>pay_token.rs\<close> and \<open>subscription.rs\<close>.\<close>

definition token_account_fields :: "pubkey \<Rightarrow> chain \<Rightarrow> (pubkey \<times> pubkey \<times> u64) res" where
  "token_account_fields =
     token_fields [TOKEN_PROGRAM_ID, TOKEN_2022_PROGRAM_ID] TOKEN_ACCOUNT_MIN_LEN
       (Token PayTokenAccountInvalid)"

definition mint_decimals :: "pubkey \<Rightarrow> chain \<Rightarrow> u8 res" where
  "mint_decimals k c =
     and_then (require (owner_of c k = TOKEN_PROGRAM_ID \<or> owner_of c k = TOKEN_2022_PROGRAM_ID)
       (Pump InvalidTokenProgram)) (\<lambda>_.
     let bs = data_of c k in
     and_then (require (MINT_DECIMALS_OFFSET < length bs) (Token PayTokenAccountInvalid)) (\<lambda>_.
     Inr (bs ! MINT_DECIMALS_OFFSET)))"

lemma token_fields_eq_Inr [res_simps]:
  "token_fields owners n err k c = Inr (m, o', a) \<longleftrightarrow>
   owner_of c k \<in> set owners \<and> n \<le> length (data_of c k)
   \<and> m = token_mint (data_of c k) \<and> o' = token_owner (data_of c k) \<and> a = token_amount (data_of c k)"
  by (auto simp: token_fields_def and_then_eq_Inr require_eq_Inr Let_def)

lemma token_account_fields_eq_Inr [res_simps]:
  "token_account_fields k c = Inr (m, o', a) \<longleftrightarrow>
   owner_of c k \<in> {TOKEN_PROGRAM_ID, TOKEN_2022_PROGRAM_ID} \<and> 165 \<le> length (data_of c k)
   \<and> m = token_mint (data_of c k) \<and> o' = token_owner (data_of c k) \<and> a = token_amount (data_of c k)"
  by (simp add: token_account_fields_def token_fields_eq_Inr TOKEN_ACCOUNT_MIN_LEN_def)

lemma mint_decimals_eq_Inr [res_simps]:
  "mint_decimals k c = Inr dec \<longleftrightarrow>
   owner_of c k \<in> {TOKEN_PROGRAM_ID, TOKEN_2022_PROGRAM_ID} \<and> 44 < length (data_of c k)
   \<and> dec = data_of c k ! 44"
  by (auto simp: mint_decimals_def and_then_eq_Inr require_eq_Inr Let_def MINT_DECIMALS_OFFSET_def)

section \<open>Token instructions\<close>

definition TOKEN_IX_TRANSFER_CHECKED :: u8 where
  "TOKEN_IX_TRANSFER_CHECKED = 12"

definition transfer_checked_ix ::
  "pubkey \<Rightarrow> pubkey \<Rightarrow> pubkey \<Rightarrow> pubkey \<Rightarrow> pubkey \<Rightarrow> u64 \<Rightarrow> u8 \<Rightarrow> instruction" where
  "transfer_checked_ix token_program src mint dst authority amount decimals =
     \<lparr>ix_program_id = token_program,
      ix_accounts = [meta_new src False, meta_new_readonly mint False, meta_new dst False,
        meta_new_readonly authority True],
      ix_data = [TOKEN_IX_TRANSFER_CHECKED] @ word_bytes amount @ [decimals]\<rparr>"

text \<open>
  \<open>token_transfers\<close>: a successful \<open>TransferChecked\<close> found the amount in the source. It takes exactly
  the amount from there, credits at most that to the destination (a Token-2022 mint may withhold a
  fee), keeps both accounts' mint and owner, and touches no other account (no other is passed as
  writable). From an account to itself it checks the same and moves nothing.
\<close>

definition token_transfers :: "runtime \<Rightarrow> bool" where
  "token_transfers rt \<longleftrightarrow>
     (\<forall>tp src mint dst auth amount dec infos ss m m'.
        tp \<in> {TOKEN_PROGRAM_ID, TOKEN_2022_PROGRAM_ID} \<longrightarrow>
        invoke_cpi rt (transfer_checked_ix tp src mint dst auth amount dec) infos ss m = Inr m' \<longrightarrow>
        unat amount \<le> unat (token_amount (acc_data (m src)))
        \<and> (if src = dst then m' = m
           else unat (token_amount (acc_data (m src))) = unat (token_amount (acc_data (m' src))) + unat amount
             \<and> unat (token_amount (acc_data (m' dst))) \<le> unat (token_amount (acc_data (m dst))) + unat amount
             \<and> (\<forall>k \<in> {src, dst}. token_owner (acc_data (m' k)) = token_owner (acc_data (m k))
                  \<and> token_mint (acc_data (m' k)) = token_mint (acc_data (m k)))
             \<and> (\<forall>k. k \<noteq> src \<longrightarrow> k \<noteq> dst \<longrightarrow> m' k = m k)))"

text \<open>What a transfer of the program leaves behind, on the chain.\<close>

definition token_paid :: "pubkey \<Rightarrow> pubkey \<Rightarrow> u64 \<Rightarrow> chain \<Rightarrow> chain \<Rightarrow> bool" where
  "token_paid src dst amount c d \<longleftrightarrow>
     unat amount \<le> unat (token_amount (data_of c src))
     \<and> (if src = dst then data_of d src = data_of c src
        else unat (token_amount (data_of c src)) = unat (token_amount (data_of d src)) + unat amount
          \<and> unat (token_amount (data_of d dst)) \<le> unat (token_amount (data_of c dst)) + unat amount
          \<and> (\<forall>k \<in> {src, dst}. token_owner (data_of d k) = token_owner (data_of c k)
               \<and> token_mint (data_of d k) = token_mint (data_of c k)))"

lemma token_paid_cong:
  assumes "\<And>k. k \<in> {src, dst} \<Longrightarrow> data_of c' k = data_of c k"
    and "\<And>k. k \<in> {src, dst} \<Longrightarrow> data_of d' k = data_of d k"
  shows "token_paid src dst amount c' d' = token_paid src dst amount c d"
  using assms by (simp add: token_paid_def)

lemma transfer_paid:
  assumes "token_transfers rt" and "tp \<in> {TOKEN_PROGRAM_ID, TOKEN_2022_PROGRAM_ID}"
    and "invoke_signed rt (transfer_checked_ix tp src mint dst auth amount dec) infos ss c = Inr d"
  shows "token_paid src dst amount c d" and "k \<noteq> src \<Longrightarrow> k \<noteq> dst \<Longrightarrow> accts d k = accts c k"
    and "events d = events c"
proof -
  obtain m where m: "invoke_cpi rt (transfer_checked_ix tp src mint dst auth amount dec) infos ss (accts c) = Inr m"
    and d: "d = c\<lparr>accts := m\<rparr>"
    using assms(3) by (auto simp: invoke_signed_eq_Inr)
  note t = assms(1) [unfolded token_transfers_def, THEN spec, THEN spec, THEN spec, THEN spec, THEN spec,
      THEN spec, THEN spec, THEN spec, THEN spec, THEN spec, THEN spec, THEN mp, THEN mp, OF assms(2) m]
  show "token_paid src dst amount c d"
    using t by (simp add: token_paid_def data_of_def d split: if_splits)
  show "k \<noteq> src \<Longrightarrow> k \<noteq> dst \<Longrightarrow> accts d k = accts c k"
    using t by (simp add: d split: if_splits)
  show "events d = events c"
    by (simp add: d)
qed

lemma token_ids [simp]:
  "TOKEN_PROGRAM_ID \<noteq> INTENTS_ID" "TOKEN_2022_PROGRAM_ID \<noteq> INTENTS_ID"
  "TOKEN_PROGRAM_ID \<noteq> CORE_ID" "TOKEN_2022_PROGRAM_ID \<noteq> CORE_ID"
  "TOKEN_PROGRAM_ID \<noteq> SYSTEM_PROGRAM_ID" "TOKEN_2022_PROGRAM_ID \<noteq> SYSTEM_PROGRAM_ID"
  "TOKEN_PROGRAM_ID \<noteq> TOKEN_2022_PROGRAM_ID"
  by (simp_all add: key_simps)

section \<open>A demonstration token program\<close>

definition set_amount :: "byte list \<Rightarrow> u64 \<Rightarrow> byte list" where
  "set_amount bs v = take 64 bs @ word_bytes v @ drop 72 bs"

lemma set_amount_reads [simp]:
  assumes "72 \<le> length bs"
  shows "token_amount (set_amount bs v) = v" and "token_owner (set_amount bs v) = token_owner bs"
    and "token_mint (set_amount bs v) = token_mint bs" and "length (set_amount bs v) = length bs"
  using assms
  by (simp_all add: token_amount_def token_owner_def token_mint_def set_amount_def min_def
      drop_take word_of_bytes_word_bytes)

definition token_move :: "pubkey \<Rightarrow> pubkey \<Rightarrow> pubkey \<Rightarrow> u64 \<Rightarrow> ledger \<Rightarrow> nat + ledger" where
  "token_move tp src dst amount m =
     (if src = dst \<and> unat amount \<le> unat (token_amount (acc_data (m src))) then Inr m
      else if src \<noteq> dst \<and> acc_owner (m src) = tp \<and> acc_owner (m dst) = tp
         \<and> 72 \<le> length (acc_data (m src)) \<and> 72 \<le> length (acc_data (m dst))
         \<and> unat amount \<le> unat (token_amount (acc_data (m src)))
         \<and> unat (token_amount (acc_data (m dst))) + unat amount < 2 ^ 64
      then Inr (m(src := (m src)\<lparr>acc_data :=
                    set_amount (acc_data (m src)) (token_amount (acc_data (m src)) - amount)\<rparr>,
                  dst := (m dst)\<lparr>acc_data :=
                    set_amount (acc_data (m dst)) (token_amount (acc_data (m dst)) + amount)\<rparr>))
      else Inl 1)"

definition mint_supply :: "byte list \<Rightarrow> u64" where
  "mint_supply bs = word_of_bytes (take 8 (drop 36 bs))"

definition set_supply :: "byte list \<Rightarrow> u64 \<Rightarrow> byte list" where
  "set_supply bs v = take 36 bs @ word_bytes v @ drop 44 bs"

lemma set_supply_reads [simp]:
  assumes "44 < length bs"
  shows "mint_supply (set_supply bs v) = v" and "length (set_supply bs v) = length bs"
    and "set_supply bs v ! 44 = bs ! 44"
  using assms
  by (simp_all add: mint_supply_def set_supply_def min_def nth_append word_of_bytes_word_bytes)

definition token_burn :: "pubkey \<Rightarrow> pubkey \<Rightarrow> pubkey \<Rightarrow> u64 \<Rightarrow> ledger \<Rightarrow> nat + ledger" where
  "token_burn tp src mint amount m =
     (if src \<noteq> mint \<and> acc_owner (m src) = tp \<and> acc_owner (m mint) = tp
         \<and> 72 \<le> length (acc_data (m src)) \<and> 44 < length (acc_data (m mint))
         \<and> unat amount \<le> unat (token_amount (acc_data (m src)))
         \<and> unat amount \<le> unat (mint_supply (acc_data (m mint)))
      then Inr (m(src := (m src)\<lparr>acc_data :=
                    set_amount (acc_data (m src)) (token_amount (acc_data (m src)) - amount)\<rparr>,
                  mint := (m mint)\<lparr>acc_data :=
                    set_supply (acc_data (m mint)) (mint_supply (acc_data (m mint)) - amount)\<rparr>))
      else Inl 1)"

definition demo_token_cpi ::
  "instruction \<Rightarrow> account_info list \<Rightarrow> seeds list \<Rightarrow> ledger \<Rightarrow> nat + ledger" where
  "demo_token_cpi ix infos ss m =
     (if ix_program_id ix = TOKEN_PROGRAM_ID \<or> ix_program_id ix = TOKEN_2022_PROGRAM_ID
      then let key_at = (\<lambda>i. meta_pubkey (ix_accounts ix ! i));
               amount = word_of_bytes (take 8 (drop 1 (ix_data ix)));
               tag = hd (ix_data ix)
           in if tag = 12 then token_move (ix_program_id ix) (key_at 0) (key_at 2) amount m
              else if tag = 3 then token_move (ix_program_id ix) (key_at 0) (key_at 1) amount m
              else if tag = 15 then token_burn (ix_program_id ix) (key_at 0) (key_at 1) amount m
              else Inr m
      else demo_cpi ix infos ss m)"

definition demo_token_rt :: runtime where
  "demo_token_rt = demo_rt\<lparr>invoke_cpi := demo_token_cpi\<rparr>"

lemma demo_token_rt_simps [simp]:
  "min_balance demo_token_rt = demo_rent" "unix_now demo_token_rt = 1000000"
  "find_program_address demo_token_rt ss pid = (demo_pda ss, 255)"
  "create_program_address demo_token_rt ss pid = Some (demo_pda ss)"
  "invoke_cpi demo_token_rt = demo_token_cpi" "init_pda demo_token_rt = demo_init"
  "decode_grok_account demo_token_rt bs = Inr \<lparr>ga_root = k_root, ga_bump = 255\<rparr>"
  "decode_grant demo_token_rt = demo_decode_grant"
  by (simp_all add: demo_token_rt_def)

lemma demo_token_grok [simp]: "load_grok_account demo_token_rt = load_grok_account demo_rt"
  by (intro ext) (simp add: load_grok_account_def load_typed_def)

lemma demo_token_grant [simp]: "load_grant demo_token_rt = load_grant demo_rt"
  by (intro ext) (simp add: load_grant_def load_typed_def)

lemma demo_token_other:
  "ix_program_id ix \<noteq> TOKEN_PROGRAM_ID \<Longrightarrow> ix_program_id ix \<noteq> TOKEN_2022_PROGRAM_ID \<Longrightarrow>
   demo_token_cpi ix infos ss m = demo_cpi ix infos ss m"
  by (simp add: demo_token_cpi_def)

lemma demo_token_core_meters: "core_meters demo_token_rt"
  using demo_core_meters unfolding core_meters_def metered_def
  by (simp add: demo_token_other token_ids [symmetric])

lemma demo_token_transfer_exact: "transfer_exact demo_token_rt"
  using demo_transfer_exact unfolding transfer_exact_def
  by (simp add: demo_token_other system_transfer_def token_ids [symmetric])

lemma demo_token_transfers: "token_transfers demo_token_rt"
  unfolding token_transfers_def
proof (intro allI impI)
  fix tp src mint dst auth :: pubkey and amount dec infos ss and m m' :: ledger
  assume tp: "tp \<in> {TOKEN_PROGRAM_ID, TOKEN_2022_PROGRAM_ID}"
    and "invoke_cpi demo_token_rt (transfer_checked_ix tp src mint dst auth amount dec) infos ss m = Inr m'"
  then have "token_move tp src dst amount m = Inr m'"
    by (auto simp: demo_token_cpi_def transfer_checked_ix_def meta_new_def meta_new_readonly_def
        TOKEN_IX_TRANSFER_CHECKED_def Let_def)
  then show "unat amount \<le> unat (token_amount (acc_data (m src)))
        \<and> (if src = dst then m' = m
           else unat (token_amount (acc_data (m src))) = unat (token_amount (acc_data (m' src))) + unat amount
             \<and> unat (token_amount (acc_data (m' dst))) \<le> unat (token_amount (acc_data (m dst))) + unat amount
             \<and> (\<forall>k \<in> {src, dst}. token_owner (acc_data (m' k)) = token_owner (acc_data (m k))
                  \<and> token_mint (acc_data (m' k)) = token_mint (acc_data (m k)))
             \<and> (\<forall>k. k \<noteq> src \<longrightarrow> k \<noteq> dst \<longrightarrow> m' k = m k))"
    by (auto simp: token_move_def unat_sub_le word_le_nat_alt unat_add_small split: if_splits)
qed

lemma token_move_frame:
  assumes "token_move tp src dst amount m = Inr m'" and "acc_owner (m k) \<noteq> tp"
  shows "m' k = m k"
proof -
  have "m' = m \<or> k \<noteq> src \<and> k \<noteq> dst"
    using assms by (auto simp: token_move_def split: if_splits)
  with assms(1) show ?thesis
    by (auto simp: token_move_def split: if_splits)
qed

lemma token_burn_frame:
  assumes "token_burn tp src mint amount m = Inr m'" and "acc_owner (m k) \<noteq> tp"
  shows "m' k = m k"
proof -
  have "k \<noteq> src" "k \<noteq> mint"
    using assms by (auto simp: token_burn_def split: if_splits)
  with assms(1) show ?thesis
    by (auto simp: token_burn_def split: if_splits)
qed

lemma demo_token_foreign_frame: "foreign_frame demo_token_rt"
  unfolding foreign_frame_def
proof (intro allI impI)
  fix ix infos ss and m m' :: ledger and k
  assume ix: "ix_program_id ix \<noteq> INTENTS_ID"
    and run: "invoke_cpi demo_token_rt ix infos ss m = Inr m'" and own: "acc_owner (m k) = INTENTS_ID"
  show "acc_owner (m' k) = INTENTS_ID \<and> acc_data (m' k) = acc_data (m k)
      \<and> acc_lamports (m k) \<le> acc_lamports (m' k)"
  proof (cases "ix_program_id ix \<in> {TOKEN_PROGRAM_ID, TOKEN_2022_PROGRAM_ID}")
    case True
    then have "acc_owner (m k) \<noteq> ix_program_id ix"
      using own ix by simp
    then have "m' k = m k"
      using run True token_move_frame [of "ix_program_id ix"] token_burn_frame [of "ix_program_id ix"]
      by (auto simp: demo_token_cpi_def Let_def split: if_splits)
    with own show ?thesis
      by simp
  next
    case False
    then have "invoke_cpi demo_rt ix infos ss m = Inr m'"
      using run by (simp add: demo_token_other)
    then show ?thesis
      using demo_foreign_frame [unfolded foreign_frame_def] ix own by blast
  qed
qed

text \<open>A token account and a mint of the demonstration ledger.\<close>

definition demo_holding :: "pubkey \<Rightarrow> pubkey \<Rightarrow> u64 \<Rightarrow> byte list" where
  "demo_holding mint own amount =
     pubkey_bytes mint @ pubkey_bytes own @ word_bytes amount @ replicate 93 0"

definition demo_mint_data :: "byte list" where
  "demo_mint_data = replicate 44 0 @ [6] @ replicate 37 0"

lemma demo_holding_reads [simp]:
  "token_mint (demo_holding m k a) = m" "token_owner (demo_holding m k a) = k"
  "token_amount (demo_holding m k a) = a" "length (demo_holding m k a) = 165"
  by (simp_all add: demo_holding_def token_mint_def token_owner_def token_amount_def)

lemma set_amount_holding [simp]: "set_amount (demo_holding m k a) v = demo_holding m k v"
  by (simp add: demo_holding_def set_amount_def)

lemma demo_mint_reads [simp]: "length demo_mint_data = 82" "demo_mint_data ! 44 = 6"
  by (simp_all add: demo_mint_data_def nth_append)

text \<open>The two calls of a payment on a ledger with the demonstration accounts.\<close>

lemma demo_token_check_grant:
  "accts c k_grant = demo_account 300 CORE_ID (word_bytes (400 :: u64)) \<Longrightarrow> unat a \<le> 999600 \<Longrightarrow>
   check_grant demo_token_rt (info CORE_ID s w) g (info k_grant s' w') ag t a c
     = Inr (with_data k_grant (word_bytes (400 + a)) c)"
  by (simp add: check_grant_def invoke_def invoke_signed_def demo_token_other token_ids [symmetric]
      demo_cpi_def demo_core_def check_grant_ix_def meta_new_def CHECK_GRANT_DISCRIMINATOR_def
      with_data_def)

lemma demo_token_transfer:
  assumes "acc_owner (accts c src) = tp" "acc_owner (accts c dst) = tp"
    and "tp \<in> {TOKEN_PROGRAM_ID, TOKEN_2022_PROGRAM_ID}" and "src \<noteq> dst"
    and "acc_data (accts c src) = demo_holding m j b" "acc_data (accts c dst) = demo_holding n l e"
    and "a \<le> b" "unat e + unat a < 2 ^ 64"
  shows "invoke_signed demo_token_rt (transfer_checked_ix tp src mint dst auth a dec) infos ss c
    = Inr (with_data dst (demo_holding n l (e + a)) (with_data src (demo_holding m j (b - a)) c))"
proof -
  have "demo_token_cpi (transfer_checked_ix tp src mint dst auth a dec) infos ss (accts c)
      = token_move tp src dst a (accts c)"
    using assms(3) by (auto simp: demo_token_cpi_def transfer_checked_ix_def meta_new_def
        meta_new_readonly_def TOKEN_IX_TRANSFER_CHECKED_def Let_def)
  moreover have "token_move tp src dst a (accts c) = Inr ((accts c)
      (src := (accts c src)\<lparr>acc_data := demo_holding m j (b - a)\<rparr>,
       dst := (accts c dst)\<lparr>acc_data := demo_holding n l (e + a)\<rparr>))"
    using assms by (simp add: token_move_def word_le_nat_alt)
  ultimately show ?thesis
    using assms(4) by (simp add: invoke_signed_def with_data_def)
qed

end
