(* ===== verification/Merchants.thy ===== *)
theory Merchants imports Vaults begin

text \<open>
  \<open>instructions/merchants.rs\<close>: the root-owned payee allowlist. The list operations are the
  bodies of \<open>add\<close> and \<open>remove\<close> on the decoded registry; \<open>allowlist\<close> is what they promise, a
  bounded finite set, and the payment handlers rely on nothing else.
\<close>

section \<open>The contract of an allowlist\<close>

locale allowlist =
  fixes add :: "'k \<Rightarrow> 's \<Rightarrow> 'e + 's" and remove :: "'k \<Rightarrow> 's \<Rightarrow> 'e + 's"
    and members :: "'s \<Rightarrow> 'k set" and inv :: "'s \<Rightarrow> bool" and capacity :: nat
  assumes inv_bounded: "inv s \<Longrightarrow> finite (members s) \<and> card (members s) \<le> capacity"
    and add_ok: "inv s \<Longrightarrow> (\<exists>t. add k s = Inr t) \<longleftrightarrow> k \<notin> members s \<and> card (members s) < capacity"
    and add_members: "inv s \<Longrightarrow> add k s = Inr t \<Longrightarrow> inv t \<and> members t = insert k (members s)"
    and remove_ok: "inv s \<Longrightarrow> (\<exists>t. remove k s = Inr t) \<longleftrightarrow> k \<in> members s"
    and remove_members: "inv s \<Longrightarrow> remove k s = Inr t \<Longrightarrow> inv t \<and> members t = members s - {k}"
begin

lemma remove_undoes_add:
  assumes "inv s" and "add k s = Inr t"
  shows "\<exists>u. remove k t = Inr u \<and> inv u \<and> members u = members s"
proof -
  have t: "inv t" "members t = insert k (members s)" and new: "k \<notin> members s"
    using add_members [OF assms] add_ok [OF assms(1), of k] assms(2) by auto
  then obtain u where u: "remove k t = Inr u"
    using remove_ok [OF t(1), of k] by auto
  with remove_members [OF t(1) u] t(2) new show ?thesis
    by auto
qed

lemma add_once: "inv s \<Longrightarrow> add k s = Inr t \<Longrightarrow> add k t \<noteq> Inr u"
  using add_members add_ok by blast

lemma removed_refused: "inv s \<Longrightarrow> remove k s = Inr t \<Longrightarrow> k \<notin> members t \<and> remove k t \<noteq> Inr u"
  using remove_members remove_ok by blast

text \<open>A sequence of operations, \<open>True\<close> adding and \<open>False\<close> removing.\<close>

lemma update_members:
  assumes "inv s" and "(if b then add k else remove k) s = Inr t"
  shows "inv t \<and> members t = (if b then insert k (members s) else members s - {k})"
proof (cases b)
  case True
  then show ?thesis
    using add_members [of s k t] assms by simp
next
  case False
  then show ?thesis
    using remove_members [of s k t] assms by simp
qed

lemma run_members:
  "for_each (\<lambda>(b, k). if b then add k else remove k) ops s = Inr t \<Longrightarrow> inv s \<Longrightarrow>
   inv t \<and> members t = fold (\<lambda>(b, k) M. if b then insert k M else M - {k}) ops (members s)"
proof (induction ops arbitrary: s)
  case Nil
  then show ?case by simp
next
  case (Cons op ops)
  obtain b k where op: "op = (b, k)"
    by (cases op)
  from Cons.prems(1) obtain s' where s': "(if b then add k else remove k) s = Inr s'"
    and rest: "for_each (\<lambda>(b, k). if b then add k else remove k) ops s' = Inr t"
    unfolding op for_each.simps prod.case and_then_eq_Inr by blast
  note here = update_members [OF Cons.prems(2) s']
  show ?case
    using Cons.IH [OF rest] here unfolding op by simp
qed

end

section \<open>The registry\<close>

definition registry_add :: "pubkey \<Rightarrow> merchant_registry \<Rightarrow> merchant_registry res" where
  "registry_add merchant reg =
     and_then (require (length (mr_merchants reg) < MAX_MERCHANTS) (Token MerchantRegistryFull)) (\<lambda>_.
     and_then (require (\<not> list_ex (\<lambda>m. m = merchant) (mr_merchants reg)) (Token MerchantAlreadyListed)) (\<lambda>_.
     Inr (reg\<lparr>mr_merchants := mr_merchants reg @ [merchant]\<rparr>)))"

definition registry_remove :: "pubkey \<Rightarrow> merchant_registry \<Rightarrow> merchant_registry res" where
  "registry_remove merchant reg =
     (let before = length (mr_merchants reg);
          reg = reg\<lparr>mr_merchants := filter (\<lambda>m. m \<noteq> merchant) (mr_merchants reg)\<rparr>
      in and_then (require (length (mr_merchants reg) < before) (Token MerchantNotListed)) (\<lambda>_. Inr reg))"

definition registry_inv :: "merchant_registry \<Rightarrow> bool" where
  "registry_inv reg \<longleftrightarrow> distinct (mr_merchants reg) \<and> length (mr_merchants reg) \<le> MAX_MERCHANTS"

definition approved :: "merchant_registry \<Rightarrow> pubkey set" where
  "approved reg = set (mr_merchants reg)"

lemma registry_add_eq_Inr:
  "registry_add k reg = Inr t \<longleftrightarrow>
   length (mr_merchants reg) < MAX_MERCHANTS \<and> k \<notin> set (mr_merchants reg)
   \<and> t = reg\<lparr>mr_merchants := mr_merchants reg @ [k]\<rparr>"
  by (auto simp: registry_add_def res_simps list_ex_iff)

lemma length_filter_less_iff: "length (filter P xs) < length xs \<longleftrightarrow> (\<exists>x \<in> set xs. \<not> P x)"
  using length_filter_less by (metis filter_True less_irrefl)

lemma registry_remove_eq_Inr:
  "registry_remove k reg = Inr t \<longleftrightarrow>
   k \<in> set (mr_merchants reg)
   \<and> t = reg\<lparr>mr_merchants := filter (\<lambda>m. m \<noteq> k) (mr_merchants reg)\<rparr>"
  by (auto simp: registry_remove_def res_simps Let_def length_filter_less_iff)

interpretation registry: allowlist registry_add registry_remove approved registry_inv MAX_MERCHANTS
proof unfold_locales
  fix s t :: merchant_registry and k
  assume s: "registry_inv s"
  then have card: "card (approved s) = length (mr_merchants s)"
    by (simp add: registry_inv_def approved_def distinct_card)
  with s show "finite (approved s) \<and> card (approved s) \<le> MAX_MERCHANTS"
    by (simp add: registry_inv_def approved_def)
  show "(\<exists>t. registry_add k s = Inr t) \<longleftrightarrow> k \<notin> approved s \<and> card (approved s) < MAX_MERCHANTS"
    unfolding card by (auto simp: registry_add_eq_Inr approved_def)
  show "registry_inv t \<and> approved t = insert k (approved s)" if "registry_add k s = Inr t"
    using that s by (auto simp: registry_add_eq_Inr registry_inv_def approved_def)
  show "(\<exists>t. registry_remove k s = Inr t) \<longleftrightarrow> k \<in> approved s"
    by (auto simp: registry_remove_eq_Inr approved_def)
  show "registry_inv t \<and> approved t = approved s - {k}" if "registry_remove k s = Inr t"
    using that s by (auto simp: registry_remove_eq_Inr registry_inv_def approved_def
        intro: order_trans [OF length_filter_le])
qed

section \<open>The instructions\<close>

record init_merchant_registry_infos =
  imr_root :: account_info
  imr_grok_account :: account_info
  imr_merchant_registry :: account_info
  imr_system_program :: account_info

definition init_merchant_registry_accounts ::
  "runtime \<Rightarrow> init_merchant_registry_infos \<Rightarrow> chain \<Rightarrow> (u8 \<times> chain) res" where
  "init_merchant_registry_accounts rt A c =
     and_then (signer (imr_root A)) (\<lambda>_.
     and_then (load_grok_account rt c (key (imr_grok_account A))) (\<lambda>ga.
     and_then (program c (imr_system_program A) SYSTEM_PROGRAM_ID) (\<lambda>_.
     and_then (init_account rt (imr_root A) merchant_registry_SPACE
       [SEED_MERCHANTS, pubkey_bytes (key (imr_grok_account A))] (imr_merchant_registry A) c) (\<lambda>(bump, c).
     and_then (writable (imr_root A)) (\<lambda>_.
     and_then (grok_of_root rt (imr_grok_account A) ga (imr_root A)) (\<lambda>_.
     Inr (bump, c)))))))"

definition merchants_init ::
  "init_merchant_registry_infos \<Rightarrow> pubkey \<Rightarrow> u8 \<Rightarrow> chain \<Rightarrow> chain res" where
  "merchants_init A mint bump c =
     (let reg = \<lparr>mr_grok_account = key (imr_grok_account A), mr_root = key (imr_root A),
                 mr_mint = mint, mr_bump = bump, mr_merchants = []\<rparr>;
          c = emit (Payment_event (MerchantRegistryInitialized (key (imr_merchant_registry A))
                (mr_grok_account reg) (mr_root reg) mint)) c
      in store_merchant_registry reg (key (imr_merchant_registry A)) c)"

definition init_merchant_registry ::
  "runtime \<Rightarrow> init_merchant_registry_infos \<Rightarrow> pubkey \<Rightarrow> chain \<Rightarrow> chain res" where
  "init_merchant_registry rt A mint c =
     and_then (init_merchant_registry_accounts rt A c) (\<lambda>(bump, c). merchants_init A mint bump c)"

record update_merchant_registry_infos =
  umr_root :: account_info
  umr_grok_account :: account_info
  umr_merchant_registry :: account_info

definition update_merchant_registry_accounts ::
  "runtime \<Rightarrow> update_merchant_registry_infos \<Rightarrow> chain \<Rightarrow> merchant_registry res" where
  "update_merchant_registry_accounts rt A c =
     and_then (signer (umr_root A)) (\<lambda>_.
     and_then (load_grok_account rt c (key (umr_grok_account A))) (\<lambda>ga.
     and_then (load_merchant_registry c (key (umr_merchant_registry A))) (\<lambda>reg.
     and_then (grok_of_root rt (umr_grok_account A) ga (umr_root A)) (\<lambda>_.
     and_then (seeds_bump rt [SEED_MERCHANTS, pubkey_bytes (key (umr_grok_account A))] (mr_bump reg)
       INTENTS_ID (umr_merchant_registry A)) (\<lambda>_.
     and_then (writable (umr_merchant_registry A)) (\<lambda>_.
     and_then (require (mr_grok_account reg = key (umr_grok_account A)) (Base GrokAccountMismatch)) (\<lambda>_.
     and_then (require (mr_root reg = key (umr_root A)) (Base UnauthorizedRoot)) (\<lambda>_.
     Inr reg))))))))"

definition merchants_add ::
  "update_merchant_registry_infos \<Rightarrow> pubkey \<Rightarrow> merchant_registry \<Rightarrow> chain \<Rightarrow> chain res" where
  "merchants_add A merchant reg c =
     and_then (registry_add merchant reg) (\<lambda>reg.
     let c = emit (Payment_event (MerchantAdded (key (umr_merchant_registry A)) (mr_grok_account reg)
               (mr_root reg) merchant (word_of_nat (length (mr_merchants reg))))) c
     in store_merchant_registry reg (key (umr_merchant_registry A)) c)"

definition add_merchant ::
  "runtime \<Rightarrow> update_merchant_registry_infos \<Rightarrow> pubkey \<Rightarrow> chain \<Rightarrow> chain res" where
  "add_merchant rt A merchant c =
     and_then (update_merchant_registry_accounts rt A c) (\<lambda>reg. merchants_add A merchant reg c)"

definition merchants_remove ::
  "update_merchant_registry_infos \<Rightarrow> pubkey \<Rightarrow> merchant_registry \<Rightarrow> chain \<Rightarrow> chain res" where
  "merchants_remove A merchant reg c =
     and_then (registry_remove merchant reg) (\<lambda>reg.
     let c = emit (Payment_event (MerchantRemoved (key (umr_merchant_registry A)) (mr_grok_account reg)
               (mr_root reg) merchant (word_of_nat (length (mr_merchants reg))))) c
     in store_merchant_registry reg (key (umr_merchant_registry A)) c)"

definition remove_merchant ::
  "runtime \<Rightarrow> update_merchant_registry_infos \<Rightarrow> pubkey \<Rightarrow> chain \<Rightarrow> chain res" where
  "remove_merchant rt A merchant c =
     and_then (update_merchant_registry_accounts rt A c) (\<lambda>reg. merchants_remove A merchant reg c)"

section \<open>Properties\<close>

text \<open>C17: The registry implements a set of at most 32 payees: whatever adds and removes succeed,
  in whatever order, the list stays free of duplicates and within its capacity, and holds
  exactly the elements of the set the same operations build.\<close>

theorem registry_implements_set:
  assumes "registry_inv reg"
    and "for_each (\<lambda>(b, k). if b then registry_add k else registry_remove k) ops reg = Inr reg'"
  shows "distinct (mr_merchants reg') \<and> length (mr_merchants reg') \<le> MAX_MERCHANTS
    \<and> set (mr_merchants reg')
        = fold (\<lambda>(b, k) M. if b then insert k M else M - {k}) ops (set (mr_merchants reg))"
  using registry.run_members [OF assms(2,1)] by (simp add: registry_inv_def approved_def)

definition demo_registry :: merchant_registry where
  "demo_registry =
     \<lparr>mr_grok_account = k_grok, mr_root = k_root, mr_mint = 40, mr_bump = 255, mr_merchants = [50]\<rparr>"

lemma demo_registry_inv: "registry_inv demo_registry"
  by (simp add: registry_inv_def demo_registry_def MAX_MERCHANTS_def)

lemma demo_registry_run:
  "for_each (\<lambda>(b, k). if b then registry_add k else registry_remove k)
     [(True, 51), (False, 50), (True, 52)] demo_registry
   = Inr (demo_registry\<lparr>mr_merchants := [51, 52]\<rparr>)"
  by (simp add: registry_add_def registry_remove_def demo_registry_def MAX_MERCHANTS_def)

lemma registry_implements_set_witness:
  "for_each (\<lambda>(b, k). if b then registry_add k else registry_remove k)
     [(True, 51), (False, 50), (True, 52)] demo_registry
   = Inr (demo_registry\<lparr>mr_merchants := [51, 52]\<rparr>)
   \<and> set [51, 52] = fold (\<lambda>(b, k) M. if b then insert k M else M - {k})
        [(True, 51), (False, 50), (True, 52)] (set (mr_merchants demo_registry))"
  using registry_implements_set [OF demo_registry_inv demo_registry_run] demo_registry_run by simp

lemma registry_fits:
  assumes "registry_inv reg" and "length bs = merchant_registry_SPACE"
  shows "\<exists>bs'. try_serialize mr_disc enc_merchant_registry reg bs = Inr bs'"
proof (rule mr_account.serialize_fits)
  show "8 + length (enc_merchant_registry reg) \<le> length bs"
    using assms by (simp add: registry_encoded_length registry_inv_def merchant_registry_SPACE_def
        MAX_MERCHANTS_def)
qed

lemma registry_store:
  assumes "registry_inv reg'" and "load_merchant_registry c k = Inr reg"
    and "length (data_of c k) = merchant_registry_SPACE"
  shows "\<exists>d. store_merchant_registry reg' k (emit e c) = Inr d \<and> load_merchant_registry d k = Inr reg'
    \<and> length (data_of d k) = merchant_registry_SPACE \<and> (\<forall>j. j \<noteq> k \<longrightarrow> accts d j = accts c j)
    \<and> events d = events c @ [e]"
proof -
  have len: "length (data_of (emit e c) k) = merchant_registry_SPACE"
    using assms(3) by simp
  obtain bs where bs: "try_serialize mr_disc enc_merchant_registry reg' (data_of (emit e c) k) = Inr bs"
    using registry_fits [OF assms(1) len] by blast
  have st: "store_merchant_registry reg' k (emit e c) = Inr (with_data k bs (emit e c))"
    unfolding store_typed_def bs by simp
  have "load_merchant_registry (emit e c) k = Inr reg"
    using assms(2) by simp
  then have "load_merchant_registry (with_data k bs (emit e c)) k = Inr reg'"
    by (rule mr_account.acct.load_store [OF _ _ st])
      (use assms(1) in \<open>simp add: registry_inv_def MAX_MERCHANTS_def\<close>)
  moreover have "length bs = merchant_registry_SPACE"
    using mr_account.serialize_length [OF bs] len by simp
  ultimately show ?thesis
    using st by simp
qed

lemma registry_written:
  assumes acc: "update_merchant_registry_accounts rt A c = Inr reg" and inv: "registry_inv reg"
    and len: "length (data_of c (key (umr_merchant_registry A))) = merchant_registry_SPACE"
  shows "registry_add m reg = Inr t \<Longrightarrow> \<exists>d. add_merchant rt A m c = Inr d
      \<and> load_merchant_registry d (key (umr_merchant_registry A)) = Inr t
      \<and> (\<forall>k. k \<noteq> key (umr_merchant_registry A) \<longrightarrow> accts d k = accts c k)"
    and "registry_remove m reg = Inr t \<Longrightarrow> \<exists>d. remove_merchant rt A m c = Inr d
      \<and> load_merchant_registry d (key (umr_merchant_registry A)) = Inr t
      \<and> (\<forall>k. k \<noteq> key (umr_merchant_registry A) \<longrightarrow> accts d k = accts c k)"
proof -
  have load: "load_merchant_registry c (key (umr_merchant_registry A)) = Inr reg"
    using acc by (auto simp: update_merchant_registry_accounts_def and_then_eq_Inr)
  note stored = registry_store [OF _ load len]
  show "registry_add m reg = Inr t \<Longrightarrow> \<exists>d. add_merchant rt A m c = Inr d
      \<and> load_merchant_registry d (key (umr_merchant_registry A)) = Inr t
      \<and> (\<forall>k. k \<noteq> key (umr_merchant_registry A) \<longrightarrow> accts d k = accts c k)"
    using stored [OF conjunct1 [OF registry.add_members [OF inv]]]
    by (fastforce simp: add_merchant_def acc merchants_add_def)
  show "registry_remove m reg = Inr t \<Longrightarrow> \<exists>d. remove_merchant rt A m c = Inr d
      \<and> load_merchant_registry d (key (umr_merchant_registry A)) = Inr t
      \<and> (\<forall>k. k \<noteq> key (umr_merchant_registry A) \<longrightarrow> accts d k = accts c k)"
    using stored [OF conjunct1 [OF registry.remove_members [OF inv]]]
    by (fastforce simp: remove_merchant_def acc merchants_remove_def)
qed

text \<open>C18: On a well-formed registry account both updates are total and exact: adding fails only
  when the list is full, or else when the payee is listed, removing only when it is not;
  otherwise the account decodes to the registry with that one entry appended or removed, the
  write always fits the account, and no other account changes.\<close>

theorem registry_updates:
  assumes acc: "update_merchant_registry_accounts rt A c = Inr reg" and inv: "registry_inv reg"
    and len: "length (data_of c (key (umr_merchant_registry A))) = merchant_registry_SPACE"
  shows "(if length (mr_merchants reg) = MAX_MERCHANTS
          then add_merchant rt A m c = Inl (Intents (Token MerchantRegistryFull))
          else if m \<in> set (mr_merchants reg)
          then add_merchant rt A m c = Inl (Intents (Token MerchantAlreadyListed))
          else \<exists>d. add_merchant rt A m c = Inr d
            \<and> load_merchant_registry d (key (umr_merchant_registry A))
                = Inr (reg\<lparr>mr_merchants := mr_merchants reg @ [m]\<rparr>)
            \<and> (\<forall>k. k \<noteq> key (umr_merchant_registry A) \<longrightarrow> accts d k = accts c k))
       \<and> (if m \<notin> set (mr_merchants reg)
          then remove_merchant rt A m c = Inl (Intents (Token MerchantNotListed))
          else \<exists>d. remove_merchant rt A m c = Inr d
            \<and> load_merchant_registry d (key (umr_merchant_registry A))
                = Inr (reg\<lparr>mr_merchants := filter (\<lambda>x. x \<noteq> m) (mr_merchants reg)\<rparr>)
            \<and> (\<forall>k. k \<noteq> key (umr_merchant_registry A) \<longrightarrow> accts d k = accts c k))"
    (is "?add \<and> ?remove")
proof -
  note written = registry_written [OF acc inv len, of m]
  have le: "length (mr_merchants reg) \<le> MAX_MERCHANTS"
    using inv by (simp add: registry_inv_def)
  have full: "registry_add m reg = Inl (Intents (Token MerchantRegistryFull))"
    if "length (mr_merchants reg) = MAX_MERCHANTS"
    using that by (simp add: registry_add_def)
  have listed: "registry_add m reg = Inl (Intents (Token MerchantAlreadyListed))"
    if "length (mr_merchants reg) \<noteq> MAX_MERCHANTS" "m \<in> set (mr_merchants reg)"
    using that le by (simp add: registry_add_def list_ex_iff)
  have missing: "registry_remove m reg = Inl (Intents (Token MerchantNotListed))"
    if "m \<notin> set (mr_merchants reg)"
    using that by (simp add: registry_remove_def Let_def length_filter_less_iff)
  have ?add
    using full listed written(1) [of "reg\<lparr>mr_merchants := mr_merchants reg @ [m]\<rparr>"] le
    by (auto simp: add_merchant_def acc merchants_add_def registry_add_eq_Inr)
  moreover have ?remove
    using missing written(2) [of "reg\<lparr>mr_merchants := filter (\<lambda>x. x \<noteq> m) (mr_merchants reg)\<rparr>"]
    by (auto simp: remove_merchant_def acc merchants_remove_def registry_remove_eq_Inr)
  ultimately show ?thesis ..
qed

definition demo_registry_data :: "byte list" where
  "demo_registry_data = mr_disc @ enc_merchant_registry demo_registry @ replicate 992 0"

definition demo_registry_chain :: chain where
  "demo_registry_chain = demo_chain\<lparr>accts :=
     (accts demo_chain)(k_merchants := demo_account 900 INTENTS_ID demo_registry_data)\<rparr>"

definition demo_update_infos :: update_merchant_registry_infos where
  "demo_update_infos =
     \<lparr>umr_root = info k_root True False, umr_grok_account = info k_grok False False,
      umr_merchant_registry = info k_merchants False True\<rparr>"

lemma demo_registry_chain_accts [simp]:
  "accts demo_registry_chain k_merchants = demo_account 900 INTENTS_ID demo_registry_data"
  "accts demo_registry_chain k_grok = demo_account 300 CORE_ID []"
  by (simp_all add: demo_registry_chain_def)

lemma demo_registry_loads [simp]:
  "load_merchant_registry demo_registry_chain k_merchants = Inr demo_registry"
  "load_grok_account demo_rt demo_registry_chain k_grok = Inr \<lparr>ga_root = k_root, ga_bump = 255\<rparr>"
  by (simp_all add: load_grok_account_def res_simps owner_of_def data_of_def
      mr_account.deserialize_iff demo_registry_data_def demo_registry_def)

lemma demo_registry_length: "length (data_of demo_registry_chain k_merchants) = merchant_registry_SPACE"
  by (simp add: data_of_def demo_registry_data_def registry_encoded_length demo_registry_def
      merchant_registry_SPACE_def MAX_MERCHANTS_def mr_disc_def)

lemma demo_update_ok:
  "update_merchant_registry_accounts demo_rt demo_update_infos demo_registry_chain = Inr demo_registry"
  by (simp add: update_merchant_registry_accounts_def demo_update_infos_def root_defs)
    (simp add: demo_registry_def)

lemma registry_updates_witness:
  "\<exists>d. add_merchant demo_rt demo_update_infos 51 demo_registry_chain = Inr d
     \<and> load_merchant_registry d k_merchants = Inr (demo_registry\<lparr>mr_merchants := [50, 51]\<rparr>)"
  using registry_updates [OF demo_update_ok demo_registry_inv, of 51] demo_registry_length
  by (simp add: demo_update_infos_def demo_registry_def MAX_MERCHANTS_def) blast

end
