(* ===== verification/Pay_Token.thy ===== *)
theory Pay_Token imports Tokens Merchants begin

text \<open>
  \<open>instructions/pay_token.rs\<close>: the agent pays a payee of the root's registry in the pinned
  mint, out of the trader's token account, metered in raw token units.
\<close>

section \<open>The account blocks of the two payment instructions\<close>

text \<open>The vault is present for parity only, and the paymaster is not tied to the root.\<close>

definition idle_vault_constraints ::
  "runtime \<Rightarrow> account_info \<Rightarrow> pubkey \<Rightarrow> spend_vault \<Rightarrow> unit res" where
  "idle_vault_constraints rt vault_ai grok sv =
     and_then (vault_seeds rt vault_ai grok sv) (\<lambda>_.
     require (sv_grok_account sv = grok) (Base GrokAccountMismatch))"

definition registry_constraints ::
  "runtime \<Rightarrow> account_info \<Rightarrow> pubkey \<Rightarrow> pubkey \<Rightarrow> merchant_registry \<Rightarrow> unit res" where
  "registry_constraints rt reg_ai grok root reg =
     and_then (seeds_bump rt [SEED_MERCHANTS, pubkey_bytes grok] (mr_bump reg) INTENTS_ID reg_ai) (\<lambda>_.
     and_then (require (mr_grok_account reg = grok) (Base GrokAccountMismatch)) (\<lambda>_.
     require (mr_root reg = root) (Base UnauthorizedRoot)))"

definition payment_paymaster_constraints ::
  "runtime \<Rightarrow> (account_info \<times> paymaster) option \<Rightarrow> pubkey \<Rightarrow> unit res" where
  "payment_paymaster_constraints rt opt grok =
     (case opt of
        None \<Rightarrow> Inr ()
      | Some (ai, pm) \<Rightarrow>
          and_then (seeds_bump rt [SEED_PAYMASTER, pubkey_bytes grok] (pm_bump pm) INTENTS_ID ai) (\<lambda>_.
          and_then (writable ai) (\<lambda>_.
          require (pm_grok_account pm = grok) (Base GrokAccountMismatch))))"

definition trader_seeds :: "runtime \<Rightarrow> account_info \<Rightarrow> pubkey \<Rightarrow> u8 res" where
  "trader_seeds rt trader_ai grok =
     seeds_canonical rt [SEED_PUMP_TRADER, pubkey_bytes grok] INTENTS_ID trader_ai"

lemma payment_blocks_eq_Inr [res_simps]:
  "idle_vault_constraints rt vai grok sv = Inr u \<longleftrightarrow>
     vault_seeds rt vai grok sv = Inr () \<and> sv_grok_account sv = grok"
  "registry_constraints rt rai grok root reg = Inr u \<longleftrightarrow>
     create_program_address rt ([SEED_MERCHANTS, pubkey_bytes grok] @ [[mr_bump reg]]) INTENTS_ID
       = Some (key rai) \<and> mr_grok_account reg = grok \<and> mr_root reg = root"
  "trader_seeds rt tai grok = Inr b \<longleftrightarrow>
     find_program_address rt [SEED_PUMP_TRADER, pubkey_bytes grok] INTENTS_ID = (key tai, b)"
  by (simp_all add: idle_vault_constraints_def registry_constraints_def trader_seeds_def
      and_then_eq_Inr require_eq_Inr account_checks_eq_Inr)

section \<open>pay_token\<close>

record pay_token_infos = mouth +
  ptk_spend_vault :: account_info
  ptk_merchant_registry :: account_info
  ptk_pump_trader :: account_info
  ptk_source :: account_info
  ptk_destination :: account_info
  ptk_mint :: account_info
  ptk_token_program :: account_info
  ptk_reference :: "account_info option"
  ptk_paymaster :: "account_info option"
  ptk_fee_payer :: "account_info option"

definition pay_token_accounts ::
  "runtime \<Rightarrow> pay_token_infos \<Rightarrow> chain
   \<Rightarrow> (grant \<times> merchant_registry \<times> u8 \<times> (account_info \<times> paymaster) option) res" where
  "pay_token_accounts rt A c =
     and_then (mouth_load rt A c) (\<lambda>(ga, gr).
     and_then (load_spend_vault c (key (ptk_spend_vault A))) (\<lambda>sv.
     and_then (load_merchant_registry c (key (ptk_merchant_registry A))) (\<lambda>reg.
     and_then (load_paymaster_opt c (ptk_paymaster A)) (\<lambda>pm.
     and_then (signer_opt (ptk_fee_payer A)) (\<lambda>_.
     and_then (mouth_constraints rt A ga gr) (\<lambda>_.
     and_then (idle_vault_constraints rt (ptk_spend_vault A) (key (m_grok_account A)) sv) (\<lambda>_.
     and_then (registry_constraints rt (ptk_merchant_registry A) (key (m_grok_account A)) (ga_root ga) reg) (\<lambda>_.
     and_then (trader_seeds rt (ptk_pump_trader A) (key (m_grok_account A))) (\<lambda>bump.
     and_then (writable (ptk_source A)) (\<lambda>_.
     and_then (writable (ptk_destination A)) (\<lambda>_.
     and_then (payment_paymaster_constraints rt pm (key (m_grok_account A))) (\<lambda>_.
     and_then (writable_opt (ptk_fee_payer A)) (\<lambda>_.
     Inr (gr, reg, bump, pm))))))))))))))"

definition pay_token_handler ::
  "runtime \<Rightarrow> pay_token_infos \<Rightarrow> grant \<Rightarrow> merchant_registry \<Rightarrow> u8 \<Rightarrow> (account_info \<times> paymaster) option
   \<Rightarrow> pay_token_args \<Rightarrow> chain \<Rightarrow> chain res" where
  "pay_token_handler rt A gr registry bump pm args c =
     and_then (require (0 < pt_amount args) (Base ZeroAmount)) (\<lambda>_.
     and_then (precheck_sponsor (pt_sponsor_lamports args) pm (ptk_fee_payer A)) (\<lambda>_.
     let trader = key (ptk_pump_trader A); mint_key = key (ptk_mint A) in
     and_then (require (mr_mint registry = mint_key) (Token PayTokenMintNotRegistered)) (\<lambda>_.
     and_then (token_account_fields (key (ptk_source A)) c) (\<lambda>(src_mint, src_owner, src_amount).
     and_then (require (src_mint = mint_key) (Token PayTokenMintMismatch)) (\<lambda>_.
     and_then (require (src_owner = trader) (Token PayTokenSourceOwnerNotTrader)) (\<lambda>_.
     and_then (require (pt_amount args \<le> src_amount) (Token PayTokenInsufficient)) (\<lambda>_.
     and_then (token_account_fields (key (ptk_destination A)) c) (\<lambda>(dst_mint, dst_owner, _).
     and_then (require (dst_mint = mint_key) (Token PayTokenMintMismatch)) (\<lambda>_.
     and_then (require (list_ex (\<lambda>m. m = dst_owner) (mr_merchants registry))
       (Token PayTokenPayeeNotAllowed)) (\<lambda>_.
     and_then (mint_decimals mint_key c) (\<lambda>decimals.
     and_then (require (pt_decimals args = decimals) (Token PayTokenDecimalsMismatch)) (\<lambda>_.
     and_then (mouth_check_grant rt A (pt_amount args) c) (\<lambda>c.
     let trader_signer_seeds = [SEED_PUMP_TRADER, pubkey_bytes (key (m_grok_account A)), [bump]];
         token_program = key (ptk_token_program A) in
     and_then (require (token_program = TOKEN_PROGRAM_ID \<or> token_program = TOKEN_2022_PROGRAM_ID)
       (Pump InvalidTokenProgram)) (\<lambda>_.
     and_then (require (owner_of c (key (ptk_source A)) = token_program) (Pump InvalidTokenProgram)) (\<lambda>_.
     and_then (require (owner_of c (key (ptk_destination A)) = token_program)
       (Pump InvalidTokenProgram)) (\<lambda>_.
     and_then (invoke_signed rt
         (transfer_checked_ix token_program (key (ptk_source A)) mint_key (key (ptk_destination A))
            trader (pt_amount args) decimals)
         [ptk_source A, ptk_mint A, ptk_destination A, ptk_pump_trader A, ptk_token_program A]
         [trader_signer_seeds] c) (\<lambda>c.
     and_then (reimburse_sponsor rt (m_grant A) gr pm (ptk_fee_payer A) (pt_sponsor_lamports args) c) (\<lambda>c.
     Inr (emit (Payment_event (TokenPaid trader mint_key (key (ptk_destination A)) dst_owner
       (pt_amount args) decimals (map_option key (ptk_reference A)) (key (m_agent A))
       (key (m_grant A)) (gr_generation gr))) c)))))))))))))))))))"

definition pay_token :: "runtime \<Rightarrow> pay_token_infos \<Rightarrow> pay_token_args \<Rightarrow> chain \<Rightarrow> chain res" where
  "pay_token rt A args c =
     and_then (pay_token_accounts rt A c) (\<lambda>(gr, registry, bump, pm).
       pay_token_handler rt A gr registry bump pm args c)"

section \<open>Metering and transfer\<close>

text \<open>
  What metering the raw amount at CORE and then moving it does, for both payments: the grant's counter
  rises by the amount, the tokens are paid (\<open>token_paid\<close>), and only the grant and the two token
  accounts change.
\<close>

definition settled ::
  "runtime \<Rightarrow> pubkey \<Rightarrow> pubkey \<Rightarrow> pubkey \<Rightarrow> u64 \<Rightarrow> chain \<Rightarrow> chain \<Rightarrow> bool" where
  "settled rt gk src dst amount c d \<longleftrightarrow>
     (\<exists>g g'. load_grant rt c gk = Inr g \<and> load_grant rt d gk = Inr g' \<and> metered rt g amount g')
     \<and> token_paid src dst amount c d
     \<and> (\<forall>k. k \<noteq> gk \<longrightarrow> k \<noteq> src \<longrightarrow> k \<noteq> dst \<longrightarrow> accts d k = accts c k)
     \<and> events d = events c"

lemma meter_and_transfer:
  assumes core: "core_meters rt" and tok: "token_transfers rt"
    and tp: "tp \<in> {TOKEN_PROGRAM_ID, TOKEN_2022_PROGRAM_ID}"
    and own: "owner_of c src \<noteq> CORE_ID" "owner_of c dst \<noteq> CORE_ID"
    and g: "load_grant rt c (key (m_grant A)) = Inr g"
    and 1: "mouth_check_grant rt A amount c = Inr c1"
    and 2: "invoke_signed rt (transfer_checked_ix tp src mint dst auth amount dec) infos ss c1 = Inr d"
  shows "settled rt (key (m_grant A)) src dst amount c d"
proof -
  let ?gk = "key (m_grant A)"
  have step: "core_step rt ?gk amount c c1"
    by (rule check_grant_step(1) [OF 1 [unfolded mouth_check_grant_def] core])
  note paid = transfer_paid [OF tok tp 2]
  have gk: "?gk \<noteq> src" "?gk \<noteq> dst"
    using g own by (auto simp: load_grant_def load_typed_eq_Inr)
  obtain g' where g': "load_grant rt c1 ?gk = Inr g'" "metered rt g amount g'"
    using core_step_load_grant [OF step g] by blast
  have "load_grant rt d ?gk = Inr g'"
    using g'(1) load_typed_local [OF paid(2) [OF gk], of CORE_ID "decode_grant rt"]
    unfolding load_grant_def by metis
  moreover have "token_paid src dst amount c1 d = token_paid src dst amount c d"
    by (rule token_paid_cong) (use core_stepD(4) [OF step] gk in auto)
  moreover have "accts d k = accts c k" if "k \<noteq> ?gk" "k \<noteq> src" "k \<noteq> dst" for k
    using paid(2) [OF that(2,3)] core_stepD(3) [OF step that(1)] by simp
  moreover have "events d = events c"
    using paid(3) core_stepD(5) [OF step] by simp
  ultimately show ?thesis
    using g g'(2) paid(1) unfolding settled_def by blast
qed

text \<open>The reimbursement that may follow moves lamports only.\<close>

lemma settled_sponsored:
  assumes "settled rt gk src dst amount c d" and "reimburse_sponsor rt gai gr pm fp s d = Inr e"
  shows "\<exists>g g'. load_grant rt c gk = Inr g \<and> load_grant rt e gk = Inr g' \<and> metered rt g amount g'"
    and "token_paid src dst amount c e"
    and "k \<noteq> gk \<Longrightarrow> k \<noteq> src \<Longrightarrow> k \<noteq> dst \<Longrightarrow>
      owner_of e k = owner_of c k \<and> data_of e k = data_of c k"
proof -
  note frame = reimburse_frame(1,2) [OF assms(2)]
  have "load_grant rt e k = Inr g \<longleftrightarrow> load_grant rt d k = Inr g" for k g
    by (simp add: load_grant_def load_typed_eq_Inr frame)
  with assms(1) show "\<exists>g g'. load_grant rt c gk = Inr g \<and> load_grant rt e gk = Inr g' \<and> metered rt g amount g'"
    by (simp add: settled_def)
  show "token_paid src dst amount c e"
    using assms(1) token_paid_cong [of src dst c c e d amount] by (simp add: settled_def frame)
  show "k \<noteq> gk \<Longrightarrow> k \<noteq> src \<Longrightarrow> k \<noteq> dst \<Longrightarrow>
      owner_of e k = owner_of c k \<and> data_of e k = data_of c k"
    using assms(1) frame [of k] by (simp add: settled_def owner_of_def data_of_def)
qed

lemma pay_token_accounts_eq_Inr:
  "pay_token_accounts rt A c = Inr (gr, reg, bump, pm) \<Longrightarrow>
   \<exists>ga. mouth_load rt A c = Inr (ga, gr) \<and> mouth_constraints rt A ga gr = Inr ()
     \<and> load_merchant_registry c (key (ptk_merchant_registry A)) = Inr reg
     \<and> registry_constraints rt (ptk_merchant_registry A) (key (m_grok_account A)) (ga_root ga) reg = Inr ()
     \<and> trader_seeds rt (ptk_pump_trader A) (key (m_grok_account A)) = Inr bump
     \<and> load_paymaster_opt c (ptk_paymaster A) = Inr pm \<and> signer_opt (ptk_fee_payer A) = Inr ()"
  by (auto simp: pay_token_accounts_def and_then_eq_Inr)

lemma pay_token_handlerE:
  assumes "pay_token_handler rt A gr reg bump pm args c = Inr d"
  obtains held payee had dec c1 c2 e where
    "0 < pt_amount args" "mr_mint reg = key (ptk_mint A)"
    "token_account_fields (key (ptk_source A)) c = Inr (key (ptk_mint A), key (ptk_pump_trader A), held)"
    "token_account_fields (key (ptk_destination A)) c = Inr (key (ptk_mint A), payee, had)"
    "payee \<in> set (mr_merchants reg)"
    "key (ptk_token_program A) \<in> {TOKEN_PROGRAM_ID, TOKEN_2022_PROGRAM_ID}"
    "mouth_check_grant rt A (pt_amount args) c = Inr c1"
    "invoke_signed rt (transfer_checked_ix (key (ptk_token_program A)) (key (ptk_source A))
       (key (ptk_mint A)) (key (ptk_destination A)) (key (ptk_pump_trader A)) (pt_amount args) dec)
       [ptk_source A, ptk_mint A, ptk_destination A, ptk_pump_trader A, ptk_token_program A]
       [[SEED_PUMP_TRADER, pubkey_bytes (key (m_grok_account A)), [bump]]] c1 = Inr c2"
    "reimburse_sponsor rt (m_grant A) gr pm (ptk_fee_payer A) (pt_sponsor_lamports args) c2 = Inr e"
    "d = emit (Payment_event (TokenPaid (key (ptk_pump_trader A)) (key (ptk_mint A))
       (key (ptk_destination A)) payee (pt_amount args) dec
       (map_option key (ptk_reference A)) (key (m_agent A)) (key (m_grant A)) (gr_generation gr))) e"
  using assms
  by (simp only: pay_token_handler_def Let_def and_then_eq_Inr require_eq_Inr case_prod_conv
      split_paired_Ex ex_simps simp_thms list_ex_iff bex_triv_one_point1 sum.inject, elim exE conjE, hypsubst)
    (rule that, (assumption | rule refl | simp only: insert_iff empty_iff simp_thms)+)

lemma pay_token_listed:
  assumes "pay_token rt A args c = Inr d"
  shows "\<exists>reg. load_merchant_registry c (key (ptk_merchant_registry A)) = Inr reg
    \<and> token_owner (data_of c (key (ptk_destination A))) \<in> set (mr_merchants reg)"
proof -
  obtain gr reg bump pm where acc: "pay_token_accounts rt A c = Inr (gr, reg, bump, pm)"
    and h: "pay_token_handler rt A gr reg bump pm args c = Inr d"
    using assms by (auto simp: pay_token_def and_then_eq_Inr)
  obtain payee had where "token_account_fields (key (ptk_destination A)) c = Inr (key (ptk_mint A), payee, had)"
    and "payee \<in> set (mr_merchants reg)"
    by (rule pay_token_handlerE [OF h])
  with pay_token_accounts_eq_Inr [OF acc] show ?thesis
    by (auto simp: token_account_fields_eq_Inr)
qed

section \<open>Properties\<close>


definition demo_payments_chain :: chain where
  "demo_payments_chain = demo_registry_chain\<lparr>accts := (accts demo_registry_chain)
     (31 := demo_account 200 TOKEN_PROGRAM_ID (demo_holding 40 k_trader 9000),
      32 := demo_account 200 TOKEN_PROGRAM_ID (demo_holding 40 50 100),
      40 := demo_account 200 TOKEN_PROGRAM_ID demo_mint_data)\<rparr>"

lemma demo_payments_accts [simp]:
  "accts demo_payments_chain 31 = demo_account 200 TOKEN_PROGRAM_ID (demo_holding 40 k_trader 9000)"
  "accts demo_payments_chain 32 = demo_account 200 TOKEN_PROGRAM_ID (demo_holding 40 50 100)"
  "accts demo_payments_chain 40 = demo_account 200 TOKEN_PROGRAM_ID demo_mint_data"
  "accts demo_payments_chain k_merchants = demo_account 900 INTENTS_ID demo_registry_data"
  "k \<notin> {31, 32, 40, k_merchants} \<Longrightarrow> accts demo_payments_chain k = accts demo_chain k"
  by (simp_all add: demo_payments_chain_def demo_registry_chain_def)

lemma demo_payments_core [simp]: "accts demo_payments_chain CORE_ID = demo_program"
  by (simp add: demo_payments_accts(5) key_simps) (simp add: demo_accts(10) [unfolded key_simps])

lemma demo_payments_loads [simp]:
  "load_merchant_registry demo_payments_chain k_merchants = Inr demo_registry"
  "load_spend_vault demo_payments_chain k_vault = Inr demo_vault"
  "load_grant demo_rt demo_payments_chain k_grant = Inr (demo_grant 400)"
  "load_grok_account demo_rt demo_payments_chain k_grok = Inr \<lparr>ga_root = k_root, ga_bump = 255\<rparr>"
  by (simp_all add: load_grant_def load_grok_account_def res_simps owner_of_def data_of_def
      mr_account.deserialize_iff sv_account.deserialize_iff demo_decode_grant_def
      demo_registry_data_def demo_registry_def)

definition demo_pay_token_infos :: pay_token_infos where
  "demo_pay_token_infos =
     \<lparr>m_agent = info k_agent True False, m_grok_account = info k_grok False False,
      m_grant = info k_grant False True, m_core_program = info CORE_ID False False,
      m_intents_program = info INTENTS_ID False False,
      ptk_spend_vault = info k_vault False False, ptk_merchant_registry = info k_merchants False False,
      ptk_pump_trader = info k_trader False False, ptk_source = info 31 False True,
      ptk_destination = info 32 False True, ptk_mint = info 40 False False,
      ptk_token_program = info TOKEN_PROGRAM_ID False False, ptk_reference = None,
      ptk_paymaster = None, ptk_fee_payer = None\<rparr>"

lemmas payment_defs = idle_vault_constraints_def registry_constraints_def trader_seeds_def
  payment_paymaster_constraints_def seeds_canonical_def mouth_defs

lemma demo_pay_token_ok:
  "\<exists>d. pay_token demo_token_rt demo_pay_token_infos
     \<lparr>pt_amount = 2500, pt_decimals = 6, pt_sponsor_lamports = 0\<rparr> demo_payments_chain = Inr d
     \<and> token_amount (data_of d 31) = 6500"
proof -
  have acc: "pay_token_accounts demo_token_rt demo_pay_token_infos demo_payments_chain
      = Inr (demo_grant 400, demo_registry, 255, None)"
    by (simp add: pay_token_accounts_def demo_pay_token_infos_def payment_defs demo_vault_def
        demo_grant_def)
      (simp add: demo_registry_def)
  have fields: "token_account_fields 31 demo_payments_chain = Inr (40, k_trader, 9000)"
    "token_account_fields 32 demo_payments_chain = Inr (40, 50, 100)"
    "mint_decimals 40 demo_payments_chain = Inr 6"
    by (simp_all add: token_account_fields_eq_Inr mint_decimals_eq_Inr owner_of_def data_of_def)
  show ?thesis
    by (simp add: pay_token_def acc)
      (simp add: pay_token_handler_def demo_pay_token_infos_def fields precheck_sponsor_def
        require_sponsor_accounts_def require_sponsor_cap_def MAX_SPONSOR_LAMPORTS_def
        demo_registry_def mouth_check_grant_def demo_token_check_grant
        demo_token_transfer [of _ _ TOKEN_PROGRAM_ID] reimburse_sponsor_def owner_of_def)
qed


end
