(* ===== verification/Custody.thy ===== *)
theory Custody imports Intents begin

text \<open>
  What an agent's instruction may do to the accounts of this program: nothing to their owner and
  data, and take at most a stated charge of lamports. The contract is the locale
  \<open>custody\<close>, interpreted on the building blocks the handlers are made of; composing blocks
  adds their charges.
\<close>

definition kept :: "(pubkey \<Rightarrow> int) \<Rightarrow> chain \<Rightarrow> chain \<Rightarrow> bool" where
  "kept charge c d \<longleftrightarrow>
     (\<forall>k. owner_of c k = INTENTS_ID \<longrightarrow>
        owner_of d k = INTENTS_ID \<and> data_of d k = data_of c k \<and> balance c k - charge k \<le> balance d k)"

definition no_charge :: "pubkey \<Rightarrow> int" where
  "no_charge k = 0"

definition charge_to :: "pubkey option \<Rightarrow> u64 \<Rightarrow> pubkey \<Rightarrow> int" where
  "charge_to who a k = (if Some k = who then int (unat a) else 0)"

definition both :: "(pubkey \<Rightarrow> int) \<Rightarrow> (pubkey \<Rightarrow> int) \<Rightarrow> pubkey \<Rightarrow> int" where
  "both f g k = f k + g k"

lemma keptD:
  assumes "kept charge c d" and "owner_of c k = INTENTS_ID"
  shows "owner_of d k = INTENTS_ID" and "data_of d k = data_of c k"
    and "balance c k - charge k \<le> balance d k"
  using assms by (simp_all add: kept_def)

lemma kept_refl [simp]: "kept no_charge c c"
  by (simp add: kept_def no_charge_def)

lemma kept_trans:
  assumes 1: "kept f a b" and 2: "kept g b c"
  shows "kept (both f g) a c"
  unfolding kept_def both_def
proof (intro allI impI)
  fix k
  assume own: "owner_of a k = INTENTS_ID"
  note b = keptD [OF 1 own]
  note c = keptD [OF 2 b(1)]
  show "owner_of c k = INTENTS_ID \<and> data_of c k = data_of a k \<and> balance a k - (f k + g k) \<le> balance c k"
    using b c by simp
qed

lemma kept_mono:
  assumes 1: "kept f c d" and le: "\<And>k. f k \<le> g k"
  shows "kept g c d"
  unfolding kept_def
proof (intro allI impI)
  fix k
  assume own: "owner_of c k = INTENTS_ID"
  show "owner_of d k = INTENTS_ID \<and> data_of d k = data_of c k \<and> balance c k - g k \<le> balance d k"
    using keptD [OF 1 own] le [of k] by simp
qed

lemma kept_free [trans]: "kept no_charge a b \<Longrightarrow> kept g b c \<Longrightarrow> kept g a c"
  using kept_mono [OF kept_trans [of no_charge a b g c], of g] by (simp add: no_charge_def both_def)

lemma kept_then_free [trans]: "kept f a b \<Longrightarrow> kept no_charge b c \<Longrightarrow> kept f a c"
  using kept_mono [OF kept_trans [of f a b no_charge c], of f] by (simp add: no_charge_def both_def)

lemma kept_emit [simp]: "kept f c (emit e d) = kept f c d"
  by (simp add: kept_def)

lemma kept_load:
  assumes "kept f c d" and "load_typed INTENTS_ID de c k = Inr x"
  shows "load_typed INTENTS_ID de d k = Inr x"
  using assms by (auto simp: load_typed_eq_Inr dest: keptD)

locale custody =
  fixes run :: "chain \<Rightarrow> chain res" and charge :: "pubkey \<Rightarrow> int"
  assumes keeps: "run c = Inr d \<Longrightarrow> kept charge c d"
begin

lemma then_free: "kept no_charge a c \<Longrightarrow> run c = Inr d \<Longrightarrow> kept charge a d"
  by (rule kept_free [OF _ keeps])

lemma still_loads:
  "run c = Inr d \<Longrightarrow> load_typed INTENTS_ID de c k = Inr x \<Longrightarrow> load_typed INTENTS_ID de d k = Inr x"
  by (rule kept_load [OF keeps])

lemma lower: "run c = Inr d \<Longrightarrow> owner_of c k = INTENTS_ID \<Longrightarrow> balance c k - charge k \<le> balance d k"
  by (rule keptD(3) [OF keeps])

end

text \<open>The building blocks.\<close>

lemma kept_foreign:
  "foreign_frame rt \<Longrightarrow> invoke_signed rt ix infos ss c = Inr d \<Longrightarrow> ix_program_id ix \<noteq> INTENTS_ID \<Longrightarrow>
   kept no_charge c d"
  by (simp add: kept_def no_charge_def foreign_frameD)

lemma kept_check_grant:
  assumes "foreign_frame rt" and "mouth_check_grant rt A amount c = Inr d"
  shows "kept no_charge c d"
proof -
  have "invoke_signed rt (check_grant_ix (m_grok_account A) (m_grant A) (m_agent A)
      (m_intents_program A) amount) [m_grok_account A, m_grant A, m_agent A, m_intents_program A,
      m_core_program A] [] c = Inr d"
    using assms(2) by (auto simp: mouth_check_grant_def check_grant_def invoke_def and_then_eq_Inr)
  from kept_foreign [OF assms(1) this] show ?thesis
    by simp
qed

interpretation debit_custody: custody "require_debit err reserve src dst a" "charge_to (Some src) a"
  for err reserve src dst a
proof
  fix c d
  assume run: "require_debit err reserve src dst a c = Inr d"
  show "kept (charge_to (Some src) a) c d"
    using debit.frame(2,3) [OF run] debit_lower [OF run] by (auto simp: kept_def charge_to_def)
qed

interpretation vault_custody: custody "debit_spend_vault rt vault dst a" "charge_to (Some vault) a"
  for rt vault dst a
  by unfold_locales (auto simp: debit_spend_vault_def Let_def intro: debit_custody.keeps)

interpretation sponsor_custody: custody "reimburse_sponsor rt gai gr pm fp a"
    "charge_to (map_option (key \<circ> fst) pm) a"
  for rt gai gr pm fp a
proof
  fix c d
  assume run: "reimburse_sponsor rt gai gr pm fp a c = Inr d"
  show "kept (charge_to (map_option (key \<circ> fst) pm) a) c d"
    using reimburse_frame(1,2) [OF run] reimburse_lower [OF run] by (auto simp: kept_def charge_to_def)
qed

lemma sponsor_charge:
  "load_paymaster_opt c opt = Inr pm \<Longrightarrow> map_option (key \<circ> fst) pm = map_option key opt"
  by (drule load_paymaster_opt_infos) (auto simp: option.map_comp)

section \<open>call\<close>

text \<open>
  The client chooses the program a \<open>call\<close> reaches, so it may be this one. The inner instruction then has
  no data: Anchor's dispatcher finds no discriminator in it and refuses, so such a call cannot have
  changed anything.
\<close>

definition self_call_idle :: "runtime \<Rightarrow> bool" where
  "self_call_idle rt \<longleftrightarrow>
     (\<forall>ix infos ss m m'. ix_program_id ix = INTENTS_ID \<longrightarrow> ix_data ix = [] \<longrightarrow>
        invoke_cpi rt ix infos ss m = Inr m' \<longrightarrow> m' = m)"

lemma self_call_same:
  assumes "self_call_idle rt" and "ix_program_id ix = INTENTS_ID" and "ix_data ix = []"
    and "invoke_signed rt ix infos ss c = Inr d"
  shows "d = c"
  using assms by (auto simp: invoke_signed_eq_Inr self_call_idle_def)

lemma kept_call_inner:
  assumes "foreign_frame rt" and "target = INTENTS_ID \<Longrightarrow> self_call_idle rt"
    and "call_inner rt target remaining c = Inr d"
  shows "kept no_charge c d"
proof -
  have run: "remaining = [] \<and> d = c \<or> invoke_signed rt (inner_call_ix target remaining) remaining [] c = Inr d"
    using assms(3) by (auto simp: call_inner_def invoke_def and_then_eq_Inr split: if_splits)
  have ix: "ix_program_id (inner_call_ix target remaining) = target" "ix_data (inner_call_ix target remaining) = []"
    by (simp_all add: inner_call_ix_def)
  show ?thesis
  proof (cases "target = INTENTS_ID")
    case True
    have "d = c"
      using run self_call_same [OF assms(2) [OF True] _ ix(2)] ix(1) True by blast
    then show ?thesis
      by simp
  next
    case False
    with run kept_foreign [OF assms(1)] ix show ?thesis
      by auto
  qed
qed

lemma kept_call:
  assumes "foreign_frame rt" and "call rt A args remaining c = Inr d"
    and "ca_target_program args = INTENTS_ID \<Longrightarrow> self_call_idle rt"
  shows "kept (both (charge_to (Some (key (call_spend_vault A))) (ca_amount_lamports args))
    (charge_to (map_option key (call_paymaster A)) (ca_sponsor_lamports args))) c d"
proof -
  let ?v = "key (call_spend_vault A)" and ?a = "ca_amount_lamports args"
  obtain ga gr pm c1 c2 c3 c4 where pm: "load_paymaster_opt c (call_paymaster A) = Inr pm"
    and 1: "mouth_check_grant rt A ?a c = Inr c1"
    and 2: "(if 0 < ?a then debit_spend_vault rt ?v (key (call_recipient A)) ?a c1 else Inr c1) = Inr c2"
    and 3: "call_inner rt (ca_target_program args) remaining c2 = Inr c3"
    and 4: "reimburse_sponsor rt (m_grant A) gr pm (call_fee_payer A) (ca_sponsor_lamports args) c3 = Inr c4"
    and d: "\<And>f. kept f c d = kept f c c4"
    by (rule callE [OF assms(2)]) (auto simp del: word_of_nat_eq_iff)
  note kept_check_grant [OF assms(1) 1]
  also have "kept (charge_to (Some ?v) ?a) c1 c2"
  proof (cases "0 < ?a")
    case True
    with 2 show ?thesis
      by (intro vault_custody.keeps [of rt ?v "key (call_recipient A)"]) simp
  next
    case False
    with 2 have "c2 = c1"
      by simp
    then show ?thesis
      using kept_mono [OF kept_refl, of "charge_to (Some ?v) ?a"] by (simp add: no_charge_def charge_to_def)
  qed
  also note kept_call_inner [OF assms(1,3) 3]
  finally show ?thesis
    unfolding d using sponsor_custody.keeps [OF 4] unfolding sponsor_charge [OF pm] by (rule kept_trans)
qed

text \<open>The inner instruction: the client's accounts, without the custody and without new privileges.\<close>

lemma inner_call_metas:
  "reject_protected_remaining remaining vault paymaster = Inr u \<Longrightarrow>
   mt \<in> set (ix_accounts (inner_call_ix target remaining)) \<Longrightarrow>
   meta_pubkey mt \<noteq> vault \<and> Some (meta_pubkey mt) \<noteq> paymaster
   \<and> (\<exists>a \<in> set remaining. key a = meta_pubkey mt \<and> is_signer a = meta_signer mt
        \<and> is_writable a = meta_writable mt)"
  by (auto simp: inner_call_ix_def meta_new_def meta_new_readonly_def remaining_checks_eq_Inr)

text \<open>C12: Whichever program the client chose as the target of a \<open>call\<close>, and however it behaves within
  the rule of the runtime that a program writes only its own accounts (\<open>foreign_frame\<close>), every account
  of this program keeps its owner and its data, and loses at most the metered amount if it is the
  vault and at most the sponsor share if it is the paymaster; the inner instruction carries no data,
  no signature or write access the transaction did not give, and neither the vault nor the paymaster
  among its accounts. The target may be this program itself; that case, and no other, uses that
  Anchor's dispatcher does nothing on an instruction without data (\<open>self_call_idle\<close>).\<close>

theorem call_bounded:
  assumes "foreign_frame rt" and "call rt A args remaining c = Inr d"
    and "ca_target_program args = INTENTS_ID \<Longrightarrow> self_call_idle rt"
  shows "(\<forall>k. owner_of c k = INTENTS_ID \<longrightarrow>
            owner_of d k = INTENTS_ID \<and> data_of d k = data_of c k
            \<and> balance c k - (if k = key (call_spend_vault A) then int (unat (ca_amount_lamports args)) else 0)
                - (if Some k = map_option key (call_paymaster A) then int (unat (ca_sponsor_lamports args)) else 0)
              \<le> balance d k)
       \<and> ix_data (inner_call_ix (ca_target_program args) remaining) = []
       \<and> (\<forall>m \<in> set (ix_accounts (inner_call_ix (ca_target_program args) remaining)).
            meta_pubkey m \<noteq> key (call_spend_vault A)
            \<and> Some (meta_pubkey m) \<noteq> map_option key (call_paymaster A)
            \<and> (\<exists>a \<in> set remaining. key a = meta_pubkey m
                 \<and> is_signer a = meta_signer m \<and> is_writable a = meta_writable m))"
proof -
  obtain pm where pm: "load_paymaster_opt c (call_paymaster A) = Inr pm"
    and rej: "reject_protected_remaining remaining (key (call_spend_vault A))
       (map_option (\<lambda>(ai, _). key ai) pm) = Inr ()"
    by (rule callE [OF assms(2)])
  have keys: "map_option (\<lambda>(ai, _). key ai) pm = map_option key (call_paymaster A)"
    using sponsor_charge [OF pm] by (cases pm) auto
  show ?thesis
    using kept_call [OF assms] inner_call_metas [OF rej [unfolded keys]]
    by (auto simp: kept_def both_def charge_to_def inner_call_ix_def simp del: of_nat_unat)
qed

lemma call_bounded_witness:
  "\<exists>d. call demo_rt demo_call_infos demo_call_args demo_remaining demo_chain = Inr d
     \<and> 65000 \<le> balance d k_vault \<and> data_of d k_vault = data_of demo_chain k_vault"
proof -
  obtain d where d: "call demo_rt demo_call_infos demo_call_args demo_remaining demo_chain = Inr d"
    using demo_call_ok by blast
  have target: "ca_target_program demo_call_args = INTENTS_ID \<Longrightarrow> self_call_idle demo_rt"
    by (simp add: demo_call_args_def)
  have "owner_of demo_chain k_vault = INTENTS_ID"
    by (simp add: owner_of_def)
  with call_bounded [OF demo_foreign_frame d target]
  have "data_of d k_vault = data_of demo_chain k_vault
      \<and> balance demo_chain k_vault - 5000 \<le> balance d k_vault"
    by (auto simp: demo_call_infos_def demo_call_args_def)
  then have "65000 \<le> balance d k_vault \<and> data_of d k_vault = data_of demo_chain k_vault"
    by (simp add: balance_def lamports_of_def)
  with d show ?thesis
    by blast
qed

end
