(* ===== verification/Subscriptions.thy ===== *)
theory Subscriptions imports Pay_Token Custody begin

text \<open>
  \<open>instructions/subscription.rs\<close>: a payment with a clock. The root creates and cancels a
  subscription, the agent settles one period at a time; \<open>last_paid_period\<close> is the idempotency
  key.
\<close>

section \<open>Periods\<close>

definition PERIOD_NONE :: i64 where
  "PERIOD_NONE = - 1"

definition MIN_PERIOD_SECONDS :: i64 where
  "MIN_PERIOD_SECONDS = 86400"

definition current_period :: "i64 \<Rightarrow> i64 \<Rightarrow> i64 \<Rightarrow> i64 res" where
  "current_period now start_unix period_seconds =
     and_then (require (0 < sint period_seconds) (Token SubscriptionPeriodTooShort)) (\<lambda>_.
     and_then (require (sint start_unix \<le> sint now) (Token SubscriptionNotStarted)) (\<lambda>_.
     and_then (ok_or (i64_sub now start_unix) Panic) (\<lambda>elapsed.
     ok_or (i64_div elapsed period_seconds) Panic)))"

section \<open>create_subscription\<close>

record create_subscription_infos =
  csb_root :: account_info
  csb_grok_account :: account_info
  csb_merchant_registry :: account_info
  csb_mint :: account_info
  csb_subscription :: account_info
  csb_system_program :: account_info

definition create_subscription_accounts ::
  "runtime \<Rightarrow> create_subscription_infos \<Rightarrow> subscription_args \<Rightarrow> chain
   \<Rightarrow> (merchant_registry \<times> u8 \<times> chain) res" where
  "create_subscription_accounts rt A args c =
     and_then (signer (csb_root A)) (\<lambda>_.
     and_then (load_grok_account rt c (key (csb_grok_account A))) (\<lambda>ga.
     and_then (load_merchant_registry c (key (csb_merchant_registry A))) (\<lambda>reg.
     and_then (program c (csb_system_program A) SYSTEM_PROGRAM_ID) (\<lambda>_.
     and_then (init_account rt (csb_root A) subscription_SPACE
       [SEED_SUBSCRIPTION, pubkey_bytes (key (csb_grok_account A)), pubkey_bytes (su_merchant args),
        pubkey_bytes (key (csb_mint A))] (csb_subscription A) c) (\<lambda>(bump, c).
     and_then (writable (csb_root A)) (\<lambda>_.
     and_then (grok_of_root rt (csb_grok_account A) ga (csb_root A)) (\<lambda>_.
     and_then (seeds_bump rt [SEED_MERCHANTS, pubkey_bytes (key (csb_grok_account A))] (mr_bump reg)
       INTENTS_ID (csb_merchant_registry A)) (\<lambda>_.
     and_then (require (mr_grok_account reg = key (csb_grok_account A)) (Base GrokAccountMismatch)) (\<lambda>_.
     Inr (reg, bump, c))))))))))"

definition subscription_create ::
  "runtime \<Rightarrow> create_subscription_infos \<Rightarrow> subscription_args \<Rightarrow> merchant_registry \<Rightarrow> u8
   \<Rightarrow> chain \<Rightarrow> chain res" where
  "subscription_create rt A args registry bump c =
     and_then (require (0 < su_amount args) (Base ZeroAmount)) (\<lambda>_.
     and_then (require (sint MIN_PERIOD_SECONDS \<le> sint (su_period_seconds args))
       (Token SubscriptionPeriodTooShort)) (\<lambda>_.
     and_then (require (mr_mint registry = key (csb_mint A)) (Token PayTokenMintNotRegistered)) (\<lambda>_.
     and_then (require (list_ex (\<lambda>m. m = su_merchant args) (mr_merchants registry))
       (Token PayTokenPayeeNotAllowed)) (\<lambda>_.
     let now = unix_now rt;
         sub = \<lparr>sb_grok_account = key (csb_grok_account A), sb_root = key (csb_root A),
                sb_merchant = su_merchant args, sb_mint = key (csb_mint A), sb_amount = su_amount args,
                sb_period_seconds = su_period_seconds args,
                sb_start_unix = (if sint now < sint (su_start_unix args) then su_start_unix args else now),
                sb_last_paid_period = PERIOD_NONE, sb_payments = 0, sb_active = True, sb_bump = bump\<rparr>;
         c = emit (Payment_event (SubscriptionCreated (key (csb_subscription A)) (sb_grok_account sub)
               (sb_root sub) (sb_merchant sub) (sb_mint sub) (sb_amount sub) (sb_period_seconds sub)
               (sb_start_unix sub))) c
     in store_subscription sub (key (csb_subscription A)) c))))"

definition create_subscription ::
  "runtime \<Rightarrow> create_subscription_infos \<Rightarrow> subscription_args \<Rightarrow> chain \<Rightarrow> chain res" where
  "create_subscription rt A args c =
     and_then (create_subscription_accounts rt A args c) (\<lambda>(registry, bump, c).
       subscription_create rt A args registry bump c)"

section \<open>cancel_subscription\<close>

record cancel_subscription_infos =
  xsb_root :: account_info
  xsb_grok_account :: account_info
  xsb_subscription :: account_info

definition subscription_seeds :: "runtime \<Rightarrow> account_info \<Rightarrow> pubkey \<Rightarrow> subscription \<Rightarrow> unit res" where
  "subscription_seeds rt sub_ai grok sub =
     seeds_bump rt [SEED_SUBSCRIPTION, pubkey_bytes grok, pubkey_bytes (sb_merchant sub),
       pubkey_bytes (sb_mint sub)] (sb_bump sub) INTENTS_ID sub_ai"

definition cancel_subscription_accounts ::
  "runtime \<Rightarrow> cancel_subscription_infos \<Rightarrow> chain \<Rightarrow> subscription res" where
  "cancel_subscription_accounts rt A c =
     and_then (signer (xsb_root A)) (\<lambda>_.
     and_then (load_grok_account rt c (key (xsb_grok_account A))) (\<lambda>ga.
     and_then (load_subscription c (key (xsb_subscription A))) (\<lambda>sub.
     and_then (grok_of_root rt (xsb_grok_account A) ga (xsb_root A)) (\<lambda>_.
     and_then (subscription_seeds rt (xsb_subscription A) (key (xsb_grok_account A)) sub) (\<lambda>_.
     and_then (writable (xsb_subscription A)) (\<lambda>_.
     and_then (require (sb_grok_account sub = key (xsb_grok_account A)) (Base GrokAccountMismatch)) (\<lambda>_.
     and_then (require (sb_root sub = key (xsb_root A)) (Base UnauthorizedRoot)) (\<lambda>_.
     Inr sub))))))))"

definition subscription_cancel ::
  "cancel_subscription_infos \<Rightarrow> subscription \<Rightarrow> chain \<Rightarrow> chain res" where
  "subscription_cancel A sub c =
     and_then (require (sb_active sub) (Token SubscriptionInactive)) (\<lambda>_.
     let sub = sub\<lparr>sb_active := False\<rparr>;
         c = emit (Payment_event (SubscriptionCancelled (key (xsb_subscription A)) (sb_grok_account sub)
               (sb_root sub) (sb_merchant sub) (sb_payments sub) (sb_last_paid_period sub))) c
     in store_subscription sub (key (xsb_subscription A)) c)"

definition cancel_subscription ::
  "runtime \<Rightarrow> cancel_subscription_infos \<Rightarrow> chain \<Rightarrow> chain res" where
  "cancel_subscription rt A c =
     and_then (cancel_subscription_accounts rt A c) (\<lambda>sub. subscription_cancel A sub c)"

section \<open>pay_subscription\<close>

record pay_subscription_infos = mouth +
  psb_subscription :: account_info
  psb_merchant_registry :: account_info
  psb_pump_trader :: account_info
  psb_source :: account_info
  psb_destination :: account_info
  psb_mint :: account_info
  psb_token_program :: account_info
  psb_reference :: "account_info option"
  psb_paymaster :: "account_info option"
  psb_fee_payer :: "account_info option"

definition pay_subscription_accounts ::
  "runtime \<Rightarrow> pay_subscription_infos \<Rightarrow> chain
   \<Rightarrow> (grant \<times> subscription \<times> merchant_registry \<times> u8 \<times> (account_info \<times> paymaster) option) res" where
  "pay_subscription_accounts rt A c =
     and_then (mouth_load rt A c) (\<lambda>(ga, gr).
     and_then (load_subscription c (key (psb_subscription A))) (\<lambda>sub.
     and_then (load_merchant_registry c (key (psb_merchant_registry A))) (\<lambda>reg.
     and_then (load_paymaster_opt c (psb_paymaster A)) (\<lambda>pm.
     and_then (signer_opt (psb_fee_payer A)) (\<lambda>_.
     and_then (mouth_constraints rt A ga gr) (\<lambda>_.
     and_then (subscription_seeds rt (psb_subscription A) (key (m_grok_account A)) sub) (\<lambda>_.
     and_then (writable (psb_subscription A)) (\<lambda>_.
     and_then (require (sb_grok_account sub = key (m_grok_account A)) (Base GrokAccountMismatch)) (\<lambda>_.
     and_then (seeds_bump rt [SEED_MERCHANTS, pubkey_bytes (key (m_grok_account A))] (mr_bump reg)
       INTENTS_ID (psb_merchant_registry A)) (\<lambda>_.
     and_then (require (mr_grok_account reg = key (m_grok_account A)) (Base GrokAccountMismatch)) (\<lambda>_.
     and_then (trader_seeds rt (psb_pump_trader A) (key (m_grok_account A))) (\<lambda>bump.
     and_then (writable (psb_source A)) (\<lambda>_.
     and_then (writable (psb_destination A)) (\<lambda>_.
     and_then (payment_paymaster_constraints rt pm (key (m_grok_account A))) (\<lambda>_.
     and_then (writable_opt (psb_fee_payer A)) (\<lambda>_.
     Inr (gr, sub, reg, bump, pm)))))))))))))))))"

text \<open>The opening block of \<open>pay\<close>: which period is being settled.\<close>

definition due_period :: "i64 \<Rightarrow> subscription \<Rightarrow> i64 \<Rightarrow> i64 res" where
  "due_period now sub stated =
     and_then (require (sb_active sub) (Token SubscriptionInactive)) (\<lambda>_.
     and_then (current_period now (sb_start_unix sub) (sb_period_seconds sub)) (\<lambda>period.
     and_then (require (stated = period) (Token SubscriptionPeriodMismatch)) (\<lambda>_.
     and_then (require (sint (sb_last_paid_period sub) < sint period) (Token SubscriptionAlreadyPaid)) (\<lambda>_.
     Inr period))))"

definition subscription_pay ::
  "runtime \<Rightarrow> pay_subscription_infos \<Rightarrow> grant \<Rightarrow> subscription \<Rightarrow> merchant_registry \<Rightarrow> u8
   \<Rightarrow> (account_info \<times> paymaster) option \<Rightarrow> pay_subscription_args \<Rightarrow> chain \<Rightarrow> chain res" where
  "subscription_pay rt A gr sub registry bump pm args c =
     and_then (due_period (unix_now rt) sub (py_period args)) (\<lambda>period.
     let amount = sb_amount sub; merchant = sb_merchant sub; mint_key = sb_mint sub in
     and_then (precheck_sponsor (py_sponsor_lamports args) pm (psb_fee_payer A)) (\<lambda>_.
     and_then (require (mr_mint registry = mint_key) (Token PayTokenMintNotRegistered)) (\<lambda>_.
     and_then (require (list_ex (\<lambda>m. m = merchant) (mr_merchants registry))
       (Token PayTokenPayeeNotAllowed)) (\<lambda>_.
     let trader = key (psb_pump_trader A) in
     and_then (token_account_fields (key (psb_source A)) c) (\<lambda>(src_mint, src_owner, src_amount).
     and_then (require (src_mint = mint_key) (Token PayTokenMintMismatch)) (\<lambda>_.
     and_then (require (src_owner = trader) (Token PayTokenSourceOwnerNotTrader)) (\<lambda>_.
     and_then (require (amount \<le> src_amount) (Token PayTokenInsufficient)) (\<lambda>_.
     and_then (token_account_fields (key (psb_destination A)) c) (\<lambda>(dst_mint, dst_owner, _).
     and_then (require (dst_mint = mint_key) (Token PayTokenMintMismatch)) (\<lambda>_.
     and_then (require (dst_owner = merchant) (Token PayTokenPayeeNotAllowed)) (\<lambda>_.
     and_then (mint_decimals (key (psb_mint A)) c) (\<lambda>decimals.
     and_then (mouth_check_grant rt A amount c) (\<lambda>c.
     let trader_signer_seeds = [SEED_PUMP_TRADER, pubkey_bytes (key (m_grok_account A)), [bump]];
         token_program = key (psb_token_program A) in
     and_then (require (token_program = TOKEN_PROGRAM_ID \<or> token_program = TOKEN_2022_PROGRAM_ID)
       (Pump InvalidTokenProgram)) (\<lambda>_.
     and_then (require (owner_of c (key (psb_source A)) = token_program
         \<and> owner_of c (key (psb_destination A)) = token_program) (Pump InvalidTokenProgram)) (\<lambda>_.
     and_then (invoke_signed rt
         (transfer_checked_ix token_program (key (psb_source A)) mint_key (key (psb_destination A))
            trader amount decimals)
         [psb_source A, psb_mint A, psb_destination A, psb_pump_trader A, psb_token_program A]
         [trader_signer_seeds] c) (\<lambda>c.
     let sub = sub\<lparr>sb_last_paid_period := period, sb_payments := saturating_add (sb_payments sub) 1\<rparr>;
         c = emit (Payment_event (SubscriptionPaid (key (psb_subscription A)) (key (m_grok_account A))
               merchant mint_key amount period (sb_payments sub) (map_option key (psb_reference A))
               (key (m_agent A)) (key (m_grant A)) (gr_generation gr))) c
     in store_subscription sub (key (psb_subscription A)) c))))))))))))))))"

definition pay_subscription ::
  "runtime \<Rightarrow> pay_subscription_infos \<Rightarrow> pay_subscription_args \<Rightarrow> chain \<Rightarrow> chain res" where
  "pay_subscription rt A args c =
     and_then (pay_subscription_accounts rt A c) (\<lambda>(gr, sub, registry, bump, pm).
       subscription_pay rt A gr sub registry bump pm args c)"

section \<open>Which period it is\<close>

lemma current_period_cases:
  "current_period now start len =
     (if sint len \<le> 0 then Inl (Intents (Token SubscriptionPeriodTooShort))
      else if sint now < sint start then Inl (Intents (Token SubscriptionNotStarted))
      else if 2 ^ 63 \<le> sint now - sint start then Inl Panic
      else Inr (word_of_int ((sint now - sint start) div sint len)))"
proof -
  have sub: "i64_sub now start = (if sint now - sint start < 2 ^ 63 then Some (now - start) else None)"
    if "sint start \<le> sint now"
    using that by (simp add: i64_sub_def Let_def)
  have quot: "i64_div (now - start) len = Some (word_of_int ((sint now - sint start) div sint len))"
    if "sint start \<le> sint now" "sint now - sint start < 2 ^ 63" "0 < sint len"
    using that by (simp add: i64_div_def sint_sub_small trunc_div_nonneg) (auto dest: arg_cong [of len 0 sint])
  show ?thesis
    by (auto simp: current_period_def sub quot not_less not_le)
qed

lemma sint_eq_iff: "a = b \<longleftrightarrow> sint a = sint b" for a b :: i64
  by (rule word_eq_iff_signed)

lemma current_period_eq_Inr:
  "current_period now start len = Inr p \<longleftrightarrow>
     0 < sint len \<and> sint start \<le> sint now \<and> sint now - sint start < 2 ^ 63
     \<and> sint p = (sint now - sint start) div sint len"
proof -
  have range: "sint (word_of_int ((sint now - sint start) div sint len) :: i64)
      = (sint now - sint start) div sint len"
    if "0 < sint len" "sint start \<le> sint now" "sint now - sint start < 2 ^ 63"
  proof (rule sint_word_of_int_small)
    have "0 \<le> (sint now - sint start) div sint len"
      using that by (simp add: pos_imp_zdiv_nonneg_iff)
    then show "- (2 ^ 63) \<le> (sint now - sint start) div sint len"
      by simp
    have "(sint now - sint start) div sint len \<le> (sint now - sint start) div 1"
      using that by (intro zdiv_mono2) auto
    with that show "(sint now - sint start) div sint len < 2 ^ 63"
      by simp
  qed
  show ?thesis
    using range by (auto simp: current_period_cases sint_eq_iff)
qed

text \<open>C30: Periods partition time: from the start on, and short of an overflow, the period returned
  is the one whose half-open interval contains \<open>now\<close>, it is never negative, and the error cases
  are exactly a period that is not positive, a start in the future, and an overflowing clock.\<close>

theorem current_period_exact:
  "(sint len \<le> 0 \<longrightarrow> current_period now start len = Inl (Intents (Token SubscriptionPeriodTooShort)))
   \<and> (0 < sint len \<and> sint now < sint start \<longrightarrow>
        current_period now start len = Inl (Intents (Token SubscriptionNotStarted)))
   \<and> (0 < sint len \<and> sint start \<le> sint now \<and> 2 ^ 63 \<le> sint now - sint start \<longrightarrow>
        current_period now start len = Inl Panic)
   \<and> (0 < sint len \<and> sint start \<le> sint now \<and> sint now - sint start < 2 ^ 63 \<longrightarrow>
        (\<exists>p. current_period now start len = Inr p \<and> 0 \<le> sint p
           \<and> sint start + sint p * sint len \<le> sint now
           \<and> sint now < sint start + (sint p + 1) * sint len))"
proof -
  let ?p = "(sint now - sint start) div sint len"
  have "\<exists>p. current_period now start len = Inr p \<and> sint p = ?p"
    if "0 < sint len" "sint start \<le> sint now" "sint now - sint start < 2 ^ 63"
    using that current_period_eq_Inr [of now start len "word_of_int ?p"]
    by (intro exI [of _ "word_of_int ?p"]) (simp add: current_period_cases)
  moreover have "0 \<le> ?p" "?p * sint len \<le> sint now - sint start"
      "sint now - sint start < (?p + 1) * sint len"
    if "0 < sint len" "sint start \<le> sint now"
  proof -
    show "0 \<le> ?p"
      using that by (simp add: pos_imp_zdiv_nonneg_iff)
    have "sint now - sint start = ?p * sint len + (sint now - sint start) mod sint len"
      by simp
    moreover have "0 \<le> (sint now - sint start) mod sint len" "(sint now - sint start) mod sint len < sint len"
      using that by simp_all
    ultimately show "?p * sint len \<le> sint now - sint start"
      "sint now - sint start < (?p + 1) * sint len"
      by (simp_all only: distrib_right)
  qed
  ultimately show ?thesis
    by (fastforce simp: current_period_cases not_less)
qed

lemma current_period_exact_witness:
  "\<exists>p. current_period 1172800 1000000 86400 = Inr p \<and> 0 \<le> sint p
     \<and> sint p * 86400 \<le> 172800 \<and> 172800 < (sint p + 1) * 86400"
  using current_period_exact [of 86400 1172800 1000000] by simp

section \<open>Settling a period\<close>

lemma due_period_eq_Inr [res_simps]:
  "due_period now sub stated = Inr p \<longleftrightarrow>
     sb_active sub \<and> current_period now (sb_start_unix sub) (sb_period_seconds sub) = Inr p
     \<and> stated = p \<and> sint (sb_last_paid_period sub) < sint p"
  by (auto simp: due_period_def and_then_eq_Inr require_eq_Inr)

lemma subscription_seeds_eq_Inr [res_simps]:
  "subscription_seeds rt ai grok sub = Inr u \<longleftrightarrow>
     create_program_address rt ([SEED_SUBSCRIPTION, pubkey_bytes grok, pubkey_bytes (sb_merchant sub),
       pubkey_bytes (sb_mint sub)] @ [[sb_bump sub]]) INTENTS_ID = Some (key ai)"
  by (simp add: subscription_seeds_def account_checks_eq_Inr)

lemma pay_subscription_accounts_eq_Inr:
  "pay_subscription_accounts rt A c = Inr (gr, sub, reg, bump, pm) \<Longrightarrow>
   \<exists>ga. mouth_load rt A c = Inr (ga, gr) \<and> mouth_constraints rt A ga gr = Inr ()
     \<and> load_subscription c (key (psb_subscription A)) = Inr sub
     \<and> sb_grok_account sub = key (m_grok_account A)
     \<and> load_merchant_registry c (key (psb_merchant_registry A)) = Inr reg
     \<and> mr_grok_account reg = key (m_grok_account A)
     \<and> trader_seeds rt (psb_pump_trader A) (key (m_grok_account A)) = Inr bump"
  by (auto simp: pay_subscription_accounts_def and_then_eq_Inr require_eq_Inr)

lemma subscription_pay_exact:
  assumes "subscription_pay rt A gr sub reg bump pm args c = Inr d"
  obtains period held had dec c1 c2 where
    "due_period (unix_now rt) sub (py_period args) = Inr period"
    "mr_mint reg = sb_mint sub" "sb_merchant sub \<in> set (mr_merchants reg)"
    "token_account_fields (key (psb_source A)) c = Inr (sb_mint sub, key (psb_pump_trader A), held)"
    "token_account_fields (key (psb_destination A)) c = Inr (sb_mint sub, sb_merchant sub, had)"
    "key (psb_token_program A) \<in> {TOKEN_PROGRAM_ID, TOKEN_2022_PROGRAM_ID}"
    "mouth_check_grant rt A (sb_amount sub) c = Inr c1"
    "invoke_signed rt (transfer_checked_ix (key (psb_token_program A)) (key (psb_source A))
       (sb_mint sub) (key (psb_destination A)) (key (psb_pump_trader A)) (sb_amount sub) dec)
       [psb_source A, psb_mint A, psb_destination A, psb_pump_trader A, psb_token_program A]
       [[SEED_PUMP_TRADER, pubkey_bytes (key (m_grok_account A)), [bump]]] c1 = Inr c2"
    "store_subscription (sub\<lparr>sb_last_paid_period := period,
         sb_payments := saturating_add (sb_payments sub) 1\<rparr>) (key (psb_subscription A))
       (emit (Payment_event (SubscriptionPaid (key (psb_subscription A)) (key (m_grok_account A))
          (sb_merchant sub) (sb_mint sub) (sb_amount sub) period (saturating_add (sb_payments sub) 1)
          (map_option key (psb_reference A)) (key (m_agent A)) (key (m_grant A)) (gr_generation gr))) c2)
      = Inr d"
  using assms
  by (simp only: subscription_pay_def Let_def and_then_eq_Inr require_eq_Inr case_prod_conv
      split_paired_Ex ex_simps simp_thms list_ex_iff bex_triv_one_point1 sum.inject, elim exE conjE, hypsubst)
    (rule that, (assumption | rule refl | simp only: insert_iff empty_iff simp_thms | simp)+)

lemma subscription_payE:
  assumes "subscription_pay rt A gr sub reg bump pm args c = Inr d"
  obtains period held had dec c1 c2 e where
    "due_period (unix_now rt) sub (py_period args) = Inr period"
    "mr_mint reg = sb_mint sub" "sb_merchant sub \<in> set (mr_merchants reg)"
    "token_account_fields (key (psb_source A)) c = Inr (sb_mint sub, key (psb_pump_trader A), held)"
    "token_account_fields (key (psb_destination A)) c = Inr (sb_mint sub, sb_merchant sub, had)"
    "key (psb_token_program A) \<in> {TOKEN_PROGRAM_ID, TOKEN_2022_PROGRAM_ID}"
    "mouth_check_grant rt A (sb_amount sub) c = Inr c1"
    "invoke_signed rt (transfer_checked_ix (key (psb_token_program A)) (key (psb_source A))
       (sb_mint sub) (key (psb_destination A)) (key (psb_pump_trader A)) (sb_amount sub) dec)
       [psb_source A, psb_mint A, psb_destination A, psb_pump_trader A, psb_token_program A]
       [[SEED_PUMP_TRADER, pubkey_bytes (key (m_grok_account A)), [bump]]] c1 = Inr c2"
    "store_subscription (sub\<lparr>sb_last_paid_period := period,
         sb_payments := saturating_add (sb_payments sub) 1\<rparr>) (key (psb_subscription A))
       (emit e c2) = Inr d"
  by (rule subscription_pay_exact [OF assms]) (rule that)

text \<open>Everything a successful settlement has checked and done.\<close>

definition period_settled ::
  "runtime \<Rightarrow> pay_subscription_infos \<Rightarrow> subscription \<Rightarrow> subscription \<Rightarrow> chain \<Rightarrow> chain \<Rightarrow> bool" where
  "period_settled rt A sub sub' c d \<longleftrightarrow>
     sb_active sub
     \<and> current_period (unix_now rt) (sb_start_unix sub) (sb_period_seconds sub)
         = Inr (sb_last_paid_period sub')
     \<and> sint (sb_last_paid_period sub) < sint (sb_last_paid_period sub')
     \<and> sub' = sub\<lparr>sb_last_paid_period := sb_last_paid_period sub',
         sb_payments := saturating_add (sb_payments sub) 1\<rparr>
     \<and> load_subscription d (key (psb_subscription A)) = Inr sub'
     \<and> token_owner (data_of c (key (psb_destination A))) = sb_merchant sub
     \<and> token_owner (data_of c (key (psb_source A))) = key (psb_pump_trader A)
     \<and> (\<forall>k \<in> {key (psb_source A), key (psb_destination A)}. token_mint (data_of c k) = sb_mint sub
          \<and> owner_of c k \<in> {TOKEN_PROGRAM_ID, TOKEN_2022_PROGRAM_ID} \<and> 165 \<le> length (data_of c k))
     \<and> token_paid (key (psb_source A)) (key (psb_destination A)) (sb_amount sub) c d
     \<and> (\<exists>g g'. load_grant rt c (key (m_grant A)) = Inr g \<and> gr_agent g = key (m_agent A)
          \<and> load_grant rt d (key (m_grant A)) = Inr g' \<and> metered rt g (sb_amount sub) g')
     \<and> (\<forall>k. k \<notin> {key (m_grant A), key (psb_source A), key (psb_destination A), key (psb_subscription A)} \<longrightarrow>
          accts d k = accts c k)"

lemma load_foreign_owner:
  "own \<noteq> SYSTEM_PROGRAM_ID \<Longrightarrow> load_typed own de c k = Inr x \<Longrightarrow> owner_of c j \<noteq> own \<Longrightarrow> j \<noteq> k"
  by (auto simp: load_typed_eq_Inr)

lemma settlement_apart:
  assumes "load_subscription c s = Inr u" and "owner_of c src \<notin> {CORE_ID, INTENTS_ID}"
    "owner_of c dst \<notin> {CORE_ID, INTENTS_ID}" and "load_grant rt c gk = Inr gr"
  shows "src \<noteq> s" "dst \<noteq> s" "gk \<noteq> s"
proof -
  show "src \<noteq> s" "dst \<noteq> s"
    using load_foreign_owner [OF intents_not_system assms(1)] assms(2,3) by auto
  have "owner_of c gk = CORE_ID"
    using assms(4) by (simp add: load_grant_def load_typed_eq_Inr)
  then show "gk \<noteq> s"
    using load_foreign_owner [OF intents_not_system assms(1)] core_not_intents by metis
qed

text \<open>What was metered and paid stands after the counter is written.\<close>

lemma settled_written:
  assumes s: "settled rt gk src dst a c c2" and st: "store_subscription x s (emit e c2) = Inr d"
    and sub: "load_subscription c s = Inr u" and apart: "src \<noteq> s" "dst \<noteq> s" "gk \<noteq> s"
  shows "load_subscription d s = Inr x" and "token_paid src dst a c d"
    and "\<exists>g g'. load_grant rt c gk = Inr g \<and> load_grant rt d gk = Inr g' \<and> metered rt g a g'"
    and "\<forall>k. k \<notin> {gk, src, dst, s} \<longrightarrow> accts d k = accts c k"
proof -
  have frame: "accts d k = accts c2 k" if "k \<noteq> s" for k
    using sb_account.acct.store_frame [OF st] that by auto
  have "load_subscription c2 s = Inr u"
    using s apart sub load_typed_local [of c2 s c] unfolding settled_def by metis
  then show "load_subscription d s = Inr x"
    by (intro sb_account.acct.load_store [OF _ _ st]) simp_all
  have "load_grant rt d gk = load_grant rt c2 gk"
    unfolding load_grant_def by (rule load_typed_local [OF frame [OF apart(3)]])
  then show "\<exists>g g'. load_grant rt c gk = Inr g \<and> load_grant rt d gk = Inr g' \<and> metered rt g a g'"
    using s by (auto simp: settled_def)
  have "data_of d src = data_of c2 src" "data_of d dst = data_of c2 dst"
    using frame apart by (simp_all add: data_of_def)
  then show "token_paid src dst a c d"
    using s token_paid_cong [of src dst c c d c2 a] by (auto simp: settled_def)
  show "\<forall>k. k \<notin> {gk, src, dst, s} \<longrightarrow> accts d k = accts c k"
    using s frame unfolding settled_def by auto
qed

lemma pay_subscription_settles:
  assumes "core_meters rt" and "token_transfers rt" and "pay_subscription rt A args c = Inr d"
  shows "\<exists>sub sub' reg. load_subscription c (key (psb_subscription A)) = Inr sub
    \<and> load_merchant_registry c (key (psb_merchant_registry A)) = Inr reg
    \<and> sb_merchant sub \<in> set (mr_merchants reg) \<and> mr_mint reg = sb_mint sub
    \<and> mr_grok_account reg = sb_grok_account sub
    \<and> period_settled rt A sub sub' c d"
proof -
  let ?s = "key (psb_subscription A)" and ?src = "key (psb_source A)" and ?dst = "key (psb_destination A)"
  obtain gr sub reg bump pm where acc: "pay_subscription_accounts rt A c = Inr (gr, sub, reg, bump, pm)"
    and h: "subscription_pay rt A gr sub reg bump pm args c = Inr d"
    using assms(3) by (auto simp: pay_subscription_def and_then_eq_Inr)
  obtain ga where load: "mouth_load rt A c = Inr (ga, gr)" "mouth_constraints rt A ga gr = Inr ()"
    and sub: "load_subscription c ?s = Inr sub" "sb_grok_account sub = key (m_grok_account A)"
    and reg: "load_merchant_registry c (key (psb_merchant_registry A)) = Inr reg"
      "mr_grok_account reg = key (m_grok_account A)"
    using pay_subscription_accounts_eq_Inr [OF acc] by blast
  obtain period held had dec c1 c2 e where
    due: "due_period (unix_now rt) sub (py_period args) = Inr period"
    and mint: "mr_mint reg = sb_mint sub" and payee: "sb_merchant sub \<in> set (mr_merchants reg)"
    and src: "token_account_fields ?src c = Inr (sb_mint sub, key (psb_pump_trader A), held)"
    and dst: "token_account_fields ?dst c = Inr (sb_mint sub, sb_merchant sub, had)"
    and tp: "key (psb_token_program A) \<in> {TOKEN_PROGRAM_ID, TOKEN_2022_PROGRAM_ID}"
    and 1: "mouth_check_grant rt A (sb_amount sub) c = Inr c1"
    and 2: "invoke_signed rt (transfer_checked_ix (key (psb_token_program A)) ?src
       (sb_mint sub) ?dst (key (psb_pump_trader A)) (sb_amount sub) dec)
       [psb_source A, psb_mint A, psb_destination A, psb_pump_trader A, psb_token_program A]
       [[SEED_PUMP_TRADER, pubkey_bytes (key (m_grok_account A)), [bump]]] c1 = Inr c2"
    and 3: "store_subscription (sub\<lparr>sb_last_paid_period := period,
         sb_payments := saturating_add (sb_payments sub) 1\<rparr>) ?s (emit e c2) = Inr d"
    by (rule subscription_payE [OF h])
  have own: "owner_of c ?src \<notin> {CORE_ID, INTENTS_ID}" "owner_of c ?dst \<notin> {CORE_ID, INTENTS_ID}"
    using src dst by (auto simp: token_account_fields_eq_Inr token_ids [symmetric])
  have g: "load_grant rt c (key (m_grant A)) = Inr gr" "gr_agent gr = key (m_agent A)"
    using load by (simp_all add: mouth_load_eq_Inr mouth_constraints_eq_Inr grant_constraints_eq_Inr)
  have s: "settled rt (key (m_grant A)) ?src ?dst (sb_amount sub) c c2"
    by (rule meter_and_transfer [OF assms(1,2) tp _ _ g(1) 1 2]) (use own in auto)
  note apart = settlement_apart [OF sub(1) own g(1)]
  note written = settled_written [OF s 3 sub(1) apart]
  show ?thesis
    using sub reg mint payee due g written src dst
    unfolding period_settled_def
    by (intro exI [of _ sub] exI [of _ "sub\<lparr>sb_last_paid_period := period,
      sb_payments := saturating_add (sb_payments sub) 1\<rparr>"] exI [of _ reg])
      (simp add: due_period_eq_Inr token_account_fields_eq_Inr)
qed

section \<open>Properties\<close>

text \<open>C31: A successful \<open>pay_subscription\<close> settles the period the clock is in, once: the subscription
  was active and had not been paid for it, its merchant is still on the registry of the same
  GrokAccount, and the grant is metered by the subscribed amount. The source, a token account of the
  trader, held that amount, and the destination is one of the merchant, both in the subscribed mint: if they differ, the
  source falls by exactly the amount, the destination gains at most that (a mint may withhold a
  fee), and both keep mint and owner; if they are the same account, which takes a root that
  subscribed to the trader itself, it keeps its data. Only the period and the payment counter of the
  subscription advance, and no other account changes at all (so a sponsor share, though checked, is
  never paid out). Of CORE this uses that it meters (\<open>core_meters\<close>), of the token programs that
  they move what the instruction says (\<open>token_transfers\<close>).\<close>

theorem pay_subscription_effect:
  assumes "core_meters rt" and "token_transfers rt" and "pay_subscription rt A args c = Inr d"
  shows "\<exists>sub sub' reg. load_subscription c (key (psb_subscription A)) = Inr sub
    \<and> load_merchant_registry c (key (psb_merchant_registry A)) = Inr reg
    \<and> sb_merchant sub \<in> set (mr_merchants reg) \<and> mr_mint reg = sb_mint sub
    \<and> mr_grok_account reg = sb_grok_account sub
    \<and> period_settled rt A sub sub' c d"
  by (rule pay_subscription_settles [OF assms])

definition demo_subscription :: subscription where
  "demo_subscription =
     \<lparr>sb_grok_account = k_grok, sb_root = k_root, sb_merchant = 50, sb_mint = 40, sb_amount = 2500,
      sb_period_seconds = 86400, sb_start_unix = 800000, sb_last_paid_period = - 1, sb_payments = 0,
      sb_active = True, sb_bump = 255\<rparr>"

definition demo_billing_chain :: chain where
  "demo_billing_chain = demo_payments_chain\<lparr>accts := (accts demo_payments_chain)
     (k_subscription := demo_account 300 INTENTS_ID (sb_disc @ enc_subscription demo_subscription))\<rparr>"

lemma demo_billing_accts [simp]:
  "accts demo_billing_chain k_subscription
     = demo_account 300 INTENTS_ID (sb_disc @ enc_subscription demo_subscription)"
  "k \<noteq> k_subscription \<Longrightarrow> accts demo_billing_chain k = accts demo_payments_chain k"
  by (simp_all add: demo_billing_chain_def)

lemma demo_billing_core [simp]: "accts demo_billing_chain CORE_ID = demo_program"
  by (subst demo_billing_accts(2)) (simp_all add: key_simps demo_payments_core [unfolded key_simps])

lemma demo_billing_loads [simp]:
  "load_subscription demo_billing_chain k_subscription = Inr demo_subscription"
  "load_merchant_registry demo_billing_chain k_merchants = Inr demo_registry"
  "load_grant demo_rt demo_billing_chain k_grant = Inr (demo_grant 400)"
  "load_grok_account demo_rt demo_billing_chain k_grok = Inr \<lparr>ga_root = k_root, ga_bump = 255\<rparr>"
  by (simp_all add: load_grant_def load_grok_account_def res_simps owner_of_def data_of_def
      mr_account.deserialize_iff sb_account.deserialize_iff demo_decode_grant_def
      demo_registry_data_def demo_registry_def)

definition demo_pay_subscription_infos :: pay_subscription_infos where
  "demo_pay_subscription_infos =
     \<lparr>m_agent = info k_agent True False, m_grok_account = info k_grok False False,
      m_grant = info k_grant False True, m_core_program = info CORE_ID False False,
      m_intents_program = info INTENTS_ID False False,
      psb_subscription = info k_subscription False True,
      psb_merchant_registry = info k_merchants False False,
      psb_pump_trader = info k_trader False False, psb_source = info 31 False True,
      psb_destination = info 32 False True, psb_mint = info 40 False False,
      psb_token_program = info TOKEN_PROGRAM_ID False False, psb_reference = None,
      psb_paymaster = None, psb_fee_payer = None\<rparr>"

definition demo_period_args :: pay_subscription_args where
  "demo_period_args = \<lparr>py_period = 2, py_sponsor_lamports = 0\<rparr>"

lemma demo_period: "current_period 1000000 800000 86400 = Inr 2"
  by (simp add: current_period_cases)

lemma demo_pay_subscription_accounts:
  "pay_subscription_accounts demo_token_rt demo_pay_subscription_infos demo_billing_chain
     = Inr (demo_grant 400, demo_subscription, demo_registry, 255, None)"
  by (simp add: pay_subscription_accounts_def demo_pay_subscription_infos_def payment_defs
      subscription_seeds_def demo_grant_def)
    (simp add: demo_registry_def demo_subscription_def)

lemma demo_pay_subscription_ok:
  "\<exists>d. pay_subscription demo_token_rt demo_pay_subscription_infos demo_period_args demo_billing_chain
     = Inr d"
proof -
  have fields: "token_account_fields 31 demo_billing_chain = Inr (40, k_trader, 9000)"
    "token_account_fields 32 demo_billing_chain = Inr (40, 50, 100)"
    "mint_decimals 40 demo_billing_chain = Inr 6"
    by (simp_all add: token_account_fields_eq_Inr mint_decimals_eq_Inr owner_of_def data_of_def)
  have due: "due_period 1000000 demo_subscription 2 = Inr 2"
    by (simp add: due_period_eq_Inr demo_period demo_subscription_def)
  note due' = due [unfolded demo_subscription_def]
  have store: "\<exists>d. store_subscription x k_subscription (emit e (with_data 32 u (with_data 31 v
      (with_data k_grant w demo_billing_chain)))) = Inr d" for x e u v w
    using sb_account.serialize_fits [of x "sb_disc @ enc_subscription demo_subscription"]
    by (simp add: store_typed_def and_then_eq_Inr data_of_def sb_codec.enc_length sb_account.disc_length)
  show ?thesis
    by (simp add: pay_subscription_def demo_pay_subscription_accounts)
      (simp add: subscription_pay_def demo_pay_subscription_infos_def fields due' store
        precheck_sponsor_def require_sponsor_accounts_def require_sponsor_cap_def MAX_SPONSOR_LAMPORTS_def
        demo_registry_def mouth_check_grant_def demo_token_check_grant demo_period_args_def
        demo_token_transfer [of _ _ TOKEN_PROGRAM_ID] owner_of_def demo_subscription_def)
qed

lemma pay_subscription_effect_witness:
  "\<exists>d sub'. pay_subscription demo_token_rt demo_pay_subscription_infos demo_period_args
        demo_billing_chain = Inr d
     \<and> period_settled demo_token_rt demo_pay_subscription_infos demo_subscription sub'
         demo_billing_chain d"
proof -
  obtain d where d: "pay_subscription demo_token_rt demo_pay_subscription_infos demo_period_args
      demo_billing_chain = Inr d"
    using demo_pay_subscription_ok by blast
  show ?thesis
    using pay_subscription_effect [OF demo_token_core_meters demo_token_transfers d] d
    by (auto simp: demo_pay_subscription_infos_def)
qed

section \<open>At-least-once delivery, exactly-once settlement\<close>

text \<open>What a settlement does to the subscription, needing only the runtime's isolation.\<close>

lemma pay_subscription_advances:
  assumes "foreign_frame rt" and "pay_subscription rt A args c = Inr d"
  shows "\<exists>sub. load_subscription c (key (psb_subscription A)) = Inr sub \<and> sb_active sub
    \<and> current_period (unix_now rt) (sb_start_unix sub) (sb_period_seconds sub) = Inr (py_period args)
    \<and> sint (sb_last_paid_period sub) < sint (py_period args)
    \<and> load_subscription d (key (psb_subscription A))
        = Inr (sub\<lparr>sb_last_paid_period := py_period args,
            sb_payments := saturating_add (sb_payments sub) 1\<rparr>)"
proof -
  let ?s = "key (psb_subscription A)"
  obtain gr sub reg bump pm where acc: "pay_subscription_accounts rt A c = Inr (gr, sub, reg, bump, pm)"
    and h: "subscription_pay rt A gr sub reg bump pm args c = Inr d"
    using assms(2) by (auto simp: pay_subscription_def and_then_eq_Inr)
  have sub: "load_subscription c ?s = Inr sub"
    using pay_subscription_accounts_eq_Inr [OF acc] by blast
  obtain period dec c1 c2 e where due: "due_period (unix_now rt) sub (py_period args) = Inr period"
    and tp: "key (psb_token_program A) \<in> {TOKEN_PROGRAM_ID, TOKEN_2022_PROGRAM_ID}"
    and 1: "mouth_check_grant rt A (sb_amount sub) c = Inr c1"
    and 2: "invoke_signed rt (transfer_checked_ix (key (psb_token_program A)) (key (psb_source A))
       (sb_mint sub) (key (psb_destination A)) (key (psb_pump_trader A)) (sb_amount sub) dec)
       [psb_source A, psb_mint A, psb_destination A, psb_pump_trader A, psb_token_program A]
       [[SEED_PUMP_TRADER, pubkey_bytes (key (m_grok_account A)), [bump]]] c1 = Inr c2"
    and 3: "store_subscription (sub\<lparr>sb_last_paid_period := period,
         sb_payments := saturating_add (sb_payments sub) 1\<rparr>) ?s (emit e c2) = Inr d"
    by (rule subscription_payE [OF h])
  have own: "owner_of c ?s = INTENTS_ID"
    using sub by (simp add: load_typed_eq_Inr)
  note keep1 = keptD(1,2) [OF kept_check_grant [OF assms(1) 1] own]
  have "owner_of c2 ?s = INTENTS_ID" "data_of c2 ?s = data_of c1 ?s"
    using foreign_frameD [OF assms(1) 2 _ keep1(1)] tp
    by (auto simp: transfer_checked_ix_def)
  with sub keep1 have "load_subscription (emit e c2) ?s = Inr sub"
    by (simp add: load_typed_eq_Inr own)
  then have "load_subscription d ?s = Inr (sub\<lparr>sb_last_paid_period := period,
         sb_payments := saturating_add (sb_payments sub) 1\<rparr>)"
    by (rule sb_account.acct.load_store [OF _ _ 3]) simp
  with sub due show ?thesis
    by (auto simp: due_period_eq_Inr)
qed

text \<open>
  A scheduler that retries: each attempt runs at some clock reading, with any accounts and
  arguments; a failed transaction leaves the ledger as it was. \<open>deliver\<close> returns the periods
  that were settled, in order.
\<close>

type_synonym attempt = "i64 \<times> pay_subscription_infos \<times> pay_subscription_args"

primrec deliver :: "runtime \<Rightarrow> attempt list \<Rightarrow> chain \<Rightarrow> i64 list \<times> chain" where
  "deliver rt [] c = ([], c)"
| "deliver rt (a # rest) c =
     (case a of (now, A, args) \<Rightarrow>
        case pay_subscription (rt\<lparr>unix_now := now\<rparr>) A args c of
          Inl e \<Rightarrow> deliver rt rest c
        | Inr d \<Rightarrow> (case deliver rt rest d of (ps, e) \<Rightarrow> (py_period args # ps, e)))"

lemma foreign_frame_clock [simp]: "foreign_frame (rt\<lparr>unix_now := t\<rparr>) = foreign_frame rt"
  by (simp add: foreign_frame_def)

lemma deliver_once:
  assumes "foreign_frame rt" and "\<forall>(now, A, args) \<in> set as. key (psb_subscription A) = s"
    and "load_subscription c s = Inr sub" and "deliver rt as c = (ps, e)"
  shows "sorted_wrt (<) (map sint (sb_last_paid_period sub # ps))
    \<and> (\<forall>p \<in> set ps. \<exists>(now, A, args) \<in> set as. py_period args = p
         \<and> current_period now (sb_start_unix sub) (sb_period_seconds sub) = Inr p)
    \<and> (\<exists>sub'. load_subscription e s = Inr sub'
         \<and> sub' = sub\<lparr>sb_last_paid_period := last (sb_last_paid_period sub # ps),
             sb_payments := sb_payments sub'\<rparr>
         \<and> unat (sb_payments sub') = min (unat (sb_payments sub) + length ps) (2 ^ 32 - 1))"
  using assms(2-4)
proof (induction as arbitrary: c sub ps e)
  case Nil
  moreover have "unat (sb_payments sub) < 2 ^ 32"
    using unsigned_less [of "sb_payments sub"] by simp
  ultimately show ?case
    by auto
next
  case (Cons a as)
  obtain now A args where a: "a = (now, A, args)"
    by (cases a)
  have s: "key (psb_subscription A) = s" and rest: "\<forall>(now, A, args) \<in> set as. key (psb_subscription A) = s"
    using Cons.prems(1) by (auto simp: a)
  show ?case
  proof (cases "pay_subscription (rt\<lparr>unix_now := now\<rparr>) A args c")
    case (Inl x)
    then have "deliver rt as c = (ps, e)"
      using Cons.prems(3) by (simp add: a)
    from Cons.IH [OF rest Cons.prems(2) this] show ?thesis
      by fastforce
  next
    case (Inr d)
    then obtain qs where qs: "deliver rt as d = (qs, e)" and ps: "ps = py_period args # qs"
      using Cons.prems(3) by (auto simp: a split: prod.splits)
    let ?sub = "sub\<lparr>sb_last_paid_period := py_period args,
      sb_payments := saturating_add (sb_payments sub) 1\<rparr>"
    have now: "current_period now (sb_start_unix sub) (sb_period_seconds sub) = Inr (py_period args)"
      "sint (sb_last_paid_period sub) < sint (py_period args)"
      and d: "load_subscription d s = Inr ?sub"
      using pay_subscription_advances [OF _ Inr] assms(1) Cons.prems(2) s by auto
    note IH = Cons.IH [OF rest d qs]
    have "sorted_wrt (<) (map sint (sb_last_paid_period sub # ps))"
      using IH now(2) by (auto simp: ps dest: less_trans)
    moreover have "\<forall>p \<in> set ps. \<exists>(now, A, args) \<in> set (a # as). py_period args = p
         \<and> current_period now (sb_start_unix sub) (sb_period_seconds sub) = Inr p"
      using IH now(1) by (fastforce simp: ps a)
    moreover obtain sub' where "load_subscription e s = Inr sub'"
      and "sub' = ?sub\<lparr>sb_last_paid_period := last (py_period args # qs), sb_payments := sb_payments sub'\<rparr>"
      and "unat (sb_payments sub') = min (unat (sb_payments ?sub) + length qs) (2 ^ 32 - 1)"
      using IH by auto
    then have "\<exists>sub'. load_subscription e s = Inr sub'
         \<and> sub' = sub\<lparr>sb_last_paid_period := last (sb_last_paid_period sub # ps), sb_payments := sb_payments sub'\<rparr>
         \<and> unat (sb_payments sub') = min (unat (sb_payments sub) + length ps) (2 ^ 32 - 1)"
      by (intro exI [of _ sub']) (simp add: ps unat_saturating_add)
    ultimately show ?thesis
      by blast
  qed
qed

text \<open>C28: However often and whenever a scheduler retries, with whatever accounts and arguments, and
  whatever fails in between, the periods settled strictly increase from the last paid one: no
  period is ever settled twice, each was the current one when it was settled (missed periods
  are not made up for), and the counter rises by one for each.\<close>

theorem settles_exactly_once:
  assumes "foreign_frame rt" and "\<forall>(now, A, args) \<in> set as. key (psb_subscription A) = s"
    and "load_subscription c s = Inr sub" and "deliver rt as c = (ps, e)"
  shows "distinct ps \<and> sorted_wrt (<) (map sint (sb_last_paid_period sub # ps))
    \<and> (\<forall>p \<in> set ps. \<exists>(now, A, args) \<in> set as. py_period args = p
         \<and> current_period now (sb_start_unix sub) (sb_period_seconds sub) = Inr p)
    \<and> (\<exists>sub'. load_subscription e s = Inr sub'
         \<and> sub' = sub\<lparr>sb_last_paid_period := last (sb_last_paid_period sub # ps),
             sb_payments := sb_payments sub'\<rparr>
         \<and> unat (sb_payments sub') = min (unat (sb_payments sub) + length ps) (2 ^ 32 - 1))"
proof -
  note once = deliver_once [OF assms]
  then have "distinct (map sint ps)"
    by (simp add: strict_sorted_iff)
  with once show ?thesis
    by (simp add: distinct_map)
qed

lemma demo_clock: "demo_token_rt\<lparr>unix_now := 1000000\<rparr> = demo_token_rt"
  by (simp add: demo_token_rt_def demo_rt_def)

lemma settles_exactly_once_witness:
  "fst (deliver demo_token_rt (replicate 3 (1000000, demo_pay_subscription_infos, demo_period_args))
     demo_billing_chain) = [2]"
proof -
  let ?as = "replicate 3 (1000000 :: i64, demo_pay_subscription_infos, demo_period_args)"
  obtain ps e where run: "deliver demo_token_rt ?as demo_billing_chain = (ps, e)"
    by fastforce
  have "\<forall>(now, A, args) \<in> set ?as. key (psb_subscription A) = k_subscription"
    by (simp add: demo_pay_subscription_infos_def)
  from settles_exactly_once [OF demo_token_foreign_frame this _ run, of demo_subscription]
  have "distinct ps" "set ps \<subseteq> {2}"
    by (auto simp: demo_period_args_def)
  moreover have "ps \<noteq> []"
    using run demo_pay_subscription_ok
    by (auto simp: numeral_3_eq_3 demo_clock split: prod.splits)
  ultimately have "ps = [2]"
    by (cases ps; cases "tl ps") auto
  with run show ?thesis
    by simp
qed

section \<open>Creating, cancelling, and removing the payee\<close>

lemma cancel_subscriptionE:
  assumes "cancel_subscription rt B c = Inr d"
  obtains sub e where "load_subscription c (key (xsb_subscription B)) = Inr sub"
    "is_signer (xsb_root B)" "sb_root sub = key (xsb_root B)" "sb_active sub"
    "store_subscription (sub\<lparr>sb_active := False\<rparr>) (key (xsb_subscription B)) (emit e c) = Inr d"
  using assms
  by (auto simp: cancel_subscription_def cancel_subscription_accounts_def subscription_cancel_def
      and_then_eq_Inr require_eq_Inr account_checks_eq_Inr Let_def)

lemma inactive_refused:
  assumes "load_subscription d (key (psb_subscription A)) = Inr sub" and "\<not> sb_active sub"
  shows "pay_subscription rt A args d \<noteq> Inr e"
proof
  assume "pay_subscription rt A args d = Inr e"
  then obtain gr s reg bump pm where acc: "pay_subscription_accounts rt A d = Inr (gr, s, reg, bump, pm)"
    and h: "subscription_pay rt A gr s reg bump pm args d = Inr e"
    by (auto simp: pay_subscription_def and_then_eq_Inr)
  have "s = sub"
    using pay_subscription_accounts_eq_Inr [OF acc] assms(1) by auto
  moreover have "sb_active s"
    using h by (auto simp: subscription_pay_def and_then_eq_Inr due_period_eq_Inr)
  ultimately show False
    using assms(2) by simp
qed

text \<open>Cancelling is immediate and final: only the root of the subscription can do it, once; it
  clears the active flag and nothing else; and on the ledger it leaves no settlement of this
  subscription succeeds, by any agent, with any accounts, at any later time.\<close>

theorem cancel_is_immediate:
  assumes "cancel_subscription rt B c = Inr d"
  shows "(\<exists>sub. load_subscription c (key (xsb_subscription B)) = Inr sub \<and> sb_active sub
      \<and> is_signer (xsb_root B) \<and> sb_root sub = key (xsb_root B)
      \<and> load_subscription d (key (xsb_subscription B)) = Inr (sub\<lparr>sb_active := False\<rparr>))
    \<and> (\<forall>k. k \<noteq> key (xsb_subscription B) \<longrightarrow> accts d k = accts c k)
    \<and> (\<forall>rt' A args e. key (psb_subscription A) = key (xsb_subscription B) \<longrightarrow>
         pay_subscription rt' A args d \<noteq> Inr e)
    \<and> (\<forall>rt' e. cancel_subscription rt' B d \<noteq> Inr e)"
proof -
  obtain sub e where sub: "load_subscription c (key (xsb_subscription B)) = Inr sub"
    and ok: "is_signer (xsb_root B)" "sb_root sub = key (xsb_root B)" "sb_active sub"
    and st: "store_subscription (sub\<lparr>sb_active := False\<rparr>) (key (xsb_subscription B)) (emit e c) = Inr d"
    by (rule cancel_subscriptionE [OF assms])
  have d: "load_subscription d (key (xsb_subscription B)) = Inr (sub\<lparr>sb_active := False\<rparr>)"
    by (rule sb_account.acct.load_store [OF _ _ st]) (simp_all add: sub)
  have "accts d k = accts c k" if "k \<noteq> key (xsb_subscription B)" for k
    using sb_account.acct.store_frame [OF st] that by simp
  moreover have "pay_subscription rt' A args d \<noteq> Inr e"
    if "key (psb_subscription A) = key (xsb_subscription B)" for rt' A args e
    by (rule inactive_refused [of _ _ "sub\<lparr>sb_active := False\<rparr>"]) (simp_all add: that d)
  moreover have "cancel_subscription rt' B d \<noteq> Inr e" for rt' e
    by (rule notI, erule cancel_subscriptionE) (auto simp: d)
  ultimately show ?thesis
    using sub ok d by blast
qed

definition demo_cancel_infos :: cancel_subscription_infos where
  "demo_cancel_infos =
     \<lparr>xsb_root = info k_root True False, xsb_grok_account = info k_grok False False,
      xsb_subscription = info k_subscription False True\<rparr>"

lemma demo_cancel_ok: "\<exists>d. cancel_subscription demo_rt demo_cancel_infos demo_billing_chain = Inr d"
proof -
  have acc: "cancel_subscription_accounts demo_rt demo_cancel_infos demo_billing_chain = Inr demo_subscription"
    by (simp add: cancel_subscription_accounts_def demo_cancel_infos_def root_defs subscription_seeds_def)
      (simp add: demo_subscription_def)
  have "\<exists>d. store_subscription x k_subscription (emit e demo_billing_chain) = Inr d" for x e
    using sb_account.serialize_fits [of x "sb_disc @ enc_subscription demo_subscription"]
    by (simp add: store_typed_def and_then_eq_Inr data_of_def sb_codec.enc_length sb_account.disc_length)
  then show ?thesis
    by (simp add: cancel_subscription_def acc subscription_cancel_def)
      (simp add: demo_subscription_def demo_cancel_infos_def)
qed

lemma cancel_is_immediate_witness:
  "\<exists>d. cancel_subscription demo_rt demo_cancel_infos demo_billing_chain = Inr d
     \<and> (\<forall>e. pay_subscription demo_token_rt demo_pay_subscription_infos demo_period_args d \<noteq> Inr e)"
proof -
  obtain d where d: "cancel_subscription demo_rt demo_cancel_infos demo_billing_chain = Inr d"
    using demo_cancel_ok by blast
  show ?thesis
    using cancel_is_immediate [OF d] d by (auto simp: demo_cancel_infos_def demo_pay_subscription_infos_def)
qed

lemma pay_subscription_listed:
  assumes "pay_subscription rt A args c = Inr d"
  shows "\<exists>sub reg. load_subscription c (key (psb_subscription A)) = Inr sub
    \<and> load_merchant_registry c (key (psb_merchant_registry A)) = Inr reg
    \<and> sb_merchant sub \<in> set (mr_merchants reg)"
proof -
  obtain gr sub reg bump pm where acc: "pay_subscription_accounts rt A c = Inr (gr, sub, reg, bump, pm)"
    and h: "subscription_pay rt A gr sub reg bump pm args c = Inr d"
    using assms by (auto simp: pay_subscription_def and_then_eq_Inr)
  have "sb_merchant sub \<in> set (mr_merchants reg)"
    by (rule subscription_payE [OF h])
  with pay_subscription_accounts_eq_Inr [OF acc] show ?thesis
    by auto
qed

lemma remove_merchant_delisted:
  assumes "remove_merchant rt B m c = Inr d"
  shows "\<exists>reg. load_merchant_registry d (key (umr_merchant_registry B)) = Inr reg
    \<and> m \<notin> set (mr_merchants reg)"
proof -
  obtain reg e where reg: "load_merchant_registry c (key (umr_merchant_registry B)) = Inr reg"
    and st: "store_merchant_registry (reg\<lparr>mr_merchants := filter (\<lambda>x. x \<noteq> m) (mr_merchants reg)\<rparr>)
      (key (umr_merchant_registry B)) (emit e c) = Inr d"
    using assms
    by (auto simp: remove_merchant_def update_merchant_registry_accounts_def merchants_remove_def
        registry_remove_eq_Inr and_then_eq_Inr Let_def)
  have "length (mr_merchants reg) < 2 ^ 32"
    using reg by (auto simp: load_typed_eq_Inr mr_account.deserialize_iff)
  then have "length (filter (\<lambda>x. x \<noteq> m) (mr_merchants reg)) < 2 ^ 32"
    using length_filter_le le_less_trans by blast
  then have "load_merchant_registry d (key (umr_merchant_registry B))
      = Inr (reg\<lparr>mr_merchants := filter (\<lambda>x. x \<noteq> m) (mr_merchants reg)\<rparr>)"
    by (intro mr_account.acct.load_store [OF _ _ st, of reg]) (simp_all add: reg)
  then show ?thesis
    by auto
qed

text \<open>C32: Removing a payee from the registry stops every payment to it at once: on the ledger \<open>remove_merchant\<close> leaves, no \<open>pay_token\<close> to a token account of that
  payee and no settlement of a subscription for it succeeds under that registry, whatever the
  grant, the clock and the other accounts.\<close>

theorem removal_stops_payments:
  assumes "remove_merchant rt B m c = Inr d"
  shows "(\<forall>rt' A args e. key (ptk_merchant_registry A) = key (umr_merchant_registry B)
         \<and> token_owner (data_of d (key (ptk_destination A))) = m \<longrightarrow> pay_token rt' A args d \<noteq> Inr e)
    \<and> (\<forall>rt' A args sub e. key (psb_merchant_registry A) = key (umr_merchant_registry B)
         \<and> load_subscription d (key (psb_subscription A)) = Inr sub \<and> sb_merchant sub = m \<longrightarrow>
         pay_subscription rt' A args d \<noteq> Inr e)"
  using remove_merchant_delisted [OF assms] pay_token_listed pay_subscription_listed by fastforce

lemma removal_stops_payments_witness:
  "\<exists>d. remove_merchant demo_rt demo_update_infos 50 demo_registry_chain = Inr d
     \<and> (\<forall>rt' A args e. key (ptk_merchant_registry A) = k_merchants
          \<and> token_owner (data_of d (key (ptk_destination A))) = 50 \<longrightarrow> pay_token rt' A args d \<noteq> Inr e)"
proof -
  obtain d where d: "remove_merchant demo_rt demo_update_infos 50 demo_registry_chain = Inr d"
  proof -
    have "registry_inv (demo_registry\<lparr>mr_merchants := []\<rparr>)"
      by (simp add: registry_inv_def)
    from registry_store [OF this demo_registry_loads(1) demo_registry_length]
    have "\<exists>d. store_merchant_registry (demo_registry\<lparr>mr_merchants := []\<rparr>) k_merchants
        (emit e demo_registry_chain) = Inr d" for e
      by blast
    then have "\<exists>d. remove_merchant demo_rt demo_update_infos 50 demo_registry_chain = Inr d"
      by (simp add: remove_merchant_def demo_update_ok merchants_remove_def registry_remove_def)
        (simp add: demo_registry_def demo_update_infos_def)
    with that show thesis
      by blast
  qed
  from removal_stops_payments [OF d] d show ?thesis
    by (auto simp: demo_update_infos_def)
qed


definition demo_create_infos :: create_subscription_infos where
  "demo_create_infos =
     \<lparr>csb_root = info k_root True True, csb_grok_account = info k_grok False False,
      csb_merchant_registry = info k_merchants False False, csb_mint = info 40 False False,
      csb_subscription = info k_subscription False True,
      csb_system_program = info SYSTEM_PROGRAM_ID False False\<rparr>"

definition demo_create_args :: subscription_args where
  "demo_create_args = \<lparr>su_merchant = 50, su_amount = 2500, su_period_seconds = 86400, su_start_unix = 0\<rparr>"

lemma demo_create_accts [simp]:
  "accts demo_payments_chain k_subscription = demo_account 0 SYSTEM_PROGRAM_ID []"
  "accts demo_payments_chain SYSTEM_PROGRAM_ID = demo_program"
proof -
  have "accts demo_chain k_subscription = demo_account 0 SYSTEM_PROGRAM_ID []"
    by (simp add: demo_chain_def key_simps)
  then show "accts demo_payments_chain k_subscription = demo_account 0 SYSTEM_PROGRAM_ID []"
    by simp
  have "SYSTEM_PROGRAM_ID \<notin> {31, 32, 40, k_merchants}"
    by (simp add: key_simps)
  then show "accts demo_payments_chain SYSTEM_PROGRAM_ID = demo_program"
    by (rule trans [OF demo_payments_accts(5) demo_accts(9)])
qed

lemma demo_create_ok:
  "\<exists>d. create_subscription demo_rt demo_create_infos demo_create_args demo_payments_chain = Inr d"
proof -
  have reg: "seeds_bump demo_rt [SEED_MERCHANTS, pubkey_bytes k_grok] (mr_bump demo_registry) INTENTS_ID
      (info k_merchants False False) = Inr ()" "mr_grok_account demo_registry = k_grok"
    "mr_mint demo_registry = 40" "mr_merchants demo_registry = [50]"
    by (simp_all add: seeds_bump_def demo_registry_def)
  have len: "length sb_disc = 8" "length (enc_subscription x) = 166" for x
    by (simp_all add: sb_codec.enc_length sb_disc_def subscription_SPACE_def)
  have acc: "\<exists>d. create_subscription_accounts demo_rt demo_create_infos demo_create_args demo_payments_chain
      = Inr (demo_registry, 255, d) \<and> data_of d k_subscription = replicate 174 0 \<and> owner_of d k_subscription = INTENTS_ID"
    by (simp add: create_subscription_accounts_def init_account_def
        create_pda_account_def demo_init_def seeds_canonical_def demo_create_infos_def
        demo_create_args_def signer_def writable_def program_def grok_of_root_def grok_seeds_def
        demo_rent_def subscription_SPACE_def reg data_of_def owner_of_def)
      (simp add: seeds_bump_def)
  then show ?thesis
    by (auto simp: create_subscription_def)
      (simp add: subscription_create_def demo_create_infos_def demo_create_args_def reg
        MIN_PERIOD_SECONDS_def store_typed_def try_serialize_def len Let_def)
qed


end
