(* ===== verification/Sponsor_Fee.thy ===== *)
theory Sponsor_Fee imports Tokens begin

text \<open>
  \<open>instructions/sponsor_fee.rs\<close>: the fee rate a root may set, bounded, and the permissionless
  burn that is the only instruction signing for the fee vault.
\<close>

section \<open>The rate\<close>

definition MAX_FEE_PER_INTENT :: u64 where
  "MAX_FEE_PER_INTENT = 10000000"

text \<open>Here the GrokAccount is derived from the signing root, with the canonical bump.\<close>

definition grok_of_signer :: "runtime \<Rightarrow> account_info \<Rightarrow> grok_account \<Rightarrow> account_info \<Rightarrow> unit res" where
  "grok_of_signer rt grok_ai ga root =
     and_then (seeds_canonical rt [SEED_GROK_ACCOUNT, pubkey_bytes (key root)] CORE_ID grok_ai) (\<lambda>_.
     require (ga_root ga = key root) (Base UnauthorizedRoot))"

record init_sponsor_fee_infos =
  isf_root :: account_info
  isf_grok_account :: account_info
  isf_sponsor_fee :: account_info
  isf_system_program :: account_info

definition init_sponsor_fee_accounts ::
  "runtime \<Rightarrow> init_sponsor_fee_infos \<Rightarrow> chain \<Rightarrow> (u8 \<times> chain) res" where
  "init_sponsor_fee_accounts rt A c =
     and_then (signer (isf_root A)) (\<lambda>_.
     and_then (load_grok_account rt c (key (isf_grok_account A))) (\<lambda>ga.
     and_then (program c (isf_system_program A) SYSTEM_PROGRAM_ID) (\<lambda>_.
     and_then (init_account rt (isf_root A) sponsor_fee_config_SPACE
       [SEED_SPONSOR_FEE, pubkey_bytes (key (isf_grok_account A))] (isf_sponsor_fee A) c) (\<lambda>(bump, c).
     and_then (writable (isf_root A)) (\<lambda>_.
     and_then (grok_of_signer rt (isf_grok_account A) ga (isf_root A)) (\<lambda>_.
     Inr (bump, c)))))))"

definition init_fee :: "init_sponsor_fee_infos \<Rightarrow> u8 \<Rightarrow> chain \<Rightarrow> chain res" where
  "init_fee A bump c =
     (let cfg = \<lparr>sf_grok_account = key (isf_grok_account A), sf_root = key (isf_root A),
                 sf_fee_per_intent = 0, sf_bump = bump\<rparr>;
          c = emit (Fee_event (SponsorFeeSet (sf_grok_account cfg) (sf_root cfg) 0)) c
      in store_sponsor_fee_config cfg (key (isf_sponsor_fee A)) c)"

definition init_sponsor_fee :: "runtime \<Rightarrow> init_sponsor_fee_infos \<Rightarrow> chain \<Rightarrow> chain res" where
  "init_sponsor_fee rt A c = and_then (init_sponsor_fee_accounts rt A c) (\<lambda>(bump, c). init_fee A bump c)"

record set_sponsor_fee_infos =
  ssf_root :: account_info
  ssf_grok_account :: account_info
  ssf_sponsor_fee :: account_info

definition set_sponsor_fee_accounts ::
  "runtime \<Rightarrow> set_sponsor_fee_infos \<Rightarrow> chain \<Rightarrow> sponsor_fee_config res" where
  "set_sponsor_fee_accounts rt A c =
     and_then (signer (ssf_root A)) (\<lambda>_.
     and_then (load_grok_account rt c (key (ssf_grok_account A))) (\<lambda>ga.
     and_then (load_sponsor_fee_config c (key (ssf_sponsor_fee A))) (\<lambda>cfg.
     and_then (grok_of_signer rt (ssf_grok_account A) ga (ssf_root A)) (\<lambda>_.
     and_then (seeds_bump rt [SEED_SPONSOR_FEE, pubkey_bytes (key (ssf_grok_account A))] (sf_bump cfg)
       INTENTS_ID (ssf_sponsor_fee A)) (\<lambda>_.
     and_then (writable (ssf_sponsor_fee A)) (\<lambda>_.
     and_then (require (sf_root cfg = key (ssf_root A)) (Base UnauthorizedRoot)) (\<lambda>_.
     Inr cfg)))))))"

definition set_fee ::
  "set_sponsor_fee_infos \<Rightarrow> u64 \<Rightarrow> sponsor_fee_config \<Rightarrow> chain \<Rightarrow> chain res" where
  "set_fee A fee_per_intent cfg c =
     and_then (require (fee_per_intent \<le> MAX_FEE_PER_INTENT) (Fee SponsorFeeTooHigh)) (\<lambda>_.
     let cfg = cfg\<lparr>sf_fee_per_intent := fee_per_intent\<rparr>;
         c = emit (Fee_event (SponsorFeeSet (sf_grok_account cfg) (sf_root cfg) fee_per_intent)) c
     in store_sponsor_fee_config cfg (key (ssf_sponsor_fee A)) c)"

definition set_sponsor_fee :: "runtime \<Rightarrow> set_sponsor_fee_infos \<Rightarrow> u64 \<Rightarrow> chain \<Rightarrow> chain res" where
  "set_sponsor_fee rt A fee_per_intent c =
     and_then (set_sponsor_fee_accounts rt A c) (\<lambda>cfg. set_fee A fee_per_intent cfg c)"

section \<open>The burn\<close>

definition TOKEN_IX_BURN_CHECKED :: u8 where
  "TOKEN_IX_BURN_CHECKED = 15"

definition fee_account_fields :: "pubkey \<Rightarrow> chain \<Rightarrow> (pubkey \<times> pubkey \<times> u64) res" where
  "fee_account_fields =
     token_fields [TOKEN_2022_PROGRAM_ID] TOKEN_ACCOUNT_MIN_LEN (Fee SponsorFeeVaultMalformed)"

definition fee_mint_decimals :: "pubkey \<Rightarrow> chain \<Rightarrow> u8 res" where
  "fee_mint_decimals k c =
     and_then (require (owner_of c k = TOKEN_2022_PROGRAM_ID) (Pump InvalidTokenProgram)) (\<lambda>_.
     and_then (require (k = GROK_TOKEN_MINT) (Fee SponsorFeeMintMismatch)) (\<lambda>_.
     let bs = data_of c k in
     and_then (require (MINT_DECIMALS_OFFSET < length bs) (Fee SponsorFeeVaultMalformed)) (\<lambda>_.
     Inr (bs ! MINT_DECIMALS_OFFSET))))"

definition burn_checked_ix :: "pubkey \<Rightarrow> pubkey \<Rightarrow> u64 \<Rightarrow> u8 \<Rightarrow> instruction" where
  "burn_checked_ix vault authority amount decimals =
     \<lparr>ix_program_id = TOKEN_2022_PROGRAM_ID,
      ix_accounts = [meta_new vault False, meta_new GROK_TOKEN_MINT False, meta_new_readonly authority True],
      ix_data = [TOKEN_IX_BURN_CHECKED] @ word_bytes amount @ [decimals]\<rparr>"

record burn_collected_fees_infos =
  bcf_burner :: account_info
  bcf_grok_account :: account_info
  bcf_mint :: account_info
  bcf_fee_vault :: account_info
  bcf_fee_vault_authority :: account_info
  bcf_token_program :: account_info

definition burn_collected_fees_accounts ::
  "runtime \<Rightarrow> burn_collected_fees_infos \<Rightarrow> unit res" where
  "burn_collected_fees_accounts rt A =
     and_then (signer (bcf_burner A)) (\<lambda>_.
     and_then (writable (bcf_burner A)) (\<lambda>_.
     and_then (writable (bcf_mint A)) (\<lambda>_.
     and_then (writable (bcf_fee_vault A)) (\<lambda>_.
     and_then (seeds_canonical rt [SEED_FEE_VAULT, pubkey_bytes (key (bcf_grok_account A))] INTENTS_ID
       (bcf_fee_vault_authority A)) (\<lambda>_.
     require (key (bcf_token_program A) = TOKEN_2022_PROGRAM_ID) (Pump InvalidTokenProgram))))))"

definition burn_collected ::
  "runtime \<Rightarrow> burn_collected_fees_infos \<Rightarrow> chain \<Rightarrow> chain res" where
  "burn_collected rt A c =
     (let vault = key (bcf_fee_vault A) in
      and_then (fee_account_fields vault c) (\<lambda>(mint, own, amount).
      and_then (require (mint = GROK_TOKEN_MINT) (Fee SponsorFeeMintMismatch)) (\<lambda>_.
      let grok = key (bcf_grok_account A) in
      case find_program_address rt [SEED_FEE_VAULT, pubkey_bytes grok] INTENTS_ID of
        (expected_authority, bump) \<Rightarrow>
      and_then (require (own = expected_authority) (Fee SponsorFeeVaultOwnerMismatch)) (\<lambda>_.
      and_then (require (0 < amount) (Fee NothingToBurn)) (\<lambda>_.
      and_then (fee_mint_decimals (key (bcf_mint A)) c) (\<lambda>decimals.
      and_then (invoke_signed rt (burn_checked_ix vault expected_authority amount decimals)
         [bcf_fee_vault A, bcf_mint A, bcf_fee_vault_authority A, bcf_token_program A]
         [[SEED_FEE_VAULT, pubkey_bytes grok, [bump]]] c) (\<lambda>c.
      and_then (fee_account_fields vault c) (\<lambda>(_, _, after).
      and_then (require (after = 0) (Fee BurnIncomplete)) (\<lambda>_.
      Inr (emit (Fee_event (SponsorFeesBurned grok amount (key (bcf_burner A)))) c))))))))))"

definition burn_collected_fees ::
  "runtime \<Rightarrow> burn_collected_fees_infos \<Rightarrow> chain \<Rightarrow> chain res" where
  "burn_collected_fees rt A c =
     and_then (burn_collected_fees_accounts rt A) (\<lambda>_. burn_collected rt A c)"

text \<open>No instruction calls it yet.\<close>

definition note_collected :: "pubkey \<Rightarrow> pubkey \<Rightarrow> u64 \<Rightarrow> chain \<Rightarrow> chain" where
  "note_collected grok_account agent amount c =
     (if amount = 0 then c else emit (Fee_event (SponsorFeeCollected grok_account agent amount)) c)"

text \<open>
  \<open>token_burns\<close>: a successful \<open>BurnChecked\<close> burns from a token account, never from the mint itself
  (it holds both for writing at once, and one account cannot be read as both); it takes the amount
  from the account and from the mint's supply, keeps the account's mint and owner, and touches no
  other account.
\<close>

definition token_burns :: "runtime \<Rightarrow> bool" where
  "token_burns rt \<longleftrightarrow>
     (\<forall>vault auth amount dec infos ss m m'.
        invoke_cpi rt (burn_checked_ix vault auth amount dec) infos ss m = Inr m' \<longrightarrow>
        vault \<noteq> GROK_TOKEN_MINT
        \<and> unat (token_amount (acc_data (m vault))) = unat (token_amount (acc_data (m' vault))) + unat amount
        \<and> token_owner (acc_data (m' vault)) = token_owner (acc_data (m vault))
        \<and> token_mint (acc_data (m' vault)) = token_mint (acc_data (m vault))
        \<and> unat (mint_supply (acc_data (m GROK_TOKEN_MINT)))
            = unat (mint_supply (acc_data (m' GROK_TOKEN_MINT))) + unat amount
        \<and> (\<forall>k. k \<noteq> vault \<longrightarrow> k \<noteq> GROK_TOKEN_MINT \<longrightarrow> m' k = m k))"

lemma demo_token_burns: "token_burns demo_token_rt"
  unfolding token_burns_def
proof (intro allI impI)
  fix vault auth :: pubkey and amount dec infos ss and m m' :: ledger
  assume "invoke_cpi demo_token_rt (burn_checked_ix vault auth amount dec) infos ss m = Inr m'"
  then have "token_burn TOKEN_2022_PROGRAM_ID vault GROK_TOKEN_MINT amount m = Inr m'"
    by (simp add: demo_token_cpi_def burn_checked_ix_def meta_new_def meta_new_readonly_def
        TOKEN_IX_BURN_CHECKED_def Let_def)
  then show "vault \<noteq> GROK_TOKEN_MINT
        \<and> unat (token_amount (acc_data (m vault))) = unat (token_amount (acc_data (m' vault))) + unat amount
        \<and> token_owner (acc_data (m' vault)) = token_owner (acc_data (m vault))
        \<and> token_mint (acc_data (m' vault)) = token_mint (acc_data (m vault))
        \<and> unat (mint_supply (acc_data (m GROK_TOKEN_MINT)))
            = unat (mint_supply (acc_data (m' GROK_TOKEN_MINT))) + unat amount
        \<and> (\<forall>k. k \<noteq> vault \<longrightarrow> k \<noteq> GROK_TOKEN_MINT \<longrightarrow> m' k = m k)"
    by (auto simp: token_burn_def unat_sub_le word_le_nat_alt split: if_splits)
qed

section \<open>Properties\<close>

lemma fee_account_fields_eq_Inr [res_simps]:
  "fee_account_fields k c = Inr (m, o', a) \<longleftrightarrow>
   owner_of c k = TOKEN_2022_PROGRAM_ID \<and> 165 \<le> length (data_of c k)
   \<and> m = token_mint (data_of c k) \<and> o' = token_owner (data_of c k) \<and> a = token_amount (data_of c k)"
  by (simp add: fee_account_fields_def token_fields_eq_Inr TOKEN_ACCOUNT_MIN_LEN_def)

lemma fee_mint_decimals_eq_Inr [res_simps]:
  "fee_mint_decimals k c = Inr dec \<longleftrightarrow>
   owner_of c k = TOKEN_2022_PROGRAM_ID \<and> k = GROK_TOKEN_MINT \<and> 44 < length (data_of c k)
   \<and> dec = data_of c k ! 44"
  by (auto simp: fee_mint_decimals_def and_then_eq_Inr require_eq_Inr Let_def MINT_DECIMALS_OFFSET_def)

lemma burn_collectedE:
  assumes "burn_collected rt A c = Inr d"
  obtains auth bump amount dec c1 where
    "find_program_address rt [SEED_FEE_VAULT, pubkey_bytes (key (bcf_grok_account A))] INTENTS_ID = (auth, bump)"
    "fee_account_fields (key (bcf_fee_vault A)) c = Inr (GROK_TOKEN_MINT, auth, amount)" "0 < amount"
    "fee_mint_decimals (key (bcf_mint A)) c = Inr dec"
    "invoke_signed rt (burn_checked_ix (key (bcf_fee_vault A)) auth amount dec)
       [bcf_fee_vault A, bcf_mint A, bcf_fee_vault_authority A, bcf_token_program A]
       [[SEED_FEE_VAULT, pubkey_bytes (key (bcf_grok_account A)), [bump]]] c = Inr c1"
    "token_amount (data_of c1 (key (bcf_fee_vault A))) = 0"
    "d = emit (Fee_event (SponsorFeesBurned (key (bcf_grok_account A)) amount (key (bcf_burner A)))) c1"
proof -
  obtain auth bump where pda: "find_program_address rt
      [SEED_FEE_VAULT, pubkey_bytes (key (bcf_grok_account A))] INTENTS_ID = (auth, bump)"
    by fastforce
  show thesis
    using assms that [OF pda]
    by (auto simp: burn_collected_def pda and_then_eq_Inr require_eq_Inr Let_def fee_account_fields_eq_Inr)
qed

text \<open>Who burns is only reported: the burner decides nothing but the event.\<close>

lemma burn_by_anyone:
  assumes "burn_collected_fees rt A c = Inr d" and "is_signer b" and "is_writable b"
  shows "burn_collected_fees rt (A\<lparr>bcf_burner := b\<rparr>) c
    = Inr (d\<lparr>events := butlast (events d) @ [Fee_event (SponsorFeesBurned (key (bcf_grok_account A))
        (token_amount (data_of c (key (bcf_fee_vault A)))) (key b))]\<rparr>)"
proof -
  have acc: "burn_collected_fees_accounts rt (A\<lparr>bcf_burner := b\<rparr>) = Inr ()"
    and run: "burn_collected rt A c = Inr d"
    using assms by (auto simp: burn_collected_fees_def burn_collected_fees_accounts_def and_then_eq_Inr
        account_checks_eq_Inr require_eq_Inr)
  from run show ?thesis
  proof (rule burn_collectedE)
    fix auth bump amount dec c1
    assume pda: "find_program_address rt [SEED_FEE_VAULT, pubkey_bytes (key (bcf_grok_account A))] INTENTS_ID
        = (auth, bump)"
      and f: "fee_account_fields (key (bcf_fee_vault A)) c = Inr (GROK_TOKEN_MINT, auth, amount)" "0 < amount"
        "fee_mint_decimals (key (bcf_mint A)) c = Inr dec"
      and cpi: "invoke_signed rt (burn_checked_ix (key (bcf_fee_vault A)) auth amount dec)
       [bcf_fee_vault A, bcf_mint A, bcf_fee_vault_authority A, bcf_token_program A]
       [[SEED_FEE_VAULT, pubkey_bytes (key (bcf_grok_account A)), [bump]]] c = Inr c1"
      and d: "d = emit (Fee_event (SponsorFeesBurned (key (bcf_grok_account A)) amount (key (bcf_burner A)))) c1"
    obtain m o' where after: "fee_account_fields (key (bcf_fee_vault A)) c1 = Inr (m, o', 0)"
      using run by (auto simp: burn_collected_def pda f cpi and_then_eq_Inr require_eq_Inr Let_def)
    have amount: "token_amount (data_of c (key (bcf_fee_vault A))) = amount"
      using f(1) by (simp add: fee_account_fields_eq_Inr)
    show ?thesis
      by (simp add: burn_collected_fees_def acc amount)
        (simp add: burn_collected_def pda f cpi after d emit_def)
  qed
qed

text \<open>C34: Anyone may burn, and a burn is all or nothing: on success the fee vault of the given
  GrokAccount, a Token-2022 account in $GrokChain (itself a Token-2022 mint) that belongs to the
  program's fee authority for that GrokAccount and held something, is empty, the supply of
  $GrokChain has fallen by exactly what it held, the event reports that amount, and no other
  account has changed; so nobody receives anything. The burner signed and is writable, and any
  other account that does so in its place gets the same ledger and the same log but for its own
  key in the event. Of Token-2022 this uses that a burn takes what the instruction says, from a
  token account (\<open>token_burns\<close>).\<close>

theorem burn_destroys_everything:
  assumes "token_burns rt" and "burn_collected_fees rt A c = Inr d"
  shows "owner_of c (key (bcf_fee_vault A)) = TOKEN_2022_PROGRAM_ID
    \<and> owner_of c GROK_TOKEN_MINT = TOKEN_2022_PROGRAM_ID \<and> key (bcf_mint A) = GROK_TOKEN_MINT
    \<and> 0 < token_amount (data_of c (key (bcf_fee_vault A)))
    \<and> token_amount (data_of d (key (bcf_fee_vault A))) = 0
    \<and> token_mint (data_of c (key (bcf_fee_vault A))) = GROK_TOKEN_MINT
    \<and> token_owner (data_of c (key (bcf_fee_vault A)))
        = fst (find_program_address rt [SEED_FEE_VAULT, pubkey_bytes (key (bcf_grok_account A))] INTENTS_ID)
    \<and> unat (mint_supply (data_of c GROK_TOKEN_MINT))
        = unat (mint_supply (data_of d GROK_TOKEN_MINT))
          + unat (token_amount (data_of c (key (bcf_fee_vault A))))
    \<and> (\<forall>k. k \<noteq> key (bcf_fee_vault A) \<longrightarrow> k \<noteq> GROK_TOKEN_MINT \<longrightarrow> accts d k = accts c k)
    \<and> events d = events c @ [Fee_event (SponsorFeesBurned (key (bcf_grok_account A))
         (token_amount (data_of c (key (bcf_fee_vault A)))) (key (bcf_burner A)))]
    \<and> is_signer (bcf_burner A) \<and> is_writable (bcf_burner A)
    \<and> (\<forall>b. is_signer b \<and> is_writable b \<longrightarrow>
         burn_collected_fees rt (A\<lparr>bcf_burner := b\<rparr>) c
           = Inr (d\<lparr>events := events c @ [Fee_event (SponsorFeesBurned (key (bcf_grok_account A))
               (token_amount (data_of c (key (bcf_fee_vault A)))) (key b))]\<rparr>))"
proof -
  have run: "burn_collected rt A c = Inr d" and burner: "is_signer (bcf_burner A)" "is_writable (bcf_burner A)"
    using assms(2) by (auto simp: burn_collected_fees_def burn_collected_fees_accounts_def and_then_eq_Inr
        account_checks_eq_Inr)
  from run show ?thesis
  proof (rule burn_collectedE)
    fix auth bump amount dec c1
    assume pda: "find_program_address rt [SEED_FEE_VAULT, pubkey_bytes (key (bcf_grok_account A))] INTENTS_ID
        = (auth, bump)"
      and f: "fee_account_fields (key (bcf_fee_vault A)) c = Inr (GROK_TOKEN_MINT, auth, amount)" "0 < amount"
        "fee_mint_decimals (key (bcf_mint A)) c = Inr dec"
      and z: "token_amount (data_of c1 (key (bcf_fee_vault A))) = 0"
      and cpi: "invoke_signed rt (burn_checked_ix (key (bcf_fee_vault A)) auth amount dec)
       [bcf_fee_vault A, bcf_mint A, bcf_fee_vault_authority A, bcf_token_program A]
       [[SEED_FEE_VAULT, pubkey_bytes (key (bcf_grok_account A)), [bump]]] c = Inr c1"
      and d: "d = emit (Fee_event (SponsorFeesBurned (key (bcf_grok_account A)) amount (key (bcf_burner A)))) c1"
    obtain m where m: "invoke_cpi rt (burn_checked_ix (key (bcf_fee_vault A)) auth amount dec)
       [bcf_fee_vault A, bcf_mint A, bcf_fee_vault_authority A, bcf_token_program A]
       [[SEED_FEE_VAULT, pubkey_bytes (key (bcf_grok_account A)), [bump]]] (accts c) = Inr m"
      and c1: "c1 = c\<lparr>accts := m\<rparr>"
      using cpi by (auto simp: invoke_signed_eq_Inr)
    note b = assms(1) [unfolded token_burns_def, rule_format, OF m]
    have after: "events d = events c @ [Fee_event (SponsorFeesBurned (key (bcf_grok_account A)) amount
        (key (bcf_burner A)))]" "accts d = m" "data_of d k = acc_data (m k)" "data_of c1 k = acc_data (m k)" for k
      by (simp_all add: d c1 data_of_def)
    have "owner_of c GROK_TOKEN_MINT = TOKEN_2022_PROGRAM_ID"
      using f(3) by (auto simp: fee_mint_decimals_eq_Inr)
    with b f z pda burner burn_by_anyone [OF assms(2)] show ?thesis
      by (simp add: after fee_account_fields_eq_Inr fee_mint_decimals_eq_Inr) (simp add: data_of_def)
  qed
qed

definition demo_mint_with :: "u64 \<Rightarrow> byte list" where
  "demo_mint_with supply = set_supply demo_mint_data supply"

definition demo_fee_chain :: chain where
  "demo_fee_chain = demo_chain\<lparr>accts := (accts demo_chain)
     (33 := demo_account 200 TOKEN_2022_PROGRAM_ID (demo_holding GROK_TOKEN_MINT k_fee_vault 700),
      GROK_TOKEN_MINT := demo_account 200 TOKEN_2022_PROGRAM_ID (demo_mint_with 1000000))\<rparr>"

lemma demo_fee_accts [simp]:
  "accts demo_fee_chain 33
     = demo_account 200 TOKEN_2022_PROGRAM_ID (demo_holding GROK_TOKEN_MINT k_fee_vault 700)"
  "accts demo_fee_chain GROK_TOKEN_MINT
     = demo_account 200 TOKEN_2022_PROGRAM_ID (demo_mint_with 1000000)"
proof -
  have "GROK_TOKEN_MINT \<noteq> 33"
    by (simp add: key_simps)
  then show "accts demo_fee_chain 33
     = demo_account 200 TOKEN_2022_PROGRAM_ID (demo_holding GROK_TOKEN_MINT k_fee_vault 700)"
    by (simp add: demo_fee_chain_def)
  show "accts demo_fee_chain GROK_TOKEN_MINT
     = demo_account 200 TOKEN_2022_PROGRAM_ID (demo_mint_with 1000000)"
    by (simp add: demo_fee_chain_def)
qed

definition demo_burn_infos :: burn_collected_fees_infos where
  "demo_burn_infos =
     \<lparr>bcf_burner = info 51 True True, bcf_grok_account = info k_grok False False,
      bcf_mint = info GROK_TOKEN_MINT False True, bcf_fee_vault = info 33 False True,
      bcf_fee_vault_authority = info k_fee_vault False False,
      bcf_token_program = info TOKEN_2022_PROGRAM_ID False False\<rparr>"

lemma demo_burn_ok: "\<exists>d. burn_collected_fees demo_token_rt demo_burn_infos demo_fee_chain = Inr d"
proof -
  have ne: "GROK_TOKEN_MINT \<noteq> 33"
    by (simp add: key_simps)
  have fields: "fee_account_fields 33 demo_fee_chain = Inr (GROK_TOKEN_MINT, k_fee_vault, 700)"
    "fee_mint_decimals GROK_TOKEN_MINT demo_fee_chain = Inr 6"
    by (simp_all add: fee_account_fields_eq_Inr fee_mint_decimals_eq_Inr owner_of_def data_of_def
        demo_mint_with_def)
  have acc: "burn_collected_fees_accounts demo_token_rt demo_burn_infos = Inr ()"
    by (simp add: burn_collected_fees_accounts_def demo_burn_infos_def signer_def writable_def
        seeds_canonical_def)
  have burn: "token_burn TOKEN_2022_PROGRAM_ID 33 GROK_TOKEN_MINT 700 (accts demo_fee_chain)
    = Inr ((accts demo_fee_chain)
       (33 := demo_account 200 TOKEN_2022_PROGRAM_ID (demo_holding GROK_TOKEN_MINT k_fee_vault 0),
        GROK_TOKEN_MINT := demo_account 200 TOKEN_2022_PROGRAM_ID (set_supply (demo_mint_with 1000000) 999300)))"
    using ne by (simp add: token_burn_def demo_mint_with_def demo_account_def)
  have cpi: "invoke_signed demo_token_rt (burn_checked_ix 33 auth 700 dec) infos ss demo_fee_chain
    = Inr (demo_fee_chain\<lparr>accts := (accts demo_fee_chain)
       (33 := demo_account 200 TOKEN_2022_PROGRAM_ID (demo_holding GROK_TOKEN_MINT k_fee_vault 0),
        GROK_TOKEN_MINT := demo_account 200 TOKEN_2022_PROGRAM_ID
          (set_supply (demo_mint_with 1000000) 999300))\<rparr>)" for auth dec infos ss
    by (simp add: invoke_signed_def demo_token_cpi_def burn_checked_ix_def meta_new_def
        TOKEN_IX_BURN_CHECKED_def Let_def burn)
  have after: "fee_account_fields 33 (demo_fee_chain\<lparr>accts := (accts demo_fee_chain)
       (33 := demo_account 200 TOKEN_2022_PROGRAM_ID (demo_holding GROK_TOKEN_MINT k_fee_vault 0),
        GROK_TOKEN_MINT := demo_account 200 TOKEN_2022_PROGRAM_ID
          (set_supply (demo_mint_with 1000000) 999300))\<rparr>) = Inr (GROK_TOKEN_MINT, k_fee_vault, 0)"
    using ne by (simp add: fee_account_fields_eq_Inr owner_of_def data_of_def)
  show ?thesis
    by (simp add: burn_collected_fees_def acc)
      (simp add: burn_collected_def demo_burn_infos_def fields cpi after Let_def)
qed

lemma burn_destroys_everything_witness:
  "\<exists>d. burn_collected_fees demo_token_rt demo_burn_infos demo_fee_chain = Inr d
     \<and> token_amount (data_of d 33) = 0 \<and> unat (mint_supply (data_of d GROK_TOKEN_MINT)) = 999300"
proof -
  obtain d where d: "burn_collected_fees demo_token_rt demo_burn_infos demo_fee_chain = Inr d"
    using demo_burn_ok by blast
  from burn_destroys_everything [OF demo_token_burns d] d show ?thesis
    by (simp add: demo_burn_infos_def data_of_def demo_mint_with_def)
qed

text \<open>The rate is bounded by construction: a new configuration charges nothing, only the signing
  root it names can change it, a rate above the ceiling is refused, and any accepted rate is
  what the account then holds, with everything else untouched.\<close>

theorem fee_rate_bounded:
  "(set_sponsor_fee rt A fee c = Inr d \<longrightarrow>
      fee \<le> MAX_FEE_PER_INTENT
      \<and> (\<exists>cfg. load_sponsor_fee_config c (key (ssf_sponsor_fee A)) = Inr cfg
           \<and> is_signer (ssf_root A) \<and> sf_root cfg = key (ssf_root A)
           \<and> load_sponsor_fee_config d (key (ssf_sponsor_fee A)) = Inr (cfg\<lparr>sf_fee_per_intent := fee\<rparr>))
      \<and> (\<forall>k. k \<noteq> key (ssf_sponsor_fee A) \<longrightarrow> accts d k = accts c k))
   \<and> (init_fresh rt \<and> init_sponsor_fee rt B c = Inr d \<longrightarrow>
        is_signer (isf_root B) \<and> owner_of c (key (isf_sponsor_fee B)) = SYSTEM_PROGRAM_ID
        \<and> (\<exists>bump. load_sponsor_fee_config d (key (isf_sponsor_fee B))
             = Inr \<lparr>sf_grok_account = key (isf_grok_account B), sf_root = key (isf_root B),
                    sf_fee_per_intent = 0, sf_bump = bump\<rparr>))"
proof (intro conjI impI)
  assume "set_sponsor_fee rt A fee c = Inr d"
  then obtain cfg e where cfg: "load_sponsor_fee_config c (key (ssf_sponsor_fee A)) = Inr cfg"
    and ok: "is_signer (ssf_root A)" "sf_root cfg = key (ssf_root A)" "fee \<le> MAX_FEE_PER_INTENT"
    and st: "store_sponsor_fee_config (cfg\<lparr>sf_fee_per_intent := fee\<rparr>) (key (ssf_sponsor_fee A)) (emit e c) = Inr d"
    by (auto simp: set_sponsor_fee_def set_sponsor_fee_accounts_def set_fee_def and_then_eq_Inr
        require_eq_Inr account_checks_eq_Inr Let_def)
  have d: "load_sponsor_fee_config d (key (ssf_sponsor_fee A)) = Inr (cfg\<lparr>sf_fee_per_intent := fee\<rparr>)"
    by (rule sf_account.acct.load_store [OF _ _ st]) (simp_all add: cfg)
  show "fee \<le> MAX_FEE_PER_INTENT"
    by (rule ok)
  show "\<exists>cfg. load_sponsor_fee_config c (key (ssf_sponsor_fee A)) = Inr cfg
      \<and> is_signer (ssf_root A) \<and> sf_root cfg = key (ssf_root A)
      \<and> load_sponsor_fee_config d (key (ssf_sponsor_fee A)) = Inr (cfg\<lparr>sf_fee_per_intent := fee\<rparr>)"
    using cfg ok d by blast
  show "\<forall>k. k \<noteq> key (ssf_sponsor_fee A) \<longrightarrow> accts d k = accts c k"
    using sf_account.acct.store_frame [OF st] by simp
next
  assume run: "init_fresh rt \<and> init_sponsor_fee rt B c = Inr d"
  then obtain bump c1 where ini: "init_account rt (isf_root B) sponsor_fee_config_SPACE
       [SEED_SPONSOR_FEE, pubkey_bytes (key (isf_grok_account B))] (isf_sponsor_fee B) c = Inr (bump, c1)"
    and sg: "is_signer (isf_root B)" and h: "init_fee B bump c1 = Inr d"
    by (auto simp: init_sponsor_fee_def init_sponsor_fee_accounts_def and_then_eq_Inr account_checks_eq_Inr)
  have fresh: "owner_of c (key (isf_sponsor_fee B)) = SYSTEM_PROGRAM_ID"
    and own: "owner_of c1 (key (isf_sponsor_fee B)) = INTENTS_ID"
    by (rule init_accountE [OF conjunct1 [OF run] ini], assumption)+
  show "is_signer (isf_root B)" "owner_of c (key (isf_sponsor_fee B)) = SYSTEM_PROGRAM_ID"
    by (rule sg, rule fresh)
  let ?cfg = "\<lparr>sf_grok_account = key (isf_grok_account B), sf_root = key (isf_root B),
     sf_fee_per_intent = 0, sf_bump = bump\<rparr>"
  obtain e where st: "store_sponsor_fee_config ?cfg (key (isf_sponsor_fee B)) (emit e c1) = Inr d"
    using h by (auto simp: init_fee_def Let_def)
  have "load_sponsor_fee_config d (key (isf_sponsor_fee B)) = Inr ?cfg"
    by (rule sf_account.first_store_loads [OF st]) (simp_all add: own)
  then show "\<exists>bump. load_sponsor_fee_config d (key (isf_sponsor_fee B))
      = Inr \<lparr>sf_grok_account = key (isf_grok_account B), sf_root = key (isf_root B),
             sf_fee_per_intent = 0, sf_bump = bump\<rparr>"
    by blast
qed

definition demo_fee_config :: sponsor_fee_config where
  "demo_fee_config = \<lparr>sf_grok_account = k_grok, sf_root = k_root, sf_fee_per_intent = 0, sf_bump = 255\<rparr>"

definition demo_rate_chain :: chain where
  "demo_rate_chain = demo_chain\<lparr>accts := (accts demo_chain)
     (k_sponsor_fee := demo_account 200 INTENTS_ID (sf_disc @ enc_sponsor_fee_config demo_fee_config))\<rparr>"

definition demo_rate_infos :: set_sponsor_fee_infos where
  "demo_rate_infos =
     \<lparr>ssf_root = info k_root True False, ssf_grok_account = info k_grok False False,
      ssf_sponsor_fee = info k_sponsor_fee False True\<rparr>"

lemma demo_rate_loads [simp]:
  "load_sponsor_fee_config demo_rate_chain k_sponsor_fee = Inr demo_fee_config"
  "load_grok_account demo_rt demo_rate_chain k_grok = Inr \<lparr>ga_root = k_root, ga_bump = 255\<rparr>"
  by (simp_all add: load_grok_account_def res_simps owner_of_def data_of_def
      sf_account.deserialize_iff demo_rate_chain_def)

lemma demo_set_fee_ok: "\<exists>d. set_sponsor_fee demo_rt demo_rate_infos 5000 demo_rate_chain = Inr d"
proof -
  have acc: "set_sponsor_fee_accounts demo_rt demo_rate_infos demo_rate_chain = Inr demo_fee_config"
    by (simp add: set_sponsor_fee_accounts_def demo_rate_infos_def signer_def writable_def
        grok_of_signer_def seeds_canonical_def seeds_bump_def)
      (simp add: demo_fee_config_def)
  have "\<exists>d. store_sponsor_fee_config x k_sponsor_fee (emit e demo_rate_chain) = Inr d" for x e
    using sf_account.serialize_fits [of x "sf_disc @ enc_sponsor_fee_config demo_fee_config"]
    by (simp add: store_typed_def and_then_eq_Inr data_of_def sf_codec.enc_length sf_account.disc_length
        demo_rate_chain_def)
  then show ?thesis
    by (simp add: set_sponsor_fee_def acc set_fee_def MAX_FEE_PER_INTENT_def)
      (simp add: demo_rate_infos_def)
qed

lemma fee_rate_bounded_witness:
  "\<exists>d. set_sponsor_fee demo_rt demo_rate_infos 5000 demo_rate_chain = Inr d
     \<and> load_sponsor_fee_config d k_sponsor_fee = Inr (demo_fee_config\<lparr>sf_fee_per_intent := 5000\<rparr>)"
proof -
  obtain d where d: "set_sponsor_fee demo_rt demo_rate_infos 5000 demo_rate_chain = Inr d"
    using demo_set_fee_ok by blast
  then show ?thesis
    using fee_rate_bounded [of demo_rt demo_rate_infos 5000 demo_rate_chain d]
    by (auto simp: demo_rate_infos_def)
qed

end
