(* ===== verification/Accounts.thy ===== *)
theory Accounts imports Sub_Grants Subscriptions Sponsor_Fee begin

text \<open>
  The six account types of \<open>state.rs\<close> as one datatype: which state the data of an account of
  this program hold (Anchor tells them apart by the discriminator), what every such state
  satisfies (\<open>sound\<close>), what a freshly initialised one looks like (\<open>initial\<close>), and how an
  instruction may change it (\<open>evolves\<close>).
\<close>

section \<open>Decoding by discriminator\<close>

datatype account_state =
    Vault_state spend_vault
  | Paymaster_state paymaster
  | Registry_state merchant_registry
  | Subscription_state subscription
  | Sub_grant_state sub_grant
  | Fee_state sponsor_fee_config

definition as_state :: "('a \<Rightarrow> account_state) \<Rightarrow> 'a res \<Rightarrow> account_state option" where
  "as_state con r = (case r of Inr x \<Rightarrow> Some (con x) | Inl _ \<Rightarrow> None)"

definition decode_account :: "byte list \<Rightarrow> account_state option" where
  "decode_account bs =
     (let d = take 8 bs
      in if d = sv_disc then as_state Vault_state (try_deserialize sv_disc dec_spend_vault bs)
         else if d = pm_disc then as_state Paymaster_state (try_deserialize pm_disc dec_paymaster bs)
         else if d = mr_disc then as_state Registry_state (try_deserialize mr_disc dec_merchant_registry bs)
         else if d = sb_disc then as_state Subscription_state (try_deserialize sb_disc dec_subscription bs)
         else if d = sg_disc then as_state Sub_grant_state (try_deserialize sg_disc dec_sub_grant bs)
         else if d = sf_disc then as_state Fee_state (try_deserialize sf_disc dec_sponsor_fee_config bs)
         else None)"

lemmas disc_defs = sv_disc_def pm_disc_def mr_disc_def sb_disc_def sg_disc_def sf_disc_def

lemma discs_differ: "distinct [sv_disc, pm_disc, mr_disc, sb_disc, sg_disc, sf_disc]"
  by (simp add: disc_defs)

lemma deserialize_disc: "try_deserialize disc dec bs = Inr x \<Longrightarrow> take 8 bs = disc"
  by (auto simp: try_deserialize_def split: if_splits)

lemma as_state_eq_Some: "as_state con r = Some s \<longleftrightarrow> (\<exists>x. r = Inr x \<and> s = con x)"
  by (auto simp: as_state_def split: sum.splits)

lemma decode_account_iff [simp]:
  "decode_account bs = Some (Vault_state v) \<longleftrightarrow> try_deserialize sv_disc dec_spend_vault bs = Inr v"
  "decode_account bs = Some (Paymaster_state p) \<longleftrightarrow> try_deserialize pm_disc dec_paymaster bs = Inr p"
  "decode_account bs = Some (Registry_state r) \<longleftrightarrow> try_deserialize mr_disc dec_merchant_registry bs = Inr r"
  "decode_account bs = Some (Subscription_state u) \<longleftrightarrow> try_deserialize sb_disc dec_subscription bs = Inr u"
  "decode_account bs = Some (Sub_grant_state g) \<longleftrightarrow> try_deserialize sg_disc dec_sub_grant bs = Inr g"
  "decode_account bs = Some (Fee_state f) \<longleftrightarrow> try_deserialize sf_disc dec_sponsor_fee_config bs = Inr f"
  using discs_differ
  by (auto simp: decode_account_def Let_def as_state_eq_Some dest: deserialize_disc)

definition blank :: "byte list \<Rightarrow> bool" where
  "blank bs \<longleftrightarrow> list_all (\<lambda>b. b = 0) bs"

lemma blank_replicate [simp]: "blank (replicate n 0)"
  by (simp add: blank_def list_all_iff)

lemma blank_undecodable: "blank bs \<Longrightarrow> decode_account bs = None"
proof -
  assume "blank bs"
  then have "\<forall>b \<in> set (take 8 bs). b = 0"
    by (auto simp: blank_def list_all_iff dest: in_set_takeD)
  then have "take 8 bs \<noteq> b # rest" if "b \<noteq> 0" for b rest
    using that by (metis list.set_intros(1))
  then show ?thesis
    by (simp add: decode_account_def disc_defs)
qed

section \<open>Sound states and how they change\<close>

fun sound :: "account_state \<Rightarrow> bool" where
  "sound (Registry_state r) \<longleftrightarrow> registry_inv r"
| "sound (Subscription_state u) \<longleftrightarrow>
     0 < sb_amount u \<and> sint MIN_PERIOD_SECONDS \<le> sint (sb_period_seconds u)
     \<and> int (unat (sb_payments u)) \<le> sint (sb_last_paid_period u) + 1"
| "sound (Sub_grant_state g) \<longleftrightarrow> 1 \<le> sg_depth g \<and> sg_depth g \<le> MAX_SUB_DEPTH \<and> sg_spent g = 0"
| "sound (Fee_state f) \<longleftrightarrow> sf_fee_per_intent f \<le> MAX_FEE_PER_INTENT"
| "sound _ \<longleftrightarrow> True"

fun initial :: "account_state \<Rightarrow> bool" where
  "initial (Paymaster_state p) \<longleftrightarrow> \<not> pm_paused p"
| "initial (Registry_state r) \<longleftrightarrow> mr_merchants r = []"
| "initial (Subscription_state u) \<longleftrightarrow>
     sound (Subscription_state u) \<and> sb_active u \<and> sb_payments u = 0 \<and> sb_last_paid_period u = PERIOD_NONE"
| "initial (Sub_grant_state g) \<longleftrightarrow> sound (Sub_grant_state g) \<and> \<not> sg_revoked g \<and> 0 < sg_cap g"
| "initial (Fee_state f) \<longleftrightarrow> sf_fee_per_intent f = 0"
| "initial (Vault_state v) \<longleftrightarrow> True"

text \<open>
  The one relation all updates obey. A vault never changes; a paymaster only its relayer and
  pause flag; a registry only its payees; a subscription is only settled further or
  cancelled; a sub-grant only narrowed or revoked; a fee config only its rate.
\<close>

definition fixed_paymaster :: "paymaster \<Rightarrow> paymaster" where
  "fixed_paymaster p = p\<lparr>pm_relayer := 0, pm_paused := False\<rparr>"

definition fixed_registry :: "merchant_registry \<Rightarrow> merchant_registry" where
  "fixed_registry r = r\<lparr>mr_merchants := []\<rparr>"

definition fixed_subscription :: "subscription \<Rightarrow> subscription" where
  "fixed_subscription u = u\<lparr>sb_last_paid_period := 0, sb_payments := 0, sb_active := True\<rparr>"

definition fixed_sub_grant :: "sub_grant \<Rightarrow> sub_grant" where
  "fixed_sub_grant g = g\<lparr>sg_cap := 0, sg_expires_at := 0, sg_revoked := False, sg_generation := 0\<rparr>"

definition fixed_fee :: "sponsor_fee_config \<Rightarrow> sponsor_fee_config" where
  "fixed_fee f = f\<lparr>sf_fee_per_intent := 0\<rparr>"

fun evolves :: "account_state \<Rightarrow> account_state \<Rightarrow> bool" where
  "evolves (Vault_state v) (Vault_state w) \<longleftrightarrow> w = v"
| "evolves (Paymaster_state p) (Paymaster_state q) \<longleftrightarrow> fixed_paymaster q = fixed_paymaster p"
| "evolves (Registry_state r) (Registry_state s) \<longleftrightarrow> fixed_registry s = fixed_registry r"
| "evolves (Subscription_state u) (Subscription_state v) \<longleftrightarrow>
     fixed_subscription v = fixed_subscription u
     \<and> sint (sb_last_paid_period u) \<le> sint (sb_last_paid_period v) \<and> sb_payments u \<le> sb_payments v
     \<and> (\<not> sb_active u \<longrightarrow> v = u)"
| "evolves (Sub_grant_state g) (Sub_grant_state h) \<longleftrightarrow>
     fixed_sub_grant h = fixed_sub_grant g
     \<and> sg_cap h \<le> sg_cap g \<and> sint (sg_expires_at h) \<le> sint (sg_expires_at g)
     \<and> (sg_revoked g \<longrightarrow> sg_revoked h) \<and> sg_generation g \<le> sg_generation h"
| "evolves (Fee_state f) (Fee_state g) \<longleftrightarrow> fixed_fee g = fixed_fee f"
| "evolves _ _ \<longleftrightarrow> False"

lemma evolves_refl [simp]: "evolves s s"
  by (cases s) simp_all

lemma evolves_trans: "evolves s t \<Longrightarrow> evolves t u \<Longrightarrow> evolves s u"
  by (cases s; cases t; cases u; simp) (metis order_trans)+

lemma initial_sound: "initial s \<Longrightarrow> sound s"
  by (cases s) (auto simp: registry_inv_def PERIOD_NONE_def)

text \<open>A store leaves data that decode to what was stored.\<close>

context account_codec begin

lemma stored:
  assumes "store_typed (try_serialize disc enc) x k c = Inr d" and "valid x"
  shows "\<exists>bs. d = with_data k bs c \<and> try_deserialize disc dec bs = Inr x"
  using assms by (auto simp: store_typed_def and_then_eq_Inr intro: serialize_then_deserialize)

end

section \<open>The accounts fit their space and come back\<close>

fun space_of :: "account_state \<Rightarrow> nat" where
  "space_of (Vault_state v) = spend_vault_SPACE"
| "space_of (Paymaster_state p) = paymaster_SPACE"
| "space_of (Registry_state r) = merchant_registry_SPACE"
| "space_of (Subscription_state u) = subscription_SPACE"
| "space_of (Sub_grant_state g) = sub_grant_SPACE"
| "space_of (Fee_state f) = sponsor_fee_config_SPACE"

fun serialize_state :: "account_state \<Rightarrow> byte list \<Rightarrow> byte list res" where
  "serialize_state (Vault_state v) = try_serialize sv_disc enc_spend_vault v"
| "serialize_state (Paymaster_state p) = try_serialize pm_disc enc_paymaster p"
| "serialize_state (Registry_state r) = try_serialize mr_disc enc_merchant_registry r"
| "serialize_state (Subscription_state u) = try_serialize sb_disc enc_subscription u"
| "serialize_state (Sub_grant_state g) = try_serialize sg_disc enc_sub_grant g"
| "serialize_state (Fee_state f) = try_serialize sf_disc enc_sponsor_fee_config f"

fun fits :: "account_state \<Rightarrow> bool" where
  "fits (Registry_state r) \<longleftrightarrow> length (mr_merchants r) \<le> MAX_MERCHANTS"
| "fits _ \<longleftrightarrow> True"

context account_codec begin

lemma comes_back:
  assumes "8 + length (enc x) \<le> length bs" and "valid x"
  shows "\<exists>bs'. try_serialize disc enc x bs = Inr bs' \<and> length bs' = length bs
    \<and> try_deserialize disc dec bs' = Inr x"
  using serialize_fits [OF assms(1)] serialize_length serialize_then_deserialize assms(2) by blast

end

lemmas state_sizes = sv_codec.enc_length pm_codec.enc_length sb_codec.enc_length sg_codec.enc_length
  sf_codec.enc_length registry_encoded_length spend_vault_SPACE_def paymaster_SPACE_def
  merchant_registry_SPACE_def subscription_SPACE_def sub_grant_SPACE_def sponsor_fee_config_SPACE_def
  MAX_MERCHANTS_def

text \<open>C19: Every account state fits the space its \<open>init\<close> allocates and is read back as it was written;
  a registry fits exactly up to 32 payees and one more is refused; and writing back what was
  read leaves the data, trailing bytes included, as they were.\<close>

theorem account_roundtrip:
  assumes "length bs = space_of s"
  shows "(fits s \<longrightarrow> (\<exists>bs'. serialize_state s bs = Inr bs' \<and> length bs' = length bs
        \<and> decode_account bs' = Some s))
    \<and> (\<not> fits s \<longrightarrow> serialize_state s bs = Inl (Anchor AccountDidNotSerialize))
    \<and> (\<forall>x. decode_account bs = Some x \<longrightarrow> serialize_state x bs = Inr bs)"
proof (intro conjI impI allI)
  assume "fits s"
  with assms show "\<exists>bs'. serialize_state s bs = Inr bs' \<and> length bs' = length bs \<and> decode_account bs' = Some s"
    by - (cases s; hypsubst; unfold serialize_state.simps decode_account_iff;
        rule sv_account.comes_back pm_account.comes_back mr_account.comes_back sb_account.comes_back
          sg_account.comes_back sf_account.comes_back; simp add: state_sizes)
next
  assume "\<not> fits s"
  then show "serialize_state s bs = Inl (Anchor AccountDidNotSerialize)"
    using assms by (cases s) (simp_all add: try_serialize_def registry_encoded_length
        merchant_registry_SPACE_def mr_account.disc_length MAX_MERCHANTS_def)
next
  fix x
  assume "decode_account bs = Some x"
  then show "serialize_state x bs = Inr bs"
    using sv_account.deserialize_then_serialize pm_account.deserialize_then_serialize
      mr_account.deserialize_then_serialize sb_account.deserialize_then_serialize
      sg_account.deserialize_then_serialize sf_account.deserialize_then_serialize
    by (cases x) simp_all
qed

lemma account_roundtrip_witness:
  "\<exists>bs. serialize_state (Subscription_state demo_subscription) (replicate subscription_SPACE 0) = Inr bs
     \<and> length bs = 174 \<and> decode_account bs = Some (Subscription_state demo_subscription)"
  using account_roundtrip [of "replicate subscription_SPACE 0" "Subscription_state demo_subscription"]
  by (simp add: subscription_SPACE_def del: decode_account_iff)

end
