(* ===== verification/Pump_Trader.thy ===== *)
theory Pump_Trader imports Pay_Token begin

text \<open>
  \<open>instructions/pump_trader.rs\<close>: the trader, an empty account owned by the System Program that
  the root creates, funds from the vault and empties: its SOL down to the rent reserve, and its
  token accounts, pair by pair, into the root's.
\<close>

section \<open>init_pump_trader\<close>

record init_pump_trader_infos =
  ipt_root :: account_info
  ipt_grok_account :: account_info
  ipt_pump_trader :: account_info
  ipt_system_program :: account_info

definition init_pump_trader_accounts ::
  "runtime \<Rightarrow> init_pump_trader_infos \<Rightarrow> chain \<Rightarrow> u8 res" where
  "init_pump_trader_accounts rt A c =
     and_then (signer (ipt_root A)) (\<lambda>_.
     and_then (load_grok_account rt c (key (ipt_grok_account A))) (\<lambda>ga.
     and_then (program c (ipt_system_program A) SYSTEM_PROGRAM_ID) (\<lambda>_.
     and_then (writable (ipt_root A)) (\<lambda>_.
     and_then (grok_of_root rt (ipt_grok_account A) ga (ipt_root A)) (\<lambda>_.
     and_then (trader_seeds rt (ipt_pump_trader A) (key (ipt_grok_account A))) (\<lambda>bump.
     and_then (writable (ipt_pump_trader A)) (\<lambda>_.
     Inr bump)))))))"

definition pump_trader_init ::
  "runtime \<Rightarrow> init_pump_trader_infos \<Rightarrow> u8 \<Rightarrow> chain \<Rightarrow> chain res" where
  "pump_trader_init rt A bump c =
     (let trader = key (ipt_pump_trader A) in
      and_then (require (lamports_of c trader = 0 \<and> data_of c trader = []) (Pump PumpTraderAlreadyExists)) (\<lambda>_.
      let grok = key (ipt_grok_account A); rent = min_balance rt PUMP_TRADER_SPACE in
      and_then (invoke_signed rt
        (system_create_account (key (ipt_root A)) trader rent (word_of_nat PUMP_TRADER_SPACE) SYSTEM_PROGRAM_ID)
        [ipt_root A, ipt_pump_trader A, ipt_system_program A]
        [[SEED_PUMP_TRADER, pubkey_bytes grok, [bump]]] c) (\<lambda>c.
      Inr (emit (Trader_event (PumpTraderInitialized trader grok (key (ipt_root A)))) c))))"

definition init_pump_trader :: "runtime \<Rightarrow> init_pump_trader_infos \<Rightarrow> chain \<Rightarrow> chain res" where
  "init_pump_trader rt A c =
     and_then (init_pump_trader_accounts rt A c) (\<lambda>bump. pump_trader_init rt A bump c)"

section \<open>fund_pump_trader\<close>

record fund_pump_trader_infos =
  fpt_root :: account_info
  fpt_grok_account :: account_info
  fpt_spend_vault :: account_info
  fpt_pump_trader :: account_info

definition fund_pump_trader_accounts ::
  "runtime \<Rightarrow> fund_pump_trader_infos \<Rightarrow> chain \<Rightarrow> u8 res" where
  "fund_pump_trader_accounts rt A c =
     and_then (signer (fpt_root A)) (\<lambda>_.
     and_then (load_grok_account rt c (key (fpt_grok_account A))) (\<lambda>ga.
     and_then (load_spend_vault c (key (fpt_spend_vault A))) (\<lambda>sv.
     and_then (writable (fpt_root A)) (\<lambda>_.
     and_then (grok_of_root rt (fpt_grok_account A) ga (fpt_root A)) (\<lambda>_.
     and_then (vault_constraints rt (fpt_spend_vault A) (key (fpt_grok_account A)) (key (fpt_root A)) sv) (\<lambda>_.
     and_then (trader_seeds rt (fpt_pump_trader A) (key (fpt_grok_account A))) (\<lambda>bump.
     and_then (writable (fpt_pump_trader A)) (\<lambda>_.
     Inr bump))))))))"

definition pump_trader_fund ::
  "runtime \<Rightarrow> fund_pump_trader_infos \<Rightarrow> u64 \<Rightarrow> chain \<Rightarrow> chain res" where
  "pump_trader_fund rt A lamports c =
     and_then (require (0 < lamports) (Base ZeroAmount)) (\<lambda>_.
     and_then (require_pump_trader_ready rt (fpt_pump_trader A) c) (\<lambda>_.
     and_then (debit_spend_vault rt (key (fpt_spend_vault A)) (key (fpt_pump_trader A)) lamports c) (\<lambda>c.
     Inr (emit (Trader_event (PumpTraderFunded (key (fpt_pump_trader A)) (key (fpt_spend_vault A))
       (key (fpt_grok_account A)) (key (fpt_root A)) lamports)) c))))"

definition fund_pump_trader :: "runtime \<Rightarrow> fund_pump_trader_infos \<Rightarrow> u64 \<Rightarrow> chain \<Rightarrow> chain res" where
  "fund_pump_trader rt A lamports c =
     and_then (fund_pump_trader_accounts rt A c) (\<lambda>_. pump_trader_fund rt A lamports c)"

section \<open>withdraw_pump_trader\<close>

definition TRADER_TOKEN_ACCOUNT_MIN_LEN :: nat where
  "TRADER_TOKEN_ACCOUNT_MIN_LEN = 72"

definition TOKEN_TRANSFER_IX :: u8 where
  "TOKEN_TRANSFER_IX = 3"

definition trader_account_fields :: "pubkey \<Rightarrow> chain \<Rightarrow> (pubkey \<times> pubkey \<times> u64) res" where
  "trader_account_fields =
     token_fields [TOKEN_PROGRAM_ID, TOKEN_2022_PROGRAM_ID] TRADER_TOKEN_ACCOUNT_MIN_LEN
       (Token WithdrawTokenAccountInvalid)"

definition transfer_ix :: "pubkey \<Rightarrow> pubkey \<Rightarrow> pubkey \<Rightarrow> pubkey \<Rightarrow> u64 \<Rightarrow> instruction" where
  "transfer_ix tp src dst authority amount =
     \<lparr>ix_program_id = tp,
      ix_accounts = [meta_new src False, meta_new dst False, meta_new_readonly authority True],
      ix_data = [TOKEN_TRANSFER_IX] @ word_bytes amount\<rparr>"

record withdraw_pump_trader_infos =
  wpt_root :: account_info
  wpt_grok_account :: account_info
  wpt_pump_trader :: account_info
  wpt_system_program :: account_info
  wpt_token_program :: account_info
  wpt_token_2022_program :: account_info

definition sweep_token_pair ::
  "runtime \<Rightarrow> withdraw_pump_trader_infos \<Rightarrow> seeds \<Rightarrow> account_info \<Rightarrow> account_info \<Rightarrow> chain \<Rightarrow> chain res" where
  "sweep_token_pair rt A trader_signer_seeds src dst c =
     and_then (require (owner_of c (key src) = owner_of c (key dst)) (Pump InvalidTokenProgram)) (\<lambda>_.
     and_then (trader_account_fields (key src) c) (\<lambda>(from_mint, from_owner, amount).
     and_then (trader_account_fields (key dst) c) (\<lambda>(to_mint, to_owner, _).
     and_then (require (from_owner = key (wpt_pump_trader A)) (Token WithdrawTokenOwnerNotTrader)) (\<lambda>_.
     and_then (require (to_owner = key (wpt_root A)) (Token WithdrawTokenDestOwnerNotRoot)) (\<lambda>_.
     and_then (require (from_mint = to_mint) (Token WithdrawTokenMintMismatch)) (\<lambda>_.
     if amount = 0 then Inr c
     else
       let tp = owner_of c (key src);
           token_program_ai = (if tp = TOKEN_PROGRAM_ID then wpt_token_program A else wpt_token_2022_program A)
       in invoke_signed rt (transfer_ix tp (key src) (key dst) (key (wpt_pump_trader A)) amount)
            [src, dst, wpt_pump_trader A, token_program_ai] [trader_signer_seeds] c))))))"

text \<open>The loop over \<open>chunks_exact(2)\<close>, which drops an odd last element.\<close>

fun sweep_pairs ::
  "runtime \<Rightarrow> withdraw_pump_trader_infos \<Rightarrow> seeds \<Rightarrow> account_info list \<Rightarrow> chain \<Rightarrow> chain res" where
  "sweep_pairs rt A ss (src # dst # rest) c =
     and_then (sweep_token_pair rt A ss src dst c) (sweep_pairs rt A ss rest)"
| "sweep_pairs rt A ss _ c = Inr c"

definition withdraw_pump_trader_accounts ::
  "runtime \<Rightarrow> withdraw_pump_trader_infos \<Rightarrow> chain \<Rightarrow> u8 res" where
  "withdraw_pump_trader_accounts rt A c =
     and_then (signer (wpt_root A)) (\<lambda>_.
     and_then (load_grok_account rt c (key (wpt_grok_account A))) (\<lambda>ga.
     and_then (program c (wpt_system_program A) SYSTEM_PROGRAM_ID) (\<lambda>_.
     and_then (writable (wpt_root A)) (\<lambda>_.
     and_then (grok_of_root rt (wpt_grok_account A) ga (wpt_root A)) (\<lambda>_.
     and_then (trader_seeds rt (wpt_pump_trader A) (key (wpt_grok_account A))) (\<lambda>bump.
     and_then (writable (wpt_pump_trader A)) (\<lambda>_.
     and_then (address_is (wpt_token_program A) TOKEN_PROGRAM_ID) (\<lambda>_.
     and_then (address_is (wpt_token_2022_program A) TOKEN_2022_PROGRAM_ID) (\<lambda>_.
     Inr bump)))))))))"

definition withdraw_sol ::
  "runtime \<Rightarrow> withdraw_pump_trader_infos \<Rightarrow> seeds \<Rightarrow> u64 \<Rightarrow> chain \<Rightarrow> chain res" where
  "withdraw_sol rt A trader_signer_seeds lamports c =
     (if 0 < lamports then
        let trader = key (wpt_pump_trader A); min_trader = min_balance rt PUMP_TRADER_SPACE in
        and_then (ok_or (checked_sub (lamports_of c trader) lamports) (Intents (Token InsufficientPumpTrader)))
          (\<lambda>after.
        and_then (require (min_trader \<le> after) (Token InsufficientPumpTrader)) (\<lambda>_.
        invoke_signed rt (system_transfer trader (key (wpt_root A)) lamports)
          [wpt_pump_trader A, wpt_root A, wpt_system_program A] [trader_signer_seeds] c))
      else Inr c)"

definition pump_trader_withdraw ::
  "runtime \<Rightarrow> withdraw_pump_trader_infos \<Rightarrow> u8 \<Rightarrow> u64 \<Rightarrow> account_info list \<Rightarrow> chain \<Rightarrow> chain res" where
  "pump_trader_withdraw rt A bump lamports remaining c =
     and_then (require (length remaining mod 2 = 0) (Token WithdrawRemainingAccountsOdd)) (\<lambda>_.
     and_then (require_pump_trader_ready rt (wpt_pump_trader A) c) (\<lambda>_.
     let trader_signer_seeds = [SEED_PUMP_TRADER, pubkey_bytes (key (wpt_grok_account A)), [bump]] in
     and_then (withdraw_sol rt A trader_signer_seeds lamports c) (\<lambda>c.
     and_then (sweep_pairs rt A trader_signer_seeds remaining c) (\<lambda>c.
     Inr (emit (Trader_event (PumpTraderWithdrawn (key (wpt_pump_trader A)) (key (wpt_grok_account A))
       (key (wpt_root A)) lamports)) c)))))"

definition withdraw_pump_trader ::
  "runtime \<Rightarrow> withdraw_pump_trader_infos \<Rightarrow> u64 \<Rightarrow> account_info list \<Rightarrow> chain \<Rightarrow> chain res" where
  "withdraw_pump_trader rt A lamports remaining c =
     and_then (withdraw_pump_trader_accounts rt A c) (\<lambda>bump.
       pump_trader_withdraw rt A bump lamports remaining c)"

section \<open>What the trader relies on\<close>

text \<open>
  \<open>create_exact\<close>: a successful \<open>CreateAccount\<close> found the price of the account at the funder, and made
  a zeroed account of the given size and owner, paid for exactly by the funder. \<open>plain_transfers\<close>: \<open>Transfer\<close> takes exactly the amount from the source,
  keeps the program, mint and owner of both accounts, and touches no other account.
\<close>

definition create_exact :: "runtime \<Rightarrow> bool" where
  "create_exact rt \<longleftrightarrow>
     (\<forall>src new amount space own infos ss m m'.
        invoke_cpi rt (system_create_account src new amount space own) infos ss m = Inr m' \<longrightarrow>
        amount \<le> acc_lamports (m src)
        \<and> (src \<noteq> new \<longrightarrow>
             acc_lamports (m' new) = amount \<and> acc_owner (m' new) = own
             \<and> acc_data (m' new) = replicate (unat space) 0
             \<and> unat (acc_lamports (m src)) = unat (acc_lamports (m' src)) + unat amount
             \<and> (\<forall>k. k \<noteq> src \<longrightarrow> k \<noteq> new \<longrightarrow> m' k = m k)))"

definition plain_transfers :: "runtime \<Rightarrow> bool" where
  "plain_transfers rt \<longleftrightarrow>
     (\<forall>tp src dst auth amount infos ss m m'.
        tp \<in> {TOKEN_PROGRAM_ID, TOKEN_2022_PROGRAM_ID} \<longrightarrow> src \<noteq> dst \<longrightarrow>
        invoke_cpi rt (transfer_ix tp src dst auth amount) infos ss m = Inr m' \<longrightarrow>
        unat (token_amount (acc_data (m src))) = unat (token_amount (acc_data (m' src))) + unat amount
        \<and> (\<forall>k \<in> {src, dst}. acc_owner (m' k) = acc_owner (m k)
             \<and> token_owner (acc_data (m' k)) = token_owner (acc_data (m k))
             \<and> token_mint (acc_data (m' k)) = token_mint (acc_data (m k)))
        \<and> (\<forall>k. k \<noteq> src \<longrightarrow> k \<noteq> dst \<longrightarrow> m' k = m k))"

lemma trader_account_fields_eq_Inr [res_simps]:
  "trader_account_fields k c = Inr (m, o', a) \<longleftrightarrow>
   owner_of c k \<in> {TOKEN_PROGRAM_ID, TOKEN_2022_PROGRAM_ID} \<and> 72 \<le> length (data_of c k)
   \<and> m = token_mint (data_of c k) \<and> o' = token_owner (data_of c k) \<and> a = token_amount (data_of c k)"
  by (simp add: trader_account_fields_def token_fields_eq_Inr TRADER_TOKEN_ACCOUNT_MIN_LEN_def)

section \<open>Sweeping\<close>

text \<open>One pair, then the loop: what a sweep does to any token account.\<close>

definition swept :: "pubkey \<Rightarrow> pubkey \<Rightarrow> chain \<Rightarrow> chain \<Rightarrow> bool" where
  "swept trader root c d \<longleftrightarrow>
     events d = events c \<and>
     (\<forall>k. owner_of d k = owner_of c k \<and> token_owner (data_of d k) = token_owner (data_of c k)
        \<and> (token_owner (data_of c k) = trader \<and> token_amount (data_of c k) = 0 \<longrightarrow>
             token_amount (data_of d k) = 0)
        \<and> (accts d k = accts c k
           \<or> owner_of c k \<in> {TOKEN_PROGRAM_ID, TOKEN_2022_PROGRAM_ID}
             \<and> token_owner (data_of c k) \<in> {trader, root}))"

lemma swept_refl [simp]: "swept trader root c c"
  by (simp add: swept_def)

lemma swept_trans: "swept t r a b \<Longrightarrow> swept t r b c \<Longrightarrow> swept t r a c"
  unfolding swept_def by metis

lemma transfer_swept:
  assumes "plain_transfers rt" and tp: "tp \<in> {TOKEN_PROGRAM_ID, TOKEN_2022_PROGRAM_ID}"
    and own: "owner_of c s = tp" "owner_of c e = tp"
    and holders: "token_owner (data_of c s) = trader" "token_owner (data_of c e) = root" "trader \<noteq> root"
    and run: "invoke_signed rt (transfer_ix tp s e auth (token_amount (data_of c s))) infos ss c = Inr d"
    and some: "token_amount (data_of c s) \<noteq> 0"
  shows "swept trader root c d" and "token_amount (data_of d s) = 0"
proof -
  have se: "s \<noteq> e"
    using holders by auto
  obtain m where m: "invoke_cpi rt (transfer_ix tp s e auth (token_amount (data_of c s))) infos ss (accts c) = Inr m"
    and d: "d = c\<lparr>accts := m\<rparr>"
    using run by (auto simp: invoke_signed_eq_Inr)
  note x = assms(1) [unfolded plain_transfers_def, rule_format, OF tp se m]
  show "token_amount (data_of d s) = 0"
    using x by (simp add: d data_of_def unat_eq_0)
  have same: "accts d k = accts c k" if "k \<noteq> s" "k \<noteq> e" for k
    using x that by (simp add: d)
  have "owner_of d k = owner_of c k \<and> token_owner (data_of d k) = token_owner (data_of c k)" for k
    using x by (cases "k \<in> {s, e}") (auto simp: d owner_of_def data_of_def)
  moreover have "token_amount (data_of d k) = 0"
    if "token_owner (data_of c k) = trader" "token_amount (data_of c k) = 0" for k
    using that some holders same [of k] by (cases "k = s"; cases "k = e") (auto simp: data_of_def)
  moreover have "accts d k = accts c k
      \<or> owner_of c k \<in> {TOKEN_PROGRAM_ID, TOKEN_2022_PROGRAM_ID} \<and> token_owner (data_of c k) \<in> {trader, root}" for k
    using same own tp holders by (cases "k = s"; cases "k = e") auto
  ultimately show "swept trader root c d"
    unfolding swept_def by (simp add: d)
qed

lemma sweep_token_pair_swept:
  assumes "plain_transfers rt" and "sweep_token_pair rt A ss src dst c = Inr d"
    and ne: "key (wpt_pump_trader A) \<noteq> key (wpt_root A)"
  shows "swept (key (wpt_pump_trader A)) (key (wpt_root A)) c d
    \<and> token_owner (data_of c (key src)) = key (wpt_pump_trader A) \<and> token_amount (data_of d (key src)) = 0"
proof -
  let ?t = "key (wpt_pump_trader A)" and ?r = "key (wpt_root A)" and ?s = "key src" and ?d = "key dst"
  let ?a = "token_amount (data_of c ?s)"
  have own: "owner_of c ?s \<in> {TOKEN_PROGRAM_ID, TOKEN_2022_PROGRAM_ID}" "owner_of c ?d = owner_of c ?s"
    and t: "token_owner (data_of c ?s) = ?t" and r: "token_owner (data_of c ?d) = ?r"
    using assms(2)
    by (auto simp: sweep_token_pair_def and_then_eq_Inr require_eq_Inr trader_account_fields_eq_Inr)
  have run: "if ?a = 0 then d = c
      else \<exists>infos. invoke_signed rt (transfer_ix (owner_of c ?s) ?s ?d ?t ?a) infos [ss] c = Inr d"
    using assms(2)
    by (auto simp: sweep_token_pair_def and_then_eq_Inr require_eq_Inr trader_account_fields_eq_Inr Let_def)
  show ?thesis
    using run t transfer_swept [OF assms(1) own(1) refl own(2) t r ne] by (cases "?a = 0") auto
qed

text \<open>The first element of each pair.\<close>

fun pair_sources :: "account_info list \<Rightarrow> account_info list" where
  "pair_sources (src # dst # rest) = src # pair_sources rest"
| "pair_sources _ = []"

lemma sweep_pairs_swept:
  assumes "plain_transfers rt" and "key (wpt_pump_trader A) \<noteq> key (wpt_root A)"
    and "sweep_pairs rt A ss remaining c = Inr d"
  shows "swept (key (wpt_pump_trader A)) (key (wpt_root A)) c d
    \<and> (\<forall>src \<in> set (pair_sources remaining). token_owner (data_of c (key src)) = key (wpt_pump_trader A)
         \<and> token_amount (data_of d (key src)) = 0)"
  using assms(3)
proof (induction remaining arbitrary: c rule: pair_sources.induct)
  case (1 src dst rest)
  then obtain e where e: "sweep_token_pair rt A ss src dst c = Inr e"
    and rest: "sweep_pairs rt A ss rest e = Inr d"
    by (auto simp: and_then_eq_Inr)
  note one = sweep_token_pair_swept [OF assms(1) e assms(2)]
  note IH = "1.IH" [OF rest]
  have "token_owner (data_of e k) = token_owner (data_of c k)" for k
    using one by (simp add: swept_def)
  moreover have "token_amount (data_of d (key src)) = 0"
    using one IH unfolding swept_def by metis
  ultimately show ?case
    using one IH swept_trans by (auto simp del: swept_def)
qed simp_all

section \<open>Properties\<close>

text \<open>C35: Initialisation makes the trader ready: the signing root that the GrokAccount names creates, at
  the canonical address and only when no lamports and no data are there, an account of the System
  Program without data that holds exactly its rent, and pays exactly that; the trader then passes
  the readiness check of every trade, a further initialisation of that address is refused on the
  ledger this one leaves, whoever sends it and whatever else it names, and besides the payer and the
  trader no account changes. Used of the System Program: a creation takes its price from a funder that has it
  (\<open>create_exact\<close>); of the rent: an empty account has to hold some.\<close>

theorem init_trader_makes_ready:
  assumes "create_exact rt" and "0 < min_balance rt 0" and "init_pump_trader rt A c = Inr d"
  shows "is_signer (ipt_root A)
    \<and> (\<exists>ga. load_grok_account rt c (key (ipt_grok_account A)) = Inr ga \<and> ga_root ga = key (ipt_root A))
    \<and> fst (find_program_address rt [SEED_PUMP_TRADER, pubkey_bytes (key (ipt_grok_account A))] INTENTS_ID)
        = key (ipt_pump_trader A)
    \<and> lamports_of c (key (ipt_pump_trader A)) = 0 \<and> data_of c (key (ipt_pump_trader A)) = []
    \<and> owner_of d (key (ipt_pump_trader A)) = SYSTEM_PROGRAM_ID \<and> data_of d (key (ipt_pump_trader A)) = []
    \<and> lamports_of d (key (ipt_pump_trader A)) = min_balance rt 0
    \<and> unat (lamports_of c (key (ipt_root A))) = unat (lamports_of d (key (ipt_root A))) + unat (min_balance rt 0)
    \<and> require_pump_trader_ready rt (ipt_pump_trader A) d = Inr ()
    \<and> (\<forall>B e. key (ipt_pump_trader B) = key (ipt_pump_trader A) \<longrightarrow> init_pump_trader rt B d \<noteq> Inr e)
    \<and> (\<forall>k. k \<noteq> key (ipt_root A) \<longrightarrow> k \<noteq> key (ipt_pump_trader A) \<longrightarrow> accts d k = accts c k)"
proof -
  let ?t = "key (ipt_pump_trader A)" and ?r = "key (ipt_root A)"
  obtain bump where acc: "init_pump_trader_accounts rt A c = Inr bump"
    and h: "pump_trader_init rt A bump c = Inr d"
    using assms(3) by (auto simp: init_pump_trader_def and_then_eq_Inr)
  obtain ga where sg: "is_signer (ipt_root A)"
    and ga: "load_grok_account rt c (key (ipt_grok_account A)) = Inr ga" "ga_root ga = ?r"
    and pda: "find_program_address rt [SEED_PUMP_TRADER, pubkey_bytes (key (ipt_grok_account A))] INTENTS_ID
      = (?t, bump)"
    using acc by (auto simp: init_pump_trader_accounts_def and_then_eq_Inr account_checks_eq_Inr
        payment_blocks_eq_Inr blocks_eq_Inr)
  obtain m ev where empty: "lamports_of c ?t = 0" "data_of c ?t = []"
    and m: "invoke_cpi rt (system_create_account ?r ?t (min_balance rt PUMP_TRADER_SPACE)
        (word_of_nat PUMP_TRADER_SPACE) SYSTEM_PROGRAM_ID)
        [ipt_root A, ipt_pump_trader A, ipt_system_program A]
        [[SEED_PUMP_TRADER, pubkey_bytes (key (ipt_grok_account A)), [bump]]] (accts c) = Inr m"
    and d: "d = emit ev (c\<lparr>accts := m\<rparr>)"
    using h by (auto simp: pump_trader_init_def and_then_eq_Inr require_eq_Inr invoke_signed_eq_Inr Let_def)
  note made = assms(1) [unfolded create_exact_def, rule_format, OF m]
  have "lamports_of c ?r \<noteq> 0"
    using made assms(2) by (auto simp: lamports_of_def PUMP_TRADER_SPACE_def)
  then have "?r \<noteq> ?t"
    using empty(1) by metis
  with made have x: "acc_lamports (m ?t) = min_balance rt PUMP_TRADER_SPACE" "acc_owner (m ?t) = SYSTEM_PROGRAM_ID"
      "acc_data (m ?t) = replicate (unat (word_of_nat PUMP_TRADER_SPACE :: u64)) 0"
      "unat (acc_lamports (accts c ?r)) = unat (acc_lamports (m ?r)) + unat (min_balance rt PUMP_TRADER_SPACE)"
      "\<And>k. k \<noteq> ?r \<Longrightarrow> k \<noteq> ?t \<Longrightarrow> m k = accts c k"
    by blast+
  have after: "owner_of d ?t = SYSTEM_PROGRAM_ID" "data_of d ?t = []" "lamports_of d ?t = min_balance rt 0"
    "unat (lamports_of c ?r) = unat (lamports_of d ?r) + unat (min_balance rt 0)"
    using x(1-4) by (simp_all add: d owner_of_def data_of_def lamports_of_def PUMP_TRADER_SPACE_def)
  have ready: "require_pump_trader_ready rt (ipt_pump_trader A) d = Inr ()"
    using after by (simp add: remaining_checks_eq_Inr PUMP_TRADER_SPACE_def)
  have again: "init_pump_trader rt B d \<noteq> Inr e" if "key (ipt_pump_trader B) = ?t" for B e
    using that assms(2) after(3)
    by (auto simp: init_pump_trader_def pump_trader_init_def and_then_eq_Inr require_eq_Inr Let_def)
  have "accts d k = accts c k" if "k \<noteq> ?r" "k \<noteq> ?t" for k
    using x(5) [OF that] by (simp add: d)
  then show ?thesis
    using sg ga pda empty after ready again by simp
qed

text \<open>Funding the trader moves exactly the amount from the vault to the trader: only the root that
  the GrokAccount and the vault name, signing, can do it, without any grant; the vault keeps
  its rent reserve, the trader was ready, and nothing else changes.\<close>

theorem fund_trader_effect:
  assumes "fund_pump_trader rt A lamports c = Inr d"
  shows "is_signer (fpt_root A) \<and> 0 < lamports
    \<and> (\<exists>ga sv. load_grok_account rt c (key (fpt_grok_account A)) = Inr ga \<and> ga_root ga = key (fpt_root A)
         \<and> load_spend_vault c (key (fpt_spend_vault A)) = Inr sv \<and> sv_root sv = key (fpt_root A)
         \<and> sv_grok_account sv = key (fpt_grok_account A))
    \<and> require_pump_trader_ready rt (fpt_pump_trader A) c = Inr ()
    \<and> (\<forall>k. balance d k = balance c k + flow (key (fpt_spend_vault A)) (key (fpt_pump_trader A)) lamports k)
    \<and> min_balance rt spend_vault_SPACE \<le> lamports_of d (key (fpt_spend_vault A))
    \<and> (\<forall>k. owner_of d k = owner_of c k \<and> data_of d k = data_of c k)"
proof -
  let ?v = "key (fpt_spend_vault A)" and ?t = "key (fpt_pump_trader A)"
  obtain ga sv e ev where sg: "is_signer (fpt_root A)" and pos: "0 < lamports"
    and ga: "load_grok_account rt c (key (fpt_grok_account A)) = Inr ga" "ga_root ga = key (fpt_root A)"
    and sv: "load_spend_vault c ?v = Inr sv" "sv_root sv = key (fpt_root A)"
      "sv_grok_account sv = key (fpt_grok_account A)"
    and ready: "require_pump_trader_ready rt (fpt_pump_trader A) c = Inr ()"
    and mv: "debit_spend_vault rt ?v ?t lamports c = Inr e" and d: "d = emit ev e"
    using assms
    by (auto simp: fund_pump_trader_def fund_pump_trader_accounts_def pump_trader_fund_def and_then_eq_Inr
        account_checks_eq_Inr require_eq_Inr blocks_eq_Inr)
  have "owner_of c ?v = INTENTS_ID" "owner_of c ?t = SYSTEM_PROGRAM_ID"
    using sv(1) ready by (simp_all add: load_typed_eq_Inr remaining_checks_eq_Inr)
  then have ne: "?v \<noteq> ?t"
    using intents_not_system by metis
  note moves = vault.balances [OF mv ne] vault.frame [OF mv] vault.src_after(2) [OF mv ne]
  then show ?thesis
    using sg pos ga sv ready by (auto simp: d word_le_nat_alt)
qed

lemma withdraw_sol_effect:
  assumes "transfer_exact rt" and ne: "key (wpt_pump_trader A) \<noteq> key (wpt_root A)"
    and sol: "withdraw_sol rt A ss lamports c = Inr d"
    and rich: "min_balance rt PUMP_TRADER_SPACE \<le> lamports_of c (key (wpt_pump_trader A))"
  shows "unat (lamports_of c (key (wpt_pump_trader A)))
      = unat (lamports_of d (key (wpt_pump_trader A))) + unat lamports
    \<and> min_balance rt PUMP_TRADER_SPACE \<le> lamports_of d (key (wpt_pump_trader A))
    \<and> (\<forall>k. owner_of d k = owner_of c k \<and> data_of d k = data_of c k)
    \<and> (\<forall>k. k \<notin> {key (wpt_pump_trader A), key (wpt_root A)} \<longrightarrow> accts d k = accts c k)"
proof (cases "lamports = 0")
  case False
  let ?t = "key (wpt_pump_trader A)" and ?r = "key (wpt_root A)"
  obtain infos zs m where le: "lamports \<le> lamports_of c ?t"
      "min_balance rt PUMP_TRADER_SPACE \<le> lamports_of c ?t - lamports"
    and m: "invoke_cpi rt (system_transfer ?t ?r lamports) infos zs (accts c) = Inr m"
    and d: "d = c\<lparr>accts := m\<rparr>"
    using sol False by (auto simp: withdraw_sol_def and_then_eq_Inr require_eq_Inr invoke_signed_eq_Inr
        checked_sub_def word_gt_0 Let_def split: if_splits)
  note x = assms(1) [unfolded transfer_exact_def, rule_format, OF ne m]
  have t: "unat (lamports_of c ?t) = unat (lamports_of d ?t) + unat lamports"
    using x by (simp add: d lamports_of_def)
  then have "min_balance rt PUMP_TRADER_SPACE \<le> lamports_of d ?t"
    using le by (simp add: word_le_nat_alt unat_sub_le)
  moreover have "acc_owner (m k) = acc_owner (accts c k) \<and> acc_data (m k) = acc_data (accts c k)" for k
    using x by (cases "k = ?t \<or> k = ?r") (metis account.simps(2,3) account.select_convs(2,3)
        account.update_convs(1) account.surjective, metis)
  ultimately show ?thesis
    using t x by (simp add: d owner_of_def data_of_def)
qed (use sol rich in \<open>simp add: withdraw_sol_def\<close>)

text \<open>C36: Emptying the trader: only the signing root the GrokAccount names can do it; the trader pays
  exactly the lamports asked for and keeps its rent; every swept account belonged to the trader
  and is left with no tokens; and besides the trader and the root, only token accounts owned by
  the trader or the root change.\<close>

theorem withdraw_trader_effect:
  assumes hyps: "transfer_exact rt" "plain_transfers rt"
    and run: "withdraw_pump_trader rt A lamports remaining c = Inr d"
    and ne: "key (wpt_pump_trader A) \<noteq> key (wpt_root A)"
  shows "is_signer (wpt_root A)
    \<and> (\<exists>ga. load_grok_account rt c (key (wpt_grok_account A)) = Inr ga \<and> ga_root ga = key (wpt_root A))
    \<and> unat (lamports_of c (key (wpt_pump_trader A)))
        = unat (lamports_of d (key (wpt_pump_trader A))) + unat lamports
    \<and> min_balance rt PUMP_TRADER_SPACE \<le> lamports_of d (key (wpt_pump_trader A))
    \<and> (\<forall>src \<in> set (pair_sources remaining).
         token_owner (data_of c (key src)) = key (wpt_pump_trader A)
         \<and> token_amount (data_of d (key src)) = 0)
    \<and> (\<forall>k. k \<notin> {key (wpt_pump_trader A), key (wpt_root A)} \<and> accts d k \<noteq> accts c k \<longrightarrow>
         owner_of c k \<in> {TOKEN_PROGRAM_ID, TOKEN_2022_PROGRAM_ID}
         \<and> token_owner (data_of c k) \<in> {key (wpt_pump_trader A), key (wpt_root A)})"
proof -
  let ?t = "key (wpt_pump_trader A)" and ?r = "key (wpt_root A)"
  obtain bump ga c1 c2 ev where sg: "is_signer (wpt_root A)"
    and ga: "load_grok_account rt c (key (wpt_grok_account A)) = Inr ga" "ga_root ga = ?r"
    and ready: "require_pump_trader_ready rt (wpt_pump_trader A) c = Inr ()"
    and sol: "withdraw_sol rt A [SEED_PUMP_TRADER, pubkey_bytes (key (wpt_grok_account A)), [bump]] lamports c
      = Inr c1"
    and sweep: "sweep_pairs rt A [SEED_PUMP_TRADER, pubkey_bytes (key (wpt_grok_account A)), [bump]]
      remaining c1 = Inr c2" and d: "d = emit ev c2"
    using run
    by (auto simp: withdraw_pump_trader_def withdraw_pump_trader_accounts_def pump_trader_withdraw_def
        and_then_eq_Inr account_checks_eq_Inr require_eq_Inr blocks_eq_Inr Let_def)
  have trader: "owner_of c ?t = SYSTEM_PROGRAM_ID" "min_balance rt PUMP_TRADER_SPACE \<le> lamports_of c ?t"
    using ready by (simp_all add: remaining_checks_eq_Inr)
  note one = withdraw_sol_effect [OF hyps(1) ne sol trader(2)]
  note two = sweep_pairs_swept [OF hyps(2) ne sweep]
  have "accts c2 ?t = accts c1 ?t"
    using two one trader(1) token_ids unfolding swept_def by (metis insertE singletonD)
  then have "lamports_of d ?t = lamports_of c1 ?t"
    by (simp add: d lamports_of_def)
  moreover have "owner_of c k \<in> {TOKEN_PROGRAM_ID, TOKEN_2022_PROGRAM_ID} \<and> token_owner (data_of c k) \<in> {?t, ?r}"
    if "k \<notin> {?t, ?r}" "accts d k \<noteq> accts c k" for k
    using that two one unfolding swept_def d by (metis emit_reads(5))
  moreover have "token_owner (data_of c (key src)) = ?t \<and> token_amount (data_of d (key src)) = 0"
    if "src \<in> set (pair_sources remaining)" for src
    using that two one by (simp add: d)
  ultimately show ?thesis
    using sg ga one by auto
qed

section \<open>Witnesses\<close>

lemma demo_plain_transfers: "plain_transfers demo_token_rt"
  unfolding plain_transfers_def
proof (intro allI impI)
  fix tp src dst auth :: pubkey and amount infos ss and m m' :: ledger
  assume tp: "tp \<in> {TOKEN_PROGRAM_ID, TOKEN_2022_PROGRAM_ID}" and ne: "src \<noteq> dst"
    and "invoke_cpi demo_token_rt (transfer_ix tp src dst auth amount) infos ss m = Inr m'"
  then have "token_move tp src dst amount m = Inr m'"
    by (auto simp: demo_token_cpi_def transfer_ix_def meta_new_def meta_new_readonly_def
        TOKEN_TRANSFER_IX_def Let_def)
  with ne show "unat (token_amount (acc_data (m src))) = unat (token_amount (acc_data (m' src))) + unat amount
        \<and> (\<forall>k \<in> {src, dst}. acc_owner (m' k) = acc_owner (m k)
             \<and> token_owner (acc_data (m' k)) = token_owner (acc_data (m k))
             \<and> token_mint (acc_data (m' k)) = token_mint (acc_data (m k)))
        \<and> (\<forall>k. k \<noteq> src \<longrightarrow> k \<noteq> dst \<longrightarrow> m' k = m k)"
    by (auto simp: token_move_def unat_sub_le word_le_nat_alt split: if_splits)
qed

definition demo_create :: "instruction \<Rightarrow> ledger \<Rightarrow> nat + ledger" where
  "demo_create ix m =
     (let src = meta_pubkey (ix_accounts ix ! 0); new = meta_pubkey (ix_accounts ix ! 1);
          amount = word_of_bytes (take 8 (drop 4 (ix_data ix))) :: u64;
          space = word_of_bytes (take 8 (drop 12 (ix_data ix))) :: u64;
          own = pubkey_of_bytes (take 32 (drop 20 (ix_data ix)))
      in if src \<noteq> new \<and> acc_lamports (m new) = 0 \<and> amount \<le> acc_lamports (m src)
         then Inr (m(src := (m src)\<lparr>acc_lamports := acc_lamports (m src) - amount\<rparr>,
                     new := \<lparr>acc_lamports = amount, acc_owner = own,
                             acc_data = replicate (unat space) 0, acc_executable = False\<rparr>))
         else Inl 0)"

definition demo_create_rt :: runtime where
  "demo_create_rt = demo_rt\<lparr>invoke_cpi := (\<lambda>ix infos ss m.
     if ix_program_id ix = SYSTEM_PROGRAM_ID \<and> take 4 (ix_data ix) = word_bytes (0 :: u32)
     then demo_create ix m else demo_cpi ix infos ss m)\<rparr>"

lemma demo_create_cpi:
  "invoke_cpi demo_create_rt (system_create_account src new amount space own) infos ss m
     = demo_create (system_create_account src new amount space own) m"
  by (simp add: demo_create_rt_def system_create_account_def)

lemma demo_create_exact: "create_exact demo_create_rt"
  unfolding create_exact_def demo_create_cpi
  by (auto simp: demo_create_def system_create_account_def meta_new_def unat_sub_le word_le_nat_alt Let_def
      split: if_splits)

lemma demo_create_runs:
  "src \<noteq> new \<Longrightarrow> acc_lamports (m new) = 0 \<Longrightarrow> amount \<le> acc_lamports (m src) \<Longrightarrow>
   \<exists>m'. demo_create (system_create_account src new amount space own) m = Inr m'"
  by (simp add: demo_create_def system_create_account_def meta_new_def Let_def)

definition demo_init_trader :: init_pump_trader_infos where
  "demo_init_trader =
     \<lparr>ipt_root = info k_root True True, ipt_grok_account = info k_grok False False,
      ipt_pump_trader = info k_trader False True,
      ipt_system_program = info SYSTEM_PROGRAM_ID False False\<rparr>"

lemma demo_trader_absent [simp]: "accts demo_chain k_trader = demo_account 0 SYSTEM_PROGRAM_ID []"
  by (simp add: demo_chain_def key_simps)

lemma demo_create_grok [simp]: "load_grok_account demo_create_rt = load_grok_account demo_rt"
  by (intro ext) (simp add: load_grok_account_def load_typed_def demo_create_rt_def)

lemma demo_create_rt_simps [simp]:
  "min_balance demo_create_rt = demo_rent"
  "find_program_address demo_create_rt ss pid = (demo_pda ss, 255)"
  "create_program_address demo_create_rt ss pid = Some (demo_pda ss)"
  by (simp_all add: demo_create_rt_def)

lemma demo_init_trader_ok: "\<exists>d. init_pump_trader demo_create_rt demo_init_trader demo_chain = Inr d"
proof -
  have acc: "init_pump_trader_accounts demo_create_rt demo_init_trader demo_chain = Inr 255"
    by (simp add: init_pump_trader_accounts_def demo_init_trader_def trader_seeds_def seeds_canonical_def
        root_defs)
  obtain m where "demo_create (system_create_account k_root k_trader (demo_rent PUMP_TRADER_SPACE)
      (word_of_nat PUMP_TRADER_SPACE) SYSTEM_PROGRAM_ID) (accts demo_chain) = Inr m"
    using demo_create_runs [of k_root k_trader "accts demo_chain" "demo_rent PUMP_TRADER_SPACE"]
    by (fastforce simp: demo_rent_def PUMP_TRADER_SPACE_def)
  then show ?thesis
    by (simp add: init_pump_trader_def acc)
      (simp add: pump_trader_init_def demo_init_trader_def lamports_of_def data_of_def invoke_signed_def
        demo_create_cpi Let_def)
qed

lemma init_trader_makes_ready_witness:
  "\<exists>d. init_pump_trader demo_create_rt demo_init_trader demo_chain = Inr d
     \<and> require_pump_trader_ready demo_create_rt (info k_trader False True) d = Inr ()"
proof -
  obtain d where d: "init_pump_trader demo_create_rt demo_init_trader demo_chain = Inr d"
    using demo_init_trader_ok by blast
  have rent: "0 < min_balance demo_create_rt 0"
    by (simp add: demo_rent_def)
  from init_trader_makes_ready [OF demo_create_exact rent d] d show ?thesis
    by (simp add: demo_init_trader_def)
qed

text \<open>A funded trader with two token accounts.\<close>

definition demo_trader_chain :: chain where
  "demo_trader_chain = demo_payments_chain\<lparr>accts := (accts demo_payments_chain)
     (k_trader := demo_account 5000 SYSTEM_PROGRAM_ID [],
      34 := demo_account 200 TOKEN_PROGRAM_ID (demo_holding 40 k_root 0))\<rparr>"

lemma demo_trader_accts [simp]:
  "accts demo_trader_chain k_trader = demo_account 5000 SYSTEM_PROGRAM_ID []"
  "accts demo_trader_chain 34 = demo_account 200 TOKEN_PROGRAM_ID (demo_holding 40 k_root 0)"
  "k \<noteq> k_trader \<Longrightarrow> k \<noteq> 34 \<Longrightarrow> accts demo_trader_chain k = accts demo_payments_chain k"
  by (simp_all add: demo_trader_chain_def)

lemma demo_trader_system [simp]: "accts demo_trader_chain SYSTEM_PROGRAM_ID = demo_program"
proof -
  have "SYSTEM_PROGRAM_ID \<noteq> k_trader" "SYSTEM_PROGRAM_ID \<noteq> 34" "SYSTEM_PROGRAM_ID \<notin> {31, 32, 40, k_merchants}"
    by (simp_all add: key_simps)
  then show ?thesis
    by (metis demo_trader_accts(3) demo_payments_accts(5) demo_accts(9))
qed

lemma demo_trader_loads [simp]:
  "load_grok_account demo_rt demo_trader_chain k_grok = Inr \<lparr>ga_root = k_root, ga_bump = 255\<rparr>"
  "load_spend_vault demo_trader_chain k_vault = Inr demo_vault"
  by (simp_all add: load_grok_account_def res_simps owner_of_def data_of_def sv_account.deserialize_iff)

definition demo_fund_trader :: fund_pump_trader_infos where
  "demo_fund_trader =
     \<lparr>fpt_root = info k_root True True, fpt_grok_account = info k_grok False False,
      fpt_spend_vault = info k_vault False True, fpt_pump_trader = info k_trader False True\<rparr>"

lemma demo_fund_trader_ok:
  "\<exists>d. fund_pump_trader demo_rt demo_fund_trader 6000 demo_trader_chain = Inr d"
  by (simp add: fund_pump_trader_def fund_pump_trader_accounts_def pump_trader_fund_def demo_fund_trader_def
      trader_seeds_def seeds_canonical_def root_defs require_pump_trader_ready_def debit_spend_vault_def
      owner_of_def data_of_def lamports_of_def PUMP_TRADER_SPACE_def)

lemma fund_trader_effect_witness:
  "\<exists>d. fund_pump_trader demo_rt demo_fund_trader 6000 demo_trader_chain = Inr d
     \<and> balance d k_trader = 11000"
proof -
  obtain d where d: "fund_pump_trader demo_rt demo_fund_trader 6000 demo_trader_chain = Inr d"
    using demo_fund_trader_ok by blast
  from fund_trader_effect [OF d] have "balance d k_trader
      = balance demo_trader_chain k_trader + flow k_vault k_trader 6000 k_trader"
    by (simp add: demo_fund_trader_def)
  with d show ?thesis
    by (simp add: flow_def balance_def lamports_of_def)
qed

definition demo_withdraw_trader :: withdraw_pump_trader_infos where
  "demo_withdraw_trader =
     \<lparr>wpt_root = info k_root True True, wpt_grok_account = info k_grok False False,
      wpt_pump_trader = info k_trader False True,
      wpt_system_program = info SYSTEM_PROGRAM_ID False False,
      wpt_token_program = info TOKEN_PROGRAM_ID False False,
      wpt_token_2022_program = info TOKEN_2022_PROGRAM_ID False False\<rparr>"

lemma demo_system_transfer:
  assumes "src \<noteq> dst" "acc_owner (m src) = SYSTEM_PROGRAM_ID" "unat a \<le> unat (acc_lamports (m src))"
    and "unat (acc_lamports (m dst)) + unat a < 2 ^ 64"
  shows "demo_token_cpi (system_transfer src dst a) infos ss m
    = Inr (m(src := (m src)\<lparr>acc_lamports := acc_lamports (m src) - a\<rparr>,
             dst := (m dst)\<lparr>acc_lamports := acc_lamports (m dst) + a\<rparr>))"
  using assms by (simp add: demo_token_other system_transfer_def token_ids [symmetric] demo_cpi_def
      demo_system_def meta_new_def core_not_system [symmetric])

lemma demo_trader_transfer:
  assumes "tp \<in> {TOKEN_PROGRAM_ID, TOKEN_2022_PROGRAM_ID}"
  shows "demo_token_cpi (transfer_ix tp src dst auth a) infos ss m = token_move tp src dst a m"
  using assms by (auto simp: demo_token_cpi_def transfer_ix_def meta_new_def TOKEN_TRANSFER_IX_def Let_def)

definition demo_paid_out :: chain where
  "demo_paid_out = demo_trader_chain\<lparr>accts := (accts demo_trader_chain)
      (k_trader := (accts demo_trader_chain k_trader)\<lparr>acc_lamports := 1000\<rparr>,
       k_root := (accts demo_trader_chain k_root)\<lparr>acc_lamports := 904000\<rparr>)\<rparr>"

lemma demo_withdraw_trader_ok:
  "\<exists>d. withdraw_pump_trader demo_token_rt demo_withdraw_trader 4000 [info 31 False True, info 34 False True]
     demo_trader_chain = Inr d"
proof -
  have acc: "withdraw_pump_trader_accounts demo_token_rt demo_withdraw_trader demo_trader_chain = Inr 255"
    by (simp add: withdraw_pump_trader_accounts_def demo_withdraw_trader_def trader_seeds_def
        seeds_canonical_def address_is_def root_defs)
  have ready: "require_pump_trader_ready demo_token_rt (info k_trader False True) demo_trader_chain = Inr ()"
    by (simp add: remaining_checks_eq_Inr owner_of_def data_of_def lamports_of_def demo_rent_def
        PUMP_TRADER_SPACE_def)
  let ?c = demo_paid_out
  have sol: "withdraw_sol demo_token_rt demo_withdraw_trader ss 4000 demo_trader_chain = Inr ?c" for ss
    by (simp add: withdraw_sol_def demo_withdraw_trader_def checked_sub_def lamports_of_def demo_rent_def
        PUMP_TRADER_SPACE_def invoke_signed_def demo_system_transfer demo_paid_out_def)
  have fields: "trader_account_fields 31 ?c = Inr (40, k_trader, 9000)"
    "trader_account_fields 34 ?c = Inr (40, k_root, 0)"
    by (simp_all add: trader_account_fields_eq_Inr owner_of_def data_of_def demo_paid_out_def)
  have own: "owner_of ?c 31 = TOKEN_PROGRAM_ID" "owner_of ?c 34 = TOKEN_PROGRAM_ID"
    by (simp_all add: owner_of_def demo_paid_out_def)
  obtain m where move: "token_move TOKEN_PROGRAM_ID 31 34 9000 (accts ?c) = Inr m"
    by (fastforce simp: token_move_def demo_paid_out_def)
  have pair: "sweep_token_pair demo_token_rt demo_withdraw_trader ss (info 31 False True) (info 34 False True) ?c
      = Inr (?c\<lparr>accts := m\<rparr>)" for ss
    by (simp add: sweep_token_pair_def fields own demo_withdraw_trader_def Let_def
        invoke_signed_def demo_trader_transfer move)
  have A: "wpt_pump_trader demo_withdraw_trader = info k_trader False True"
    by (simp add: demo_withdraw_trader_def)
  show ?thesis
    by (simp add: withdraw_pump_trader_def acc)
      (simp add: pump_trader_withdraw_def A ready sol pair Let_def)
qed

lemma withdraw_trader_effect_witness:
  "\<exists>d. withdraw_pump_trader demo_token_rt demo_withdraw_trader 4000 [info 31 False True, info 34 False True]
        demo_trader_chain = Inr d
     \<and> unat (lamports_of d k_trader) = 1000 \<and> token_amount (data_of d 31) = 0"
proof -
  obtain d where d: "withdraw_pump_trader demo_token_rt demo_withdraw_trader 4000
      [info 31 False True, info 34 False True] demo_trader_chain = Inr d"
    using demo_withdraw_trader_ok by blast
  have A: "key (wpt_pump_trader demo_withdraw_trader) = k_trader" "key (wpt_root demo_withdraw_trader) = k_root"
    by (simp_all add: demo_withdraw_trader_def)
  have ne: "k_trader \<noteq> k_root"
    by (simp add: key_simps)
  note e = withdraw_trader_effect [OF demo_token_transfer_exact demo_plain_transfers d, unfolded A, OF ne]
  have "lamports_of demo_trader_chain k_trader = 5000"
    by (simp add: lamports_of_def)
  with e have "unat (lamports_of d k_trader) = 1000"
    by simp
  moreover from e have "token_amount (data_of d 31) = 0"
    by simp
  ultimately show ?thesis
    using d by blast
qed

end
