(* ===== verification/Token_Trade.thy ===== *)
theory Token_Trade imports Pump_Trader Custody begin

text \<open>
  \<open>instructions/token.rs\<close>: \<open>token_buy\<close> and \<open>token_sell\<close>, a swap through Jupiter by the trader. The
  route is opaque bytes and the client's remaining accounts, so what bounds it is measured: the
  balances of the trader's first two matching token accounts before and after the route.
\<close>

section \<open>The accounts\<close>

definition TOKEN_SYNC_NATIVE :: u8 where
  "TOKEN_SYNC_NATIVE = 17"

record token_trade_infos = mouth +
  tt_spend_vault :: account_info
  tt_system_program :: account_info
  tt_jupiter_program :: account_info
  tt_paymaster :: "account_info option"
  tt_fee_payer :: "account_info option"

definition fee_payer_not_agent :: "account_info option \<Rightarrow> account_info \<Rightarrow> unit res" where
  "fee_payer_not_agent fp agent =
     (case fp of
        None \<Rightarrow> Inr ()
      | Some ai \<Rightarrow> and_then (writable ai) (\<lambda>_. require (key ai \<noteq> key agent) (Pump AgentCannotFeePay)))"

definition token_trade_accounts ::
  "runtime \<Rightarrow> token_trade_infos \<Rightarrow> chain \<Rightarrow> (grant \<times> (account_info \<times> paymaster) option) res" where
  "token_trade_accounts rt A c =
     and_then (mouth_load rt A c) (\<lambda>(ga, gr).
     and_then (load_spend_vault c (key (tt_spend_vault A))) (\<lambda>sv.
     and_then (program c (tt_system_program A) SYSTEM_PROGRAM_ID) (\<lambda>_.
     and_then (load_paymaster_opt c (tt_paymaster A)) (\<lambda>pm.
     and_then (signer_opt (tt_fee_payer A)) (\<lambda>_.
     and_then (mouth_constraints rt A ga gr) (\<lambda>_.
     and_then (vault_constraints rt (tt_spend_vault A) (key (m_grok_account A)) (ga_root ga) sv) (\<lambda>_.
     and_then (constraint (acc_executable (accts c (key (tt_jupiter_program A)))) ConstraintExecutable) (\<lambda>_.
     and_then (address_is (tt_jupiter_program A) JUPITER_V6_PROGRAM_ID) (\<lambda>_.
     and_then (paymaster_opt_constraints rt pm (key (m_grok_account A)) (ga_root ga)) (\<lambda>_.
     and_then (fee_payer_not_agent (tt_fee_payer A) (m_agent A)) (\<lambda>_.
     Inr (gr, pm))))))))))))"

section \<open>The remaining accounts\<close>

fun find_trader_in_remaining :: "account_info list \<Rightarrow> pubkey \<Rightarrow> account_info res" where
  "find_trader_in_remaining [] trader = Inl (Intents (Pump PumpUserMustBeTrader))"
| "find_trader_in_remaining (acc # rest) trader =
     (if key acc = trader then Inr acc else find_trader_in_remaining rest trader)"

definition token_account_amount :: "pubkey \<Rightarrow> chain \<Rightarrow> u64 res" where
  "token_account_amount k c =
     (let bs = data_of c k in
      and_then (require (72 \<le> length bs) (Token JupiterSourceOwnerNotTrader)) (\<lambda>_.
      Inr (token_amount bs)))"

fun find_trader_token_account ::
  "chain \<Rightarrow> account_info list \<Rightarrow> pubkey \<Rightarrow> pubkey \<Rightarrow> bool \<Rightarrow> account_info res" where
  "find_trader_token_account c [] trader mint is_source =
     Inl (Intents (Token (if is_source then JupiterSourceOwnerNotTrader else JupiterDestOwnerNotTrader)))"
| "find_trader_token_account c (acc # rest) trader mint is_source =
     (let bs = data_of c (key acc) in
      if length bs < 165 then find_trader_token_account c rest trader mint is_source
      else if owner_of c (key acc) \<noteq> TOKEN_PROGRAM_ID \<and> owner_of c (key acc) \<noteq> TOKEN_2022_PROGRAM_ID
      then find_trader_token_account c rest trader mint is_source
      else if token_mint bs = mint \<and> token_owner bs = trader then Inr acc
      else find_trader_token_account c rest trader mint is_source)"

section \<open>Wrapping and the route\<close>

definition sync_native_ix :: "pubkey \<Rightarrow> instruction" where
  "sync_native_ix wsol_ata =
     \<lparr>ix_program_id = TOKEN_PROGRAM_ID, ix_accounts = [meta_new wsol_ata False],
      ix_data = [TOKEN_SYNC_NATIVE]\<rparr>"

definition wrap_sol_to_wsol ::
  "runtime \<Rightarrow> account_info \<Rightarrow> account_info \<Rightarrow> account_info \<Rightarrow> u64 \<Rightarrow> seeds \<Rightarrow> chain \<Rightarrow> chain res" where
  "wrap_sol_to_wsol rt trader wsol_ata system_program_ai amount trader_signer_seeds c =
     and_then (require (owner_of c (key wsol_ata) = TOKEN_PROGRAM_ID) (Pump InvalidTokenProgram)) (\<lambda>_.
     and_then (invoke_signed rt (system_transfer (key trader) (key wsol_ata) amount)
       [trader, wsol_ata, system_program_ai] [trader_signer_seeds] c) (\<lambda>c.
     invoke rt (sync_native_ix (key wsol_ata)) [wsol_ata] c))"

definition build_jupiter_ix :: "account_info list \<Rightarrow> pubkey \<Rightarrow> byte list \<Rightarrow> instruction res" where
  "build_jupiter_ix remaining trader bs =
     and_then (require (bs \<noteq> []) (Token JupiterEmptyDataForbidden)) (\<lambda>_.
     and_then (require_nonempty_jupiter_data bs) (\<lambda>_.
     let accounts = map (\<lambda>acc. if key acc = trader then meta_new trader True
           else if is_writable acc then meta_new (key acc) (is_signer acc)
           else meta_new_readonly (key acc) (is_signer acc)) remaining;
         saw_trader = list_ex (\<lambda>acc. key acc = trader) remaining in
     and_then (require saw_trader (Pump PumpUserMustBeTrader)) (\<lambda>_.
     Inr \<lparr>ix_program_id = JUPITER_V6_PROGRAM_ID, ix_accounts = accounts, ix_data = bs\<rparr>)))"

section \<open>The trade\<close>

definition require_agent_not_fee_payer_ctx :: "token_trade_infos \<Rightarrow> unit res" where
  "require_agent_not_fee_payer_ctx A =
     (let fp = map_option key (tt_fee_payer A) in require_agent_not_fee_payer (key (m_agent A)) fp)"

definition wrap_step ::
  "runtime \<Rightarrow> account_info \<Rightarrow> account_info \<Rightarrow> token_buy_args \<Rightarrow> account_info list \<Rightarrow> seeds \<Rightarrow> chain \<Rightarrow> chain res"
where
  "wrap_step rt trader_ai source args remaining trader_signer_seeds c =
     (if tb_wrap_sol args then
        let rent0 = min_balance rt PUMP_TRADER_SPACE in
        and_then (require_pump_trader_prefunded (lamports_of c (key trader_ai)) (tb_in_amount args) rent0) (\<lambda>_.
        and_then (ok_or (find (\<lambda>a. key a = SYSTEM_PROGRAM_ID) remaining) (Intents (Pump PumpPdaMismatch)))
          (\<lambda>system_ai.
        wrap_sol_to_wsol rt trader_ai source system_ai (tb_in_amount args) trader_signer_seeds c))
      else Inr c)"

definition trade_event ::
  "token_trade_infos \<Rightarrow> grant \<Rightarrow> token_buy_args \<Rightarrow> bool \<Rightarrow> pubkey \<Rightarrow> u64 \<Rightarrow> u64 \<Rightarrow> event" where
  "trade_event A gr args is_sell trader spent received =
     Trader_event ((if is_sell then TokenSold else TokenBought) (key (tt_spend_vault A)) trader
       (tb_input_mint args) (tb_output_mint args) (tb_in_amount args) (tb_min_out args) spent received
       (key (m_agent A)) (key (m_grant A)) (gr_generation gr))"

definition trade ::
  "runtime \<Rightarrow> token_trade_infos \<Rightarrow> grant \<Rightarrow> (account_info \<times> paymaster) option \<Rightarrow> token_buy_args \<Rightarrow> bool
   \<Rightarrow> account_info list \<Rightarrow> chain \<Rightarrow> chain res" where
  "trade rt A gr pm args is_sell remaining c =
     and_then (require_token_amounts (tb_in_amount args)) (\<lambda>_.
     and_then (require_token_mints_distinct (tb_input_mint args) (tb_output_mint args)) (\<lambda>_.
     and_then (require_wrap_mint (tb_wrap_sol args) (tb_input_mint args)) (\<lambda>_.
     and_then (precheck_sponsor (tb_sponsor_lamports args) pm (tt_fee_payer A)) (\<lambda>_.
     and_then (require_agent_not_fee_payer_ctx A) (\<lambda>_.
     and_then (require_jupiter_program (key (tt_jupiter_program A))) (\<lambda>_.
     and_then (require_nonempty_jupiter_data (tb_jupiter_data args)) (\<lambda>_.
     and_then (require_jupiter_in_amount (tb_jupiter_data args) (tb_in_amount args)) (\<lambda>_.
     let vault = key (tt_spend_vault A); grok = key (m_grok_account A) in
     case find_program_address rt [SEED_PUMP_TRADER, pubkey_bytes grok] INTENTS_ID of (trader, bump) \<Rightarrow>
     and_then (find_trader_in_remaining remaining trader) (\<lambda>trader_ai.
     and_then (require_pump_trader_ready rt trader_ai c) (\<lambda>_.
     and_then (require_pump_user_not_vault trader vault) (\<lambda>_.
     and_then (require_pump_trader_system_owned (owner_of c (key trader_ai))) (\<lambda>_.
     and_then (reject_protected_remaining remaining vault (map_option (\<lambda>(ai, _). key ai) pm)) (\<lambda>_.
     and_then (find_trader_token_account c remaining trader (tb_input_mint args) True) (\<lambda>source.
     and_then (find_trader_token_account c remaining trader (tb_output_mint args) False) (\<lambda>dest.
     and_then (require (data_of c (key source) \<noteq> []) (Pump PumpAtaCreateRequiresFeePayer)) (\<lambda>_.
     and_then (require (data_of c (key dest) \<noteq> []) (Pump PumpAtaCreateRequiresFeePayer)) (\<lambda>_.
     let grant_amount = token_check_grant_amount (tb_input_mint args) (tb_wrap_sol args) (tb_in_amount args) in
     and_then (mouth_check_grant rt A grant_amount c) (\<lambda>c.
     let trader_signer_seeds = [SEED_PUMP_TRADER, pubkey_bytes grok, [bump]] in
     and_then (wrap_step rt trader_ai source args remaining trader_signer_seeds c) (\<lambda>c.
     and_then (token_account_amount (key source) c) (\<lambda>source_before.
     and_then (token_account_amount (key dest) c) (\<lambda>dest_before.
     and_then (require_nonempty_jupiter_data (tb_jupiter_data args)) (\<lambda>_.
     and_then (build_jupiter_ix remaining trader (tb_jupiter_data args)) (\<lambda>ix.
     and_then (invoke_signed rt ix remaining [trader_signer_seeds] c) (\<lambda>c.
     and_then (token_account_amount (key source) c) (\<lambda>source_after.
     let spent = saturating_sub source_before source_after in
     and_then (token_account_amount (key dest) c) (\<lambda>dest_after.
     let received = saturating_sub dest_after dest_before in
     and_then (enforce_swap_outcome spent received (tb_in_amount args) (tb_min_out args)) (\<lambda>_.
     and_then (reimburse_sponsor rt (m_grant A) gr pm (tt_fee_payer A) (tb_sponsor_lamports args) c) (\<lambda>c.
     Inr (emit (trade_event A gr args is_sell trader spent received) c)))))))))))))))))))))))))))))"

definition token_buy ::
  "runtime \<Rightarrow> token_trade_infos \<Rightarrow> token_buy_args \<Rightarrow> account_info list \<Rightarrow> chain \<Rightarrow> chain res" where
  "token_buy rt A args remaining c =
     and_then (token_trade_accounts rt A c) (\<lambda>(gr, pm). trade rt A gr pm args False remaining c)"

definition buy_of_sell :: "token_sell_args \<Rightarrow> token_buy_args" where
  "buy_of_sell args =
     \<lparr>tb_in_amount = ts_in_amount args, tb_min_out = ts_min_out args,
      tb_sponsor_lamports = ts_sponsor_lamports args, tb_input_mint = ts_input_mint args,
      tb_output_mint = ts_output_mint args, tb_wrap_sol = ts_wrap_sol args,
      tb_jupiter_data = ts_jupiter_data args\<rparr>"

definition token_sell ::
  "runtime \<Rightarrow> token_trade_infos \<Rightarrow> token_sell_args \<Rightarrow> account_info list \<Rightarrow> chain \<Rightarrow> chain res" where
  "token_sell rt A args remaining c =
     and_then (token_trade_accounts rt A c)
       (\<lambda>(gr, pm). trade rt A gr pm (buy_of_sell args) True remaining c)"

section \<open>What the searches return\<close>

lemma find_trader_eq_Inr [res_simps]:
  "find_trader_in_remaining rs trader = Inr ai \<longleftrightarrow> find (\<lambda>a. key a = trader) rs = Some ai"
  by (induction rs) auto

lemma find_trader_mem: "find_trader_in_remaining rs trader = Inr ai \<Longrightarrow> ai \<in> set rs \<and> key ai = trader"
  by (induction rs) (auto split: if_splits)

definition holds :: "chain \<Rightarrow> pubkey \<Rightarrow> pubkey \<Rightarrow> pubkey \<Rightarrow> bool" where
  "holds c trader mint k \<longleftrightarrow>
     165 \<le> length (data_of c k) \<and> owner_of c k \<in> {TOKEN_PROGRAM_ID, TOKEN_2022_PROGRAM_ID}
     \<and> token_mint (data_of c k) = mint \<and> token_owner (data_of c k) = trader"

lemma find_token_account:
  "find_trader_token_account c rs trader mint s =
     (case find (\<lambda>a. holds c trader mint (key a)) rs of
        Some ai \<Rightarrow> Inr ai
      | None \<Rightarrow> Inl (Intents (Token (if s then JupiterSourceOwnerNotTrader else JupiterDestOwnerNotTrader))))"
  by (induction rs) (auto simp: holds_def Let_def)

lemma find_token_account_eq_Inr [res_simps]:
  "find_trader_token_account c rs trader mint s = Inr ai \<longleftrightarrow>
   find (\<lambda>a. holds c trader mint (key a)) rs = Some ai"
  by (auto simp: find_token_account split: option.splits)

lemma find_SomeD: "find P xs = Some x \<Longrightarrow> P x \<and> x \<in> set xs"
  by (auto simp: find_Some_iff)

lemma token_account_amount_eq_Inr [res_simps]:
  "token_account_amount k c = Inr a \<longleftrightarrow> 72 \<le> length (data_of c k) \<and> a = token_amount (data_of c k)"
  by (auto simp: token_account_amount_def res_simps Let_def)

lemma build_jupiter_ix_eq_Inr [res_simps]:
  "build_jupiter_ix rs trader bs = Inr ix \<longleftrightarrow>
     8 \<le> length bs \<and> (\<exists>acc \<in> set rs. key acc = trader)
     \<and> ix = \<lparr>ix_program_id = JUPITER_V6_PROGRAM_ID,
             ix_accounts = map (\<lambda>acc. if key acc = trader then meta_new trader True
               else if is_writable acc then meta_new (key acc) (is_signer acc)
               else meta_new_readonly (key acc) (is_signer acc)) rs,
             ix_data = bs\<rparr>"
  by (auto simp: build_jupiter_ix_def and_then_eq_Inr require_eq_Inr jupiter_policy_ok list_ex_iff Let_def)

lemma Inr_unit: "m = Inr u \<Longrightarrow> m = Inr ()"
  by simp

lemma tradeE:
  assumes "trade rt A gr pm args s remaining c = Inr d"
  obtains trader bump trader_ai src dst ix c1 c2 c3 c4 spent received where
    "require_token_amounts (tb_in_amount args) = Inr ()"
    "require_token_mints_distinct (tb_input_mint args) (tb_output_mint args) = Inr ()"
    "require_wrap_mint (tb_wrap_sol args) (tb_input_mint args) = Inr ()"
    "require_jupiter_in_amount (tb_jupiter_data args) (tb_in_amount args) = Inr ()"
    "find_program_address rt [SEED_PUMP_TRADER, pubkey_bytes (key (m_grok_account A))] INTENTS_ID
       = (trader, bump)"
    "find_trader_in_remaining remaining trader = Inr trader_ai"
    "require_pump_trader_ready rt trader_ai c = Inr ()"
    "require_pump_user_not_vault trader (key (tt_spend_vault A)) = Inr ()"
    "reject_protected_remaining remaining (key (tt_spend_vault A)) (map_option (\<lambda>(ai, _). key ai) pm) = Inr ()"
    "find_trader_token_account c remaining trader (tb_input_mint args) True = Inr src"
    "find_trader_token_account c remaining trader (tb_output_mint args) False = Inr dst"
    "mouth_check_grant rt A (token_check_grant_amount (tb_input_mint args) (tb_wrap_sol args)
       (tb_in_amount args)) c = Inr c1"
    "wrap_step rt trader_ai src args remaining
       [SEED_PUMP_TRADER, pubkey_bytes (key (m_grok_account A)), [bump]] c1 = Inr c2"
    "build_jupiter_ix remaining trader (tb_jupiter_data args) = Inr ix"
    "invoke_signed rt ix remaining [[SEED_PUMP_TRADER, pubkey_bytes (key (m_grok_account A)), [bump]]] c2
       = Inr c3"
    "spent = saturating_sub (token_amount (data_of c2 (key src))) (token_amount (data_of c3 (key src)))"
    "received = saturating_sub (token_amount (data_of c3 (key dst))) (token_amount (data_of c2 (key dst)))"
    "enforce_swap_outcome spent received (tb_in_amount args) (tb_min_out args) = Inr ()"
    "reimburse_sponsor rt (m_grant A) gr pm (tt_fee_payer A) (tb_sponsor_lamports args) c3 = Inr c4"
    "d = emit (trade_event A gr args s trader spent received) c4"
proof -
  obtain trader bump where pda: "find_program_address rt
      [SEED_PUMP_TRADER, pubkey_bytes (key (m_grok_account A))] INTENTS_ID = (trader, bump)"
    by fastforce
  from assms show ?thesis
    apply (simp only: trade_def Let_def pda prod.case and_then_eq_Inr token_account_amount_eq_Inr
        ex_simps simp_thms unit_all_eq1 sum.inject)
    apply (elim exE conjE, hypsubst)
    apply (rule that [OF _ _ _ _ pda], (assumption | erule Inr_unit | rule refl)+)
    done
qed

section \<open>The route is bounded\<close>

lemma route_ids:
  "JUPITER_V6_PROGRAM_ID \<noteq> INTENTS_ID" "TOKEN_PROGRAM_ID \<noteq> INTENTS_ID" "SYSTEM_PROGRAM_ID \<noteq> INTENTS_ID"
  by (simp_all add: key_simps)

lemma kept_wrap:
  assumes "foreign_frame rt" and "wrap_step rt trader src args remaining ss c = Inr d"
  shows "kept no_charge c d"
proof (cases "tb_wrap_sol args")
  case True
  then obtain e system_ai where 1: "invoke_signed rt (system_transfer (key trader) (key src) (tb_in_amount args))
      [trader, src, system_ai] [ss] c = Inr e"
    and 2: "invoke_signed rt (sync_native_ix (key src)) [src] [] e = Inr d"
    using assms(2)
    by (auto simp: wrap_step_def wrap_sol_to_wsol_def invoke_def and_then_eq_Inr require_eq_Inr)
  have "kept no_charge c e"
    by (rule kept_foreign [OF assms(1) 1]) (simp add: system_transfer_def route_ids)
  also have "kept no_charge e d"
    by (rule kept_foreign [OF assms(1) 2]) (simp add: sync_native_ix_def route_ids)
  finally show ?thesis .
next
  case False
  with assms(2) show ?thesis
    by (simp add: wrap_step_def)
qed

lemma token_grant_amount:
  "require_wrap_mint w mint = Inr () \<Longrightarrow>
   token_check_grant_amount mint w a = (if mint = WSOL_MINT then a else 0)"
  by (auto simp: token_check_grant_amount_def TOKEN_NON_SOL_CHECK_GRANT_AMOUNT_def jupiter_policy_ok)

text \<open>
  The ledger the balances are measured on: the one CORE leaves, or, when the input is to be wrapped,
  what the wrap makes of it. A wrap sends exactly the input amount of lamports from the trader, which
  could spare it, to the source, an account of the token program in wrapped SOL, and syncs that.
\<close>

definition wrapped ::
  "runtime \<Rightarrow> token_trade_infos \<Rightarrow> token_buy_args \<Rightarrow> account_info list \<Rightarrow> account_info \<Rightarrow> chain \<Rightarrow> chain \<Rightarrow> bool"
where
  "wrapped rt A args remaining src c d \<longleftrightarrow>
     (if tb_wrap_sol args then
        (let grok = pubkey_bytes (key (m_grok_account A));
             (trader, bump) = find_program_address rt [SEED_PUMP_TRADER, grok] INTENTS_ID in
         tb_input_mint args = WSOL_MINT \<and> owner_of c (key src) = TOKEN_PROGRAM_ID
         \<and> unat (min_balance rt 0) + unat (tb_in_amount args) \<le> unat (lamports_of c trader)
         \<and> (\<exists>trader_ai system_ai e.
              find (\<lambda>a. key a = trader) remaining = Some trader_ai
              \<and> find (\<lambda>a. key a = SYSTEM_PROGRAM_ID) remaining = Some system_ai
              \<and> invoke_signed rt (system_transfer trader (key src) (tb_in_amount args))
                  [trader_ai, src, system_ai] [[SEED_PUMP_TRADER, grok, [bump]]] c = Inr e
              \<and> invoke rt (sync_native_ix (key src)) [src] e = Inr d))
      else d = c)"

lemma wrap_step_wrapped:
  assumes "wrap_step rt trader_ai src args remaining [SEED_PUMP_TRADER, pubkey_bytes (key (m_grok_account A)), [bump]] c
      = Inr d"
    and "find_program_address rt [SEED_PUMP_TRADER, pubkey_bytes (key (m_grok_account A))] INTENTS_ID = (trader, bump)"
    and "find_trader_in_remaining remaining trader = Inr trader_ai"
    and "require_wrap_mint (tb_wrap_sol args) (tb_input_mint args) = Inr ()"
  shows "wrapped rt A args remaining src c d"
proof -
  have "find (\<lambda>a. key a = trader) remaining = Some trader_ai" "key trader_ai = trader"
    using assms(3) find_trader_mem [OF assms(3)] by (simp_all add: find_trader_eq_Inr)
  then show ?thesis
    using assms(1,4)
    by (auto simp: wrapped_def wrap_step_def wrap_sol_to_wsol_def assms(2) and_then_eq_Inr require_eq_Inr
        prefunded_ok ok_or_eq_Inr jupiter_policy_ok PUMP_TRADER_SPACE_def add.commute Let_def)
qed

text \<open>What a successful trade guarantees, whichever of the two instructions it was.\<close>

definition trade_bounded ::
  "runtime \<Rightarrow> token_trade_infos \<Rightarrow> token_buy_args \<Rightarrow> account_info list \<Rightarrow> chain \<Rightarrow> chain \<Rightarrow> bool" where
  "trade_bounded rt A args remaining c d \<longleftrightarrow>
     (let trader = fst (find_program_address rt [SEED_PUMP_TRADER, pubkey_bytes (key (m_grok_account A))]
                     INTENTS_ID) in
      0 < tb_in_amount args \<and> tb_input_mint args \<noteq> tb_output_mint args \<and>
      (\<exists>c1 c2 src dst.
         mouth_check_grant rt A (if tb_input_mint args = WSOL_MINT then tb_in_amount args else 0) c = Inr c1
         \<and> core_step rt (key (m_grant A))
             (if tb_input_mint args = WSOL_MINT then tb_in_amount args else 0) c c1
         \<and> wrapped rt A args remaining src c1 c2
         \<and> find (\<lambda>a. holds c trader (tb_input_mint args) (key a)) remaining = Some src
         \<and> find (\<lambda>a. holds c trader (tb_output_mint args) (key a)) remaining = Some dst
         \<and> (\<exists>ix c3. ix_program_id ix = JUPITER_V6_PROGRAM_ID \<and> ix_data ix = tb_jupiter_data args
              \<and> map meta_pubkey (ix_accounts ix) = map key remaining
              \<and> invoke_signed rt ix remaining [[SEED_PUMP_TRADER, pubkey_bytes (key (m_grok_account A)),
                  [snd (find_program_address rt [SEED_PUMP_TRADER, pubkey_bytes (key (m_grok_account A))]
                    INTENTS_ID)]]] c2 = Inr c3
              \<and> (\<forall>k. data_of d k = data_of c3 k))
         \<and> unat (token_amount (data_of c2 (key src)))
             \<le> unat (token_amount (data_of d (key src))) + unat (tb_in_amount args)
         \<and> unat (token_amount (data_of c2 (key dst))) + unat (tb_min_out args)
             \<le> max (unat (token_amount (data_of d (key dst)))) (unat (token_amount (data_of c2 (key dst)))))
      \<and> (\<forall>a \<in> set remaining. key a \<noteq> key (tt_spend_vault A) \<and> Some (key a) \<noteq> map_option key (tt_paymaster A))
      \<and> kept (charge_to (map_option key (tt_paymaster A)) (tb_sponsor_lamports args)) c d)"

lemma saturating_bounds:
  fixes a b :: u64
  shows "saturating_sub a b \<le> x \<longleftrightarrow> unat a \<le> unat b + unat x"
    and "y \<le> saturating_sub b a \<longleftrightarrow> unat a + unat y \<le> max (unat b) (unat a)"
  by (auto simp: word_le_nat_alt unat_saturating_sub max_def)

lemma paymaster_keys:
  "load_paymaster_opt c opt = Inr pm \<Longrightarrow> map_option (\<lambda>(ai, _). key ai) pm = map_option key opt"
  by (drule load_paymaster_opt_infos, cases pm) auto

lemma trade_is_bounded:
  assumes hyps: "core_meters rt" "foreign_frame rt" and pm: "load_paymaster_opt c (tt_paymaster A) = Inr pm"
    and run: "trade rt A gr pm args s remaining c = Inr d"
  shows "trade_bounded rt A args remaining c d"
proof -
  let ?seeds = "[SEED_PUMP_TRADER, pubkey_bytes (key (m_grok_account A))]"
  let ?in = "tb_in_amount args" and ?min = "tb_min_out args"
  obtain trader bump trader_ai src dst ix c1 c2 c3 c4 spent received where
    pre: "require_token_amounts ?in = Inr ()"
      "require_token_mints_distinct (tb_input_mint args) (tb_output_mint args) = Inr ()"
      "require_wrap_mint (tb_wrap_sol args) (tb_input_mint args) = Inr ()"
    and pda: "find_program_address rt ?seeds INTENTS_ID = (trader, bump)"
    and ai: "find_trader_in_remaining remaining trader = Inr trader_ai"
    and rej: "reject_protected_remaining remaining (key (tt_spend_vault A))
      (map_option (\<lambda>(ai, _). key ai) pm) = Inr ()"
    and src: "find_trader_token_account c remaining trader (tb_input_mint args) True = Inr src"
    and dst: "find_trader_token_account c remaining trader (tb_output_mint args) False = Inr dst"
    and 1: "mouth_check_grant rt A (token_check_grant_amount (tb_input_mint args) (tb_wrap_sol args) ?in) c
      = Inr c1"
    and 2: "wrap_step rt trader_ai src args remaining (?seeds @ [[bump]]) c1 = Inr c2"
    and ix: "build_jupiter_ix remaining trader (tb_jupiter_data args) = Inr ix"
    and 3: "invoke_signed rt ix remaining [?seeds @ [[bump]]] c2 = Inr c3"
    and out: "spent = saturating_sub (token_amount (data_of c2 (key src))) (token_amount (data_of c3 (key src)))"
      "received = saturating_sub (token_amount (data_of c3 (key dst))) (token_amount (data_of c2 (key dst)))"
      "enforce_swap_outcome spent received ?in ?min = Inr ()"
    and 4: "reimburse_sponsor rt (m_grant A) gr pm (tt_fee_payer A) (tb_sponsor_lamports args) c3 = Inr c4"
    and d: "d = emit (trade_event A gr args s trader spent received) c4"
    by (rule tradeE [OF run]) (simp only: append_Cons append_Nil)
  have same: "data_of d k = data_of c3 k" for k
    using reimburse_frame(2) [OF 4] by (simp add: d)
  have bounds: "unat (token_amount (data_of c2 (key src))) \<le> unat (token_amount (data_of d (key src))) + unat ?in"
    "unat (token_amount (data_of c2 (key dst))) + unat ?min
       \<le> max (unat (token_amount (data_of d (key dst)))) (unat (token_amount (data_of c2 (key dst))))"
    using out(3) unfolding out(1,2) jupiter_policy_ok saturating_bounds same by simp_all
  note call = 1 [unfolded token_grant_amount [OF pre(3)]]
  have step: "core_step rt (key (m_grant A)) (if tb_input_mint args = WSOL_MINT then ?in else 0) c c1"
    by (rule check_grant_step(1) [OF call [unfolded mouth_check_grant_def] hyps(1)])
  have "kept no_charge c c1"
    by (rule kept_check_grant [OF hyps(2) 1])
  also have "kept no_charge c1 c2"
    by (rule kept_wrap [OF hyps(2) 2])
  also have "kept no_charge c2 c3"
    by (rule kept_foreign [OF hyps(2) 3]) (use ix in \<open>auto simp: build_jupiter_ix_eq_Inr route_ids\<close>)
  also note sponsor_custody.keeps [OF 4, unfolded sponsor_charge [OF pm]]
  finally have "kept (charge_to (map_option key (tt_paymaster A)) (tb_sponsor_lamports args)) c d"
    by (simp add: d)
  moreover have "wrapped rt A args remaining src c1 c2"
    using wrap_step_wrapped [OF _ pda ai pre(3)] 2 by simp
  moreover have "\<forall>a \<in> set remaining. key a \<noteq> key (tt_spend_vault A) \<and> Some (key a) \<noteq> map_option key (tt_paymaster A)"
    using rej unfolding paymaster_keys [OF pm] by (simp add: remaining_checks_eq_Inr)
  moreover have "map meta_pubkey (ix_accounts ix) = map key remaining"
    "ix_program_id ix = JUPITER_V6_PROGRAM_ID" "ix_data ix = tb_jupiter_data args"
    using ix by (auto simp: build_jupiter_ix_eq_Inr meta_new_def meta_new_readonly_def)
  moreover have "invoke_signed rt ix remaining [[SEED_PUMP_TRADER, pubkey_bytes (key (m_grok_account A)), [bump]]] c2
      = Inr c3"
    using 3 by simp
  ultimately show ?thesis
    unfolding trade_bounded_def Let_def pda fst_conv snd_conv
    using same pre(1,2) call step bounds src [unfolded find_token_account_eq_Inr] dst [unfolded find_token_account_eq_Inr]
    unfolding jupiter_policy_ok by blast
qed

section \<open>Properties\<close>

lemma token_trade_accountsD:
  assumes "token_trade_accounts rt A c = Inr (gr, pm)"
  shows "load_paymaster_opt c (tt_paymaster A) = Inr pm"
    and "\<exists>ga. mouth_load rt A c = Inr (ga, gr) \<and> mouth_constraints rt A ga gr = Inr ()"
    and "key (tt_jupiter_program A) = JUPITER_V6_PROGRAM_ID"
  using assms
  by (auto simp: token_trade_accounts_def and_then_eq_Inr account_checks_eq_Inr)

text \<open>C37: A swap through Jupiter is bounded by what it does, not by the route the client sent: the
  signing agent of the grant trades; the grant is metered by the input amount when the input is
  wrapped SOL and by nothing otherwise. If the client asks to wrap, the input is wrapped SOL, and the
  System Program is told to send exactly the input amount of lamports from the trader, which holds
  that on top of its rent, to the source, a wrapped SOL account of the token program, which is then
  synced; then Jupiter is called, once, with the client's bytes and the remaining accounts. From the ledger
  after CORE and this wrap to the end, at most the input amount is gone from the source, the first
  input account of the trader among the remaining accounts, and the destination, its first output
  account there, has gained at least the minimum (or, with a minimum of zero, anything). Neither
  the vault nor the paymaster is among the accounts of the route, and however Jupiter and the other
  programs behave, every account of this program keeps its data and its lamports, but for the
  sponsor share of the paymaster. Used of CORE is that it meters (\<open>core_meters\<close>), of the runtime
  that programs write only their own accounts (\<open>foreign_frame\<close>).\<close>

theorem token_trade_bounded:
  assumes hyps: "core_meters rt" "foreign_frame rt"
    and run: "token_buy rt A args remaining c = Inr d
      \<or> (\<exists>sargs. token_sell rt A sargs remaining c = Inr d \<and> args = buy_of_sell sargs)"
  shows "is_signer (m_agent A)
    \<and> (\<exists>gr. load_grant rt c (key (m_grant A)) = Inr gr \<and> gr_agent gr = key (m_agent A)
         \<and> gr_grok_account gr = key (m_grok_account A))
    \<and> key (tt_jupiter_program A) = JUPITER_V6_PROGRAM_ID
    \<and> trade_bounded rt A args remaining c d"
proof -
  obtain gr pm s where acc: "token_trade_accounts rt A c = Inr (gr, pm)"
    and trade: "trade rt A gr pm args s remaining c = Inr d"
    using run by (auto simp: token_buy_def token_sell_def and_then_eq_Inr)
  note ok = token_trade_accountsD [OF acc]
  from trade_is_bounded [OF hyps ok(1) trade] ok(2,3) show ?thesis
    by (auto simp: mouth_load_eq_Inr mouth_constraints_eq_Inr grant_constraints_eq_Inr)
qed

text \<open>The event aside, selling is buying.\<close>

definition unlogged :: "chain res \<Rightarrow> chain res" where
  "unlogged = map_sum id (\<lambda>d. d\<lparr>events := butlast (events d)\<rparr>)"

lemma unlogged_and_then: "unlogged (and_then m f) = and_then m (\<lambda>x. unlogged (f x))"
  by (cases m) (simp_all add: unlogged_def)

lemma unlogged_emit: "unlogged (Inr (emit e c)) = Inr c"
  by (simp add: unlogged_def emit_def)

lemma unlogged_trade: "unlogged (trade rt A gr pm args s remaining c) = unlogged (trade rt A gr pm args t remaining c)"
  unfolding trade_def Let_def
  by (simp only: unlogged_and_then unlogged_emit prod.case_distrib [of unlogged])

text \<open>Selling is buying with the roles of the mints as given: with the same arguments the two
  instructions fail with the same error or leave the same ledger and the same log but for the
  last event.\<close>

theorem token_sell_is_buy:
  "unlogged (token_sell rt A args remaining c) = unlogged (token_buy rt A (buy_of_sell args) remaining c)"
  unfolding token_sell_def token_buy_def unlogged_and_then case_prod_beta
  by (simp only: unlogged_trade [of _ _ _ _ _ True _ _ False])

section \<open>A demonstration route\<close>

text \<open>A runtime with one more program.\<close>

definition with_program :: "pubkey \<Rightarrow> (ledger \<Rightarrow> nat + ledger) \<Rightarrow> runtime \<Rightarrow> runtime" where
  "with_program p f rt = rt\<lparr>invoke_cpi := (\<lambda>ix infos ss m.
     if ix_program_id ix = p then f m else invoke_cpi rt ix infos ss m)\<rparr>"

lemma with_program_simps [simp]:
  "min_balance (with_program p f rt) = min_balance rt" "unix_now (with_program p f rt) = unix_now rt"
  "find_program_address (with_program p f rt) = find_program_address rt"
  "create_program_address (with_program p f rt) = create_program_address rt"
  "decode_grok_account (with_program p f rt) = decode_grok_account rt"
  "decode_grant (with_program p f rt) = decode_grant rt"
  "invoke_cpi (with_program p f rt) ix infos ss m =
     (if ix_program_id ix = p then f m else invoke_cpi rt ix infos ss m)"
  by (simp_all add: with_program_def)

lemma with_program_loads [simp]:
  "load_grok_account (with_program p f rt) = load_grok_account rt"
  "load_grant (with_program p f rt) = load_grant rt"
  by (intro ext; simp add: load_grok_account_def load_grant_def)+

lemma with_program_core: "core_meters rt \<Longrightarrow> p \<noteq> CORE_ID \<Longrightarrow> core_meters (with_program p f rt)"
  unfolding core_meters_def metered_def by (simp add: check_grant_ix_def)

lemma with_program_frame:
  assumes "foreign_frame rt" and "\<And>m m' k. f m = Inr m' \<Longrightarrow> acc_owner (m k) = INTENTS_ID \<Longrightarrow> m' k = m k"
  shows "foreign_frame (with_program p f rt)"
  using assms unfolding foreign_frame_def with_program_simps by (metis order_refl)

lemma with_program_check_grant:
  "p \<noteq> CORE_ID \<Longrightarrow> check_grant (with_program p f rt) = check_grant rt"
  by (intro ext) (simp add: check_grant_def invoke_def invoke_signed_def check_grant_ix_def)

definition demo_route :: "ledger \<Rightarrow> nat + ledger" where
  "demo_route m =
     (if acc_owner (m 31) = TOKEN_PROGRAM_ID \<and> acc_owner (m 35) = TOKEN_PROGRAM_ID
      then Inr (m(31 := (m 31)\<lparr>acc_data := demo_holding 40 k_trader 6600\<rparr>,
                  35 := (m 35)\<lparr>acc_data := demo_holding 41 k_trader 620\<rparr>))
      else Inl 1)"

definition demo_route_rt :: runtime where
  "demo_route_rt = with_program JUPITER_V6_PROGRAM_ID demo_route demo_token_rt"

lemma demo_route_ids [simp]:
  "JUPITER_V6_PROGRAM_ID \<noteq> CORE_ID" "TOKEN_PROGRAM_ID \<noteq> INTENTS_ID"
  "JUPITER_V6_PROGRAM_ID \<notin> {31, 32, 35, 40, k_trader, k_merchants, k_vault, k_grant, k_grok}"
  "SYSTEM_PROGRAM_ID \<notin> {JUPITER_V6_PROGRAM_ID, 31, 32, 35, 40, k_trader, k_merchants}"
  "CORE_ID \<notin> {JUPITER_V6_PROGRAM_ID, 31, 32, 35, 40, k_trader, k_merchants}"
  by (simp_all add: key_simps)

lemma demo_route_core: "core_meters demo_route_rt"
  unfolding demo_route_rt_def by (rule with_program_core [OF demo_token_core_meters]) simp

lemma demo_route_frame: "foreign_frame demo_route_rt"
  unfolding demo_route_rt_def
proof (rule with_program_frame [OF demo_token_foreign_frame])
  fix m m' :: ledger and k
  assume "demo_route m = Inr m'" and own: "acc_owner (m k) = INTENTS_ID"
  then have "acc_owner (m 31) = TOKEN_PROGRAM_ID" "acc_owner (m 35) = TOKEN_PROGRAM_ID"
    and m': "m' = m(31 := (m 31)\<lparr>acc_data := demo_holding 40 k_trader 6600\<rparr>,
                  35 := (m 35)\<lparr>acc_data := demo_holding 41 k_trader 620\<rparr>)"
    by (auto simp: demo_route_def split: if_splits)
  then have "k \<noteq> 31" "k \<noteq> 35"
    using own demo_route_ids(2) by metis+
  then show "m' k = m k"
    by (simp add: m')
qed

definition demo_market :: chain where
  "demo_market = demo_payments_chain\<lparr>accts := (accts demo_payments_chain)
     (k_trader := demo_account 5000 SYSTEM_PROGRAM_ID [],
      35 := demo_account 200 TOKEN_PROGRAM_ID (demo_holding 41 k_trader 20),
      JUPITER_V6_PROGRAM_ID := demo_program)\<rparr>"

lemma demo_market_accts [simp]:
  "accts demo_market k_trader = demo_account 5000 SYSTEM_PROGRAM_ID []"
  "accts demo_market 31 = demo_account 200 TOKEN_PROGRAM_ID (demo_holding 40 k_trader 9000)"
  "accts demo_market 35 = demo_account 200 TOKEN_PROGRAM_ID (demo_holding 41 k_trader 20)"
  "accts demo_market JUPITER_V6_PROGRAM_ID = demo_program"
  "accts demo_market SYSTEM_PROGRAM_ID = demo_program"
  "accts demo_market CORE_ID = demo_program"
  "accts demo_market k_vault = accts demo_chain k_vault" "accts demo_market k_grant = accts demo_chain k_grant"
  "accts demo_market k_grok = accts demo_chain k_grok"
  using demo_route_ids(3-5) by (auto simp: demo_market_def)

definition demo_trade_infos :: token_trade_infos where
  "demo_trade_infos =
     \<lparr>m_agent = info k_agent True False, m_grok_account = info k_grok False False,
      m_grant = info k_grant False True, m_core_program = info CORE_ID False False,
      m_intents_program = info INTENTS_ID False False,
      tt_spend_vault = info k_vault False True, tt_system_program = info SYSTEM_PROGRAM_ID False False,
      tt_jupiter_program = info JUPITER_V6_PROGRAM_ID False False,
      tt_paymaster = None, tt_fee_payer = None\<rparr>"

definition demo_trade_args :: token_buy_args where
  "demo_trade_args =
     \<lparr>tb_in_amount = 2500, tb_min_out = 600, tb_sponsor_lamports = 0, tb_input_mint = 40,
      tb_output_mint = 41, tb_wrap_sol = False, tb_jupiter_data = replicate 8 0 @ word_bytes (2500 :: u64)\<rparr>"

definition demo_trade_remaining :: "account_info list" where
  "demo_trade_remaining = [info k_trader False True, info 31 False True, info 35 False True]"

lemma demo_market_loads [simp]:
  "load_spend_vault demo_market k_vault = Inr demo_vault"
  "load_grant demo_rt demo_market k_grant = Inr (demo_grant 400)"
  "load_grok_account demo_rt demo_market k_grok = Inr \<lparr>ga_root = k_root, ga_bump = 255\<rparr>"
  by (simp_all add: load_grant_def load_grok_account_def res_simps owner_of_def data_of_def
      sv_account.deserialize_iff demo_decode_grant_def)

lemma demo_trade_policy:
  "require_token_amounts 2500 = Inr ()" "require_token_mints_distinct 40 41 = Inr ()"
  "require_wrap_mint False 40 = Inr ()" "precheck_sponsor 0 None fp = Inr ()"
  "require_agent_not_fee_payer_ctx demo_trade_infos = Inr ()"
  "require_jupiter_program (key (tt_jupiter_program demo_trade_infos)) = Inr ()"
  "require_nonempty_jupiter_data (replicate 8 0 @ word_bytes (2500 :: u64)) = Inr ()"
  "require_pump_user_not_vault k_trader (key (tt_spend_vault demo_trade_infos)) = Inr ()"
  "require_pump_trader_system_owned (owner_of demo_market k_trader) = Inr ()"
  "reject_protected_remaining demo_trade_remaining (key (tt_spend_vault demo_trade_infos)) None = Inr ()"
  "enforce_swap_outcome 2400 600 2500 600 = Inr ()"
  by (simp_all add: jupiter_policy_ok policy_ok precheck_sponsor_eq_Inr remaining_checks_eq_Inr owner_of_def
      require_agent_not_fee_payer_ctx_def demo_trade_infos_def demo_trade_remaining_def)

lemma demo_trade_accounts:
  "token_trade_accounts demo_route_rt demo_trade_infos demo_market = Inr (demo_grant 400, None)"
  by (simp add: token_trade_accounts_def demo_trade_infos_def demo_route_rt_def payment_defs
      fee_payer_not_agent_def constraint_def demo_vault_def demo_grant_def)

lemma demo_trade_found:
  "find_trader_in_remaining demo_trade_remaining k_trader = Inr (info k_trader False True)"
  "require_pump_trader_ready demo_route_rt (info k_trader False True) demo_market = Inr ()"
  "find_trader_token_account demo_market demo_trade_remaining k_trader 40 True = Inr (info 31 False True)"
  "find_trader_token_account demo_market demo_trade_remaining k_trader 41 False = Inr (info 35 False True)"
  by (simp_all add: demo_trade_remaining_def remaining_checks_eq_Inr demo_route_rt_def owner_of_def data_of_def
      lamports_of_def demo_rent_def PUMP_TRADER_SPACE_def)

lemma demo_token_buy_ok:
  "\<exists>d. token_buy demo_route_rt demo_trade_infos demo_trade_args demo_trade_remaining demo_market = Inr d"
proof -
  let ?c1 = "with_data k_grant (word_bytes (400 :: u64)) demo_market"
  have route: "require_jupiter_in_amount (replicate 8 0 @ word_bytes (2500 :: u64)) 2500 = Inr ()"
    unfolding require_jupiter_in_amount_ok by (rule exI [of _ "replicate 8 0"]) simp
  have grant: "mouth_check_grant demo_route_rt demo_trade_infos 0 demo_market = Inr ?c1"
    using demo_token_check_grant [of demo_market 0]
    by (simp add: mouth_check_grant_def demo_route_rt_def demo_trade_infos_def with_program_check_grant)
  obtain ix where ix: "build_jupiter_ix demo_trade_remaining k_trader
      (replicate 8 0 @ word_bytes (2500 :: u64)) = Inr ix" "ix_program_id ix = JUPITER_V6_PROGRAM_ID"
    by (simp add: build_jupiter_ix_eq_Inr demo_trade_remaining_def)
  let ?c3 = "?c1\<lparr>accts := (accts ?c1)
    (31 := (accts ?c1 31)\<lparr>acc_data := demo_holding 40 k_trader 6600\<rparr>,
     35 := (accts ?c1 35)\<lparr>acc_data := demo_holding 41 k_trader 620\<rparr>)\<rparr>"
  have run: "invoke_signed demo_route_rt ix demo_trade_remaining ss ?c1 = Inr ?c3" for ss
    by (simp add: invoke_signed_def demo_route_rt_def ix(2) demo_route_def with_data_def)
  obtain c3 where c3: "c3 = ?c3"
    by blast
  have after: "data_of c3 31 = demo_holding 40 k_trader 6600" "data_of c3 35 = demo_holding 41 k_trader 620"
    by (simp_all add: c3 data_of_def)
  have amounts: "token_account_amount 31 ?c1 = Inr 9000" "token_account_amount 35 ?c1 = Inr 20"
    "token_account_amount 31 c3 = Inr 6600" "token_account_amount 35 c3 = Inr 620"
    by (simp_all add: token_account_amount_eq_Inr after) (simp_all add: data_of_def)
  have found: "find_program_address demo_route_rt
      [SEED_PUMP_TRADER, pubkey_bytes (key (m_grok_account demo_trade_infos))] INTENTS_ID = (k_trader, 255)"
    by (simp add: demo_route_rt_def)
  have "token_check_grant_amount 40 False 2500 = 0"
    by (simp add: token_check_grant_amount_def TOKEN_NON_SOL_CHECK_GRANT_AMOUNT_def key_simps)
  moreover have "data_of demo_market 31 \<noteq> []" "data_of demo_market 35 \<noteq> []"
    by (simp_all add: data_of_def demo_holding_def)
  ultimately show ?thesis
    by (simp add: token_buy_def demo_trade_accounts)
      (simp add: trade_def Let_def demo_trade_args_def demo_trade_policy found reimburse_sponsor_def saturating_sub_def route demo_trade_found grant
        wrap_step_def amounts ix(1) run [folded c3])
qed

lemma token_trade_bounded_witness:
  "\<exists>d. token_buy demo_route_rt demo_trade_infos demo_trade_args demo_trade_remaining demo_market = Inr d
     \<and> trade_bounded demo_route_rt demo_trade_infos demo_trade_args demo_trade_remaining demo_market d"
proof -
  obtain d where d: "token_buy demo_route_rt demo_trade_infos demo_trade_args demo_trade_remaining demo_market
      = Inr d"
    using demo_token_buy_ok by blast
  with token_trade_bounded [OF demo_route_core demo_route_frame disjI1 [OF d]] show ?thesis
    by blast
qed

end
