(* ===== verification/Pump.thy ===== *)
theory Pump imports Token_Trade begin

text \<open>
  \<open>instructions/pump.rs\<close>: the adapter for pump.fun's \<open>buy_v2\<close>, \<open>sell_v2\<close> and \<open>create_v2\<close>. The inner
  program is fixed, its data is built here, the user slot is the trader and the official
  addresses are re-derived; the client only supplies the remaining accounts. Indexing follows
  the account-count check of each handler, as in the source.
\<close>

section \<open>Slots\<close>

definition IDX_GLOBAL :: nat where
  "IDX_GLOBAL = 0"

definition IDX_BASE_MINT :: nat where
  "IDX_BASE_MINT = 1"

definition IDX_BASE_TOKEN_PROGRAM :: nat where
  "IDX_BASE_TOKEN_PROGRAM = 3"

definition IDX_BONDING_CURVE :: nat where
  "IDX_BONDING_CURVE = 10"

definition IDX_ASSOCIATED_BASE_USER :: nat where
  "IDX_ASSOCIATED_BASE_USER = 14"

definition IDX_USER_VOLUME_ACCUMULATOR_BUY :: nat where
  "IDX_USER_VOLUME_ACCUMULATOR_BUY = 20"

definition IDX_USER_VOLUME_ACCUMULATOR_SELL :: nat where
  "IDX_USER_VOLUME_ACCUMULATOR_SELL = 19"

definition IDX_EVENT_AUTHORITY_BUY :: nat where
  "IDX_EVENT_AUTHORITY_BUY = 25"

definition IDX_EVENT_AUTHORITY_SELL :: nat where
  "IDX_EVENT_AUTHORITY_SELL = 24"

definition IDX_CREATE_MINT_AUTHORITY :: nat where
  "IDX_CREATE_MINT_AUTHORITY = 1"

definition IDX_CREATE_BONDING_CURVE :: nat where
  "IDX_CREATE_BONDING_CURVE = 2"

definition IDX_CREATE_ASSOCIATED_BONDING_CURVE :: nat where
  "IDX_CREATE_ASSOCIATED_BONDING_CURVE = 3"

definition IDX_CREATE_GLOBAL :: nat where
  "IDX_CREATE_GLOBAL = 4"

definition IDX_CREATE_SYSTEM :: nat where
  "IDX_CREATE_SYSTEM = 6"

definition IDX_CREATE_TOKEN_PROGRAM :: nat where
  "IDX_CREATE_TOKEN_PROGRAM = 7"

definition IDX_CREATE_ATA_PROGRAM :: nat where
  "IDX_CREATE_ATA_PROGRAM = 8"

definition IDX_CREATE_MAYHEM_PROGRAM :: nat where
  "IDX_CREATE_MAYHEM_PROGRAM = 9"

definition IDX_CREATE_GLOBAL_PARAMS :: nat where
  "IDX_CREATE_GLOBAL_PARAMS = 10"

definition IDX_CREATE_SOL_VAULT :: nat where
  "IDX_CREATE_SOL_VAULT = 11"

definition IDX_CREATE_MAYHEM_STATE :: nat where
  "IDX_CREATE_MAYHEM_STATE = 12"

definition IDX_CREATE_MAYHEM_TOKEN_VAULT :: nat where
  "IDX_CREATE_MAYHEM_TOKEN_VAULT = 13"

definition IDX_CREATE_EVENT_AUTHORITY :: nat where
  "IDX_CREATE_EVENT_AUTHORITY = 14"

section \<open>Addresses\<close>

definition trader_pda :: "runtime \<Rightarrow> pubkey \<Rightarrow> pubkey \<times> u8" where
  "trader_pda rt grok = find_program_address rt [SEED_PUMP_TRADER, pubkey_bytes grok] INTENTS_ID"

text \<open>The address a seed list derives, and a key checked against it.\<close>

definition pda :: "runtime \<Rightarrow> seeds \<Rightarrow> pubkey \<Rightarrow> pubkey" where
  "pda rt ss pid = fst (find_program_address rt ss pid)"

definition key_eq :: "account_info \<Rightarrow> pubkey \<Rightarrow> unit res" where
  "key_eq ai k = require (key ai = k) (Pump PumpPdaMismatch)"

definition validate_pump_pdas :: "runtime \<Rightarrow> account_info list \<Rightarrow> pubkey \<Rightarrow> bool \<Rightarrow> unit res" where
  "validate_pump_pdas rt remaining trader is_buy =
     (let mint = key (remaining ! IDX_BASE_MINT);
          global = pda rt [ascii ''global''] PUMP_PROGRAM_ID in
      and_then (key_eq (remaining ! IDX_GLOBAL) global) (\<lambda>_.
      let curve = pda rt [ascii ''bonding-curve'', pubkey_bytes mint] PUMP_PROGRAM_ID in
      and_then (key_eq (remaining ! IDX_BONDING_CURVE) curve) (\<lambda>_.
      let uva_idx = (if is_buy then IDX_USER_VOLUME_ACCUMULATOR_BUY else IDX_USER_VOLUME_ACCUMULATOR_SELL);
          uva = pda rt [ascii ''user_volume_accumulator'', pubkey_bytes trader] PUMP_PROGRAM_ID in
      and_then (key_eq (remaining ! uva_idx) uva) (\<lambda>_.
      let ea_idx = (if is_buy then IDX_EVENT_AUTHORITY_BUY else IDX_EVENT_AUTHORITY_SELL);
          ea = pda rt [ascii ''__event_authority''] PUMP_PROGRAM_ID in
      and_then (key_eq (remaining ! ea_idx) ea) (\<lambda>_.
      let token_program = key (remaining ! IDX_BASE_TOKEN_PROGRAM) in
      and_then (require (token_program = TOKEN_2022_PROGRAM_ID \<or> token_program = TOKEN_PROGRAM_ID)
        (Pump InvalidTokenProgram)) (\<lambda>_.
      let ata = pda rt [pubkey_bytes trader, pubkey_bytes token_program, pubkey_bytes mint]
                  ASSOCIATED_TOKEN_PROGRAM_ID in
      key_eq (remaining ! IDX_ASSOCIATED_BASE_USER) ata))))))"

definition validate_pump_create_pdas :: "runtime \<Rightarrow> account_info list \<Rightarrow> unit res" where
  "validate_pump_create_pdas rt remaining =
     (let mint = key (remaining ! PUMP_CREATE_MINT_INDEX);
          mint_authority = pda rt [ascii ''mint-authority''] PUMP_PROGRAM_ID in
      and_then (key_eq (remaining ! IDX_CREATE_MINT_AUTHORITY) mint_authority) (\<lambda>_.
      let curve = pda rt [ascii ''bonding-curve'', pubkey_bytes mint] PUMP_PROGRAM_ID in
      and_then (key_eq (remaining ! IDX_CREATE_BONDING_CURVE) curve) (\<lambda>_.
      let global = pda rt [ascii ''global''] PUMP_PROGRAM_ID in
      and_then (key_eq (remaining ! IDX_CREATE_GLOBAL) global) (\<lambda>_.
      and_then (key_eq (remaining ! IDX_CREATE_SYSTEM) SYSTEM_PROGRAM_ID) (\<lambda>_.
      and_then (require (key (remaining ! IDX_CREATE_TOKEN_PROGRAM) = TOKEN_2022_PROGRAM_ID)
        (Pump InvalidTokenProgram)) (\<lambda>_.
      and_then (key_eq (remaining ! IDX_CREATE_ATA_PROGRAM) ASSOCIATED_TOKEN_PROGRAM_ID) (\<lambda>_.
      and_then (key_eq (remaining ! IDX_CREATE_MAYHEM_PROGRAM) MAYHEM_PROGRAM_ID) (\<lambda>_.
      let ata = pda rt [pubkey_bytes curve, pubkey_bytes TOKEN_2022_PROGRAM_ID, pubkey_bytes mint]
                  ASSOCIATED_TOKEN_PROGRAM_ID in
      and_then (key_eq (remaining ! IDX_CREATE_ASSOCIATED_BONDING_CURVE) ata) (\<lambda>_.
      let global_params = pda rt [ascii ''global-params''] MAYHEM_PROGRAM_ID in
      and_then (key_eq (remaining ! IDX_CREATE_GLOBAL_PARAMS) global_params) (\<lambda>_.
      let sol_vault = pda rt [ascii ''sol-vault''] MAYHEM_PROGRAM_ID in
      and_then (key_eq (remaining ! IDX_CREATE_SOL_VAULT) sol_vault) (\<lambda>_.
      let mayhem_state = pda rt [ascii ''mayhem-state'', pubkey_bytes mint] MAYHEM_PROGRAM_ID in
      and_then (key_eq (remaining ! IDX_CREATE_MAYHEM_STATE) mayhem_state) (\<lambda>_.
      let mayhem_token_vault = pda rt [pubkey_bytes sol_vault, pubkey_bytes TOKEN_2022_PROGRAM_ID,
                  pubkey_bytes mint] ASSOCIATED_TOKEN_PROGRAM_ID in
      and_then (key_eq (remaining ! IDX_CREATE_MAYHEM_TOKEN_VAULT) mayhem_token_vault) (\<lambda>_.
      let ea = pda rt [ascii ''__event_authority''] PUMP_PROGRAM_ID in
      key_eq (remaining ! IDX_CREATE_EVENT_AUTHORITY) ea)))))))))))))"

section \<open>The inner instructions\<close>

definition client_meta :: "account_info \<Rightarrow> account_meta" where
  "client_meta acc =
     (if is_writable acc then meta_new (key acc) (is_signer acc)
      else meta_new_readonly (key acc) (is_signer acc))"

fun pump_metas :: "pubkey \<Rightarrow> nat \<Rightarrow> account_info list \<Rightarrow> account_meta list res" where
  "pump_metas trader i [] = Inr []"
| "pump_metas trader i (acc # rest) =
     and_then (if i = PUMP_USER_INDEX
               then and_then (require (key acc = trader) (Pump PumpUserMustBeTrader))
                      (\<lambda>_. Inr (meta_new trader True))
               else Inr (client_meta acc)) (\<lambda>m.
     and_then (pump_metas trader (Suc i) rest) (\<lambda>ms. Inr (m # ms)))"

definition build_pump_ix :: "account_info list \<Rightarrow> pubkey \<Rightarrow> byte list \<Rightarrow> instruction res" where
  "build_pump_ix remaining trader bs =
     and_then (require (bs \<noteq> []) (Pump PumpEmptyDataForbidden)) (\<lambda>_.
     and_then (require (length bs = PUMP_TRADE_IX_DATA_LEN) (Pump PumpEmptyDataForbidden)) (\<lambda>_.
     and_then (pump_metas trader 0 remaining) (\<lambda>accounts.
     Inr \<lparr>ix_program_id = PUMP_PROGRAM_ID, ix_accounts = accounts, ix_data = bs\<rparr>)))"

fun pump_create_metas :: "pubkey \<Rightarrow> nat \<Rightarrow> account_info list \<Rightarrow> account_meta list res" where
  "pump_create_metas trader i [] = Inr []"
| "pump_create_metas trader i (acc # rest) =
     and_then (if i = PUMP_CREATE_MINT_INDEX
               then and_then (require (is_signer acc) (Pump PumpMintMustBeSigner))
                      (\<lambda>_. Inr (meta_new (key acc) True))
               else if i = PUMP_CREATE_USER_INDEX
               then and_then (require (key acc = trader) (Pump PumpUserMustBeTrader))
                      (\<lambda>_. Inr (meta_new trader True))
               else Inr (client_meta acc)) (\<lambda>m.
     and_then (pump_create_metas trader (Suc i) rest) (\<lambda>ms. Inr (m # ms)))"

definition build_pump_create_ix :: "account_info list \<Rightarrow> pubkey \<Rightarrow> byte list \<Rightarrow> instruction res" where
  "build_pump_create_ix remaining trader bs =
     and_then (require_nonempty_pump_create_data bs) (\<lambda>_.
     and_then (pump_create_metas trader 0 remaining) (\<lambda>accounts.
     Inr \<lparr>ix_program_id = PUMP_PROGRAM_ID, ix_accounts = accounts, ix_data = bs\<rparr>))"

section \<open>Accounts\<close>

record pump_trade_infos = mouth +
  pp_spend_vault :: account_info
  pp_system_program :: account_info
  pp_pump_program :: account_info
  pp_paymaster :: "account_info option"
  pp_fee_payer :: "account_info option"

definition pump_trade_accounts ::
  "runtime \<Rightarrow> pump_trade_infos \<Rightarrow> chain \<Rightarrow> (grok_account \<times> grant \<times> (account_info \<times> paymaster) option) res"
where
  "pump_trade_accounts rt A c =
     and_then (mouth_load rt A c) (\<lambda>(ga, gr).
     and_then (load_spend_vault c (key (pp_spend_vault A))) (\<lambda>sv.
     and_then (program c (pp_system_program A) SYSTEM_PROGRAM_ID) (\<lambda>_.
     and_then (load_paymaster_opt c (pp_paymaster A)) (\<lambda>pm.
     and_then (signer_opt (pp_fee_payer A)) (\<lambda>_.
     and_then (mouth_constraints rt A ga gr) (\<lambda>_.
     and_then (vault_constraints rt (pp_spend_vault A) (key (m_grok_account A)) (ga_root ga) sv) (\<lambda>_.
     and_then (constraint (acc_executable (accts c (key (pp_pump_program A)))) ConstraintExecutable) (\<lambda>_.
     and_then (address_is (pp_pump_program A) PUMP_PROGRAM_ID) (\<lambda>_.
     and_then (paymaster_opt_constraints rt pm (key (m_grok_account A)) (ga_root ga)) (\<lambda>_.
     and_then (fee_payer_not_agent (pp_fee_payer A) (m_agent A)) (\<lambda>_.
     Inr (ga, gr, pm))))))))))))"

definition pump_agent_not_fee_payer :: "pump_trade_infos \<Rightarrow> unit res" where
  "pump_agent_not_fee_payer A =
     (let fp = map_option key (pp_fee_payer A) in require_agent_not_fee_payer (key (m_agent A)) fp)"

section \<open>Handlers\<close>

definition pump_buy_handler ::
  "runtime \<Rightarrow> pump_trade_infos \<Rightarrow> grok_account \<Rightarrow> grant \<Rightarrow> (account_info \<times> paymaster) option \<Rightarrow> pump_buy_args
   \<Rightarrow> account_info list \<Rightarrow> chain \<Rightarrow> chain res" where
  "pump_buy_handler rt A ga gr pm args remaining c =
     and_then (require_pump_buy_amounts (pb_amount args) (pb_max_sol_cost args)) (\<lambda>_.
     and_then (precheck_sponsor (pb_sponsor_lamports args) pm (pp_fee_payer A)) (\<lambda>_.
     and_then (pump_agent_not_fee_payer A) (\<lambda>_.
     and_then (require_pump_program (key (pp_pump_program A))) (\<lambda>_.
     and_then (require_pump_account_count (length remaining) PUMP_BUY_V2_ACCOUNT_COUNT) (\<lambda>_.
     let vault = key (pp_spend_vault A); grok = key (m_grok_account A); user = remaining ! PUMP_USER_INDEX in
     case trader_pda rt grok of (trader, bump) \<Rightarrow>
     and_then (require_pump_trader_ready rt user c) (\<lambda>_.
     and_then (require_pump_user_not_vault (key user) vault) (\<lambda>_.
     and_then (require_pump_user_is_trader (key user) trader) (\<lambda>_.
     and_then (require_pump_trader_system_owned (owner_of c (key user))) (\<lambda>_.
     and_then (require_pump_program (key (remaining ! PUMP_PROGRAM_INDEX_BUY))) (\<lambda>_.
     and_then (validate_pump_pdas rt remaining trader True) (\<lambda>_.
     and_then (reject_paymaster_in_remaining remaining (map_option (\<lambda>(ai, _). key ai) pm)) (\<lambda>_.
     and_then (mouth_check_grant rt A (pb_max_sol_cost args) c) (\<lambda>c.
     let rent0 = min_balance rt PUMP_TRADER_SPACE in
     and_then (require_pump_trader_prefunded (lamports_of c (key user)) (pb_max_sol_cost args) rent0) (\<lambda>_.
     and_then (require (data_of c (key (remaining ! IDX_ASSOCIATED_BASE_USER)) \<noteq> [])
       (Pump PumpAtaCreateRequiresFeePayer)) (\<lambda>_.
     let bs = encode_pump_buy_v2 (pb_amount args) (pb_max_sol_cost args) in
     and_then (require_nonempty_pump_data bs) (\<lambda>_.
     and_then (build_pump_ix remaining trader bs) (\<lambda>ix.
     let trader_signer_seeds = [SEED_PUMP_TRADER, pubkey_bytes grok, [bump]] in
     and_then (invoke_signed rt ix remaining [trader_signer_seeds] c) (\<lambda>c.
     and_then (reimburse_sponsor rt (m_grant A) gr pm (pp_fee_payer A) (pb_sponsor_lamports args) c) (\<lambda>c.
     Inr (emit (Trader_event (PumpBought vault trader (key (remaining ! IDX_BASE_MINT)) (pb_amount args) (pb_max_sol_cost args)
       (key (m_agent A)) (key (m_grant A)) (gr_generation gr))) c))))))))))))))))))))"

definition pump_sell_handler ::
  "runtime \<Rightarrow> pump_trade_infos \<Rightarrow> grok_account \<Rightarrow> grant \<Rightarrow> (account_info \<times> paymaster) option \<Rightarrow> pump_sell_args
   \<Rightarrow> account_info list \<Rightarrow> chain \<Rightarrow> chain res" where
  "pump_sell_handler rt A ga gr pm args remaining c =
     and_then (require_pump_sell_amounts (ps_amount args) (ps_min_sol_output args)) (\<lambda>_.
     and_then (precheck_sponsor (ps_sponsor_lamports args) pm (pp_fee_payer A)) (\<lambda>_.
     and_then (pump_agent_not_fee_payer A) (\<lambda>_.
     and_then (require_pump_program (key (pp_pump_program A))) (\<lambda>_.
     and_then (require_pump_account_count (length remaining) PUMP_SELL_V2_ACCOUNT_COUNT) (\<lambda>_.
     let vault = key (pp_spend_vault A); grok = key (m_grok_account A); user = remaining ! PUMP_USER_INDEX in
     case trader_pda rt grok of (trader, bump) \<Rightarrow>
     and_then (require_pump_trader_ready rt user c) (\<lambda>_.
     and_then (require_pump_user_not_vault (key user) vault) (\<lambda>_.
     and_then (require_pump_user_is_trader (key user) trader) (\<lambda>_.
     and_then (require_pump_trader_system_owned (owner_of c (key user))) (\<lambda>_.
     and_then (require_pump_program (key (remaining ! PUMP_PROGRAM_INDEX_SELL))) (\<lambda>_.
     and_then (validate_pump_pdas rt remaining trader False) (\<lambda>_.
     and_then (reject_paymaster_in_remaining remaining (map_option (\<lambda>(ai, _). key ai) pm)) (\<lambda>_.
     and_then (mouth_check_grant rt A PUMP_SELL_CHECK_GRANT_AMOUNT c) (\<lambda>c.
     let bs = encode_pump_sell_v2 (ps_amount args) (ps_min_sol_output args) in
     and_then (require_nonempty_pump_data bs) (\<lambda>_.
     and_then (build_pump_ix remaining trader bs) (\<lambda>ix.
     let trader_signer_seeds = [SEED_PUMP_TRADER, pubkey_bytes grok, [bump]] in
     and_then (invoke_signed rt ix remaining [trader_signer_seeds] c) (\<lambda>c.
     and_then (reimburse_sponsor rt (m_grant A) gr pm (pp_fee_payer A) (ps_sponsor_lamports args) c) (\<lambda>c.
     Inr (emit (Trader_event (PumpSold vault trader (key (remaining ! IDX_BASE_MINT)) (ps_amount args) (ps_min_sol_output args)
       (key (m_agent A)) (key (m_grant A)) (gr_generation gr))) c))))))))))))))))))"

definition pump_create_handler ::
  "runtime \<Rightarrow> pump_trade_infos \<Rightarrow> grok_account \<Rightarrow> grant \<Rightarrow> (account_info \<times> paymaster) option \<Rightarrow> pump_create_args
   \<Rightarrow> account_info list \<Rightarrow> chain \<Rightarrow> chain res" where
  "pump_create_handler rt A ga gr pm args remaining c =
     and_then (require_pump_create_strings (pc_name args) (pc_symbol args) (pc_uri args)) (\<lambda>_.
     and_then (require_pump_create_amounts (pc_max_sol_cost args)) (\<lambda>_.
     and_then (precheck_sponsor (pc_sponsor_lamports args) pm (pp_fee_payer A)) (\<lambda>_.
     and_then (pump_agent_not_fee_payer A) (\<lambda>_.
     and_then (require_pump_program (key (pp_pump_program A))) (\<lambda>_.
     and_then (require_pump_create_account_count (length remaining)) (\<lambda>_.
     let vault = key (pp_spend_vault A); grok = key (m_grok_account A); user = remaining ! PUMP_CREATE_USER_INDEX in
     case trader_pda rt grok of (trader, bump) \<Rightarrow>
     and_then (require_pump_trader_ready rt user c) (\<lambda>_.
     and_then (require_pump_user_not_vault (key user) vault) (\<lambda>_.
     and_then (require_pump_user_is_trader (key user) trader) (\<lambda>_.
     and_then (require_pump_trader_system_owned (owner_of c (key user))) (\<lambda>_.
     and_then (require_pump_mint_is_signer (is_signer (remaining ! PUMP_CREATE_MINT_INDEX))) (\<lambda>_.
     and_then (require_pump_program (key (remaining ! PUMP_CREATE_PROGRAM_INDEX))) (\<lambda>_.
     and_then (validate_pump_create_pdas rt remaining) (\<lambda>_.
     and_then (reject_paymaster_in_remaining remaining (map_option (\<lambda>(ai, _). key ai) pm)) (\<lambda>_.
     and_then (mouth_check_grant rt A (pc_max_sol_cost args) c) (\<lambda>c.
     let rent0 = min_balance rt PUMP_TRADER_SPACE in
     and_then (require_pump_trader_prefunded (lamports_of c (key user)) (pc_max_sol_cost args) rent0) (\<lambda>_.
     let creator = ga_root ga;
         bs = encode_pump_create_v2 (pc_name args) (pc_symbol args) (pc_uri args) creator
                (pc_is_mayhem_mode args) (pc_is_cashback_enabled args) in
     and_then (require_nonempty_pump_create_data bs) (\<lambda>_.
     and_then (build_pump_create_ix remaining trader bs) (\<lambda>ix.
     let trader_signer_seeds = [SEED_PUMP_TRADER, pubkey_bytes grok, [bump]] in
     and_then (invoke_signed rt ix remaining [trader_signer_seeds] c) (\<lambda>c.
     and_then (reimburse_sponsor rt (m_grant A) gr pm (pp_fee_payer A) (pc_sponsor_lamports args) c) (\<lambda>c.
     Inr (emit (Trader_event (PumpCreated vault trader (key (remaining ! PUMP_CREATE_MINT_INDEX)) creator (pc_max_sol_cost args)
       (pc_is_mayhem_mode args) (pc_is_cashback_enabled args)
       (key (m_agent A)) (key (m_grant A)) (gr_generation gr))) c)))))))))))))))))))))"

text \<open>Only \<open>pump_create\<close> is an instruction of this build; the entry points of the other two are cut from
  \<open>lib.rs\<close>, their handlers are compiled.\<close>

definition pump_buy ::
  "runtime \<Rightarrow> pump_trade_infos \<Rightarrow> pump_buy_args \<Rightarrow> account_info list \<Rightarrow> chain \<Rightarrow> chain res" where
  "pump_buy rt A args remaining c =
     and_then (pump_trade_accounts rt A c) (\<lambda>(ga, gr, pm). pump_buy_handler rt A ga gr pm args remaining c)"

definition pump_sell ::
  "runtime \<Rightarrow> pump_trade_infos \<Rightarrow> pump_sell_args \<Rightarrow> account_info list \<Rightarrow> chain \<Rightarrow> chain res" where
  "pump_sell rt A args remaining c =
     and_then (pump_trade_accounts rt A c) (\<lambda>(ga, gr, pm). pump_sell_handler rt A ga gr pm args remaining c)"

definition pump_create ::
  "runtime \<Rightarrow> pump_trade_infos \<Rightarrow> pump_create_args \<Rightarrow> account_info list \<Rightarrow> chain \<Rightarrow> chain res" where
  "pump_create rt A args remaining c =
     and_then (pump_trade_accounts rt A c) (\<lambda>(ga, gr, pm). pump_create_handler rt A ga gr pm args remaining c)"

section \<open>What the builders make\<close>

lemma key_eq_Inr [res_simps]: "key_eq ai k = Inr u \<longleftrightarrow> key ai = k"
  by (simp add: key_eq_def require_eq_Inr)

text \<open>Every encoder passes the guard on its own output, so the guards never reject a handler.\<close>

lemma encoders_pass:
  "require_nonempty_pump_data (encode_pump_buy_v2 a m) = Inr ()"
  "require_nonempty_pump_data (encode_pump_sell_v2 a m) = Inr ()"
  "require_nonempty_pump_create_data (encode_pump_create_v2 n s u cr mayhem cashback) = Inr ()"
  by (simp_all add: require_nonempty_pump_data_def require_nonempty_pump_create_data_def res_simps
      encode_pump_buy_v2_def encode_pump_sell_v2_def encode_pump_create_v2_def encode_borsh_string_def
      PUMP_BUY_V2_DISC_def PUMP_SELL_V2_DISC_def PUMP_CREATE_V2_DISC_def PUMP_TRADE_IX_DATA_LEN_def
      PUMP_CREATE_V2_IX_DATA_MIN_def)

text \<open>
  The instruction passes on the client's accounts in order. The trader alone is given a
  signature, and besides it only a new mint that already signs may be made writable.
\<close>

definition passes_on :: "account_info list \<Rightarrow> nat \<Rightarrow> nat set \<Rightarrow> account_meta list \<Rightarrow> bool" where
  "passes_on remaining user forced ms \<longleftrightarrow>
     map meta_pubkey ms = map key remaining
     \<and> (\<forall>i < length remaining. i \<noteq> user \<longrightarrow> meta_signer (ms ! i) = is_signer (remaining ! i))
     \<and> (\<forall>i < length remaining. i \<noteq> user \<longrightarrow> i \<notin> forced \<longrightarrow>
          meta_writable (ms ! i) = is_writable (remaining ! i))"

lemma client_meta_simps [simp]:
  "meta_pubkey (client_meta a) = key a" "meta_signer (client_meta a) = is_signer a"
  "meta_writable (client_meta a) = is_writable a"
  by (simp_all add: client_meta_def meta_new_def meta_new_readonly_def)

lemma meta_new_simps [simp]:
  "meta_pubkey (meta_new k s) = k" "meta_signer (meta_new k s) = s" "meta_writable (meta_new k s)"
  by (simp_all add: meta_new_def)

lemma pump_metas_eq:
  "pump_metas trader i rs = Inr ms \<Longrightarrow>
   map meta_pubkey ms = map key rs
   \<and> (\<forall>j < length rs. i + j \<noteq> PUMP_USER_INDEX \<longrightarrow>
        meta_signer (ms ! j) = is_signer (rs ! j) \<and> meta_writable (ms ! j) = is_writable (rs ! j))"
proof (induction rs arbitrary: i ms)
  case (Cons a rs)
  then obtain m ns where ms: "ms = m # ns" and rest: "pump_metas trader (Suc i) rs = Inr ns"
    and m: "if i = PUMP_USER_INDEX then key a = trader \<and> m = meta_new trader True else m = client_meta a"
    by (auto simp: and_then_eq_Inr require_eq_Inr split: if_splits)
  note IH = Cons.IH [OF rest]
  have "meta_signer (ms ! j) = is_signer ((a # rs) ! j) \<and> meta_writable (ms ! j) = is_writable ((a # rs) ! j)"
    if "j < length (a # rs)" "i + j \<noteq> PUMP_USER_INDEX" for j
    using that IH m by (cases j) (auto simp: ms)
  then show ?case
    using IH m by (auto simp: ms split: if_splits)
qed simp

lemma pump_create_metas_eq:
  "pump_create_metas trader i rs = Inr ms \<Longrightarrow>
   map meta_pubkey ms = map key rs
   \<and> (\<forall>j < length rs. i + j \<noteq> PUMP_CREATE_USER_INDEX \<longrightarrow> meta_signer (ms ! j) = is_signer (rs ! j)
        \<and> (i + j \<noteq> PUMP_CREATE_MINT_INDEX \<longrightarrow> meta_writable (ms ! j) = is_writable (rs ! j)))"
proof (induction rs arbitrary: i ms)
  case (Cons a rs)
  then obtain m ns where ms: "ms = m # ns" and rest: "pump_create_metas trader (Suc i) rs = Inr ns"
    and m: "if i = PUMP_CREATE_MINT_INDEX then is_signer a \<and> m = meta_new (key a) True
      else if i = PUMP_CREATE_USER_INDEX then key a = trader \<and> m = meta_new trader True
      else m = client_meta a"
    by (auto simp: and_then_eq_Inr require_eq_Inr split: if_splits)
  note IH = Cons.IH [OF rest]
  have "meta_signer (ms ! j) = is_signer ((a # rs) ! j)
      \<and> (i + j \<noteq> PUMP_CREATE_MINT_INDEX \<longrightarrow> meta_writable (ms ! j) = is_writable ((a # rs) ! j))"
    if "j < length (a # rs)" "i + j \<noteq> PUMP_CREATE_USER_INDEX" for j
    using that IH m by (cases j) (auto simp: ms split: if_splits)
  then show ?case
    using IH m by (auto simp: ms split: if_splits)
qed simp

lemma build_pump_ix_eq_Inr:
  "build_pump_ix rs trader bs = Inr ix \<Longrightarrow>
   ix_program_id ix = PUMP_PROGRAM_ID \<and> ix_data ix = bs
   \<and> passes_on rs PUMP_USER_INDEX {} (ix_accounts ix)"
  by (auto simp: build_pump_ix_def passes_on_def and_then_eq_Inr dest: pump_metas_eq)

lemma build_pump_create_ix_eq_Inr:
  "build_pump_create_ix rs trader bs = Inr ix \<Longrightarrow>
   ix_program_id ix = PUMP_PROGRAM_ID \<and> ix_data ix = bs
   \<and> passes_on rs PUMP_CREATE_USER_INDEX {PUMP_CREATE_MINT_INDEX} (ix_accounts ix)"
  by (auto simp: build_pump_create_ix_def passes_on_def and_then_eq_Inr dest: pump_create_metas_eq)

lemma pump_metas_total:
  "(\<And>j. j < length rs \<Longrightarrow> i + j = PUMP_USER_INDEX \<Longrightarrow> key (rs ! j) = trader) \<Longrightarrow>
   \<exists>ms. pump_metas trader i rs = Inr ms"
proof (induction rs arbitrary: i)
  case (Cons a rs)
  have "\<exists>ns. pump_metas trader (Suc i) rs = Inr ns"
    using Cons.prems [of "Suc _"] by (intro Cons.IH) simp
  with Cons.prems [of 0] show ?case
    by (auto simp: require_def)
qed simp

lemma pump_create_metas_total:
  "(\<And>j. j < length rs \<Longrightarrow> i + j = PUMP_CREATE_MINT_INDEX \<Longrightarrow> is_signer (rs ! j)) \<Longrightarrow>
   (\<And>j. j < length rs \<Longrightarrow> i + j = PUMP_CREATE_USER_INDEX \<Longrightarrow> key (rs ! j) = trader) \<Longrightarrow>
   \<exists>ms. pump_create_metas trader i rs = Inr ms"
proof (induction rs arbitrary: i)
  case (Cons a rs)
  have "\<exists>ns. pump_create_metas trader (Suc i) rs = Inr ns"
    using Cons.prems(1) [of "Suc _"] Cons.prems(2) [of "Suc _"] by (intro Cons.IH) simp_all
  with Cons.prems(1) [of 0] Cons.prems(2) [of 0] show ?case
    by (auto simp: require_def)
qed simp

section \<open>The official addresses\<close>

text \<open>
  What the two validators accept, slot by slot: the accounts the official instructions of pump.fun
  expect, each at the address its program derives it at, or the program itself.
\<close>

definition derived :: "runtime \<Rightarrow> pubkey \<Rightarrow> seeds \<Rightarrow> pubkey \<Rightarrow> bool" where
  "derived rt pid ss k \<longleftrightarrow> fst (find_program_address rt ss pid) = k"

definition associated :: "runtime \<Rightarrow> pubkey \<Rightarrow> pubkey \<Rightarrow> pubkey \<Rightarrow> pubkey \<Rightarrow> bool" where
  "associated rt wallet token_program mint k \<longleftrightarrow>
     derived rt ASSOCIATED_TOKEN_PROGRAM_ID [pubkey_bytes wallet, pubkey_bytes token_program, pubkey_bytes mint] k"

definition pump_official :: "runtime \<Rightarrow> account_info list \<Rightarrow> pubkey \<Rightarrow> bool \<Rightarrow> bool" where
  "pump_official rt remaining trader is_buy \<longleftrightarrow>
     (let slot = (\<lambda>i. key (remaining ! i)); mint = slot 1; token_program = slot 3;
          volume = slot (if is_buy then 20 else 19); events = slot (if is_buy then 25 else 24) in
      derived rt PUMP_PROGRAM_ID [ascii ''global''] (slot 0)
      \<and> token_program \<in> {TOKEN_PROGRAM_ID, TOKEN_2022_PROGRAM_ID}
      \<and> derived rt PUMP_PROGRAM_ID [ascii ''bonding-curve'', pubkey_bytes mint] (slot 10)
      \<and> associated rt trader token_program mint (slot 14)
      \<and> derived rt PUMP_PROGRAM_ID [ascii ''user_volume_accumulator'', pubkey_bytes trader] volume
      \<and> derived rt PUMP_PROGRAM_ID [ascii ''__event_authority''] events)"

definition pump_create_official :: "runtime \<Rightarrow> account_info list \<Rightarrow> bool" where
  "pump_create_official rt remaining \<longleftrightarrow>
     (let slot = (\<lambda>i. key (remaining ! i)); mint = slot 0; curve = slot 2; sol_vault = slot 11 in
      derived rt PUMP_PROGRAM_ID [ascii ''mint-authority''] (slot 1)
      \<and> derived rt PUMP_PROGRAM_ID [ascii ''bonding-curve'', pubkey_bytes mint] curve
      \<and> associated rt curve TOKEN_2022_PROGRAM_ID mint (slot 3)
      \<and> derived rt PUMP_PROGRAM_ID [ascii ''global''] (slot 4)
      \<and> slot 6 = SYSTEM_PROGRAM_ID \<and> slot 7 = TOKEN_2022_PROGRAM_ID
      \<and> slot 8 = ASSOCIATED_TOKEN_PROGRAM_ID \<and> slot 9 = MAYHEM_PROGRAM_ID
      \<and> derived rt MAYHEM_PROGRAM_ID [ascii ''global-params''] (slot 10)
      \<and> derived rt MAYHEM_PROGRAM_ID [ascii ''sol-vault''] sol_vault
      \<and> derived rt MAYHEM_PROGRAM_ID [ascii ''mayhem-state'', pubkey_bytes mint] (slot 12)
      \<and> associated rt sol_vault TOKEN_2022_PROGRAM_ID mint (slot 13)
      \<and> derived rt PUMP_PROGRAM_ID [ascii ''__event_authority''] (slot 14))"

lemma validate_pump_official:
  assumes "validate_pump_pdas rt remaining trader is_buy = Inr u"
  shows "pump_official rt remaining trader is_buy"
  using assms
  by (auto simp: validate_pump_pdas_def pump_official_def derived_def associated_def pda_def and_then_eq_Inr
      require_eq_Inr key_eq_Inr Let_def IDX_GLOBAL_def IDX_BASE_MINT_def IDX_BASE_TOKEN_PROGRAM_def IDX_BONDING_CURVE_def
      IDX_ASSOCIATED_BASE_USER_def IDX_USER_VOLUME_ACCUMULATOR_BUY_def IDX_USER_VOLUME_ACCUMULATOR_SELL_def
      IDX_EVENT_AUTHORITY_BUY_def IDX_EVENT_AUTHORITY_SELL_def)

lemma validate_pump_create_official:
  assumes "validate_pump_create_pdas rt remaining = Inr u"
  shows "pump_create_official rt remaining"
  using assms
  by (simp add: validate_pump_create_pdas_def pump_create_official_def derived_def associated_def pda_def and_then_eq_Inr
      require_eq_Inr key_eq_Inr Let_def PUMP_CREATE_MINT_INDEX_def IDX_CREATE_MINT_AUTHORITY_def
      IDX_CREATE_BONDING_CURVE_def IDX_CREATE_ASSOCIATED_BONDING_CURVE_def IDX_CREATE_GLOBAL_def
      IDX_CREATE_SYSTEM_def IDX_CREATE_TOKEN_PROGRAM_def IDX_CREATE_ATA_PROGRAM_def IDX_CREATE_MAYHEM_PROGRAM_def
      IDX_CREATE_GLOBAL_PARAMS_def IDX_CREATE_SOL_VAULT_def IDX_CREATE_MAYHEM_STATE_def
      IDX_CREATE_MAYHEM_TOKEN_VAULT_def IDX_CREATE_EVENT_AUTHORITY_def)

section \<open>What a trade does\<close>

definition pump_called ::
  "runtime \<Rightarrow> pump_trade_infos \<Rightarrow> account_info list \<Rightarrow> nat \<Rightarrow> nat set \<Rightarrow> byte list \<Rightarrow> u64 \<Rightarrow> u64 \<Rightarrow> chain \<Rightarrow> chain \<Rightarrow> bool"
where
  "pump_called rt A remaining user forced bs amount sponsor c d \<longleftrightarrow>
     is_signer (m_agent A) \<and> map_option key (pp_fee_payer A) \<noteq> Some (key (m_agent A))
     \<and> require_pump_trader_ready rt (remaining ! user) c = Inr ()
     \<and> (\<forall>a \<in> set remaining. Some (key a) \<noteq> map_option key (pp_paymaster A))
     \<and> (\<exists>c1 ix bump c2.
          core_step rt (key (m_grant A)) amount c c1
          \<and> trader_pda rt (key (m_grok_account A)) = (key (remaining ! user), bump)
          \<and> ix_program_id ix = PUMP_PROGRAM_ID \<and> ix_data ix = bs
          \<and> passes_on remaining user forced (ix_accounts ix)
          \<and> invoke_signed rt ix remaining
               [[SEED_PUMP_TRADER, pubkey_bytes (key (m_grok_account A)), [bump]]] c1 = Inr c2)
     \<and> kept (charge_to (map_option key (pp_paymaster A)) sponsor) c d"

lemma pump_ids [simp]: "PUMP_PROGRAM_ID \<noteq> INTENTS_ID"
  by (simp add: key_simps)

lemma pump_trade_accountsD:
  assumes "pump_trade_accounts rt A c = Inr (ga, gr, pm)"
  shows "load_paymaster_opt c (pp_paymaster A) = Inr pm" and "is_signer (m_agent A)"
    and "mouth_load rt A c = Inr (ga, gr)"
    and "map_option key (pp_fee_payer A) \<noteq> Some (key (m_agent A))"
  using assms
  by (auto simp: pump_trade_accounts_def mouth_load_eq_Inr fee_payer_not_agent_def and_then_eq_Inr
      require_eq_Inr split: option.splits)

lemma pump_calledI:
  assumes hyps: "core_meters rt" "foreign_frame rt" and acc: "pump_trade_accounts rt A c = Inr (ga, gr, pm)"
    and "trader_pda rt (key (m_grok_account A)) = (key (remaining ! user), bump)"
    and "require_pump_trader_ready rt (remaining ! user) c = Inr ()"
    and rej: "reject_paymaster_in_remaining remaining (map_option (\<lambda>(ai, _). key ai) pm) = Inr ()"
    and 1: "mouth_check_grant rt A amount c = Inr c1"
    and ix: "ix_program_id ix = PUMP_PROGRAM_ID \<and> ix_data ix = bs \<and> passes_on remaining user forced (ix_accounts ix)"
    and 2: "invoke_signed rt ix remaining
      [[SEED_PUMP_TRADER, pubkey_bytes (key (m_grok_account A)), [bump]]] c1 = Inr c2"
    and 3: "reimburse_sponsor rt (m_grant A) gr pm (pp_fee_payer A) sponsor c2 = Inr c3"
    and d: "d = emit e c3"
  shows "pump_called rt A remaining user forced bs amount sponsor c d"
proof -
  note A = pump_trade_accountsD [OF acc]
  have "kept no_charge c c1"
    by (rule kept_check_grant [OF hyps(2) 1])
  also have "kept no_charge c1 c2"
    by (rule kept_foreign [OF hyps(2) 2]) (simp add: ix)
  also note sponsor_custody.keeps [OF 3, unfolded sponsor_charge [OF A(1)]]
  finally have "kept (charge_to (map_option key (pp_paymaster A)) sponsor) c d"
    by (simp add: d)
  moreover have "core_step rt (key (m_grant A)) amount c c1"
    by (rule check_grant_step(1) [OF 1 [unfolded mouth_check_grant_def] hyps(1)])
  moreover have "\<forall>a \<in> set remaining. Some (key a) \<noteq> map_option key (pp_paymaster A)"
    using rej unfolding paymaster_keys [OF A(1)] by (simp add: remaining_checks_eq_Inr)
  ultimately show ?thesis
    using assms(4,5) ix 2 A(2,4) unfolding pump_called_def by blast
qed

lemmas handler_steps = Let_def prod.case and_then_eq_Inr ex_simps simp_thms sum.inject

lemma pump_buy_runs:
  assumes hyps: "core_meters rt" "foreign_frame rt" and acc: "pump_trade_accounts rt A c = Inr (ga, gr, pm)"
    and run: "pump_buy_handler rt A ga gr pm args remaining c = Inr d"
  shows "pump_called rt A remaining PUMP_USER_INDEX {} (encode_pump_buy_v2 (pb_amount args) (pb_max_sol_cost args))
      (pb_max_sol_cost args) (pb_sponsor_lamports args) c d
    \<and> length remaining = PUMP_BUY_V2_ACCOUNT_COUNT \<and> 0 < pb_amount args \<and> 0 < pb_max_sol_cost args
    \<and> unat (pb_max_sol_cost args) + unat (min_balance rt PUMP_TRADER_SPACE)
        \<le> unat (lamports_of c (key (remaining ! PUMP_USER_INDEX)))
    \<and> pump_official rt remaining (key (remaining ! PUMP_USER_INDEX)) True"
proof -
  let ?user = "remaining ! PUMP_USER_INDEX"
  obtain trader bump where pda: "trader_pda rt (key (m_grok_account A)) = (trader, bump)"
    by fastforce
  obtain c1 ix c2 c3 where amounts: "require_pump_buy_amounts (pb_amount args) (pb_max_sol_cost args) = Inr ()"
    and count: "require_pump_account_count (length remaining) PUMP_BUY_V2_ACCOUNT_COUNT = Inr ()"
    and ready: "require_pump_trader_ready rt ?user c = Inr ()"
    and user: "require_pump_user_is_trader (key ?user) trader = Inr ()"
    and pdas: "validate_pump_pdas rt remaining trader True = Inr ()"
    and rej: "reject_paymaster_in_remaining remaining (map_option (\<lambda>(ai, _). key ai) pm) = Inr ()"
    and 1: "mouth_check_grant rt A (pb_max_sol_cost args) c = Inr c1"
    and funds: "require_pump_trader_prefunded (lamports_of c1 (key ?user)) (pb_max_sol_cost args)
      (min_balance rt PUMP_TRADER_SPACE) = Inr ()"
    and ix: "build_pump_ix remaining trader (encode_pump_buy_v2 (pb_amount args) (pb_max_sol_cost args)) = Inr ix"
    and 2: "invoke_signed rt ix remaining
      [[SEED_PUMP_TRADER, pubkey_bytes (key (m_grok_account A)), [bump]]] c1 = Inr c2"
    and 3: "reimburse_sponsor rt (m_grant A) gr pm (pp_fee_payer A) (pb_sponsor_lamports args) c2 = Inr c3"
    and d: "d = emit (Trader_event (PumpBought (key (pp_spend_vault A)) trader (key (remaining ! IDX_BASE_MINT))
      (pb_amount args) (pb_max_sol_cost args) (key (m_agent A)) (key (m_grant A)) (gr_generation gr))) c3"
    using run
    apply (simp only: pump_buy_handler_def pda handler_steps)
    apply (elim exE conjE, hypsubst)
    apply (rule that, (assumption | erule Inr_unit | rule refl)+)
    done
  have t: "trader = key ?user"
    using user by (simp add: policy_ok)
  have "lamports_of c1 k = lamports_of c k" for k
    using core_stepD(1) [OF check_grant_step(1) [OF 1 [unfolded mouth_check_grant_def] hyps(1)]] .
  with funds have "unat (pb_max_sol_cost args) + unat (min_balance rt PUMP_TRADER_SPACE)
      \<le> unat (lamports_of c (key ?user))"
    by (simp add: prefunded_ok)
  moreover have "pump_called rt A remaining PUMP_USER_INDEX {} (encode_pump_buy_v2 (pb_amount args)
      (pb_max_sol_cost args)) (pb_max_sol_cost args) (pb_sponsor_lamports args) c d"
    by (rule pump_calledI [OF hyps acc pda [unfolded t] ready rej 1 build_pump_ix_eq_Inr [OF ix] 2 3 d])
  moreover have "length remaining = PUMP_BUY_V2_ACCOUNT_COUNT \<and> 0 < pb_amount args \<and> 0 < pb_max_sol_cost args"
    using count amounts by (simp add: require_pump_account_count_def require_pump_buy_amounts_def res_simps)
  ultimately show ?thesis
    using validate_pump_official [OF pdas] by (simp add: t)
qed

lemma pump_sell_runs:
  assumes hyps: "core_meters rt" "foreign_frame rt" and acc: "pump_trade_accounts rt A c = Inr (ga, gr, pm)"
    and run: "pump_sell_handler rt A ga gr pm args remaining c = Inr d"
  shows "pump_called rt A remaining PUMP_USER_INDEX {} (encode_pump_sell_v2 (ps_amount args) (ps_min_sol_output args))
      0 (ps_sponsor_lamports args) c d
    \<and> length remaining = PUMP_SELL_V2_ACCOUNT_COUNT \<and> 0 < ps_amount args
    \<and> pump_official rt remaining (key (remaining ! PUMP_USER_INDEX)) False"
proof -
  let ?user = "remaining ! PUMP_USER_INDEX"
  obtain trader bump where pda: "trader_pda rt (key (m_grok_account A)) = (trader, bump)"
    by fastforce
  obtain c1 ix c2 c3 where amounts: "require_pump_sell_amounts (ps_amount args) (ps_min_sol_output args) = Inr ()"
    and count: "require_pump_account_count (length remaining) PUMP_SELL_V2_ACCOUNT_COUNT = Inr ()"
    and ready: "require_pump_trader_ready rt ?user c = Inr ()"
    and user: "require_pump_user_is_trader (key ?user) trader = Inr ()"
    and pdas: "validate_pump_pdas rt remaining trader False = Inr ()"
    and rej: "reject_paymaster_in_remaining remaining (map_option (\<lambda>(ai, _). key ai) pm) = Inr ()"
    and 1: "mouth_check_grant rt A PUMP_SELL_CHECK_GRANT_AMOUNT c = Inr c1"
    and ix: "build_pump_ix remaining trader (encode_pump_sell_v2 (ps_amount args) (ps_min_sol_output args)) = Inr ix"
    and 2: "invoke_signed rt ix remaining
      [[SEED_PUMP_TRADER, pubkey_bytes (key (m_grok_account A)), [bump]]] c1 = Inr c2"
    and 3: "reimburse_sponsor rt (m_grant A) gr pm (pp_fee_payer A) (ps_sponsor_lamports args) c2 = Inr c3"
    and d: "d = emit (Trader_event (PumpSold (key (pp_spend_vault A)) trader (key (remaining ! IDX_BASE_MINT))
      (ps_amount args) (ps_min_sol_output args) (key (m_agent A)) (key (m_grant A)) (gr_generation gr))) c3"
    using run
    apply (simp only: pump_sell_handler_def pda handler_steps)
    apply (elim exE conjE, hypsubst)
    apply (rule that, (assumption | erule Inr_unit | rule refl)+)
    done
  have t: "trader = key ?user"
    using user by (simp add: policy_ok)
  have "pump_called rt A remaining PUMP_USER_INDEX {} (encode_pump_sell_v2 (ps_amount args)
      (ps_min_sol_output args)) PUMP_SELL_CHECK_GRANT_AMOUNT (ps_sponsor_lamports args) c d"
    by (rule pump_calledI [OF hyps acc pda [unfolded t] ready rej 1 build_pump_ix_eq_Inr [OF ix] 2 3 d])
  moreover have "length remaining = PUMP_SELL_V2_ACCOUNT_COUNT \<and> 0 < ps_amount args"
    using count amounts by (simp add: require_pump_account_count_def require_pump_sell_amounts_def res_simps)
  ultimately show ?thesis
    using validate_pump_official [OF pdas] by (simp add: t PUMP_SELL_CHECK_GRANT_AMOUNT_def)
qed

lemma pump_create_runs:
  assumes hyps: "core_meters rt" "foreign_frame rt" and acc: "pump_trade_accounts rt A c = Inr (ga, gr, pm)"
    and run: "pump_create_handler rt A ga gr pm args remaining c = Inr d"
  shows "pump_called rt A remaining PUMP_CREATE_USER_INDEX {PUMP_CREATE_MINT_INDEX}
      (encode_pump_create_v2 (pc_name args) (pc_symbol args) (pc_uri args) (ga_root ga)
        (pc_is_mayhem_mode args) (pc_is_cashback_enabled args))
      (pc_max_sol_cost args) (pc_sponsor_lamports args) c d
    \<and> is_signer (remaining ! PUMP_CREATE_MINT_INDEX)
    \<and> length (pc_name args) \<le> PUMP_CREATE_NAME_MAX \<and> length (pc_symbol args) \<le> PUMP_CREATE_SYMBOL_MAX
    \<and> length (pc_uri args) \<le> PUMP_CREATE_URI_MAX
    \<and> unat (pc_max_sol_cost args) + unat (min_balance rt PUMP_TRADER_SPACE)
        \<le> unat (lamports_of c (key (remaining ! PUMP_CREATE_USER_INDEX)))
    \<and> length remaining \<in> {PUMP_CREATE_V2_ACCOUNT_COUNT, PUMP_CREATE_V2_ACCOUNT_COUNT_WITH_QUOTE}
    \<and> pump_create_official rt remaining"
proof -
  let ?user = "remaining ! PUMP_CREATE_USER_INDEX"
  obtain trader bump where pda: "trader_pda rt (key (m_grok_account A)) = (trader, bump)"
    by fastforce
  obtain c1 ix c2 c3 where count: "require_pump_create_account_count (length remaining) = Inr ()"
    and strings: "require_pump_create_strings (pc_name args) (pc_symbol args) (pc_uri args) = Inr ()"
    and ready: "require_pump_trader_ready rt ?user c = Inr ()"
    and user: "require_pump_user_is_trader (key ?user) trader = Inr ()"
    and mint: "require_pump_mint_is_signer (is_signer (remaining ! PUMP_CREATE_MINT_INDEX)) = Inr ()"
    and pdas: "validate_pump_create_pdas rt remaining = Inr ()"
    and rej: "reject_paymaster_in_remaining remaining (map_option (\<lambda>(ai, _). key ai) pm) = Inr ()"
    and 1: "mouth_check_grant rt A (pc_max_sol_cost args) c = Inr c1"
    and funds: "require_pump_trader_prefunded (lamports_of c1 (key ?user)) (pc_max_sol_cost args)
      (min_balance rt PUMP_TRADER_SPACE) = Inr ()"
    and ix: "build_pump_create_ix remaining trader (encode_pump_create_v2 (pc_name args) (pc_symbol args)
      (pc_uri args) (ga_root ga) (pc_is_mayhem_mode args) (pc_is_cashback_enabled args)) = Inr ix"
    and 2: "invoke_signed rt ix remaining
      [[SEED_PUMP_TRADER, pubkey_bytes (key (m_grok_account A)), [bump]]] c1 = Inr c2"
    and 3: "reimburse_sponsor rt (m_grant A) gr pm (pp_fee_payer A) (pc_sponsor_lamports args) c2 = Inr c3"
    and d: "d = emit (Trader_event (PumpCreated (key (pp_spend_vault A)) trader
      (key (remaining ! PUMP_CREATE_MINT_INDEX)) (ga_root ga) (pc_max_sol_cost args) (pc_is_mayhem_mode args)
      (pc_is_cashback_enabled args) (key (m_agent A)) (key (m_grant A)) (gr_generation gr))) c3"
    using run
    apply (simp only: pump_create_handler_def pda handler_steps)
    apply (elim exE conjE, hypsubst)
    apply (rule that, (assumption | erule Inr_unit | rule refl)+)
    done
  have t: "trader = key ?user"
    using user by (simp add: policy_ok)
  have "lamports_of c1 k = lamports_of c k" for k
    using core_stepD(1) [OF check_grant_step(1) [OF 1 [unfolded mouth_check_grant_def] hyps(1)]] .
  with funds have "unat (pc_max_sol_cost args) + unat (min_balance rt PUMP_TRADER_SPACE)
      \<le> unat (lamports_of c (key ?user))"
    by (simp add: prefunded_ok)
  moreover note pump_calledI [OF hyps acc pda [unfolded t] ready rej 1 build_pump_create_ix_eq_Inr [OF ix] 2 3 d]
  moreover have "is_signer (remaining ! PUMP_CREATE_MINT_INDEX)"
    using mint by (simp add: require_pump_mint_is_signer_def res_simps)
  ultimately show ?thesis
    using validate_pump_create_official [OF pdas] strings count by (simp add: require_pump_create_account_count_def require_pump_create_strings_def and_then_eq_Inr require_eq_Inr)
qed

section \<open>Properties\<close>

text \<open>C38: A buy or a sale on pump.fun sends exactly the official instruction: the data are built from
  the typed amounts and never the client's bytes, the only account that gains a signature is
  the canonical trader in its slot, every other account keeps the client's privileges, and the
  addresses are the official ones (\<open>pump_official\<close>): the global account, the bonding curve of the mint,
  the trader's volume accumulator and the event authority as pump.fun derives them, one of the two
  token programs, and the trader's associated token account for it and the mint.
  A buy is metered by its maximal cost, which the trader held on top of its rent; a sale meters
  nothing. Whatever pump.fun does, the accounts of this program keep their data and their
  lamports, but for the sponsor share of the paymaster.\<close>

theorem pump_trade_effect:
  assumes "core_meters rt" and "foreign_frame rt"
  shows "(pump_buy rt A bargs remaining c = Inr d \<longrightarrow>
      pump_called rt A remaining PUMP_USER_INDEX {}
        (PUMP_BUY_V2_DISC @ word_bytes (pb_amount bargs) @ word_bytes (pb_max_sol_cost bargs))
        (pb_max_sol_cost bargs) (pb_sponsor_lamports bargs) c d
      \<and> length remaining = PUMP_BUY_V2_ACCOUNT_COUNT \<and> 0 < pb_amount bargs \<and> 0 < pb_max_sol_cost bargs
      \<and> unat (pb_max_sol_cost bargs) + unat (min_balance rt PUMP_TRADER_SPACE)
          \<le> unat (lamports_of c (key (remaining ! PUMP_USER_INDEX)))
      \<and> pump_official rt remaining (key (remaining ! PUMP_USER_INDEX)) True)
    \<and> (pump_sell rt A sargs remaining c = Inr d \<longrightarrow>
      pump_called rt A remaining PUMP_USER_INDEX {}
        (PUMP_SELL_V2_DISC @ word_bytes (ps_amount sargs) @ word_bytes (ps_min_sol_output sargs))
        0 (ps_sponsor_lamports sargs) c d
      \<and> length remaining = PUMP_SELL_V2_ACCOUNT_COUNT \<and> 0 < ps_amount sargs
      \<and> pump_official rt remaining (key (remaining ! PUMP_USER_INDEX)) False)"
  unfolding pump_buy_def pump_sell_def and_then_eq_Inr
  using pump_buy_runs [OF assms] pump_sell_runs [OF assms]
  by (fastforce simp: encode_pump_buy_v2_def encode_pump_sell_v2_def)

text \<open>C39: A launch records the root of the GrokAccount as creator, whoever the agent is: the official
  instruction carries the given strings, within their limits, the root and the two flags; the
  mint had already signed, the trader alone gains a signature, the grant is metered by the
  maximal cost, which the trader held on top of its rent. The thirteen official addresses of a launch
  are checked (\<open>pump_create_official\<close>): what pump.fun derives (mint authority, bonding curve, global
  account, event authority), what the Mayhem program derives (parameters, SOL vault, state of the
  mint), the associated token accounts of curve and vault, and the programs themselves. The
  accounts of this program keep their data and their lamports, but for the sponsor share.\<close>

theorem pump_create_effect:
  assumes "core_meters rt" and "foreign_frame rt" and "pump_create rt A args remaining c = Inr d"
  shows "\<exists>ga. load_grok_account rt c (key (m_grok_account A)) = Inr ga
    \<and> pump_called rt A remaining PUMP_CREATE_USER_INDEX {PUMP_CREATE_MINT_INDEX}
        (PUMP_CREATE_V2_DISC @ encode_borsh_string (pc_name args) @ encode_borsh_string (pc_symbol args)
          @ encode_borsh_string (pc_uri args) @ pubkey_bytes (ga_root ga)
          @ [bool_byte (pc_is_mayhem_mode args), bool_byte (pc_is_cashback_enabled args)])
        (pc_max_sol_cost args) (pc_sponsor_lamports args) c d
    \<and> is_signer (remaining ! PUMP_CREATE_MINT_INDEX)
    \<and> length (pc_name args) \<le> PUMP_CREATE_NAME_MAX \<and> length (pc_symbol args) \<le> PUMP_CREATE_SYMBOL_MAX
    \<and> length (pc_uri args) \<le> PUMP_CREATE_URI_MAX
    \<and> unat (pc_max_sol_cost args) + unat (min_balance rt PUMP_TRADER_SPACE)
        \<le> unat (lamports_of c (key (remaining ! PUMP_CREATE_USER_INDEX)))
    \<and> length remaining \<in> {PUMP_CREATE_V2_ACCOUNT_COUNT, PUMP_CREATE_V2_ACCOUNT_COUNT_WITH_QUOTE}
    \<and> pump_create_official rt remaining"
proof -
  obtain ga gr pm where acc: "pump_trade_accounts rt A c = Inr (ga, gr, pm)"
    and h: "pump_create_handler rt A ga gr pm args remaining c = Inr d"
    using assms(3) by (auto simp: pump_create_def and_then_eq_Inr)
  from pump_create_runs [OF assms(1,2) acc h] pump_trade_accountsD(3) [OF acc] show ?thesis
    by (intro exI [of _ ga]) (simp add: encode_pump_create_v2_def mouth_load_eq_Inr)
qed

section \<open>Witnesses\<close>

definition demo_pump_chain :: chain where
  "demo_pump_chain = demo_chain\<lparr>accts := (accts demo_chain)
     (k_trader := demo_account 5000 SYSTEM_PROGRAM_ID [],
      k_fee_vault := demo_account 200 TOKEN_2022_PROGRAM_ID (demo_holding 50 k_trader 20),
      PUMP_PROGRAM_ID := demo_program)\<rparr>"

lemma demo_pump_ids [simp]:
  "PUMP_PROGRAM_ID \<notin> {k_trader, k_fee_vault, k_vault, k_grant, k_grok, CORE_ID, SYSTEM_PROGRAM_ID}"
  "SYSTEM_PROGRAM_ID \<notin> {k_trader, k_fee_vault, PUMP_PROGRAM_ID}"
  "CORE_ID \<notin> {k_trader, k_fee_vault, PUMP_PROGRAM_ID}"
  by (simp_all add: key_simps)

lemma demo_pump_accts [simp]:
  "accts demo_pump_chain k_trader = demo_account 5000 SYSTEM_PROGRAM_ID []"
  "accts demo_pump_chain k_fee_vault = demo_account 200 TOKEN_2022_PROGRAM_ID (demo_holding 50 k_trader 20)"
  "accts demo_pump_chain PUMP_PROGRAM_ID = demo_program"
  "accts demo_pump_chain SYSTEM_PROGRAM_ID = demo_program"
  "accts demo_pump_chain CORE_ID = demo_program"
  "accts demo_pump_chain k_vault = accts demo_chain k_vault"
  "accts demo_pump_chain k_grant = accts demo_chain k_grant"
  "accts demo_pump_chain k_grok = accts demo_chain k_grok"
  using demo_pump_ids by (auto simp: demo_pump_chain_def)

lemma demo_pump_loads [simp]:
  "load_spend_vault demo_pump_chain k_vault = Inr demo_vault"
  "load_grant demo_rt demo_pump_chain k_grant = Inr (demo_grant 400)"
  "load_grok_account demo_rt demo_pump_chain k_grok = Inr \<lparr>ga_root = k_root, ga_bump = 255\<rparr>"
  by (simp_all add: load_grant_def load_grok_account_def res_simps owner_of_def data_of_def
      sv_account.deserialize_iff demo_decode_grant_def)

lemma demo_pda_key [simp]: "demo_pda (pubkey_bytes k # ss) = k_fee_vault"
proof -
  have "pubkey_bytes k \<noteq> s" if "length s \<noteq> 32" for s
    using that by (metis length_pubkey_bytes)
  then show ?thesis
    by (simp add: demo_pda_def seed_defs)
qed

lemma demo_pda_pump [simp]:
  "demo_pda (ascii ''global'' # ss) = k_fee_vault" "demo_pda (ascii ''bonding-curve'' # ss) = k_fee_vault"
  "demo_pda (ascii ''user_volume_accumulator'' # ss) = k_fee_vault"
  "demo_pda (ascii ''__event_authority'' # ss) = k_fee_vault"
  "demo_pda (ascii ''mint-authority'' # ss) = k_fee_vault" "demo_pda (ascii ''global-params'' # ss) = k_fee_vault"
  "demo_pda (ascii ''sol-vault'' # ss) = k_fee_vault" "demo_pda (ascii ''mayhem-state'' # ss) = k_fee_vault"
  by (simp_all add: demo_pda_def seed_defs)

definition demo_pump_infos :: pump_trade_infos where
  "demo_pump_infos =
     \<lparr>m_agent = info k_agent True False, m_grok_account = info k_grok False False,
      m_grant = info k_grant False True, m_core_program = info CORE_ID False False,
      m_intents_program = info INTENTS_ID False False,
      pp_spend_vault = info k_vault False True, pp_system_program = info SYSTEM_PROGRAM_ID False False,
      pp_pump_program = info PUMP_PROGRAM_ID False False,
      pp_paymaster = None, pp_fee_payer = None\<rparr>"

lemma demo_pump_accounts:
  "pump_trade_accounts demo_rt demo_pump_infos demo_pump_chain
     = Inr (\<lparr>ga_root = k_root, ga_bump = 255\<rparr>, demo_grant 400, None)"
  by (simp add: pump_trade_accounts_def demo_pump_infos_def payment_defs fee_payer_not_agent_def
      constraint_def demo_vault_def demo_grant_def)

definition demo_buy_remaining :: "account_info list" where
  "demo_buy_remaining = map (\<lambda>k. info k False True)
     ([24, 50, 24, TOKEN_2022_PROGRAM_ID] @ replicate 9 24 @ [k_trader] @ replicate 12 24 @ [PUMP_PROGRAM_ID])"

definition demo_create_remaining :: "account_info list" where
  "demo_create_remaining = info 50 True True # map (\<lambda>k. info k False True)
     [24, 24, 24, 24, k_trader, SYSTEM_PROGRAM_ID, TOKEN_2022_PROGRAM_ID, ASSOCIATED_TOKEN_PROGRAM_ID,
      MAYHEM_PROGRAM_ID, 24, 24, 24, 24, 24, PUMP_PROGRAM_ID]"

lemma demo_pump_ready:
  "require_pump_trader_ready demo_rt (info k_trader False True) demo_pump_chain = Inr ()"
  by (simp add: remaining_checks_eq_Inr owner_of_def data_of_def lamports_of_def demo_rent_def
      PUMP_TRADER_SPACE_def)

lemma demo_buy_slots:
  "length demo_buy_remaining = PUMP_BUY_V2_ACCOUNT_COUNT"
  "demo_buy_remaining ! PUMP_USER_INDEX = info k_trader False True"
  "demo_buy_remaining ! PUMP_PROGRAM_INDEX_BUY = info PUMP_PROGRAM_ID False True"
  "demo_buy_remaining ! IDX_ASSOCIATED_BASE_USER = info 24 False True"
  "demo_buy_remaining ! IDX_BASE_MINT = info 50 False True"
  by (simp_all add: demo_buy_remaining_def PUMP_BUY_V2_ACCOUNT_COUNT_def PUMP_USER_INDEX_def
      PUMP_PROGRAM_INDEX_BUY_def IDX_ASSOCIATED_BASE_USER_def IDX_BASE_MINT_def eval_nat_numeral)

lemma demo_buy_pdas: "validate_pump_pdas demo_rt demo_buy_remaining k_trader True = Inr ()"
  by (simp add: validate_pump_pdas_def res_simps pda_def Let_def)
    (simp add: demo_buy_remaining_def IDX_BASE_MINT_def IDX_GLOBAL_def IDX_BONDING_CURVE_def
      IDX_USER_VOLUME_ACCUMULATOR_BUY_def IDX_EVENT_AUTHORITY_BUY_def IDX_BASE_TOKEN_PROGRAM_def
      IDX_ASSOCIATED_BASE_USER_def eval_nat_numeral)

lemma demo_buy_ix:
  "\<exists>ix. build_pump_ix demo_buy_remaining k_trader (encode_pump_buy_v2 a m) = Inr ix
     \<and> ix_program_id ix = PUMP_PROGRAM_ID"
proof -
  have "\<exists>ms. pump_metas k_trader 0 demo_buy_remaining = Inr ms"
    by (rule pump_metas_total) (simp add: demo_buy_slots)
  then show ?thesis
    using encoders_pass(1) [of a m]
    by (auto simp: build_pump_ix_def require_nonempty_pump_data_def and_then_eq_Inr require_eq_Inr)
qed

lemma demo_pump_invoke: "ix_program_id ix = PUMP_PROGRAM_ID \<Longrightarrow> invoke_signed demo_rt ix infos ss c = Inr c"
  using demo_pump_ids(1) by (simp add: invoke_signed_def demo_cpi_def)

lemma demo_pump_check_grant:
  "mouth_check_grant demo_rt demo_pump_infos 2000 demo_pump_chain
     = Inr (with_data k_grant (word_bytes (2400 :: u64)) demo_pump_chain)"
  by (simp add: mouth_check_grant_def demo_pump_infos_def check_grant_def invoke_def invoke_signed_def
      demo_cpi_def demo_core_def check_grant_ix_def meta_new_def CHECK_GRANT_DISCRIMINATOR_def with_data_def)

lemma demo_pump_policy:
  "precheck_sponsor 0 pm fp = Inr ()" "pump_agent_not_fee_payer demo_pump_infos = Inr ()"
  "require_pump_program PUMP_PROGRAM_ID = Inr ()"
  "require_pump_program (key (pp_pump_program demo_pump_infos)) = Inr ()"
  "require_pump_user_not_vault k_trader (key (pp_spend_vault demo_pump_infos)) = Inr ()"
  "require_pump_user_is_trader k_trader k_trader = Inr ()"
  "require_pump_trader_system_owned (owner_of demo_pump_chain k_trader) = Inr ()"
  "reject_paymaster_in_remaining rs None = Inr ()"
  "require_pump_trader_prefunded 5000 2000 (demo_rent PUMP_TRADER_SPACE) = Inr ()"
  "lamports_of demo_pump_chain k_trader = 5000"
  by (simp_all add: policy_ok precheck_sponsor_eq_Inr remaining_checks_eq_Inr owner_of_def lamports_of_def
      prefunded_ok demo_rent_def PUMP_TRADER_SPACE_def with_data_def pump_agent_not_fee_payer_def
      demo_pump_infos_def)

lemma demo_trader_pda: "trader_pda demo_rt k = (k_trader, 255)"
  by (simp add: trader_pda_def)

definition demo_buy_args :: pump_buy_args where
  "demo_buy_args = \<lparr>pb_amount = 100, pb_max_sol_cost = 2000, pb_sponsor_lamports = 0\<rparr>"

lemma demo_pump_buy_ok:
  "\<exists>d. pump_buy demo_rt demo_pump_infos demo_buy_args demo_buy_remaining demo_pump_chain = Inr d"
proof -
  obtain ix where ix: "build_pump_ix demo_buy_remaining k_trader (encode_pump_buy_v2 100 2000) = Inr ix"
    "ix_program_id ix = PUMP_PROGRAM_ID"
    using demo_buy_ix by blast
  have "require_pump_buy_amounts 100 2000 = Inr ()"
    "require_pump_account_count (length demo_buy_remaining) PUMP_BUY_V2_ACCOUNT_COUNT = Inr ()"
    by (simp_all add: require_pump_buy_amounts_def require_pump_account_count_def res_simps demo_buy_slots)
  moreover have "data_of (with_data k_grant bs demo_pump_chain) 24 \<noteq> []" for bs
    by (simp add: data_of_def demo_holding_def)
  ultimately show ?thesis
    by (simp add: pump_buy_def demo_pump_accounts)
      (simp add: pump_buy_handler_def demo_buy_args_def demo_trader_pda demo_buy_slots demo_pump_ready
        demo_buy_pdas demo_pump_policy demo_pump_check_grant encoders_pass ix demo_pump_invoke
        reimburse_sponsor_def)
qed

lemma pump_trade_effect_witness:
  "\<exists>d. pump_buy demo_rt demo_pump_infos demo_buy_args demo_buy_remaining demo_pump_chain = Inr d
     \<and> pump_called demo_rt demo_pump_infos demo_buy_remaining PUMP_USER_INDEX {}
         (PUMP_BUY_V2_DISC @ word_bytes (100 :: u64) @ word_bytes (2000 :: u64)) 2000 0 demo_pump_chain d"
proof -
  obtain d where d: "pump_buy demo_rt demo_pump_infos demo_buy_args demo_buy_remaining demo_pump_chain = Inr d"
    using demo_pump_buy_ok by blast
  with conjunct1 [OF pump_trade_effect [OF demo_core_meters demo_foreign_frame], rule_format, OF d]
  show ?thesis
    by (auto simp: demo_buy_args_def)
qed

lemma demo_create_slots:
  "length demo_create_remaining = PUMP_CREATE_V2_ACCOUNT_COUNT"
  "demo_create_remaining ! PUMP_CREATE_USER_INDEX = info k_trader False True"
  "demo_create_remaining ! PUMP_CREATE_MINT_INDEX = info 50 True True"
  "demo_create_remaining ! PUMP_CREATE_PROGRAM_INDEX = info PUMP_PROGRAM_ID False True"
  by (simp_all add: demo_create_remaining_def PUMP_CREATE_V2_ACCOUNT_COUNT_def PUMP_CREATE_USER_INDEX_def
      PUMP_CREATE_MINT_INDEX_def PUMP_CREATE_PROGRAM_INDEX_def eval_nat_numeral)

lemma demo_create_pdas: "validate_pump_create_pdas demo_rt demo_create_remaining = Inr ()"
  by (simp add: validate_pump_create_pdas_def res_simps pda_def Let_def)
    (simp add: demo_create_remaining_def PUMP_CREATE_MINT_INDEX_def IDX_CREATE_MINT_AUTHORITY_def
      IDX_CREATE_BONDING_CURVE_def IDX_CREATE_GLOBAL_def IDX_CREATE_SYSTEM_def IDX_CREATE_TOKEN_PROGRAM_def
      IDX_CREATE_ATA_PROGRAM_def IDX_CREATE_MAYHEM_PROGRAM_def IDX_CREATE_ASSOCIATED_BONDING_CURVE_def
      IDX_CREATE_GLOBAL_PARAMS_def IDX_CREATE_SOL_VAULT_def IDX_CREATE_MAYHEM_STATE_def
      IDX_CREATE_MAYHEM_TOKEN_VAULT_def IDX_CREATE_EVENT_AUTHORITY_def eval_nat_numeral)

lemma demo_create_ix:
  "\<exists>ix. build_pump_create_ix demo_create_remaining k_trader (encode_pump_create_v2 n s u k a b) = Inr ix
     \<and> ix_program_id ix = PUMP_PROGRAM_ID"
proof -
  have "\<exists>ms. pump_create_metas k_trader 0 demo_create_remaining = Inr ms"
    by (rule pump_create_metas_total) (simp_all add: demo_create_slots)
  then show ?thesis
    by (auto simp: build_pump_create_ix_def encoders_pass)
qed

definition demo_launch :: pump_create_args where
  "demo_launch =
     \<lparr>pc_name = [71, 114, 111, 107], pc_symbol = [71], pc_uri = [104], pc_is_mayhem_mode = False,
      pc_is_cashback_enabled = True, pc_max_sol_cost = 2000, pc_sponsor_lamports = 0\<rparr>"

lemma demo_pump_create_ok:
  "\<exists>d. pump_create demo_rt demo_pump_infos demo_launch demo_create_remaining demo_pump_chain = Inr d"
proof -
  obtain ix where ix: "build_pump_create_ix demo_create_remaining k_trader
      (encode_pump_create_v2 [71, 114, 111, 107] [71] [104] k_root False True) = Inr ix"
    "ix_program_id ix = PUMP_PROGRAM_ID"
    using demo_create_ix by blast
  have "require_pump_create_strings [71, 114, 111, 107] [71] [104] = Inr ()"
    "require_pump_create_amounts 2000 = Inr ()" "require_pump_mint_is_signer True = Inr ()"
    "require_pump_create_account_count (length demo_create_remaining) = Inr ()"
    by (simp_all add: require_pump_create_strings_def require_pump_create_amounts_def
        require_pump_mint_is_signer_def require_pump_create_account_count_def res_simps demo_create_slots
        PUMP_CREATE_NAME_MAX_def PUMP_CREATE_SYMBOL_MAX_def PUMP_CREATE_URI_MAX_def)
  then show ?thesis
    by (simp add: pump_create_def demo_pump_accounts)
      (simp add: pump_create_handler_def demo_launch_def demo_trader_pda demo_create_slots demo_pump_ready
        demo_create_pdas demo_pump_policy demo_pump_check_grant encoders_pass ix demo_pump_invoke
        reimburse_sponsor_def)
qed

lemma pump_create_effect_witness:
  "\<exists>d. pump_create demo_rt demo_pump_infos demo_launch demo_create_remaining demo_pump_chain = Inr d
     \<and> pump_called demo_rt demo_pump_infos demo_create_remaining PUMP_CREATE_USER_INDEX
         {PUMP_CREATE_MINT_INDEX}
         (PUMP_CREATE_V2_DISC @ encode_borsh_string [71, 114, 111, 107] @ encode_borsh_string [71]
           @ encode_borsh_string [104] @ pubkey_bytes k_root @ [0, 1]) 2000 0 demo_pump_chain d"
proof -
  obtain d where d: "pump_create demo_rt demo_pump_infos demo_launch demo_create_remaining demo_pump_chain = Inr d"
    using demo_pump_create_ok by blast
  from pump_create_effect [OF demo_core_meters demo_foreign_frame d] d show ?thesis
    by (auto simp: demo_launch_def demo_pump_infos_def bool_byte_def)
qed

end
