(* ===== verification/Frame.thy ===== *)
theory Frame imports Accounts Pump begin

text \<open>
  What every instruction leaves alone, and what it may take. The contract \<open>chain_frame\<close> is a
  family of relations between ledgers, graded by a charge (how many lamports each account may
  lose): composing adds the charges, a guarded debit charges its source, and an emitted event,
  an account creation and a call into another program charge nobody. Inside it, one rule per
  construct of the handlers' language shows what each operation respects, under the runtimes that
  are \<open>good\<close> for the relation. It is interpreted, for \<open>isolated\<close> runtimes, on
  \<open>undisturbed\<close> (no account of this program changes owner or data), on \<open>extends_log\<close> (the log only
  grows, and no settlement is noted) and on \<open>kept\<close> (no account loses more than its charge).
\<close>

section \<open>What the runtime keeps apart\<close>

text \<open>
  Documented behaviour of the runtime, beside \<open>foreign_frame\<close> and \<open>init_fresh\<close>. \<open>no_forgery\<close>:
  ownership is given away only with zeroed data, so an account that another program makes this
  program's holds zeros. \<open>rent_from_outside\<close>: the System Program takes the rent of a new account from
  an account of its own. \<open>isolated\<close> collects these with \<open>self_call_idle\<close>.
\<close>

definition no_forgery :: "runtime \<Rightarrow> bool" where
  "no_forgery rt \<longleftrightarrow>
     (\<forall>ix infos ss m m' k. ix_program_id ix \<noteq> INTENTS_ID \<longrightarrow>
        invoke_cpi rt ix infos ss m = Inr m' \<longrightarrow> acc_owner (m k) \<noteq> INTENTS_ID \<longrightarrow>
        acc_owner (m' k) = INTENTS_ID \<longrightarrow> blank (acc_data (m' k)))"

definition rent_from_outside :: "runtime \<Rightarrow> bool" where
  "rent_from_outside rt \<longleftrightarrow>
     (\<forall>payer k space ss m m' j. init_pda rt payer k space ss m = Inr m' \<longrightarrow>
        acc_owner (m j) = INTENTS_ID \<longrightarrow> acc_lamports (m j) \<le> acc_lamports (m' j))"

definition isolated :: "runtime \<Rightarrow> bool" where
  "isolated rt \<longleftrightarrow>
     foreign_frame rt \<and> init_fresh rt \<and> no_forgery rt \<and> self_call_idle rt \<and> rent_from_outside rt"

definition outward :: "instruction \<Rightarrow> bool" where
  "outward ix \<longleftrightarrow> ix_program_id ix \<noteq> INTENTS_ID \<or> ix_data ix = []"

lemma other_programs [simp]:
  "SYSTEM_PROGRAM_ID \<noteq> INTENTS_ID" "TOKEN_PROGRAM_ID \<noteq> INTENTS_ID"
  "TOKEN_2022_PROGRAM_ID \<noteq> INTENTS_ID" "JUPITER_V6_PROGRAM_ID \<noteq> INTENTS_ID"
  "PUMP_PROGRAM_ID \<noteq> INTENTS_ID"
  by (simp_all add: key_simps)

lemma outward_simps [simp]:
  "outward (check_grant_ix g gr a t n)" "outward (system_transfer src dst n)"
  "outward (system_create_account src new n space own)" "outward (inner_call_ix target infos)"
  "outward (sync_native_ix k)" "tp \<noteq> INTENTS_ID \<Longrightarrow> outward (transfer_checked_ix tp k1 k2 k3 k4 n dec)"
  by (simp_all add: outward_def system_transfer_def system_create_account_def inner_call_ix_def
      sync_native_ix_def transfer_checked_ix_def)

section \<open>Operations that keep a relation\<close>

definition keeps :: "(chain \<Rightarrow> chain \<Rightarrow> bool) \<Rightarrow> (chain \<Rightarrow> chain res) \<Rightarrow> bool" where
  "keeps R f \<longleftrightarrow> (\<forall>c d. f c = Inr d \<longrightarrow> R c d)"

lemma keepsI: "(\<And>c d. f c = Inr d \<Longrightarrow> R c d) \<Longrightarrow> keeps R f"
  by (simp add: keeps_def)

lemma keepsD: "keeps R f \<Longrightarrow> f c = Inr d \<Longrightarrow> R c d"
  by (simp add: keeps_def)

lemma keeps_check:
  "(\<And>x c. m c = Inr x \<Longrightarrow> keeps R (f x)) \<Longrightarrow> keeps R (\<lambda>c. and_then (m c) (\<lambda>x. f x c))"
  by (auto simp: keeps_def and_then_eq_Inr)

lemma keeps_if:
  "keeps R f \<Longrightarrow> keeps R g \<Longrightarrow> keeps R (\<lambda>c. if b c then f c else g c)"
  by (simp add: keeps_def)

lemma keeps_fail: "keeps R (\<lambda>c. Inl (e c))"
  by (simp add: keeps_def)

lemma keeps_prod: "(\<And>a b. p = (a, b) \<Longrightarrow> keeps R (f a b)) \<Longrightarrow> keeps R (\<lambda>c. case p of (a, b) \<Rightarrow> f a b c)"
  by (cases p) simp

lemma keeps_option:
  "keeps R f \<Longrightarrow> (\<And>x. keeps R (g x)) \<Longrightarrow> keeps R (\<lambda>c. case p of None \<Rightarrow> f c | Some x \<Rightarrow> g x c)"
  by (cases p) simp_all

text \<open>The accounts Anchor creates for this program are at addresses derived from these seeds.\<close>

definition account_seeds :: "seeds \<Rightarrow> bool" where
  "account_seeds ss \<longleftrightarrow>
     ss \<noteq> [] \<and> hd ss \<in> {SEED_SPEND_VAULT, SEED_PAYMASTER, SEED_MERCHANTS, SEED_SUBSCRIPTION,
       SEED_SUB_GRANT, SEED_SPONSOR_FEE}"

lemma account_seeds_simps [simp]:
  "account_seeds (s # ss) \<longleftrightarrow> s \<in> {SEED_SPEND_VAULT, SEED_PAYMASTER, SEED_MERCHANTS, SEED_SUBSCRIPTION,
       SEED_SUB_GRANT, SEED_SPONSOR_FEE}"
  "account_seeds ss \<Longrightarrow> account_seeds (ss @ ts)"
  by (simp_all add: account_seeds_def)

locale chain_frame =
  fixes good :: "runtime \<Rightarrow> bool" and R :: "(pubkey \<Rightarrow> int) \<Rightarrow> chain \<Rightarrow> chain \<Rightarrow> bool"
  assumes same: "R no_charge c c"
    and compose: "R f c d \<Longrightarrow> R g d e \<Longrightarrow> R (both f g) c e"
    and more: "R f c d \<Longrightarrow> (\<And>k. f k \<le> g k) \<Longrightarrow> R g c d"
    and emitted: "\<not> settles ev \<Longrightarrow> R no_charge c (emit ev c)"
    and debited: "require_debit err reserve src dst amount c = Inr d \<Longrightarrow> R (charge_to (Some src) amount) c d"
    and good_isolated: "good rt \<Longrightarrow> isolated rt"
    and called: "good rt \<Longrightarrow> outward ix \<Longrightarrow> invoke_signed rt ix infos ss c = Inr d \<Longrightarrow> R no_charge c d"
    and created: "good rt \<Longrightarrow> account_seeds sd \<Longrightarrow> create_pda_account rt payer k space sd c = Inr d \<Longrightarrow> R no_charge c d"
begin

lemma free_then: "R no_charge c d \<Longrightarrow> R f d e \<Longrightarrow> R f c e"
  by (rule more [OF compose [of no_charge c d f e]]) (simp_all add: both_def no_charge_def)

lemma then_free: "R f c d \<Longrightarrow> R no_charge d e \<Longrightarrow> R f c e"
  by (rule more [OF compose [of f c d no_charge e]]) (simp_all add: both_def no_charge_def)

lemma keeps_ok: "keeps (R no_charge) Inr"
  by (simp add: keeps_def same)

lemma keeps_seq:
  assumes "keeps (R no_charge) g" and "keeps (R f) h"
  shows "keeps (R f) (\<lambda>c. and_then (g c) h)"
  using assms unfolding keeps_def and_then_eq_Inr by (meson free_then)

lemma keeps_emit: "(\<And>c. \<not> settles (e c)) \<Longrightarrow> keeps (R no_charge) (\<lambda>c. Inr (emit (e c) c))"
  by (simp add: keeps_def emitted)

lemma keeps_cpi: "good rt \<Longrightarrow> outward ix \<Longrightarrow> keeps (R no_charge) (invoke_signed rt ix infos ss)"
  by (simp add: keeps_def called)

lemma keeps_invoke: "good rt \<Longrightarrow> outward ix \<Longrightarrow> keeps (R no_charge) (invoke rt ix infos)"
  by (simp add: keeps_def invoke_def called)

text \<open>The steps the handlers share. A step that takes lamports is followed by what takes the rest.\<close>

lemma keeps_debit_then:
  assumes "keeps (R no_charge) h"
  shows "keeps (R (charge_to (Some src) a)) (\<lambda>c. and_then (require_debit err reserve src dst a c) h)"
  using assms unfolding keeps_def and_then_eq_Inr by (meson debited then_free)

lemma vault_debited: "debit_spend_vault rt vault dst a c = Inr d \<Longrightarrow> R (charge_to (Some vault) a) c d"
  by (simp add: debit_spend_vault_def Let_def debited)

lemma keeps_vault_last:
  assumes "keeps (R no_charge) h"
  shows "keeps (R (charge_to (Some vault) a)) (\<lambda>c. and_then (debit_spend_vault rt vault dst a c) h)"
  using assms unfolding keeps_def and_then_eq_Inr by (meson vault_debited then_free)

lemma keeps_vault_then:
  assumes "keeps (R f) h"
  shows "keeps (R (both (charge_to (Some vault) a) f))
    (\<lambda>c. and_then (debit_spend_vault rt vault dst a c) h)"
  using assms unfolding keeps_def and_then_eq_Inr by (meson vault_debited compose)

lemma keeps_vault_if_then:
  assumes "keeps (R f) h"
  shows "keeps (R (both (charge_to (Some vault) a) f))
    (\<lambda>c. and_then (if 0 < a then debit_spend_vault rt vault dst a c else Inr c) h)"
proof (cases "0 < a")
  case True
  then show ?thesis
    using keeps_vault_then [OF assms] by simp
next
  case False
  then show ?thesis
    using assms more [of f] by (auto simp: keeps_def and_then_eq_Inr both_def charge_to_def)
qed

lemma sponsor_paid:
  assumes "reimburse_sponsor rt gai gr pm fp a c = Inr d"
  shows "R (charge_to (map_option (key \<circ> fst) pm) a) c d"
proof (cases "a = 0")
  case True
  then show ?thesis
    using assms more [OF same] by (auto simp: reimburse_sponsor_eq_Inr charge_to_def no_charge_def)
next
  case False
  then have "sponsored rt gai gr pm fp a c d"
    using assms by (simp add: reimburse_sponsor_eq_Inr)
  then obtain ai p where pm: "pm = Some (ai, p)"
    and mv: "require_debit (Base InsufficientPaymaster) (min_balance rt paymaster_SPACE)
      (key ai) (pm_relayer p) a c = Inr (moved (key ai) (pm_relayer p) a c)"
    and d: "d = emit (Intent_event (Sponsored (key ai) (pm_relayer p) a (key gai) (gr_generation gr)))
      (moved (key ai) (pm_relayer p) a c)"
    by (auto simp: sponsored_def require_debit_eq_Inr split: option.splits)
  show ?thesis
    unfolding d by (rule then_free [OF _ emitted]) (use debited [OF mv] in \<open>simp_all add: pm\<close>)
qed

lemma keeps_sponsor_then:
  assumes "map_option (key \<circ> fst) pm = opt" and "keeps (R no_charge) h"
  shows "keeps (R (charge_to opt a)) (\<lambda>c. and_then (reimburse_sponsor rt gai gr pm fp a c) h)"
  using assms(2) unfolding keeps_def and_then_eq_Inr assms(1) [symmetric] by (meson sponsor_paid then_free)

lemma keeps_check_grant: "good rt \<Longrightarrow> keeps (R no_charge) (mouth_check_grant rt A a)"
  unfolding mouth_check_grant_def [abs_def] check_grant_def
  by (rule keeps_check keeps_cpi keeps_invoke keeps_ok | assumption | simp add: outward_def)+

lemmas rules = keeps_debit_then keeps_vault_last keeps_vault_then keeps_vault_if_then keeps_sponsor_then
  keeps_check_grant keeps_ok keeps_fail keeps_emit keeps_cpi keeps_invoke keeps_if keeps_seq
  keeps_prod keeps_check

lemma init_keeps:
  "good rt \<Longrightarrow> account_seeds ss \<Longrightarrow> init_account rt payer space ss ai c = Inr (bump, d) \<Longrightarrow> R no_charge c d"
  by (auto simp: init_account_eq_Inr intro: created [where sd = "ss @ [[bump]]"])

end

section \<open>The operations that store no account\<close>

text \<open>The paymaster a handler gets is the one passed.\<close>

lemma passed_paymaster:
  "pay_accounts rt PA c = Inr (gr, pm) \<Longrightarrow> map_option (key \<circ> fst) pm = map_option key (pay_paymaster PA)"
  "swap_accounts rt SA c = Inr (gr, pm) \<Longrightarrow> map_option (key \<circ> fst) pm = map_option key (swap_paymaster SA)"
  "deploy_accounts rt DA c = Inr (gr, pm) \<Longrightarrow> map_option (key \<circ> fst) pm = map_option key (deploy_paymaster DA)"
  "call_accounts rt CA c = Inr (gr, pm) \<Longrightarrow> map_option (key \<circ> fst) pm = map_option key (call_paymaster CA)"
  "token_trade_accounts rt TA c = Inr (gr, pm) \<Longrightarrow> map_option (key \<circ> fst) pm = map_option key (tt_paymaster TA)"
  "pay_token_accounts rt KA c = Inr (gr, reg, bump, pm) \<Longrightarrow>
     map_option (key \<circ> fst) pm = map_option key (ptk_paymaster KA)"
  "pump_trade_accounts rt UA c = Inr (ga, gr, pm) \<Longrightarrow>
     map_option (key \<circ> fst) pm = map_option key (pp_paymaster UA)"
  by (auto simp: pay_accounts_def swap_accounts_def deploy_accounts_def call_accounts_def
      token_trade_accounts_def pay_token_accounts_def pump_trade_accounts_def and_then_eq_Inr
      dest!: sponsor_charge)

context chain_frame begin

lemma keeps_vault_moves:
  assumes "good rt"
  shows "keeps (R no_charge) (fund_spend_vault rt FV a)"
    and "keeps (R (charge_to (Some (key (wsv_spend_vault WV))) a)) (withdraw_spend_vault rt WV a)"
    and "keeps (R no_charge) (fund_paymaster rt FP a)"
    and "keeps (R (charge_to (Some (key (wpm_paymaster WP))) a)) (withdraw_paymaster rt WP a)"
  unfolding fund_spend_vault_def [abs_def] spend_vault_fund_def withdraw_spend_vault_def [abs_def]
    spend_vault_withdraw_def fund_paymaster_def [abs_def] paymaster_fund_def
    withdraw_paymaster_def [abs_def] paymaster_withdraw_def Let_def
  by (rule rules | simp add: assms)+

lemma keeps_intents:
  assumes "good rt"
  shows "keeps (R (both (charge_to (Some (key (pay_spend_vault PA))) (pa_amount_lamports pargs))
      (charge_to (map_option key (pay_paymaster PA)) (pa_sponsor_lamports pargs)))) (pay rt PA pargs)"
    and "keeps (R (both (charge_to (Some (key (swap_spend_vault SA))) (sw_amount_in_lamports sargs))
      (charge_to (map_option key (swap_paymaster SA)) (sw_sponsor_lamports sargs)))) (swap rt SA sargs)"
    and "keeps (R (charge_to (map_option key (deploy_paymaster DA)) (dp_sponsor_lamports dargs)))
      (deploy rt DA dargs)"
    and "keeps (R (both (charge_to (Some (key (call_spend_vault CA))) (ca_amount_lamports cargs))
      (charge_to (map_option key (call_paymaster CA)) (ca_sponsor_lamports cargs))))
      (call rt CA cargs remaining)"
  unfolding pay_def [abs_def] pay_handler_def swap_def [abs_def] swap_handler_def deploy_def [abs_def]
    deploy_handler_def call_def [abs_def] call_handler_def call_inner_def Let_def
  by (rule rules | simp add: assms passed_paymaster)+

lemma keeps_pay_token:
  assumes "good rt"
  shows "keeps (R (charge_to (map_option key (ptk_paymaster A)) (pt_sponsor_lamports args)))
    (pay_token rt A args)"
  unfolding pay_token_def [abs_def] pay_token_handler_def Let_def
  by (rule rules | auto simp: assms require_eq_Inr passed_paymaster)+

lemma keeps_burn:
  assumes "good rt"
  shows "keeps (R no_charge) (burn_collected_fees rt A)"
  unfolding burn_collected_fees_def [abs_def] burn_collected_def Let_def
  by (rule rules | auto simp: assms require_eq_Inr outward_def burn_checked_ix_def)+

lemma keeps_trader_moves:
  assumes "good rt"
  shows "keeps (R no_charge) (init_pump_trader rt IT)"
    and "keeps (R (charge_to (Some (key (fpt_spend_vault FT))) a)) (fund_pump_trader rt FT a)"
  unfolding init_pump_trader_def [abs_def] pump_trader_init_def fund_pump_trader_def [abs_def]
    pump_trader_fund_def Let_def
  by (rule rules | auto simp: assms)+

lemma keeps_wrap:
  assumes "good rt"
  shows "keeps (R no_charge) (wrap_step rt trader source args remaining ss)"
  unfolding wrap_step_def [abs_def] wrap_sol_to_wsol_def Let_def
  by (rule rules | simp add: assms)+

lemma jupiter_outward: "build_jupiter_ix remaining trader bs = Inr ix \<Longrightarrow> outward ix"
  by (auto simp: build_jupiter_ix_def and_then_eq_Inr Let_def outward_def)

lemma keeps_trade:
  assumes "good rt" and "map_option (key \<circ> fst) pm = opt"
  shows "keeps (R (charge_to opt (tb_sponsor_lamports args))) (trade rt A gr pm args is_sell remaining)"
  unfolding trade_def [abs_def] trade_event_def Let_def
  by (rule keeps_wrap rules | rule assms jupiter_outward | assumption | simp)+

lemma keeps_token_trades:
  assumes "good rt"
  shows "keeps (R (charge_to (map_option key (tt_paymaster A)) (tb_sponsor_lamports bargs)))
      (token_buy rt A bargs remaining)"
    and "keeps (R (charge_to (map_option key (tt_paymaster A)) (ts_sponsor_lamports sargs)))
      (token_sell rt A sargs remaining)"
  unfolding token_buy_def [abs_def] token_sell_def [abs_def]
proof -
  have sell: "ts_sponsor_lamports sargs = tb_sponsor_lamports (buy_of_sell sargs)"
    by (simp add: buy_of_sell_def)
  show "keeps (R (charge_to (map_option key (tt_paymaster A)) (tb_sponsor_lamports bargs)))
      (\<lambda>c. and_then (token_trade_accounts rt A c) (\<lambda>(gr, pm). trade rt A gr pm bargs False remaining c))"
    and "keeps (R (charge_to (map_option key (tt_paymaster A)) (ts_sponsor_lamports sargs)))
      (\<lambda>c. and_then (token_trade_accounts rt A c)
         (\<lambda>(gr, pm). trade rt A gr pm (buy_of_sell sargs) True remaining c))"
    unfolding sell by (rule keeps_trade keeps_prod keeps_check | simp add: assms passed_paymaster)+
qed

lemma keeps_pump_create:
  assumes "good rt"
  shows "keeps (R (charge_to (map_option key (pp_paymaster A)) (pc_sponsor_lamports args)))
    (pump_create rt A args remaining)"
  unfolding pump_create_def [abs_def] pump_create_handler_def Let_def
  by (rule rules | auto simp: assms passed_paymaster build_pump_create_ix_def and_then_eq_Inr Let_def outward_def)+

lemma keeps_sweep:
  assumes "good rt"
  shows "keeps (R no_charge) (sweep_pairs rt A ss remaining)"
proof -
  have pair: "keeps (R no_charge) (sweep_token_pair rt A ss src dst)" for src dst
  proof (rule keepsI)
    fix c d
    assume run: "sweep_token_pair rt A ss src dst c = Inr d"
    then have own: "owner_of c (key src) \<in> {TOKEN_PROGRAM_ID, TOKEN_2022_PROGRAM_ID}"
      by (auto simp: sweep_token_pair_def and_then_eq_Inr trader_account_fields_eq_Inr)
    then have out: "outward (transfer_ix (owner_of c (key src)) k1 k2 k3 n)" for k1 k2 k3 n
      by (auto simp: outward_def transfer_ix_def)
    show "R no_charge c d"
      using run called [OF assms out]
      by (auto simp: sweep_token_pair_def and_then_eq_Inr Let_def same split: if_splits)
  qed
  show ?thesis
    by (induction remaining rule: pair_sources.induct) (simp_all add: pair keeps_seq keeps_ok)
qed

lemma keeps_withdraw_trader:
  assumes "good rt"
  shows "keeps (R no_charge) (withdraw_pump_trader rt A a remaining)"
  unfolding withdraw_pump_trader_def [abs_def] pump_trader_withdraw_def withdraw_sol_def Let_def
  by (rule keeps_sweep rules | simp add: assms)+

end

section \<open>The operations that store one account\<close>

text \<open>
  Each of them respects the relation up to a last write, of data that decode to a state the
  account may take: an initial one if the System Program owned it, one it evolves to otherwise.
  All but the settlement of a subscription leave the counters of a subscription as they are.
\<close>

fun counters :: "account_state \<Rightarrow> (i64 \<times> u32) option" where
  "counters (Subscription_state u) = Some (sb_last_paid_period u, sb_payments u)"
| "counters _ = None"

definition allowed :: "chain \<Rightarrow> pubkey \<Rightarrow> account_state \<Rightarrow> bool" where
  "allowed c k t \<longleftrightarrow>
     (owner_of c k = SYSTEM_PROGRAM_ID \<and> initial t)
     \<or> (\<exists>s. owner_of c k = INTENTS_ID \<and> decode_account (data_of c k) = Some s \<and> evolves s t
          \<and> (sound s \<longrightarrow> sound t) \<and> counters t = counters s)"

definition writes :: "(chain \<Rightarrow> chain \<Rightarrow> bool) \<Rightarrow> chain \<Rightarrow> chain \<Rightarrow> bool" where
  "writes R c d \<longleftrightarrow>
     (\<exists>c1 k bs t. R c c1 \<and> d = with_data k bs c1 \<and> decode_account bs = Some t \<and> allowed c k t)"

lemma allowed_loaded:
  "load_spend_vault c k = Inr v \<Longrightarrow> evolves (Vault_state v) t \<Longrightarrow> sound t \<Longrightarrow>
     counters t = None \<Longrightarrow> allowed c k t"
  "load_paymaster c k = Inr p \<Longrightarrow> evolves (Paymaster_state p) t \<Longrightarrow> sound t \<Longrightarrow>
     counters t = None \<Longrightarrow> allowed c k t"
  "load_merchant_registry c k = Inr r \<Longrightarrow> evolves (Registry_state r) t \<Longrightarrow>
     (sound (Registry_state r) \<Longrightarrow> sound t) \<Longrightarrow> counters t = None \<Longrightarrow> allowed c k t"
  "load_subscription c k = Inr u \<Longrightarrow> evolves (Subscription_state u) t \<Longrightarrow>
     (sound (Subscription_state u) \<Longrightarrow> sound t) \<Longrightarrow>
     counters t = Some (sb_last_paid_period u, sb_payments u) \<Longrightarrow> allowed c k t"
  "load_sub_grant c k = Inr g \<Longrightarrow> evolves (Sub_grant_state g) t \<Longrightarrow>
     (sound (Sub_grant_state g) \<Longrightarrow> sound t) \<Longrightarrow> counters t = None \<Longrightarrow> allowed c k t"
  "load_sponsor_fee_config c k = Inr f \<Longrightarrow> evolves (Fee_state f) t \<Longrightarrow> sound t \<Longrightarrow>
     counters t = None \<Longrightarrow> allowed c k t"
  unfolding allowed_def load_typed_eq_Inr [OF intents_not_system]
  by (metis decode_account_iff counters.simps)+

lemma writesI:
  assumes "R c c1" and "allowed c k t" and "\<exists>bs. d = with_data k bs c1 \<and> decode_account bs = Some t"
  shows "writes R c d"
  using assms unfolding writes_def by blast

lemma store_decodes:
  "store_spend_vault v k c = Inr d \<Longrightarrow> \<exists>bs. d = with_data k bs c \<and> decode_account bs = Some (Vault_state v)"
  "store_paymaster p k c = Inr d \<Longrightarrow> \<exists>bs. d = with_data k bs c \<and> decode_account bs = Some (Paymaster_state p)"
  "store_merchant_registry r k c = Inr d \<Longrightarrow> length (mr_merchants r) < 2 ^ 32 \<Longrightarrow>
     \<exists>bs. d = with_data k bs c \<and> decode_account bs = Some (Registry_state r)"
  "store_subscription u k c = Inr d \<Longrightarrow> \<exists>bs. d = with_data k bs c \<and> decode_account bs = Some (Subscription_state u)"
  "store_sub_grant g k c = Inr d \<Longrightarrow> \<exists>bs. d = with_data k bs c \<and> decode_account bs = Some (Sub_grant_state g)"
  "store_sponsor_fee_config f k c = Inr d \<Longrightarrow> \<exists>bs. d = with_data k bs c \<and> decode_account bs = Some (Fee_state f)"
  using sv_account.stored pm_account.stored mr_account.stored sb_account.stored sg_account.stored
    sf_account.stored by simp_all

lemma saturating_add_ge: "a \<le> saturating_add a b" for a b :: "'w::len word"
proof -
  have "unat a < 2 ^ LENGTH('w)"
    by (rule unsigned_less)
  then have "unat a \<le> 2 ^ LENGTH('w) - 1"
    by linarith
  then show ?thesis
    by (simp add: word_le_nat_alt unat_saturating_add)
qed

text \<open>A settlement advances the last paid period by at least one and the counter by at most one.\<close>

lemma settlement_evolves:
  assumes "due_period now u stated = Inr period"
  defines "v \<equiv> u\<lparr>sb_last_paid_period := period, sb_payments := saturating_add (sb_payments u) 1\<rparr>"
  shows "evolves (Subscription_state u) (Subscription_state v)"
    and "sound (Subscription_state u) \<Longrightarrow> sound (Subscription_state v)"
proof -
  have due: "sb_active u" "sint (sb_last_paid_period u) < sint period"
    using assms(1) by (simp_all add: due_period_eq_Inr)
  show "evolves (Subscription_state u) (Subscription_state v)"
    using due by (simp add: v_def fixed_subscription_def saturating_add_ge)
  have "int (unat (sb_payments v)) \<le> int (unat (sb_payments u)) + 1"
    by (simp add: v_def unat_saturating_add del: of_nat_unat)
  moreover assume "sound (Subscription_state u)"
  ultimately show "sound (Subscription_state v)"
    using due unfolding sound.simps by (simp add: v_def del: of_nat_unat)
qed

text \<open>
  What a settlement does up to the frame: it reads the subscription, finds the period due, notes
  it in the log with the terms of the subscription and advances the two counters.
\<close>

definition notes_settlement ::
  "(chain \<Rightarrow> chain \<Rightarrow> bool) \<Rightarrow> pubkey \<Rightarrow> chain \<Rightarrow> chain \<Rightarrow> bool" where
  "notes_settlement Q k c d \<longleftrightarrow>
     (\<exists>u now stated period c1 bs grok ref agent grant gen. load_subscription c k = Inr u
        \<and> due_period now u stated = Inr period \<and> Q c c1
        \<and> d = with_data k bs (emit (Payment_event (SubscriptionPaid k grok (sb_merchant u) (sb_mint u)
              (sb_amount u) period (saturating_add (sb_payments u) 1) ref agent grant gen)) c1)
        \<and> decode_account bs = Some (Subscription_state (u\<lparr>sb_last_paid_period := period,
              sb_payments := saturating_add (sb_payments u) 1\<rparr>)))"

lemma init_allowed:
  assumes "isolated rt" and "init_account rt payer space ss ai c = Inr (bump, c1)" and "initial t"
  shows "allowed c (key ai) t"
proof -
  have "init_fresh rt"
    using assms(1) by (simp add: isolated_def)
  then have "owner_of c (key ai) = SYSTEM_PROGRAM_ID"
    using init_accountE [OF _ assms(2)] by blast
  with assms(3) show ?thesis
    by (simp add: allowed_def)
qed

context chain_frame begin

lemma init_writes:
  assumes "good rt" and init: "init_account rt payer space ss ai c = Inr (bump, c1)" and "initial t"
    and "\<exists>bs. d = with_data (key ai) bs (emit e c1) \<and> decode_account bs = Some t" and "\<not> settles e"
    and seeds: "account_seeds ss"
  shows "writes (R no_charge) c d"
  by (rule writesI [of "R no_charge", OF free_then [OF init_keeps [OF assms(1) seeds init] emitted]])
    (use assms init_allowed [OF good_isolated] in auto)

lemma update_writes:
  assumes "allowed c k t" and "\<exists>bs. d = with_data k bs (emit e c) \<and> decode_account bs = Some t"
    and "\<not> settles e"
  shows "writes (R no_charge) c d"
  by (rule writesI [of "R no_charge", OF emitted]) (use assms in auto)

lemma writes_init_spend_vault:
  assumes "good rt" and "init_spend_vault rt A c = Inr d"
  shows "writes (R no_charge) c d"
proof -
  obtain bump c1 v e where
    init: "init_account rt (isv_root A) spend_vault_SPACE
      [SEED_SPEND_VAULT, pubkey_bytes (key (isv_grok_account A))] (isv_spend_vault A) c = Inr (bump, c1)"
    and st: "store_spend_vault v (key (isv_spend_vault A)) (emit e c1) = Inr d" and q: "\<not> settles e"
    using assms(2)
    by (auto simp: init_spend_vault_def init_spend_vault_accounts_def spend_vault_init_def and_then_eq_Inr Let_def)
  show ?thesis
    by (rule init_writes [OF assms(1) init _ store_decodes(1) [OF st] q]) simp_all
qed

lemma writes_init_paymaster:
  assumes "good rt" and "init_paymaster rt A relayer c = Inr d"
  shows "writes (R no_charge) c d"
proof -
  obtain bump c1 p e where
    init: "init_account rt (ipm_root A) paymaster_SPACE
      [SEED_PAYMASTER, pubkey_bytes (key (ipm_grok_account A))] (ipm_paymaster A) c = Inr (bump, c1)"
    and st: "store_paymaster p (key (ipm_paymaster A)) (emit e c1) = Inr d" and q: "\<not> settles e" and p: "\<not> pm_paused p"
    using assms(2)
    by (auto simp: init_paymaster_def init_paymaster_accounts_def paymaster_init_def and_then_eq_Inr Let_def)
  show ?thesis
    by (rule init_writes [OF assms(1) init _ store_decodes(2) [OF st] q]) (simp_all add: p)
qed

lemma writes_manage_paymaster:
  assumes "manage_paymaster_accounts rt A c = Inr p"
    and "store_paymaster q (key (mpm_paymaster A)) (emit e c) = Inr d"
    and "fixed_paymaster q = fixed_paymaster p" and "\<not> settles e"
  shows "writes (R no_charge) c d"
proof -
  have "load_paymaster c (key (mpm_paymaster A)) = Inr p"
    using assms(1) by (simp add: manage_paymaster_accounts_eq_Inr)
  from allowed_loaded(2) [OF this, of "Paymaster_state q"] assms(3)
  show ?thesis
    by (intro update_writes [OF _ store_decodes(2) [OF assms(2)] assms(4)]) simp
qed

lemma writes_paymaster_switches:
  "set_relayer rt A relayer c = Inr d \<Longrightarrow> writes (R no_charge) c d"
  "pause_paymaster rt A c = Inr d \<Longrightarrow> writes (R no_charge) c d"
  "unpause_paymaster rt A c = Inr d \<Longrightarrow> writes (R no_charge) c d"
  unfolding set_relayer_def pause_paymaster_def unpause_paymaster_def Let_def and_then_eq_Inr
  by (elim exE conjE, rule writes_manage_paymaster, assumption, assumption,
      simp_all add: fixed_paymaster_def)+

lemma writes_init_merchant_registry:
  assumes "good rt" and "init_merchant_registry rt A mint c = Inr d"
  shows "writes (R no_charge) c d"
proof -
  obtain bump c1 r e where
    init: "init_account rt (imr_root A) merchant_registry_SPACE
      [SEED_MERCHANTS, pubkey_bytes (key (imr_grok_account A))] (imr_merchant_registry A) c = Inr (bump, c1)"
    and st: "store_merchant_registry r (key (imr_merchant_registry A)) (emit e c1) = Inr d" and q: "\<not> settles e"
    and r: "mr_merchants r = []"
    using assms(2)
    by (auto simp: init_merchant_registry_def init_merchant_registry_accounts_def merchants_init_def
        and_then_eq_Inr Let_def)
  show ?thesis
    by (rule init_writes [OF assms(1) init _ store_decodes(3) [OF st] q]) (simp_all add: r)
qed

lemma writes_merchants:
  assumes "update_merchant_registry_accounts rt A c = Inr r"
    and op: "registry_add m r = Inr s \<or> registry_remove m r = Inr s"
    and st: "store_merchant_registry s (key (umr_merchant_registry A)) (emit e c) = Inr d" and q: "\<not> settles e"
  shows "writes (R no_charge) c d"
proof -
  have load: "load_merchant_registry c (key (umr_merchant_registry A)) = Inr r"
    using assms(1) by (auto simp: update_merchant_registry_accounts_def and_then_eq_Inr)
  have len: "length (mr_merchants r) < 2 ^ 32"
    using load by (simp add: load_typed_eq_Inr mr_account.deserialize_iff)
  have "length (mr_merchants s) < 2 ^ 32"
    using op len length_filter_le [of "\<lambda>x. x \<noteq> m" "mr_merchants r"]
    by (auto simp: registry_add_eq_Inr registry_remove_eq_Inr MAX_MERCHANTS_def
        simp del: length_filter_le)
  moreover have "fixed_registry s = fixed_registry r"
    using op by (auto simp: registry_add_eq_Inr registry_remove_eq_Inr fixed_registry_def)
  moreover have "registry_inv s" if "registry_inv r"
    using op that registry.add_members registry.remove_members by blast
  ultimately show ?thesis
    using allowed_loaded(3) [OF load, of "Registry_state s"]
    by (intro update_writes [OF _ store_decodes(3) [OF st] q]) simp_all
qed

lemma writes_update_merchants:
  "add_merchant rt A m c = Inr d \<Longrightarrow> writes (R no_charge) c d"
  "remove_merchant rt A m c = Inr d \<Longrightarrow> writes (R no_charge) c d"
  unfolding add_merchant_def merchants_add_def remove_merchant_def merchants_remove_def Let_def
    and_then_eq_Inr
  by (elim exE conjE, erule writes_merchants, (erule disjI1 disjI2 | assumption | simp)+)+

lemma writes_init_sponsor_fee:
  assumes "good rt" and "init_sponsor_fee rt A c = Inr d"
  shows "writes (R no_charge) c d"
proof -
  obtain bump c1 f e where
    init: "init_account rt (isf_root A) sponsor_fee_config_SPACE
      [SEED_SPONSOR_FEE, pubkey_bytes (key (isf_grok_account A))] (isf_sponsor_fee A) c = Inr (bump, c1)"
    and st: "store_sponsor_fee_config f (key (isf_sponsor_fee A)) (emit e c1) = Inr d" and q: "\<not> settles e"
    and f: "sf_fee_per_intent f = 0"
    using assms(2)
    by (auto simp: init_sponsor_fee_def init_sponsor_fee_accounts_def init_fee_def and_then_eq_Inr Let_def)
  show ?thesis
    by (rule init_writes [OF assms(1) init _ store_decodes(6) [OF st] q]) (simp_all add: f)
qed

lemma writes_set_sponsor_fee:
  assumes "set_sponsor_fee rt A fee c = Inr d"
  shows "writes (R no_charge) c d"
proof -
  obtain f e where load: "load_sponsor_fee_config c (key (ssf_sponsor_fee A)) = Inr f"
    and fee: "fee \<le> MAX_FEE_PER_INTENT"
    and st: "store_sponsor_fee_config (f\<lparr>sf_fee_per_intent := fee\<rparr>) (key (ssf_sponsor_fee A)) (emit e c) = Inr d" and q: "\<not> settles e"
    using assms
    by (auto simp: set_sponsor_fee_def set_sponsor_fee_accounts_def set_fee_def and_then_eq_Inr
        require_eq_Inr Let_def)
  show ?thesis
    by (rule update_writes [OF allowed_loaded(6) [OF load] store_decodes(6) [OF st] q])
      (simp_all add: fee fixed_fee_def)
qed

lemma writes_create_subscription:
  assumes "good rt" and "create_subscription rt A args c = Inr d"
  shows "writes (R no_charge) c d"
proof -
  obtain reg bump c1 where acc: "create_subscription_accounts rt A args c = Inr (reg, bump, c1)"
    and h: "subscription_create rt A args reg bump c1 = Inr d"
    using assms(2) by (auto simp: create_subscription_def and_then_eq_Inr)
  have init: "init_account rt (csb_root A) subscription_SPACE
       [SEED_SUBSCRIPTION, pubkey_bytes (key (csb_grok_account A)), pubkey_bytes (su_merchant args),
        pubkey_bytes (key (csb_mint A))] (csb_subscription A) c = Inr (bump, c1)"
    using acc by (auto simp: create_subscription_accounts_def and_then_eq_Inr)
  obtain u e where u: "u = \<lparr>sb_grok_account = key (csb_grok_account A), sb_root = key (csb_root A),
      sb_merchant = su_merchant args, sb_mint = key (csb_mint A), sb_amount = su_amount args,
      sb_period_seconds = su_period_seconds args,
      sb_start_unix = (if sint (unix_now rt) < sint (su_start_unix args) then su_start_unix args else unix_now rt),
      sb_last_paid_period = PERIOD_NONE, sb_payments = 0, sb_active = True, sb_bump = bump\<rparr>"
    and ok: "0 < su_amount args" "sint MIN_PERIOD_SECONDS \<le> sint (su_period_seconds args)"
    and st: "store_subscription u (key (csb_subscription A)) (emit e c1) = Inr d" and q: "\<not> settles e"
    using h by (auto simp: subscription_create_def and_then_eq_Inr require_eq_Inr Let_def)
  show ?thesis
    by (rule init_writes [OF assms(1) init _ store_decodes(4) [OF st] q])
      (use ok in \<open>simp_all add: u PERIOD_NONE_def\<close>)
qed

lemma writes_cancel_subscription:
  assumes "cancel_subscription rt A c = Inr d"
  shows "writes (R no_charge) c d"
proof -
  obtain u e where load: "load_subscription c (key (xsb_subscription A)) = Inr u"
    and st: "store_subscription (u\<lparr>sb_active := False\<rparr>) (key (xsb_subscription A)) (emit e c) = Inr d"
    and q: "\<not> settles e"
    using assms
    by (auto simp: cancel_subscription_def cancel_subscription_accounts_def subscription_cancel_def
        and_then_eq_Inr Let_def)
  show ?thesis
    by (rule update_writes [OF allowed_loaded(4) [OF load] store_decodes(4) [OF st] q])
      (simp_all add: fixed_subscription_def)
qed

lemma pay_subscription_notes:
  assumes iso: "good rt" and "pay_subscription rt A args c = Inr d"
  shows "notes_settlement (R no_charge) (key (psb_subscription A)) c d"
proof -
  let ?s = "key (psb_subscription A)"
  obtain gr u reg bump pm where acc: "pay_subscription_accounts rt A c = Inr (gr, u, reg, bump, pm)"
    and h: "subscription_pay rt A gr u reg bump pm args c = Inr d"
    using assms(2) by (auto simp: pay_subscription_def and_then_eq_Inr)
  have load: "load_subscription c ?s = Inr u"
    using pay_subscription_accounts_eq_Inr [OF acc] by blast
  show ?thesis
  proof (rule subscription_pay_exact [OF h])
    fix period dec c1 c2
    assume due: "due_period (unix_now rt) u (py_period args) = Inr period"
      and tp: "key (psb_token_program A) \<in> {TOKEN_PROGRAM_ID, TOKEN_2022_PROGRAM_ID}"
      and 1: "mouth_check_grant rt A (sb_amount u) c = Inr c1"
      and 2: "invoke_signed rt (transfer_checked_ix (key (psb_token_program A)) (key (psb_source A))
       (sb_mint u) (key (psb_destination A)) (key (psb_pump_trader A)) (sb_amount u) dec)
       [psb_source A, psb_mint A, psb_destination A, psb_pump_trader A, psb_token_program A]
       [[SEED_PUMP_TRADER, pubkey_bytes (key (m_grok_account A)), [bump]]] c1 = Inr c2"
      and 3: "store_subscription (u\<lparr>sb_last_paid_period := period,
         sb_payments := saturating_add (sb_payments u) 1\<rparr>) ?s
       (emit (Payment_event (SubscriptionPaid ?s (key (m_grok_account A))
          (sb_merchant u) (sb_mint u) (sb_amount u) period (saturating_add (sb_payments u) 1)
          (map_option key (psb_reference A)) (key (m_agent A)) (key (m_grant A)) (gr_generation gr))) c2)
      = Inr d"
    have "R no_charge c c1"
      by (rule keepsD [OF keeps_check_grant [OF iso] 1])
    moreover have "R no_charge c1 c2"
      by (rule called [OF iso _ 2]) (use tp in auto)
    ultimately have "R no_charge c c2"
      by (rule free_then)
    with load due store_decodes(4) [OF 3] show ?thesis
      unfolding notes_settlement_def by blast
  qed
qed

lemma writes_issue_sub_grant:
  assumes "good rt" and "issue_sub_grant rt A agent cap ex c = Inr d"
  shows "writes (R no_charge) c d"
proof (rule issue_sub_grantE [OF assms(2)])
  fix core parent bump c1 depth pk headroom pex sg e
  assume init: "init_account rt (isg_payer A) sub_grant_SPACE
       [SEED_SUB_GRANT, pubkey_bytes (key (isg_grok_account A)), pubkey_bytes agent]
       (isg_sub_grant A) c = Inr (bump, c1)"
    and cap: "0 < cap"
    and auth: "issuer_authority rt (key (isg_issuer A)) core parent = Inr (depth, pk, headroom, pex)"
    and sg: "sg = \<lparr>sg_grok_account = key (isg_grok_account A), sg_parent = pk,
           sg_issuer = key (isg_issuer A), sg_agent = agent, sg_cap = cap, sg_spent = 0,
           sg_expires_at = ex, sg_revoked = False, sg_depth = depth, sg_generation = 1, sg_bump = bump\<rparr>"
    and st: "store_sub_grant sg (key (isg_sub_grant A)) (emit (Sub_event e) c1) = Inr d"
  have "1 \<le> depth \<and> depth \<le> MAX_SUB_DEPTH"
    using auth depth_step
    by (auto simp: issuer_authority_def and_then_eq_Inr require_eq_Inr MAX_SUB_DEPTH_def word_le_nat_alt
        word_less_nat_alt split: option.splits)
  then show ?thesis
    by (intro init_writes [OF assms(1) init _ store_decodes(5) [OF st]]) (simp_all add: sg cap)
qed

lemma writes_manage_sub_grant:
  assumes "manage_sub_grant_accounts rt A c = Inr g"
    and "store_sub_grant h (key (msg_sub_grant A)) (emit e c) = Inr d"
    and "evolves (Sub_grant_state g) (Sub_grant_state h)" and "\<not> settles e"
  shows "writes (R no_charge) c d"
proof -
  have load: "load_sub_grant c (key (msg_sub_grant A)) = Inr g"
    using manage_sub_grant_accounts_eq_Inr [OF assms(1)] by blast
  have same: "fixed_sub_grant h = fixed_sub_grant g"
    using assms(3) by simp
  have "sg_depth h = sg_depth g \<and> sg_spent h = sg_spent g"
    using arg_cong [OF same, of sg_depth] arg_cong [OF same, of sg_spent]
    by (simp add: fixed_sub_grant_def)
  then show ?thesis
    by (intro update_writes [OF allowed_loaded(5) [OF load assms(3)] store_decodes(5) [OF assms(2)] assms(4)]) simp_all
qed

lemma writes_revise_sub_grant: "revise_sub_grant rt A cap ex c = Inr d \<Longrightarrow> writes (R no_charge) c d"
  unfolding revise_sub_grant_def Let_def and_then_eq_Inr sub_grant_revise_eq_Inr
  by (elim exE conjE, rule writes_manage_sub_grant, assumption, assumption)
    (simp_all add: fixed_sub_grant_def)

lemma writes_revoke_sub_grant: "revoke_sub_grant rt A c = Inr d \<Longrightarrow> writes (R no_charge) c d"
  unfolding revoke_sub_grant_def Let_def and_then_eq_Inr sub_grant_revoke_eq_Inr
  by (elim exE conjE, rule writes_manage_sub_grant, assumption, assumption)
    (simp_all add: fixed_sub_grant_def saturating_add_ge)

end

section \<open>The three relations\<close>

text \<open>
  \<open>undisturbed\<close>: accounts of this program keep owner and data, and an account that becomes one
  holds zeros. \<open>extends_log\<close>: events are only appended; \<open>extends_quietly\<close>: and none of them is a
  settlement. The third is \<open>kept\<close>.
\<close>

definition undisturbed :: "chain \<Rightarrow> chain \<Rightarrow> bool" where
  "undisturbed c d \<longleftrightarrow>
     (\<forall>k. (owner_of c k = INTENTS_ID \<longrightarrow> owner_of d k = INTENTS_ID \<and> data_of d k = data_of c k)
        \<and> (owner_of c k \<noteq> INTENTS_ID \<longrightarrow> owner_of d k = INTENTS_ID \<longrightarrow> blank (data_of d k)))"

definition extends_log :: "chain \<Rightarrow> chain \<Rightarrow> bool" where
  "extends_log c d \<longleftrightarrow> (\<exists>es. events d = events c @ es)"

definition extends_quietly :: "chain \<Rightarrow> chain \<Rightarrow> bool" where
  "extends_quietly c d \<longleftrightarrow> (\<exists>es. events d = events c @ es \<and> \<not> list_ex settles es)"

lemma undisturbed_same: "(\<And>k. owner_of d k = owner_of c k \<and> data_of d k = data_of c k) \<Longrightarrow> undisturbed c d"
  by (simp add: undisturbed_def)

lemma undisturbed_called:
  assumes "isolated rt" and "outward ix" and "invoke_signed rt ix infos ss c = Inr d"
  shows "undisturbed c d"
proof -
  obtain m where m: "invoke_cpi rt ix infos ss (accts c) = Inr m" and d: "d = c\<lparr>accts := m\<rparr>"
    using assms(3) by (auto simp: invoke_signed_eq_Inr)
  show ?thesis
  proof (cases "ix_program_id ix = INTENTS_ID")
    case True
    then have "m = accts c"
      using assms(1,2) m by (auto simp: isolated_def self_call_idle_def outward_def)
    then show ?thesis
      by (simp add: d undisturbed_def)
  next
    case False
    have f: "foreign_frame rt" "no_forgery rt"
      using assms(1) by (simp_all add: isolated_def)
    show ?thesis
      using f(1) [unfolded foreign_frame_def, rule_format, OF False m]
        f(2) [unfolded no_forgery_def, rule_format, OF False m]
      by (simp add: undisturbed_def d owner_of_def data_of_def)
  qed
qed

lemma undisturbed_created:
  assumes "isolated rt" and "create_pda_account rt payer k space sd c = Inr d"
  shows "undisturbed c d"
proof -
  obtain m where m: "init_pda rt payer k space sd (accts c) = Inr m" and d: "d = c\<lparr>accts := m\<rparr>"
    using assms(2) by (auto simp: create_pda_account_eq_Inr)
  have "init_fresh rt"
    using assms(1) by (simp add: isolated_def)
  note i = this [unfolded init_fresh_def, rule_format, OF m]
  have "(acc_owner (accts c j) = INTENTS_ID \<longrightarrow>
        acc_owner (m j) = INTENTS_ID \<and> acc_data (m j) = acc_data (accts c j))
      \<and> (acc_owner (accts c j) \<noteq> INTENTS_ID \<longrightarrow> acc_owner (m j) = INTENTS_ID \<longrightarrow> blank (acc_data (m j)))" for j
    using i by (cases "j = k"; cases "j = payer") auto
  then show ?thesis
    by (simp add: undisturbed_def d owner_of_def data_of_def)
qed

lemma kept_called:
  assumes "isolated rt" and "outward ix" and "invoke_signed rt ix infos ss c = Inr d"
  shows "kept no_charge c d"
proof (cases "ix_program_id ix = INTENTS_ID")
  case True
  obtain m where m: "invoke_cpi rt ix infos ss (accts c) = Inr m" and d: "d = c\<lparr>accts := m\<rparr>"
    using assms(3) by (auto simp: invoke_signed_eq_Inr)
  have "m = accts c"
    using assms(1,2) m True by (auto simp: isolated_def self_call_idle_def outward_def)
  then show ?thesis
    by (simp add: d)
next
  case False
  with assms(1,3) show ?thesis
    by (intro kept_foreign) (simp_all add: isolated_def)
qed

lemma kept_created:
  assumes "isolated rt" and "create_pda_account rt payer k space sd c = Inr d"
  shows "kept no_charge c d"
proof -
  obtain m where m: "init_pda rt payer k space sd (accts c) = Inr m" and d: "d = c\<lparr>accts := m\<rparr>"
    using assms(2) by (auto simp: create_pda_account_eq_Inr)
  have "rent_from_outside rt"
    using assms(1) by (simp add: isolated_def)
  then have "acc_owner (accts c j) = INTENTS_ID \<Longrightarrow> acc_lamports (accts c j) \<le> acc_lamports (m j)" for j
    using m unfolding rent_from_outside_def by blast
  with undisturbed_created [OF assms] show ?thesis
    by (simp add: kept_def undisturbed_def no_charge_def d owner_of_def balance_def lamports_of_def
        word_le_nat_alt del: of_nat_unat)
qed

interpretation quiet: chain_frame isolated "\<lambda>f. undisturbed"
proof unfold_locales
  show "undisturbed c c" for c
    by (simp add: undisturbed_def)
  show "undisturbed c e" if "undisturbed c d" "undisturbed d e" for c d e
    using that unfolding undisturbed_def by metis
  show "undisturbed c (emit ev c)" for ev c
    by (simp add: undisturbed_def)
  show "undisturbed c d" if "require_debit err reserve src dst amount c = Inr d" for err reserve src dst amount c d
    by (rule undisturbed_same) (simp add: debit.frame(2,3) [OF that])
qed (assumption, assumption, erule (1) undisturbed_called, assumption, erule undisturbed_created, assumption)

interpretation log: chain_frame isolated "\<lambda>f. extends_quietly"
proof unfold_locales
  show "extends_quietly c d" if "require_debit err reserve src dst amount c = Inr d" for err reserve src dst amount c d
    using debit.frame(4) [OF that] by (simp add: extends_quietly_def)
  show "extends_quietly c d" if "invoke_signed rt ix infos ss c = Inr d" for rt ix infos ss c d
    using invoke_signed_events [OF that] by (simp add: extends_quietly_def)
  show "extends_quietly c d" if "create_pda_account rt payer k space sd c = Inr d" for rt payer k space sd c d
    using that by (auto simp: extends_quietly_def create_pda_account_eq_Inr)
qed (auto simp: extends_quietly_def)

interpretation coins: chain_frame isolated kept
proof unfold_locales
  show "kept f c d \<Longrightarrow> kept g d e \<Longrightarrow> kept (both f g) c e" for f g c d e
    by (rule kept_trans)
  show "kept f c d \<Longrightarrow> (\<And>k. f k \<le> g k) \<Longrightarrow> kept g c d" for f g c d
    by (rule kept_mono)
qed (simp_all add: debit_custody.keeps kept_called kept_created)

end
