(* ===== verification/Program.thy ===== *)
theory Program imports Frame begin

text \<open>
  \<open>lib.rs\<close>: the program as one dispatcher, and the ledgers it can reach. \<open>process\<close> runs an
  instruction of the program module; \<open>step\<close> adds everything other programs can do between
  two of them. Over the steps, the accounts of this program keep their type and evolve as
  \<open>evolves\<close> says, and in every reachable ledger they are \<open>sound\<close>.
\<close>

section \<open>Addresses\<close>

definition spend_vault_pda :: "runtime \<Rightarrow> pubkey \<Rightarrow> pubkey \<Rightarrow> pubkey \<times> u8" where
  "spend_vault_pda rt program_id grok_account =
     find_program_address rt [SEED_SPEND_VAULT, pubkey_bytes grok_account] program_id"

definition paymaster_pda :: "runtime \<Rightarrow> pubkey \<Rightarrow> pubkey \<Rightarrow> pubkey \<times> u8" where
  "paymaster_pda rt program_id grok_account =
     find_program_address rt [SEED_PAYMASTER, pubkey_bytes grok_account] program_id"

definition pump_trader_pda :: "runtime \<Rightarrow> pubkey \<Rightarrow> pubkey \<Rightarrow> pubkey \<times> u8" where
  "pump_trader_pda rt program_id grok_account =
     find_program_address rt [SEED_PUMP_TRADER, pubkey_bytes grok_account] program_id"

section \<open>The program module\<close>

text \<open>One constructor per entry point: its accounts, its arguments, its remaining accounts.\<close>

datatype program_ix =
    Init_spend_vault init_spend_vault_infos
  | Fund_spend_vault fund_spend_vault_infos u64
  | Withdraw_spend_vault withdraw_spend_vault_infos u64
  | Init_paymaster init_paymaster_infos pubkey
  | Fund_paymaster fund_paymaster_infos u64
  | Withdraw_paymaster withdraw_paymaster_infos u64
  | Set_relayer manage_paymaster_infos pubkey
  | Pause_paymaster manage_paymaster_infos
  | Unpause_paymaster manage_paymaster_infos
  | Pay pay_infos pay_args
  | Swap swap_infos swap_args
  | Deploy deploy_infos deploy_args
  | Call call_infos call_args "account_info list"
  | Pump_create pump_trade_infos pump_create_args "account_info list"
  | Issue_sub_grant issue_sub_grant_infos pubkey u64 i64
  | Revise_sub_grant manage_sub_grant_infos u64 i64
  | Revoke_sub_grant manage_sub_grant_infos
  | Init_sponsor_fee init_sponsor_fee_infos
  | Set_sponsor_fee set_sponsor_fee_infos u64
  | Burn_collected_fees burn_collected_fees_infos
  | Init_pump_trader init_pump_trader_infos
  | Fund_pump_trader fund_pump_trader_infos u64
  | Withdraw_pump_trader withdraw_pump_trader_infos u64 "account_info list"
  | Token_buy token_trade_infos token_buy_args "account_info list"
  | Token_sell token_trade_infos token_sell_args "account_info list"
  | Init_merchant_registry init_merchant_registry_infos pubkey
  | Add_merchant update_merchant_registry_infos pubkey
  | Remove_merchant update_merchant_registry_infos pubkey
  | Pay_token pay_token_infos pay_token_args
  | Create_subscription create_subscription_infos subscription_args
  | Cancel_subscription cancel_subscription_infos
  | Pay_subscription pay_subscription_infos pay_subscription_args

fun process :: "runtime \<Rightarrow> program_ix \<Rightarrow> chain \<Rightarrow> chain res" where
  "process rt (Init_spend_vault A) = init_spend_vault rt A"
| "process rt (Fund_spend_vault A lamports) = fund_spend_vault rt A lamports"
| "process rt (Withdraw_spend_vault A lamports) = withdraw_spend_vault rt A lamports"
| "process rt (Init_paymaster A relayer) = init_paymaster rt A relayer"
| "process rt (Fund_paymaster A lamports) = fund_paymaster rt A lamports"
| "process rt (Withdraw_paymaster A lamports) = withdraw_paymaster rt A lamports"
| "process rt (Set_relayer A relayer) = set_relayer rt A relayer"
| "process rt (Pause_paymaster A) = pause_paymaster rt A"
| "process rt (Unpause_paymaster A) = unpause_paymaster rt A"
| "process rt (Pay A args) = pay rt A args"
| "process rt (Swap A args) = swap rt A args"
| "process rt (Deploy A args) = deploy rt A args"
| "process rt (Call A args remaining) = call rt A args remaining"
| "process rt (Pump_create A args remaining) = pump_create rt A args remaining"
| "process rt (Issue_sub_grant A agent cap expires_at_unix) = issue_sub_grant rt A agent cap expires_at_unix"
| "process rt (Revise_sub_grant A cap expires_at_unix) = revise_sub_grant rt A cap expires_at_unix"
| "process rt (Revoke_sub_grant A) = revoke_sub_grant rt A"
| "process rt (Init_sponsor_fee A) = init_sponsor_fee rt A"
| "process rt (Set_sponsor_fee A fee_per_intent) = set_sponsor_fee rt A fee_per_intent"
| "process rt (Burn_collected_fees A) = burn_collected_fees rt A"
| "process rt (Init_pump_trader A) = init_pump_trader rt A"
| "process rt (Fund_pump_trader A lamports) = fund_pump_trader rt A lamports"
| "process rt (Withdraw_pump_trader A lamports remaining) = withdraw_pump_trader rt A lamports remaining"
| "process rt (Token_buy A args remaining) = token_buy rt A args remaining"
| "process rt (Token_sell A args remaining) = token_sell rt A args remaining"
| "process rt (Init_merchant_registry A mint) = init_merchant_registry rt A mint"
| "process rt (Add_merchant A merchant) = add_merchant rt A merchant"
| "process rt (Remove_merchant A merchant) = remove_merchant rt A merchant"
| "process rt (Pay_token A args) = pay_token rt A args"
| "process rt (Create_subscription A args) = create_subscription rt A args"
| "process rt (Cancel_subscription A) = cancel_subscription rt A"
| "process rt (Pay_subscription A args) = pay_subscription rt A args"

section \<open>What one instruction may do\<close>

text \<open>
  The lamports an instruction may take from an account of this program: the amount of an intent
  or of a withdrawal from the vault or paymaster it names, and the sponsor share from the
  paymaster. No other entry point takes any.
\<close>

fun outflow :: "program_ix \<Rightarrow> pubkey \<Rightarrow> int" where
  "outflow (Withdraw_spend_vault A lamports) = charge_to (Some (key (wsv_spend_vault A))) lamports"
| "outflow (Withdraw_paymaster A lamports) = charge_to (Some (key (wpm_paymaster A))) lamports"
| "outflow (Fund_pump_trader A lamports) = charge_to (Some (key (fpt_spend_vault A))) lamports"
| "outflow (Pay A args) = both (charge_to (Some (key (pay_spend_vault A))) (pa_amount_lamports args))
     (charge_to (map_option key (pay_paymaster A)) (pa_sponsor_lamports args))"
| "outflow (Swap A args) = both (charge_to (Some (key (swap_spend_vault A))) (sw_amount_in_lamports args))
     (charge_to (map_option key (swap_paymaster A)) (sw_sponsor_lamports args))"
| "outflow (Deploy A args) = charge_to (map_option key (deploy_paymaster A)) (dp_sponsor_lamports args)"
| "outflow (Call A args remaining) =
     both (charge_to (Some (key (call_spend_vault A))) (ca_amount_lamports args))
       (charge_to (map_option key (call_paymaster A)) (ca_sponsor_lamports args))"
| "outflow (Pump_create A args remaining) = charge_to (map_option key (pp_paymaster A)) (pc_sponsor_lamports args)"
| "outflow (Token_buy A args remaining) = charge_to (map_option key (tt_paymaster A)) (tb_sponsor_lamports args)"
| "outflow (Token_sell A args remaining) = charge_to (map_option key (tt_paymaster A)) (ts_sponsor_lamports args)"
| "outflow (Pay_token A args) = charge_to (map_option key (ptk_paymaster A)) (pt_sponsor_lamports args)"
| "outflow _ = no_charge"

text \<open>The subscription an instruction settles.\<close>

fun settles_of :: "program_ix \<Rightarrow> pubkey option" where
  "settles_of (Pay_subscription A args) = Some (key (psb_subscription A))"
| "settles_of _ = None"

context chain_frame begin

lemmas all_keep = keeps_vault_moves keeps_intents keeps_pay_token keeps_burn keeps_trader_moves
  keeps_token_trades keeps_pump_create keeps_withdraw_trader

lemmas all_write = writes_init_spend_vault writes_init_paymaster writes_init_merchant_registry
  writes_init_sponsor_fee writes_create_subscription writes_issue_sub_grant

lemmas all_rewrite = writes_paymaster_switches writes_update_merchants writes_set_sponsor_fee
  writes_cancel_subscription writes_revise_sub_grant writes_revoke_sub_grant

lemma process_effect:
  assumes iso: "good rt" and run: "process rt ix c = Inr d"
  shows "R (outflow ix) c d \<or> writes (R (outflow ix)) c d
    \<or> (\<exists>k. settles_of ix = Some k \<and> outflow ix = no_charge \<and> notes_settlement (R no_charge) k c d)"
  by (insert run, cases ix; hypsubst; unfold process.simps outflow.simps;
      ((rule disjI1, erule all_keep [OF iso, THEN keepsD])
       | (rule disjI2, rule disjI1, erule all_rewrite)
       | (rule disjI2, rule disjI1, erule all_write [OF iso])
       | (rule disjI2, rule disjI2, simp, erule pay_subscription_notes [OF iso])))

end

text \<open>What a step leaves of each account, in terms of its decoded state.\<close>

definition lawful :: "chain \<Rightarrow> chain \<Rightarrow> bool" where
  "lawful c d \<longleftrightarrow>
     (\<forall>k. if owner_of c k = INTENTS_ID
          then owner_of d k = INTENTS_ID
            \<and> (data_of d k = data_of c k
               \<or> (\<exists>s t. decode_account (data_of c k) = Some s \<and> decode_account (data_of d k) = Some t
                    \<and> evolves s t \<and> (sound s \<longrightarrow> sound t)))
          else owner_of d k = INTENTS_ID \<longrightarrow>
            blank (data_of d k) \<or> (\<exists>t. decode_account (data_of d k) = Some t \<and> initial t))"

lemma undisturbed_lawful: "undisturbed c d \<Longrightarrow> lawful c d"
  by (simp add: undisturbed_def lawful_def)

lemma writes_lawful:
  assumes "writes undisturbed c d"
  shows "lawful c d"
proof -
  obtain c1 j bs t where quiet: "undisturbed c c1" and d: "d = with_data j bs c1"
    and dec: "decode_account bs = Some t" and ok: "allowed c j t"
    using assms unfolding writes_def by blast
  have "owner_of c j = INTENTS_ID \<longrightarrow> owner_of c1 j = INTENTS_ID"
    using quiet by (simp add: undisturbed_def)
  with quiet dec ok show ?thesis
    by (auto simp: lawful_def undisturbed_def d allowed_def)
qed

text \<open>A settlement is an admissible write too.\<close>

lemma settlement_lawful:
  assumes "notes_settlement undisturbed k c d"
  shows "lawful c d"
proof -
  obtain u now stated p c1 bs e where load: "load_subscription c k = Inr u"
    and due: "due_period now u stated = Inr p" and quiet: "undisturbed c c1"
    and d: "d = with_data k bs (emit e c1)"
    and dec: "decode_account bs = Some (Subscription_state (u\<lparr>sb_last_paid_period := p,
      sb_payments := saturating_add (sb_payments u) 1\<rparr>))"
    using assms unfolding notes_settlement_def by blast
  have s: "owner_of c k = INTENTS_ID" "decode_account (data_of c k) = Some (Subscription_state u)"
    using load by (simp_all add: load_typed_eq_Inr)
  with quiet have "owner_of c1 k = INTENTS_ID"
    by (simp add: undisturbed_def)
  with quiet s dec settlement_evolves [OF due] show ?thesis
    unfolding lawful_def undisturbed_def by (auto simp: d simp del: evolves.simps sound.simps decode_account_iff)
qed

lemma process_lawful: "isolated rt \<Longrightarrow> process rt ix c = Inr d \<Longrightarrow> lawful c d"
  using quiet.process_effect undisturbed_lawful writes_lawful settlement_lawful by blast

lemma process_extends_log: "isolated rt \<Longrightarrow> process rt ix c = Inr d \<Longrightarrow> extends_log c d"
  using log.process_effect [of rt ix c d]
  by (auto simp: writes_def notes_settlement_def extends_log_def extends_quietly_def)

section \<open>Steps and reachable ledgers\<close>

text \<open>
  Every instruction runs with the runtime of its own moment (clock, rent, other programs); a
  failed one changes nothing. Whatever runs without this program leaves its accounts alone.
\<close>

inductive step :: "chain \<Rightarrow> chain \<Rightarrow> bool" where
  own: "isolated rt \<Longrightarrow> process rt ix c = Inr d \<Longrightarrow> step c d"
| foreign: "undisturbed c d \<Longrightarrow> events d = events c \<Longrightarrow> step c d"

inductive_cases stepE: "step c d"

inductive steps :: "chain \<Rightarrow> chain \<Rightarrow> bool" where
  none: "steps c c"
| more: "steps c d \<Longrightarrow> step d e \<Longrightarrow> steps c e"

text \<open>Before the program is deployed no account belongs to it.\<close>

definition genesis :: "chain \<Rightarrow> bool" where
  "genesis c \<longleftrightarrow> (\<forall>k. owner_of c k \<noteq> INTENTS_ID) \<and> events c = []"

definition reachable :: "chain \<Rightarrow> bool" where
  "reachable d \<longleftrightarrow> (\<exists>c. genesis c \<and> steps c d)"

lemma step_lawful: "step c d \<Longrightarrow> lawful c d"
  by (erule stepE) (simp_all add: process_lawful undisturbed_lawful)

lemma step_extends_log: "step c d \<Longrightarrow> extends_log c d"
  by (erule stepE) (simp_all add: process_extends_log, simp add: extends_log_def)

lemma steps_extend_log: "steps c d \<Longrightarrow> extends_log c d"
proof (induction rule: steps.induct)
  case (none c)
  show ?case by (simp add: extends_log_def)
next
  case (more c d e)
  then show ?case
    using step_extends_log unfolding extends_log_def by fastforce
qed

lemma steps_evolve:
  "steps c d \<Longrightarrow> owner_of c k = INTENTS_ID \<Longrightarrow> decode_account (data_of c k) = Some s \<Longrightarrow>
   owner_of d k = INTENTS_ID \<and> (\<exists>t. decode_account (data_of d k) = Some t \<and> evolves s t)"
proof (induction rule: steps.induct)
  case (none c)
  then show ?case
    using evolves_refl by blast
next
  case (more c d e)
  then obtain t where own: "owner_of d k = INTENTS_ID" and t: "decode_account (data_of d k) = Some t" "evolves s t"
    by blast
  have "owner_of e k = INTENTS_ID \<and> (data_of e k = data_of d k
      \<or> (\<exists>s t. decode_account (data_of d k) = Some s \<and> decode_account (data_of e k) = Some t
           \<and> evolves s t \<and> (sound s \<longrightarrow> sound t)))"
    using step_lawful [OF more.hyps(2)] own unfolding lawful_def by meson
  with t show ?case
    by (auto intro: evolves_trans)
qed

definition all_sound :: "chain \<Rightarrow> bool" where
  "all_sound c \<longleftrightarrow>
     (\<forall>k. owner_of c k = INTENTS_ID \<longrightarrow>
        blank (data_of c k) \<or> (\<exists>s. decode_account (data_of c k) = Some s \<and> sound s))"

lemma lawful_sound:
  assumes "lawful c d" and "all_sound c"
  shows "all_sound d"
  unfolding all_sound_def
proof (intro allI impI)
  fix k
  assume own: "owner_of d k = INTENTS_ID"
  note law = assms(1) [unfolded lawful_def, rule_format, of k]
  show "blank (data_of d k) \<or> (\<exists>s. decode_account (data_of d k) = Some s \<and> sound s)"
  proof (cases "owner_of c k = INTENTS_ID")
    case True
    then have "blank (data_of c k) \<or> (\<exists>s. decode_account (data_of c k) = Some s \<and> sound s)"
      using assms(2) by (simp add: all_sound_def)
    with law True show ?thesis
      by (auto dest: blank_undecodable)
  next
    case False
    with law own show ?thesis
      using initial_sound by auto
  qed
qed

lemma reachable_sound: "reachable d \<Longrightarrow> all_sound d"
proof -
  have "steps c d \<Longrightarrow> genesis c \<Longrightarrow> all_sound d" for c d
    by (induction rule: steps.induct)
      (simp_all add: genesis_def all_sound_def [of c] lawful_sound [OF step_lawful], simp add: all_sound_def)
  then show "reachable d \<Longrightarrow> all_sound d"
    by (auto simp: reachable_def)
qed

section \<open>A demonstration history\<close>

lemma demo_isolated: "isolated demo_rt"
proof -
  have "acc_owner (m' k) = acc_owner (m k)" if "demo_cpi ix infos ss m = Inr m'" for ix infos ss m m' k
    using that by (auto simp: demo_cpi_def demo_core_def demo_system_def Let_def split: if_splits)
  then have "no_forgery demo_rt"
    by (auto simp: no_forgery_def)
  moreover have "self_call_idle demo_rt"
    by (auto simp: self_call_idle_def demo_cpi_def core_not_intents [symmetric])
  moreover have "rent_from_outside demo_rt"
    using intents_not_system by (auto simp: rent_from_outside_def demo_init_def split: if_splits)
  ultimately show ?thesis
    by (simp add: isolated_def demo_foreign_frame demo_init_fresh)
qed

lemma token_move_owner: "token_move tp src dst a m = Inr m' \<Longrightarrow> acc_owner (m' k) = acc_owner (m k)"
  by (auto simp: token_move_def split: if_splits)

lemma token_burn_owner: "token_burn tp src mint a m = Inr m' \<Longrightarrow> acc_owner (m' k) = acc_owner (m k)"
  by (auto simp: token_burn_def split: if_splits)

lemma demo_token_isolated: "isolated demo_token_rt"
proof -
  have demo: "no_forgery demo_rt" "self_call_idle demo_rt" "init_fresh demo_rt" "rent_from_outside demo_rt"
    using demo_isolated by (simp_all add: isolated_def)
  have "no_forgery demo_token_rt"
    unfolding no_forgery_def
  proof (intro allI impI)
    fix ix infos ss and m m' :: ledger and k
    assume ix: "ix_program_id ix \<noteq> INTENTS_ID" and run: "invoke_cpi demo_token_rt ix infos ss m = Inr m'"
      and own: "acc_owner (m k) \<noteq> INTENTS_ID" "acc_owner (m' k) = INTENTS_ID"
    show "blank (acc_data (m' k))"
    proof (cases "ix_program_id ix \<in> {TOKEN_PROGRAM_ID, TOKEN_2022_PROGRAM_ID}")
      case True
      then have "acc_owner (m' k) = acc_owner (m k)"
        using run by (auto simp: demo_token_cpi_def Let_def dest: token_move_owner token_burn_owner split: if_splits)
      with own show ?thesis
        by simp
    next
      case False
      then have "invoke_cpi demo_rt ix infos ss m = Inr m'"
        using run by (simp add: demo_token_other)
      with demo(1) ix own show ?thesis
        unfolding no_forgery_def by blast
    qed
  qed
  moreover have "self_call_idle demo_token_rt"
    using demo(2) by (simp add: self_call_idle_def demo_token_other not_sym [OF other_programs(2)]
        not_sym [OF other_programs(3)])
  moreover have "init_fresh demo_token_rt" "rent_from_outside demo_token_rt"
    using demo(3,4) by (simp_all add: init_fresh_def rent_from_outside_def)
  ultimately show ?thesis
    by (simp add: isolated_def demo_token_foreign_frame)
qed

lemma steps_own: "steps c d \<Longrightarrow> isolated rt \<Longrightarrow> process rt ix d = Inr e \<Longrightarrow> steps c e"
  by (rule steps.more [OF _ step.own])

text \<open>A lamport sent by somebody else.\<close>

lemma steps_gift: "steps c d \<Longrightarrow> steps c (with_lamports k v d)"
  by (rule steps.more, assumption, rule step.foreign) (simp_all add: undisturbed_def)

section \<open>Properties\<close>

text \<open>C11: Over any history of instructions of this program and of whatever else runs on the chain, an
  account of this program stays its own, keeps its type, and changes only as its type allows: a
  vault never, a paymaster in relayer and pause flag, a registry in its payees, a subscription
  forward until it is cancelled, a sub-grant to less, a fee config in its rate; and no event is
  ever unwritten.\<close>

theorem accounts_evolve:
  assumes "steps c d" and "owner_of c k = INTENTS_ID" and "decode_account (data_of c k) = Some s"
  shows "owner_of d k = INTENTS_ID
    \<and> (\<exists>t. decode_account (data_of d k) = Some t \<and> evolves s t)
    \<and> (\<exists>es. events d = events c @ es)"
  using steps_evolve [OF assms] steps_extend_log [OF assms(1)] by (simp add: extends_log_def)

lemma accounts_evolve_witness:
  "\<exists>d. steps demo_chain d \<and> load_spend_vault d k_vault = Inr demo_vault \<and> events d \<noteq> []"
proof -
  obtain d1 where d1: "pause_paymaster demo_rt demo_manage_infos demo_chain = Inr d1"
    using demo_pause_ok by blast
  let ?d = "with_lamports k_payee 7 d1"
  have "steps demo_chain d1"
    by (rule steps_own [OF steps.none demo_isolated, of "Pause_paymaster demo_manage_infos"]) (simp add: d1)
  then have steps: "steps demo_chain ?d"
    by (rule steps_gift)
  note v = demo_loads(1) [unfolded load_typed_eq_Inr [OF intents_not_system]]
  from accounts_evolve [OF steps conjunct1 [OF v], of "Vault_state demo_vault"] conjunct2 [OF v]
  obtain t where "owner_of ?d k_vault = INTENTS_ID" "decode_account (data_of ?d k_vault) = Some t"
    "evolves (Vault_state demo_vault) t"
    by auto
  then have "load_spend_vault ?d k_vault = Inr demo_vault"
    by (cases t) (auto simp: load_typed_eq_Inr)
  moreover have "events ?d \<noteq> []"
    using d1 demo_manage_ok
    by (auto simp: pause_paymaster_def and_then_eq_Inr Let_def dest: pm_account.acct.store_events)
  ultimately show ?thesis
    using steps by blast
qed

text \<open>C2: In every ledger reachable from the deployment of the program, whatever the order of
  instructions: a registry lists no payee twice and at most 32; a subscription charges a
  positive amount at most daily and has never been settled more often than periods have begun
  up to the last one paid; a sub-grant is at most three levels deep and no instruction has
  metered it; the fee is within its ceiling; and every account of the program is blank or
  decodes to one of the six types.\<close>

theorem reachable_accounts_sound:
  assumes "reachable d"
  shows "(load_merchant_registry d k = Inr r \<longrightarrow>
        distinct (mr_merchants r) \<and> length (mr_merchants r) \<le> 32)
    \<and> (load_subscription d k = Inr u \<longrightarrow>
        0 < sb_amount u \<and> 86400 \<le> sint (sb_period_seconds u)
        \<and> int (unat (sb_payments u)) \<le> sint (sb_last_paid_period u) + 1)
    \<and> (load_sub_grant d k = Inr g \<longrightarrow>
        1 \<le> unat (sg_depth g) \<and> unat (sg_depth g) \<le> 3 \<and> sg_spent g = 0)
    \<and> (load_sponsor_fee_config d k = Inr f \<longrightarrow> unat (sf_fee_per_intent f) \<le> 10000000)
    \<and> (owner_of d k = INTENTS_ID \<longrightarrow>
        blank (data_of d k) \<or> (\<exists>s. decode_account (data_of d k) = Some s))"
proof -
  have sound: "owner_of d k = INTENTS_ID \<longrightarrow>
      blank (data_of d k) \<or> (\<exists>s. decode_account (data_of d k) = Some s \<and> sound s)"
    using reachable_sound [OF assms] by (simp add: all_sound_def)
  have state: "sound s" if "owner_of d k = INTENTS_ID" "decode_account (data_of d k) = Some s" for s
    using sound that by (auto dest: blank_undecodable)
  show ?thesis
    using sound state [of "Registry_state r"] state [of "Subscription_state u"]
      state [of "Sub_grant_state g"] state [of "Fee_state f"]
    by (auto simp: load_typed_eq_Inr registry_inv_def MAX_MERCHANTS_def MIN_PERIOD_SECONDS_def
        MAX_SUB_DEPTH_def MAX_FEE_PER_INTENT_def word_le_nat_alt)
qed

text \<open>A registry made and filled on a fresh chain.\<close>

definition demo_fresh :: chain where
  "demo_fresh = demo_chain\<lparr>accts := (accts demo_chain)
     (k_vault := demo_account 0 SYSTEM_PROGRAM_ID [], k_paymaster := demo_account 0 SYSTEM_PROGRAM_ID [])\<rparr>"

definition demo_registry_infos :: init_merchant_registry_infos where
  "demo_registry_infos =
     \<lparr>imr_root = info k_root True True, imr_grok_account = info k_grok False False,
      imr_merchant_registry = info k_merchants False True,
      imr_system_program = info SYSTEM_PROGRAM_ID False False\<rparr>"

lemma demo_fresh_accts [simp]:
  "accts demo_fresh k_root = demo_account 900000 SYSTEM_PROGRAM_ID []"
  "accts demo_fresh k_grok = demo_account 300 CORE_ID []"
  "accts demo_fresh k_merchants = demo_account 0 SYSTEM_PROGRAM_ID []"
  "accts demo_fresh SYSTEM_PROGRAM_ID = demo_program"
proof -
  have "k_vault \<noteq> SYSTEM_PROGRAM_ID" "k_paymaster \<noteq> SYSTEM_PROGRAM_ID"
    by (simp_all add: key_simps)
  then show "accts demo_fresh SYSTEM_PROGRAM_ID = demo_program"
    by (simp add: demo_fresh_def)
  show "accts demo_fresh k_merchants = demo_account 0 SYSTEM_PROGRAM_ID []"
    by (simp add: demo_fresh_def demo_chain_def key_simps)
qed (simp_all add: demo_fresh_def)

lemma demo_fresh_genesis: "genesis demo_fresh"
  by (simp add: genesis_def demo_fresh_def demo_chain_def owner_of_def demo_account_def demo_program_def
      key_simps)

lemma demo_fresh_grok [simp]:
  "load_grok_account demo_rt demo_fresh k_grok = Inr \<lparr>ga_root = k_root, ga_bump = 255\<rparr>"
  by (simp add: load_grok_account_def res_simps owner_of_def)

lemma demo_registry_created:
  "\<exists>c. init_merchant_registry_accounts demo_rt demo_registry_infos demo_fresh = Inr (255, c)
     \<and> owner_of c k_merchants = INTENTS_ID \<and> data_of c k_merchants = replicate merchant_registry_SPACE 0
     \<and> accts c k_grok = demo_account 300 CORE_ID []"
  by (simp add: init_merchant_registry_accounts_def init_account_def create_pda_account_def demo_init_def
      seeds_canonical_def demo_registry_infos_def root_defs owner_of_def data_of_def
      merchant_registry_SPACE_def MAX_MERCHANTS_def)

lemma demo_registry_made:
  "\<exists>d. init_merchant_registry demo_rt demo_registry_infos 40 demo_fresh = Inr d
     \<and> load_merchant_registry d k_merchants = Inr (demo_registry\<lparr>mr_merchants := []\<rparr>)
     \<and> length (data_of d k_merchants) = merchant_registry_SPACE
     \<and> load_grok_account demo_rt d k_grok = Inr \<lparr>ga_root = k_root, ga_bump = 255\<rparr>"
proof -
  let ?reg = "\<lparr>mr_grok_account = k_grok, mr_root = k_root, mr_mint = 40, mr_bump = 255, mr_merchants = []\<rparr>"
  let ?e = "Payment_event (MerchantRegistryInitialized k_merchants k_grok k_root 40)"
  obtain c where acc: "init_merchant_registry_accounts demo_rt demo_registry_infos demo_fresh = Inr (255, c)"
    and own: "owner_of c k_merchants = INTENTS_ID"
    and bs: "data_of c k_merchants = replicate merchant_registry_SPACE 0"
    and grok: "accts c k_grok = demo_account 300 CORE_ID []"
    using demo_registry_created by blast
  have "registry_inv ?reg"
    by (simp add: registry_inv_def)
  then obtain bs' where ser: "try_serialize mr_disc enc_merchant_registry ?reg (data_of c k_merchants) = Inr bs'"
    using registry_fits [of ?reg "data_of c k_merchants"] bs by auto
  let ?d = "with_data k_merchants bs' (emit ?e c)"
  have st: "store_merchant_registry ?reg k_merchants (emit ?e c) = Inr ?d"
    by (simp add: store_typed_def ser)
  have run: "init_merchant_registry demo_rt demo_registry_infos 40 demo_fresh = Inr ?d"
    using st by (simp add: init_merchant_registry_def acc merchants_init_def demo_registry_infos_def Let_def)
      (simp add: demo_registry_infos_def [symmetric] acc)
  have "load_merchant_registry ?d k_merchants = Inr ?reg"
    by (rule mr_account.first_store_loads [OF st]) (simp_all add: own)
  moreover have "length (data_of ?d k_merchants) = merchant_registry_SPACE"
    using mr_account.serialize_length [OF ser] bs by simp
  moreover have "load_grok_account demo_rt ?d k_grok = Inr \<lparr>ga_root = k_root, ga_bump = 255\<rparr>"
    by (simp add: load_grok_account_def res_simps owner_of_def grok)
  ultimately show ?thesis
    using run by (simp add: demo_registry_def)
qed

lemma reachable_accounts_sound_witness:
  "\<exists>d. reachable d \<and> load_merchant_registry d k_merchants = Inr demo_registry
     \<and> distinct (mr_merchants demo_registry)"
proof -
  let ?reg = "demo_registry\<lparr>mr_merchants := []\<rparr>"
  obtain d where init: "init_merchant_registry demo_rt demo_registry_infos 40 demo_fresh = Inr d"
    and load: "load_merchant_registry d k_merchants = Inr ?reg"
    and len: "length (data_of d k_merchants) = merchant_registry_SPACE"
    and grok: "load_grok_account demo_rt d k_grok = Inr \<lparr>ga_root = k_root, ga_bump = 255\<rparr>"
    using demo_registry_made by blast
  have acc: "update_merchant_registry_accounts demo_rt demo_update_infos d = Inr ?reg"
    by (simp add: update_merchant_registry_accounts_def demo_update_infos_def root_defs load grok)
      (simp add: demo_registry_def)
  have add: "registry_add 50 ?reg = Inr demo_registry"
    by (simp add: registry_add_eq_Inr demo_registry_def MAX_MERCHANTS_def)
  obtain e where e: "add_merchant demo_rt demo_update_infos 50 d = Inr e"
    and final: "load_merchant_registry e k_merchants = Inr demo_registry"
    using registry_store [OF demo_registry_inv load len] add
    by (simp add: add_merchant_def acc merchants_add_def Let_def) (auto simp: demo_update_infos_def)
  have "steps demo_fresh d"
    by (rule steps_own [OF steps.none demo_isolated, of "Init_merchant_registry demo_registry_infos 40"])
      (simp add: init)
  then have "steps demo_fresh e"
    by (rule steps_own [OF _ demo_isolated, of _ _ "Add_merchant demo_update_infos 50"]) (simp add: e)
  then have reach: "reachable e"
    using demo_fresh_genesis by (auto simp: reachable_def)
  from reachable_accounts_sound [OF this, of k_merchants demo_registry] reach final show ?thesis
    by blast
qed

text \<open>C9: Cancelling a subscription and revoking a sub-grant are final: whatever happens on the chain
  afterwards, the subscription keeps its very state and no settlement of it succeeds, and the
  sub-grant stays revoked, so no chain of sub-grants through it authorises a spend.\<close>

theorem endings_are_final:
  assumes "steps c d"
  shows "(load_subscription c k = Inr u \<and> \<not> sb_active u \<longrightarrow>
        load_subscription d k = Inr u
        \<and> (\<forall>rt A args e. key (psb_subscription A) = k \<longrightarrow> pay_subscription rt A args d \<noteq> Inr e))
    \<and> (load_sub_grant c k = Inr g \<and> sg_revoked g \<longrightarrow>
        (\<exists>h. load_sub_grant d k = Inr h \<and> sg_revoked h)
        \<and> (\<forall>nodes spender amount now.
             (\<forall>n \<in> set nodes. load_sub_grant d (cn_key n) = Inr (cn_data n)) \<and> k \<in> cn_key ` set nodes \<longrightarrow>
             walk_and_meter nodes spender amount now \<noteq> Inr ()))"
proof (intro conjI impI)
  assume u: "load_subscription c k = Inr u \<and> \<not> sb_active u"
  then obtain t where "owner_of d k = INTENTS_ID" "decode_account (data_of d k) = Some t"
    "evolves (Subscription_state u) t"
    using steps_evolve [OF assms, of k "Subscription_state u"] by (auto simp: load_typed_eq_Inr)
  with u show same: "load_subscription d k = Inr u"
    by (cases t) (auto simp: load_typed_eq_Inr)
  show "\<forall>rt A args e. key (psb_subscription A) = k \<longrightarrow> pay_subscription rt A args d \<noteq> Inr e"
    using inactive_refused same u by blast
next
  assume g: "load_sub_grant c k = Inr g \<and> sg_revoked g"
  then obtain t where "owner_of d k = INTENTS_ID" "decode_account (data_of d k) = Some t"
    "evolves (Sub_grant_state g) t"
    using steps_evolve [OF assms, of k "Sub_grant_state g"] by (auto simp: load_typed_eq_Inr)
  with g show *: "\<exists>h. load_sub_grant d k = Inr h \<and> sg_revoked h"
    by (cases t) (auto simp: load_typed_eq_Inr)
  show "\<forall>nodes spender amount now.
      (\<forall>n \<in> set nodes. load_sub_grant d (cn_key n) = Inr (cn_data n)) \<and> k \<in> cn_key ` set nodes \<longrightarrow>
      walk_and_meter nodes spender amount now \<noteq> Inr ()"
    using * by (fastforce simp: walk_iff_valid valid_chain_def)
qed

lemma endings_are_final_witness:
  "\<exists>c d. cancel_subscription demo_rt demo_cancel_infos demo_billing_chain = Inr c \<and> steps c d \<and> c \<noteq> d
     \<and> (\<forall>e. pay_subscription demo_token_rt demo_pay_subscription_infos demo_period_args d \<noteq> Inr e)"
proof -
  obtain c where c: "cancel_subscription demo_rt demo_cancel_infos demo_billing_chain = Inr c"
    using demo_cancel_ok by blast
  then obtain u e where u: "load_subscription demo_billing_chain k_subscription = Inr u"
    and st: "store_subscription (u\<lparr>sb_active := False\<rparr>) k_subscription (emit e demo_billing_chain) = Inr c"
    by (rule cancel_subscriptionE) (simp add: demo_cancel_infos_def)
  have "load_subscription c k_subscription = Inr (u\<lparr>sb_active := False\<rparr>)"
    by (rule sb_account.acct.load_store [OF _ _ st]) (simp_all add: u)
  moreover let ?d = "with_lamports 18 (lamports_of c 18 + 1) c"
  have steps: "steps c ?d"
    by (rule steps_gift [OF steps.none])
  moreover have "key (psb_subscription demo_pay_subscription_infos) = k_subscription"
    by (simp add: demo_pay_subscription_infos_def)
  moreover have "\<not> sb_active (u\<lparr>sb_active := False\<rparr>)"
    by simp
  ultimately have "\<forall>e. pay_subscription demo_token_rt demo_pay_subscription_infos demo_period_args ?d \<noteq> Inr e"
    using endings_are_final [OF steps, of k_subscription "u\<lparr>sb_active := False\<rparr>"] by blast
  moreover have "lamports_of ?d 18 \<noteq> lamports_of c 18"
    by simp
  then have "c \<noteq> ?d"
    by metis
  ultimately show ?thesis
    using c steps by blast
qed

text \<open>The root's declarations look at the chain only through the GrokAccount and the custody account.\<close>

lemma withdraw_spend_vault_accounts_iff:
  "withdraw_spend_vault_accounts rt A c = Inr () \<longleftrightarrow>
   is_signer (wsv_root A) \<and> is_writable (wsv_root A)
   \<and> (\<exists>ga. load_grok_account rt c (key (wsv_grok_account A)) = Inr ga
        \<and> grok_of_root rt (wsv_grok_account A) ga (wsv_root A) = Inr ())
   \<and> (\<exists>sv. load_spend_vault c (key (wsv_spend_vault A)) = Inr sv
        \<and> vault_constraints rt (wsv_spend_vault A) (key (wsv_grok_account A)) (key (wsv_root A)) sv = Inr ())"
  by (auto simp: withdraw_spend_vault_accounts_def and_then_eq_Inr account_checks_eq_Inr)

lemma withdraw_paymaster_accounts_iff:
  "withdraw_paymaster_accounts rt A c = Inr () \<longleftrightarrow>
   is_signer (wpm_root A) \<and> is_writable (wpm_root A)
   \<and> (\<exists>ga. load_grok_account rt c (key (wpm_grok_account A)) = Inr ga
        \<and> grok_of_root rt (wpm_grok_account A) ga (wpm_root A) = Inr ())
   \<and> (\<exists>pm. load_paymaster c (key (wpm_paymaster A)) = Inr pm
        \<and> paymaster_constraints rt (wpm_paymaster A) (key (wpm_grok_account A)) (key (wpm_root A)) pm = Inr ())"
  by (auto simp: withdraw_paymaster_accounts_def and_then_eq_Inr account_checks_eq_Inr)

lemma steps_vault:
  assumes "steps c d" and "load_spend_vault c k = Inr sv"
  shows "load_spend_vault d k = Inr sv"
proof -
  obtain t where "owner_of d k = INTENTS_ID" "decode_account (data_of d k) = Some t" "evolves (Vault_state sv) t"
    using steps_evolve [OF assms(1), of k "Vault_state sv"] assms(2) by (auto simp: load_typed_eq_Inr)
  then show ?thesis
    by (cases t) (simp_all add: load_typed_eq_Inr)
qed

lemma fixed_paymaster_fields:
  "fixed_paymaster q = fixed_paymaster p \<Longrightarrow>
   pm_bump q = pm_bump p \<and> pm_grok_account q = pm_grok_account p \<and> pm_root q = pm_root p"
  by (cases p; cases q) (simp add: fixed_paymaster_def)

lemma steps_paymaster:
  assumes "steps c d" and "load_paymaster c k = Inr p"
  shows "\<exists>q. load_paymaster d k = Inr q \<and> pm_bump q = pm_bump p
    \<and> pm_grok_account q = pm_grok_account p \<and> pm_root q = pm_root p"
proof -
  obtain t where "owner_of d k = INTENTS_ID" "decode_account (data_of d k) = Some t" "evolves (Paymaster_state p) t"
    using steps_evolve [OF assms(1), of k "Paymaster_state p"] assms(2) by (auto simp: load_typed_eq_Inr)
  then obtain q where "load_paymaster d k = Inr q" "fixed_paymaster q = fixed_paymaster p"
    by (cases t) (simp_all add: load_typed_eq_Inr)
  then show ?thesis
    using fixed_paymaster_fields by blast
qed

text \<open>C10: The root's money cannot be locked in: once a root can use its vault or paymaster, then after
  any history (pauses, agents, relayer changes, other programs) it can withdraw any amount
  down to the rent reserve, as long as CORE still reads its GrokAccount the same and its own
  balance does not overflow.\<close>

theorem root_can_withdraw:
  assumes "steps c d" and "0 < n"
  shows "(withdraw_spend_vault_accounts rt A c = Inr ()
      \<and> load_grok_account rt d (key (wsv_grok_account A)) = load_grok_account rt c (key (wsv_grok_account A))
      \<and> unat n + unat (min_balance rt spend_vault_SPACE) \<le> unat (lamports_of d (key (wsv_spend_vault A)))
      \<and> unat (lamports_of d (key (wsv_root A))) + unat n < 2 ^ 64
      \<longrightarrow> (\<exists>e. withdraw_spend_vault rt A n d = Inr e))
    \<and> (withdraw_paymaster_accounts rt B c = Inr ()
      \<and> load_grok_account rt d (key (wpm_grok_account B)) = load_grok_account rt c (key (wpm_grok_account B))
      \<and> unat n + unat (min_balance rt paymaster_SPACE) \<le> unat (lamports_of d (key (wpm_paymaster B)))
      \<and> unat (lamports_of d (key (wpm_root B))) + unat n < 2 ^ 64
      \<longrightarrow> (\<exists>e. withdraw_paymaster rt B n d = Inr e))"
proof (intro conjI impI; elim conjE)
  assume acc: "withdraw_spend_vault_accounts rt A c = Inr ()"
    and grok: "load_grok_account rt d (key (wsv_grok_account A)) = load_grok_account rt c (key (wsv_grok_account A))"
    and room: "unat n + unat (min_balance rt spend_vault_SPACE) \<le> unat (lamports_of d (key (wsv_spend_vault A)))"
      "unat (lamports_of d (key (wsv_root A))) + unat n < 2 ^ 64"
  have "withdraw_spend_vault_accounts rt A d = Inr ()"
    using acc grok steps_vault [OF assms(1)] unfolding withdraw_spend_vault_accounts_iff by metis
  with room assms(2) show "\<exists>e. withdraw_spend_vault rt A n d = Inr e"
    by (simp add: withdraw_spend_vault_def spend_vault_withdraw_def and_then_eq_Inr require_eq_Inr
        require_debit_eq_Inr Let_def)
next
  assume acc: "withdraw_paymaster_accounts rt B c = Inr ()"
    and grok: "load_grok_account rt d (key (wpm_grok_account B)) = load_grok_account rt c (key (wpm_grok_account B))"
    and room: "unat n + unat (min_balance rt paymaster_SPACE) \<le> unat (lamports_of d (key (wpm_paymaster B)))"
      "unat (lamports_of d (key (wpm_root B))) + unat n < 2 ^ 64"
  obtain p where p: "load_paymaster c (key (wpm_paymaster B)) = Inr p"
    and ok: "paymaster_constraints rt (wpm_paymaster B) (key (wpm_grok_account B)) (key (wpm_root B)) p = Inr ()"
    using acc unfolding withdraw_paymaster_accounts_iff by blast
  obtain q where q: "load_paymaster d (key (wpm_paymaster B)) = Inr q"
    and "pm_bump q = pm_bump p" "pm_grok_account q = pm_grok_account p" "pm_root q = pm_root p"
    using steps_paymaster [OF assms(1) p] by blast
  with ok have "paymaster_constraints rt (wpm_paymaster B) (key (wpm_grok_account B)) (key (wpm_root B)) q = Inr ()"
    by (simp add: blocks_eq_Inr)
  with acc grok q have "withdraw_paymaster_accounts rt B d = Inr ()"
    unfolding withdraw_paymaster_accounts_iff by auto
  with room assms(2) show "\<exists>e. withdraw_paymaster rt B n d = Inr e"
    by (simp add: withdraw_paymaster_def paymaster_withdraw_def and_then_eq_Inr require_eq_Inr
        require_debit_eq_Inr Let_def)
qed

definition demo_refund_infos :: withdraw_paymaster_infos where
  "demo_refund_infos =
     \<lparr>wpm_root = info k_root True True, wpm_grok_account = info k_grok False False,
      wpm_paymaster = info k_paymaster False True\<rparr>"

lemma root_can_withdraw_witness:
  "\<exists>d. pause_paymaster demo_rt demo_manage_infos demo_chain = Inr d
     \<and> (\<exists>e. withdraw_spend_vault demo_rt demo_withdraw_infos 6000 d = Inr e)
     \<and> (\<exists>e. withdraw_paymaster demo_rt demo_refund_infos 6000 d = Inr e)"
proof -
  obtain d where d: "pause_paymaster demo_rt demo_manage_infos demo_chain = Inr d"
    using demo_pause_ok by blast
  have steps: "steps demo_chain d"
    by (rule steps_own [OF steps.none demo_isolated, of "Pause_paymaster demo_manage_infos"]) (simp add: d)
  obtain q e where st: "store_paymaster q k_paymaster (emit e demo_chain) = Inr d"
    using d by (auto simp: pause_paymaster_def and_then_eq_Inr Let_def demo_manage_infos_def)
  note frame = pm_account.acct.store_frame [OF st]
  have same: "lamports_of d k = lamports_of demo_chain k" "accts d k_grok = accts demo_chain k_grok" for k
    using frame [of k] frame [of k_grok] by simp_all
  have grok: "load_grok_account demo_rt d k_grok = load_grok_account demo_rt demo_chain k_grok"
    unfolding load_grok_account_def by (rule load_typed_local) (rule same(2))
  have acc: "withdraw_spend_vault_accounts demo_rt demo_withdraw_infos demo_chain = Inr ()"
    "withdraw_paymaster_accounts demo_rt demo_refund_infos demo_chain = Inr ()"
    by (simp_all add: withdraw_spend_vault_accounts_def withdraw_paymaster_accounts_def
        demo_withdraw_infos_def demo_refund_infos_def root_defs)
  have funds: "lamports_of d k_vault = 70000" "lamports_of d k_paymaster = 80000" "lamports_of d k_root = 900000"
    by (simp_all add: same) (simp_all add: lamports_of_def)
  have keys: "key (wsv_root demo_withdraw_infos) = k_root" "key (wsv_grok_account demo_withdraw_infos) = k_grok"
    "key (wsv_spend_vault demo_withdraw_infos) = k_vault" "key (wpm_root demo_refund_infos) = k_root"
    "key (wpm_grok_account demo_refund_infos) = k_grok" "key (wpm_paymaster demo_refund_infos) = k_paymaster"
    by (simp_all add: demo_withdraw_infos_def demo_refund_infos_def)
  have "unat (6000 :: u64) + unat (min_balance demo_rt spend_vault_SPACE) \<le> 70000"
    "unat (6000 :: u64) + unat (min_balance demo_rt paymaster_SPACE) \<le> 80000"
    by (simp_all add: demo_rent_def spend_vault_SPACE_def paymaster_SPACE_def)
  then show ?thesis
    using root_can_withdraw [OF steps, of 6000 demo_rt demo_withdraw_infos demo_refund_infos] acc grok d
    unfolding keys funds by simp
qed

end
