(* ===== verification/Authority.thy ===== *)
theory Authority imports Program begin

text \<open>
  Who can make the program do what. \<open>authorised\<close> names, for every entry point, the signature and
  the standing that signature has on the chain; \<open>history\<close> is a run of the program with its trail
  (the runtime, the instruction and the ledger of each of its steps). Every step of a history was
  authorised, and no account of this program loses more than the charges of the steps.
\<close>

section \<open>Whose signature\<close>

text \<open>The root of the GrokAccount passed.\<close>

definition root_signs :: "runtime \<Rightarrow> account_info \<Rightarrow> account_info \<Rightarrow> chain \<Rightarrow> bool" where
  "root_signs rt root grok c \<longleftrightarrow>
     is_signer root \<and> (\<exists>ga. load_grok_account rt c (key grok) = Inr ga \<and> ga_root ga = key root)"

text \<open>The agent of the CORE grant passed, which is a grant on the GrokAccount passed.\<close>

definition agent_signs :: "runtime \<Rightarrow> 'a mouth_scheme \<Rightarrow> chain \<Rightarrow> bool" where
  "agent_signs rt A c \<longleftrightarrow>
     is_signer (m_agent A)
     \<and> (\<exists>gr. load_grant rt c (key (m_grant A)) = Inr gr \<and> gr_agent gr = key (m_agent A)
          \<and> gr_grok_account gr = key (m_grok_account A))"

text \<open>The holder of what is delegated further: the grant itself or a live sub-grant.\<close>

definition issuer_signs :: "runtime \<Rightarrow> issue_sub_grant_infos \<Rightarrow> chain \<Rightarrow> bool" where
  "issuer_signs rt A c \<longleftrightarrow>
     is_signer (isg_issuer A)
     \<and> (case isg_parent A of
          None \<Rightarrow> \<exists>gr. load_grant rt c (key (isg_grant A)) = Inr gr \<and> gr_agent gr = key (isg_issuer A)
            \<and> \<not> gr_revoked gr
        | Some ai \<Rightarrow> \<exists>p. load_sub_grant c (key ai) = Inr p \<and> sg_agent p = key (isg_issuer A)
            \<and> \<not> sg_revoked p \<and> sint (unix_now rt) < sint (sg_expires_at p))"

text \<open>The issuer of a sub-grant or the root above it.\<close>

definition manager_signs :: "runtime \<Rightarrow> manage_sub_grant_infos \<Rightarrow> chain \<Rightarrow> bool" where
  "manager_signs rt A c \<longleftrightarrow>
     is_signer (msg_authority A)
     \<and> (\<exists>sg ga. load_sub_grant c (key (msg_sub_grant A)) = Inr sg
          \<and> load_grok_account rt c (key (msg_grok_account A)) = Inr ga
          \<and> sg_grok_account sg = key (msg_grok_account A)
          \<and> key (msg_authority A) \<in> {sg_issuer sg, ga_root ga})"

text \<open>Only the burn of collected fees is open to anyone.\<close>

fun authorised :: "runtime \<Rightarrow> program_ix \<Rightarrow> chain \<Rightarrow> bool" where
  "authorised rt (Init_spend_vault A) c = root_signs rt (isv_root A) (isv_grok_account A) c"
| "authorised rt (Fund_spend_vault A lamports) c = root_signs rt (fsv_root A) (fsv_grok_account A) c"
| "authorised rt (Withdraw_spend_vault A lamports) c = root_signs rt (wsv_root A) (wsv_grok_account A) c"
| "authorised rt (Init_paymaster A relayer) c = root_signs rt (ipm_root A) (ipm_grok_account A) c"
| "authorised rt (Fund_paymaster A lamports) c = root_signs rt (fpm_root A) (fpm_grok_account A) c"
| "authorised rt (Withdraw_paymaster A lamports) c = root_signs rt (wpm_root A) (wpm_grok_account A) c"
| "authorised rt (Set_relayer A relayer) c = root_signs rt (mpm_root A) (mpm_grok_account A) c"
| "authorised rt (Pause_paymaster A) c = root_signs rt (mpm_root A) (mpm_grok_account A) c"
| "authorised rt (Unpause_paymaster A) c = root_signs rt (mpm_root A) (mpm_grok_account A) c"
| "authorised rt (Pay A args) c = agent_signs rt A c"
| "authorised rt (Swap A args) c = agent_signs rt A c"
| "authorised rt (Deploy A args) c = agent_signs rt A c"
| "authorised rt (Call A args remaining) c = agent_signs rt A c"
| "authorised rt (Pump_create A args remaining) c = agent_signs rt A c"
| "authorised rt (Issue_sub_grant A agent cap ex) c = issuer_signs rt A c"
| "authorised rt (Revise_sub_grant A cap ex) c = manager_signs rt A c"
| "authorised rt (Revoke_sub_grant A) c = manager_signs rt A c"
| "authorised rt (Init_sponsor_fee A) c = root_signs rt (isf_root A) (isf_grok_account A) c"
| "authorised rt (Set_sponsor_fee A fee) c = root_signs rt (ssf_root A) (ssf_grok_account A) c"
| "authorised rt (Burn_collected_fees A) c = is_signer (bcf_burner A)"
| "authorised rt (Init_pump_trader A) c = root_signs rt (ipt_root A) (ipt_grok_account A) c"
| "authorised rt (Fund_pump_trader A lamports) c = root_signs rt (fpt_root A) (fpt_grok_account A) c"
| "authorised rt (Withdraw_pump_trader A lamports remaining) c =
     root_signs rt (wpt_root A) (wpt_grok_account A) c"
| "authorised rt (Token_buy A args remaining) c = agent_signs rt A c"
| "authorised rt (Token_sell A args remaining) c = agent_signs rt A c"
| "authorised rt (Init_merchant_registry A mint) c = root_signs rt (imr_root A) (imr_grok_account A) c"
| "authorised rt (Add_merchant A merchant) c = root_signs rt (umr_root A) (umr_grok_account A) c"
| "authorised rt (Remove_merchant A merchant) c = root_signs rt (umr_root A) (umr_grok_account A) c"
| "authorised rt (Pay_token A args) c = agent_signs rt A c"
| "authorised rt (Create_subscription A args) c = root_signs rt (csb_root A) (csb_grok_account A) c"
| "authorised rt (Cancel_subscription A) c = root_signs rt (xsb_root A) (xsb_grok_account A) c"
| "authorised rt (Pay_subscription A args) c = agent_signs rt A c"

lemma root_signsI:
  "is_signer root \<Longrightarrow> load_grok_account rt c (key grok) = Inr ga \<Longrightarrow> ga_root ga = key root \<Longrightarrow>
   root_signs rt root grok c"
  by (simp add: root_signs_def)

lemma mouth_signs:
  "mouth_load rt A c = Inr (ga, gr) \<Longrightarrow> mouth_constraints rt A ga gr = Inr u \<Longrightarrow> agent_signs rt A c"
  by (auto simp: agent_signs_def mouth_load_eq_Inr mouth_constraints_eq_Inr grant_constraints_eq_Inr)

lemmas root_accounts_defs = init_spend_vault_accounts_def fund_spend_vault_accounts_def
  withdraw_spend_vault_accounts_def init_paymaster_accounts_def fund_paymaster_accounts_def
  withdraw_paymaster_accounts_def manage_paymaster_accounts_def init_sponsor_fee_accounts_def
  set_sponsor_fee_accounts_def init_pump_trader_accounts_def fund_pump_trader_accounts_def
  withdraw_pump_trader_accounts_def init_merchant_registry_accounts_def
  update_merchant_registry_accounts_def create_subscription_accounts_def
  cancel_subscription_accounts_def

lemmas root_ix_defs = init_spend_vault_def fund_spend_vault_def withdraw_spend_vault_def
  init_paymaster_def fund_paymaster_def withdraw_paymaster_def set_relayer_def pause_paymaster_def
  unpause_paymaster_def init_sponsor_fee_def set_sponsor_fee_def init_pump_trader_def
  fund_pump_trader_def withdraw_pump_trader_def init_merchant_registry_def add_merchant_def
  remove_merchant_def create_subscription_def cancel_subscription_def

lemmas agent_accounts_defs = pay_accounts_def swap_accounts_def deploy_accounts_def call_accounts_def
  pump_trade_accounts_def token_trade_accounts_def pay_token_accounts_def pay_subscription_accounts_def

lemmas agent_ix_defs = pay_def swap_def deploy_def call_def pump_create_def token_buy_def token_sell_def
  pay_token_def pay_subscription_def

lemma issuer_authorised:
  assumes "issue_sub_grant rt A agent cap ex c = Inr d"
  shows "issuer_signs rt A c"
proof (rule issue_sub_grantE [OF assms])
  fix core parent bump c1 depth pk headroom pex sg e
  assume "is_signer (isg_issuer A)" "load_grant rt c (key (isg_grant A)) = Inr core"
    "load_parent_opt c (isg_parent A) = Inr parent" "\<not> gr_revoked core"
    "issuer_authority rt (key (isg_issuer A)) core parent = Inr (depth, pk, headroom, pex)"
  then show ?thesis
    by (auto simp: issuer_signs_def load_parent_opt_def issuer_authority_def and_then_eq_Inr require_eq_Inr
        split: option.splits)
qed

lemma manager_authorised: "manage_sub_grant_accounts rt A c = Inr sg \<Longrightarrow> manager_signs rt A c"
  by (auto simp: manager_signs_def manage_sub_grant_accounts_def and_then_eq_Inr require_eq_Inr
      account_checks_eq_Inr)

lemma process_authorised:
  assumes "process rt ix c = Inr d"
  shows "authorised rt ix c"
  by (insert assms, cases ix; hypsubst; unfold process.simps authorised.simps;
      ((auto simp: root_ix_defs root_accounts_defs and_then_eq_Inr account_checks_eq_Inr blocks_eq_Inr
          grok_of_signer_def require_eq_Inr intro: root_signsI; fail)
       | (auto simp: agent_ix_defs agent_accounts_defs and_then_eq_Inr intro: mouth_signs; fail)
       | (erule issuer_authorised)
       | (auto simp: revise_sub_grant_def revoke_sub_grant_def and_then_eq_Inr intro: manager_authorised; fail)
       | (auto simp: burn_collected_fees_def burn_collected_fees_accounts_def and_then_eq_Inr
           account_checks_eq_Inr; fail)))

section \<open>Whose money\<close>

text \<open>The GrokAccount an instruction acts on.\<close>

fun grok_of :: "program_ix \<Rightarrow> pubkey" where
  "grok_of (Init_spend_vault A) = key (isv_grok_account A)"
| "grok_of (Fund_spend_vault A lamports) = key (fsv_grok_account A)"
| "grok_of (Withdraw_spend_vault A lamports) = key (wsv_grok_account A)"
| "grok_of (Init_paymaster A relayer) = key (ipm_grok_account A)"
| "grok_of (Fund_paymaster A lamports) = key (fpm_grok_account A)"
| "grok_of (Withdraw_paymaster A lamports) = key (wpm_grok_account A)"
| "grok_of (Set_relayer A relayer) = key (mpm_grok_account A)"
| "grok_of (Pause_paymaster A) = key (mpm_grok_account A)"
| "grok_of (Unpause_paymaster A) = key (mpm_grok_account A)"
| "grok_of (Pay A args) = key (m_grok_account A)"
| "grok_of (Swap A args) = key (m_grok_account A)"
| "grok_of (Deploy A args) = key (m_grok_account A)"
| "grok_of (Call A args remaining) = key (m_grok_account A)"
| "grok_of (Pump_create A args remaining) = key (m_grok_account A)"
| "grok_of (Issue_sub_grant A agent cap ex) = key (isg_grok_account A)"
| "grok_of (Revise_sub_grant A cap ex) = key (msg_grok_account A)"
| "grok_of (Revoke_sub_grant A) = key (msg_grok_account A)"
| "grok_of (Init_sponsor_fee A) = key (isf_grok_account A)"
| "grok_of (Set_sponsor_fee A fee) = key (ssf_grok_account A)"
| "grok_of (Burn_collected_fees A) = key (bcf_grok_account A)"
| "grok_of (Init_pump_trader A) = key (ipt_grok_account A)"
| "grok_of (Fund_pump_trader A lamports) = key (fpt_grok_account A)"
| "grok_of (Withdraw_pump_trader A lamports remaining) = key (wpt_grok_account A)"
| "grok_of (Token_buy A args remaining) = key (m_grok_account A)"
| "grok_of (Token_sell A args remaining) = key (m_grok_account A)"
| "grok_of (Init_merchant_registry A mint) = key (imr_grok_account A)"
| "grok_of (Add_merchant A merchant) = key (umr_grok_account A)"
| "grok_of (Remove_merchant A merchant) = key (umr_grok_account A)"
| "grok_of (Pay_token A args) = key (m_grok_account A)"
| "grok_of (Create_subscription A args) = key (csb_grok_account A)"
| "grok_of (Cancel_subscription A) = key (xsb_grok_account A)"
| "grok_of (Pay_subscription A args) = key (m_grok_account A)"

text \<open>A vault or paymaster of that GrokAccount.\<close>

definition custody_of :: "chain \<Rightarrow> pubkey \<Rightarrow> pubkey \<Rightarrow> bool" where
  "custody_of c k grok \<longleftrightarrow>
     (\<exists>sv. load_spend_vault c k = Inr sv \<and> sv_grok_account sv = grok)
     \<or> (\<exists>pm. load_paymaster c k = Inr pm \<and> pm_grok_account pm = grok)"

lemma charged_elsewhere [simp]:
  "charge_to who a k \<noteq> 0 \<longleftrightarrow> who = Some k \<and> a \<noteq> 0"
  "no_charge k = 0" "both f g k = f k + g k"
  by (auto simp: charge_to_def no_charge_def both_def unat_eq_0 simp del: of_nat_unat)

lemma both_charged: "both f g k \<noteq> 0 \<Longrightarrow> f k \<noteq> 0 \<or> g k \<noteq> 0"
  by (auto simp: both_def)

lemma sponsor_custody_of:
  "load_paymaster_opt c opt = Inr pm \<Longrightarrow> paymaster_opt_constraints rt pm grok root = Inr u \<Longrightarrow>
   map_option key opt = Some k \<Longrightarrow> custody_of c k grok"
  "load_paymaster_opt c opt = Inr pm \<Longrightarrow> payment_paymaster_constraints rt pm grok = Inr u \<Longrightarrow>
   map_option key opt = Some k \<Longrightarrow> custody_of c k grok"
  by (auto simp: custody_of_def load_paymaster_opt_def paymaster_opt_constraints_def blocks_eq_Inr
      payment_paymaster_constraints_def and_then_eq_Inr require_eq_Inr split: option.splits)

lemma vault_custody_of:
  "load_spend_vault c k = Inr sv \<Longrightarrow> sv_grok_account sv = grok \<Longrightarrow> custody_of c k grok"
  "load_paymaster c k = Inr pm \<Longrightarrow> pm_grok_account pm = grok \<Longrightarrow> custody_of c k grok"
  by (auto simp: custody_of_def)

lemma process_custody:
  assumes "process rt ix c = Inr d" and "outflow ix k \<noteq> 0"
  shows "custody_of c k (grok_of ix)"
  by (insert assms, cases ix; hypsubst; unfold process.simps outflow.simps grok_of.simps;
      ((drule both_charged)?);
      ((simp; fail)
       | (auto simp: withdraw_spend_vault_def withdraw_paymaster_def fund_pump_trader_def
            withdraw_spend_vault_accounts_def withdraw_paymaster_accounts_def fund_pump_trader_accounts_def
            and_then_eq_Inr blocks_eq_Inr intro: vault_custody_of; fail)
       | (auto simp: agent_ix_defs agent_accounts_defs and_then_eq_Inr blocks_eq_Inr
            intro: vault_custody_of sponsor_custody_of; fail)))

section \<open>Histories\<close>

text \<open>
  A run with its trail: the runtime, the instruction and the ledger of every successful step.
  Between two steps anything may happen that leaves the accounts of this program their owner,
  their data and their lamports.
\<close>

inductive history :: "chain \<Rightarrow> (runtime \<times> program_ix \<times> chain) list \<Rightarrow> chain \<Rightarrow> bool" where
  start: "history c [] c"
| ours: "history c xs d \<Longrightarrow> isolated rt \<Longrightarrow> process rt ix d = Inr e \<Longrightarrow> history c (xs @ [(rt, ix, d)]) e"
| theirs: "history c xs d \<Longrightarrow> undisturbed d e \<Longrightarrow> kept no_charge d e \<Longrightarrow> events e = events d \<Longrightarrow>
    history c xs e"

lemma history_steps: "history c xs d \<Longrightarrow> steps c d"
  by (induction rule: history.induct) (auto intro: steps.intros step.intros)

lemma kept_with_data: "kept f c d \<Longrightarrow> owner_of c k = INTENTS_ID \<Longrightarrow>
  owner_of (with_data j bs d) k = INTENTS_ID \<and> balance c k - f k \<le> balance (with_data j bs d) k"
  by (auto simp: kept_def balance_def)

lemma process_outflow:
  assumes "isolated rt" and "process rt ix c = Inr d" and "owner_of c k = INTENTS_ID"
  shows "owner_of d k = INTENTS_ID \<and> balance c k - outflow ix k \<le> balance d k"
  using coins.process_effect [OF assms(1,2)]
proof (elim disjE exE conjE)
  assume "kept (outflow ix) c d"
  from keptD [OF this assms(3)] show ?thesis
    by simp
next
  assume "writes (kept (outflow ix)) c d"
  with assms(3) show ?thesis
    unfolding writes_def using kept_with_data by blast
next
  fix j
  assume "notes_settlement (kept no_charge) j c d" and "outflow ix = no_charge"
  with assms(3) show ?thesis
    unfolding notes_settlement_def using kept_with_data [of _ _ "emit e x" for e x] by (fastforce simp: kept_emit)
qed

text \<open>The charges of a trail to one account.\<close>

primrec charged :: "pubkey \<Rightarrow> (runtime \<times> program_ix \<times> chain) list \<Rightarrow> int" where
  "charged k [] = 0"
| "charged k (x # xs) = outflow (fst (snd x)) k + charged k xs"

lemma charged_append [simp]: "charged k (xs @ ys) = charged k xs + charged k ys"
  by (induction xs) simp_all

lemma history_charged:
  "history c xs d \<Longrightarrow> owner_of c k = INTENTS_ID \<Longrightarrow>
   owner_of d k = INTENTS_ID \<and> balance c k - charged k xs \<le> balance d k"
proof (induction rule: history.induct)
  case (ours c xs d rt ix e)
  with process_outflow [OF ours.hyps(2,3), of k] show ?case
    by simp
next
  case (theirs c xs d e)
  with keptD [OF theirs.hyps(3), of k] show ?case
    by (simp add: no_charge_def)
qed simp

lemma history_authorised:
  "history c xs d \<Longrightarrow> (rt, ix, b) \<in> set xs \<Longrightarrow>
   authorised rt ix b \<and> (outflow ix k \<noteq> 0 \<longrightarrow> custody_of b k (grok_of ix))"
  by (induction rule: history.induct) (auto dest: process_authorised process_custody)

text \<open>C3: Money leaves the custody of this program only by authority: over any history of
  instructions, interleaved with whatever other programs do, an account of this program loses
  at most the sum of what the instructions of the trail charge to it; each of them carried the
  signature it needs (the root of the GrokAccount, the agent of a grant on it, or for sub-grants
  their issuer); and an instruction that charges an account charges a vault or paymaster of the
  very GrokAccount it was authorised on. No other entry point can lower the balance at all.\<close>

theorem money_leaves_by_authority:
  assumes "history c xs d" and "owner_of c k = INTENTS_ID"
  shows "balance c k - balance d k \<le> charged k xs
    \<and> (\<forall>(rt, ix, b) \<in> set xs. authorised rt ix b
         \<and> (outflow ix k \<noteq> 0 \<longrightarrow> custody_of b k (grok_of ix)))"
  using history_charged [OF assms] history_authorised [OF assms(1)] by auto

lemma money_leaves_by_authority_witness:
  "\<exists>d. pay demo_rt demo_pay_infos demo_pay_args demo_chain = Inr d
     \<and> balance demo_chain k_vault - balance d k_vault \<le> int (unat (pa_amount_lamports demo_pay_args))
     \<and> agent_signs demo_rt demo_pay_infos demo_chain \<and> custody_of demo_chain k_vault k_grok"
proof -
  obtain d where d: "pay demo_rt demo_pay_infos demo_pay_args demo_chain = Inr d"
    using demo_pay_ok by blast
  let ?ix = "Pay demo_pay_infos demo_pay_args"
  have "history demo_chain ([] @ [(demo_rt, ?ix, demo_chain)]) d"
    by (rule history.ours [OF history.start demo_isolated]) (simp add: d)
  moreover have "owner_of demo_chain k_vault = INTENTS_ID"
    by (simp add: owner_of_def)
  moreover have "outflow ?ix k_vault = int (unat (pa_amount_lamports demo_pay_args))"
    "0 < pa_amount_lamports demo_pay_args" "grok_of ?ix = k_grok"
    by (simp_all add: demo_pay_infos_def demo_pay_args_def both_def charge_to_def)
  ultimately show ?thesis
    using money_leaves_by_authority [of demo_chain "[] @ [(demo_rt, ?ix, demo_chain)]" d k_vault] d
    by (simp add: unat_gt_0 del: of_nat_unat)
qed

end
