(* ===== verification/Capabilities.thy ===== *)
theory Capabilities imports Authority begin

text \<open>
  What the program can make other programs do. The repository audits this by searching its own
  text (\<open>capability_audit.rs\<close>: \<open>swap\<close> has no \<open>invoke\<close>, \<open>call\<close> forwards no data, only the pump
  trader signs, nothing debits the vault in an adapter); here it is a property of behaviour. A
  runtime that refuses every call outside the table \<open>capability\<close> is \<open>confine\<close>d, and no instruction can
  tell the difference.
\<close>

section \<open>A runtime that refuses\<close>

definition confine ::
  "(instruction \<Rightarrow> seeds list \<Rightarrow> ledger \<Rightarrow> bool) \<Rightarrow> runtime \<Rightarrow> runtime" where
  "confine P rt = rt\<lparr>invoke_cpi := (\<lambda>i infos ss m. if P i ss m then invoke_cpi rt i infos ss m else Inl 0)\<rparr>"

named_theorems confined \<open>what reads a runtime without calling through it\<close>

lemma confine_fields [confined]:
  "min_balance (confine P rt) = min_balance rt" "unix_now (confine P rt) = unix_now rt"
  "find_program_address (confine P rt) = find_program_address rt"
  "create_program_address (confine P rt) = create_program_address rt"
  "init_pda (confine P rt) = init_pda rt"
  "decode_grok_account (confine P rt) = decode_grok_account rt"
  "decode_grant (confine P rt) = decode_grant rt"
  by (simp_all add: confine_def)

lemma quiet_ledger [confined]:
  "load_grok_account (confine P rt) = load_grok_account rt"
  "load_grant (confine P rt) = load_grant rt" "seeds_bump (confine P rt) = seeds_bump rt"
  "seeds_canonical (confine P rt) = seeds_canonical rt"
  "create_pda_account (confine P rt) = create_pda_account rt"
  "init_account (confine P rt) = init_account rt"
  "debit_spend_vault (confine P rt) = debit_spend_vault rt"
  "reimburse_sponsor (confine P rt) = reimburse_sponsor rt"
  "require_pump_trader_ready (confine P rt) = require_pump_trader_ready rt"
  unfolding load_grok_account_def [abs_def] load_grant_def [abs_def] seeds_bump_def [abs_def]
    seeds_canonical_def [abs_def] create_pda_account_def [abs_def] init_account_def [abs_def]
    debit_spend_vault_def [abs_def] reimburse_sponsor_def [abs_def] require_pump_trader_ready_def
    [abs_def] confined
  by (rule refl)+

lemma quiet_vaults [confined]:
  "grok_seeds (confine P rt) = grok_seeds rt" "grok_of_root (confine P rt) = grok_of_root rt"
  "vault_seeds (confine P rt) = vault_seeds rt"
  "vault_constraints (confine P rt) = vault_constraints rt"
  "paymaster_constraints (confine P rt) = paymaster_constraints rt"
  "init_spend_vault_accounts (confine P rt) = init_spend_vault_accounts rt"
  "init_spend_vault (confine P rt) = init_spend_vault rt"
  "fund_spend_vault_accounts (confine P rt) = fund_spend_vault_accounts rt"
  "withdraw_spend_vault_accounts (confine P rt) = withdraw_spend_vault_accounts rt"
  "spend_vault_withdraw (confine P rt) = spend_vault_withdraw rt"
  "withdraw_spend_vault (confine P rt) = withdraw_spend_vault rt"
  "init_paymaster_accounts (confine P rt) = init_paymaster_accounts rt"
  "init_paymaster (confine P rt) = init_paymaster rt"
  "fund_paymaster_accounts (confine P rt) = fund_paymaster_accounts rt"
  "withdraw_paymaster_accounts (confine P rt) = withdraw_paymaster_accounts rt"
  "paymaster_withdraw (confine P rt) = paymaster_withdraw rt"
  "withdraw_paymaster (confine P rt) = withdraw_paymaster rt"
  "manage_paymaster_accounts (confine P rt) = manage_paymaster_accounts rt"
  "set_relayer (confine P rt) = set_relayer rt"
  "pause_paymaster (confine P rt) = pause_paymaster rt"
  "unpause_paymaster (confine P rt) = unpause_paymaster rt"
  unfolding grok_seeds_def [abs_def] grok_of_root_def [abs_def] vault_seeds_def [abs_def]
    vault_constraints_def [abs_def] paymaster_constraints_def [abs_def]
    init_spend_vault_accounts_def [abs_def] init_spend_vault_def [abs_def]
    fund_spend_vault_accounts_def [abs_def] withdraw_spend_vault_accounts_def [abs_def]
    spend_vault_withdraw_def [abs_def] withdraw_spend_vault_def [abs_def]
    init_paymaster_accounts_def [abs_def] init_paymaster_def [abs_def] fund_paymaster_accounts_def
    [abs_def] withdraw_paymaster_accounts_def [abs_def] paymaster_withdraw_def [abs_def]
    withdraw_paymaster_def [abs_def] manage_paymaster_accounts_def [abs_def] set_relayer_def
    [abs_def] pause_paymaster_def [abs_def] unpause_paymaster_def [abs_def] confined
  by (rule refl)+

lemma quiet_mouth [confined]:
  "mouth_load (confine P rt) = mouth_load rt"
  "grant_constraints (confine P rt) = grant_constraints rt"
  "mouth_constraints (confine P rt) = mouth_constraints rt"
  "paymaster_opt_constraints (confine P rt) = paymaster_opt_constraints rt"
  "pay_accounts (confine P rt) = pay_accounts rt"
  "swap_accounts (confine P rt) = swap_accounts rt"
  "deploy_accounts (confine P rt) = deploy_accounts rt"
  "call_accounts (confine P rt) = call_accounts rt"
  unfolding mouth_load_def [abs_def] grant_constraints_def [abs_def] mouth_constraints_def [abs_def]
    paymaster_opt_constraints_def [abs_def] pay_accounts_def [abs_def] swap_accounts_def [abs_def]
    deploy_accounts_def [abs_def] call_accounts_def [abs_def] confined
  by (rule refl)+

lemma quiet_registry [confined]:
  "init_merchant_registry_accounts (confine P rt) = init_merchant_registry_accounts rt"
  "init_merchant_registry (confine P rt) = init_merchant_registry rt"
  "update_merchant_registry_accounts (confine P rt) = update_merchant_registry_accounts rt"
  "add_merchant (confine P rt) = add_merchant rt"
  "remove_merchant (confine P rt) = remove_merchant rt"
  "idle_vault_constraints (confine P rt) = idle_vault_constraints rt"
  "registry_constraints (confine P rt) = registry_constraints rt"
  "payment_paymaster_constraints (confine P rt) = payment_paymaster_constraints rt"
  "trader_seeds (confine P rt) = trader_seeds rt"
  "pay_token_accounts (confine P rt) = pay_token_accounts rt"
  unfolding init_merchant_registry_accounts_def [abs_def] init_merchant_registry_def [abs_def]
    update_merchant_registry_accounts_def [abs_def] add_merchant_def [abs_def] remove_merchant_def
    [abs_def] idle_vault_constraints_def [abs_def] registry_constraints_def [abs_def]
    payment_paymaster_constraints_def [abs_def] trader_seeds_def [abs_def] pay_token_accounts_def
    [abs_def] confined
  by (rule refl)+

lemma quiet_sub_grants [confined]:
  "issue_sub_grant_accounts (confine P rt) = issue_sub_grant_accounts rt"
  "issuer_authority (confine P rt) = issuer_authority rt"
  "sub_grant_issue (confine P rt) = sub_grant_issue rt"
  "issue_sub_grant (confine P rt) = issue_sub_grant rt"
  "manage_sub_grant_accounts (confine P rt) = manage_sub_grant_accounts rt"
  "revise_sub_grant (confine P rt) = revise_sub_grant rt"
  "revoke_sub_grant (confine P rt) = revoke_sub_grant rt"
  unfolding issue_sub_grant_accounts_def [abs_def] issuer_authority_def [abs_def]
    sub_grant_issue_def [abs_def] issue_sub_grant_def [abs_def] manage_sub_grant_accounts_def
    [abs_def] revise_sub_grant_def [abs_def] revoke_sub_grant_def [abs_def] confined
  by (rule refl)+

lemma quiet_subscriptions [confined]:
  "create_subscription_accounts (confine P rt) = create_subscription_accounts rt"
  "subscription_create (confine P rt) = subscription_create rt"
  "create_subscription (confine P rt) = create_subscription rt"
  "subscription_seeds (confine P rt) = subscription_seeds rt"
  "cancel_subscription_accounts (confine P rt) = cancel_subscription_accounts rt"
  "cancel_subscription (confine P rt) = cancel_subscription rt"
  "pay_subscription_accounts (confine P rt) = pay_subscription_accounts rt"
  unfolding create_subscription_accounts_def [abs_def] subscription_create_def [abs_def]
    create_subscription_def [abs_def] subscription_seeds_def [abs_def]
    cancel_subscription_accounts_def [abs_def] cancel_subscription_def [abs_def]
    pay_subscription_accounts_def [abs_def] confined
  by (rule refl)+

lemma quiet_fees [confined]:
  "grok_of_signer (confine P rt) = grok_of_signer rt"
  "init_sponsor_fee_accounts (confine P rt) = init_sponsor_fee_accounts rt"
  "init_sponsor_fee (confine P rt) = init_sponsor_fee rt"
  "set_sponsor_fee_accounts (confine P rt) = set_sponsor_fee_accounts rt"
  "set_sponsor_fee (confine P rt) = set_sponsor_fee rt"
  "burn_collected_fees_accounts (confine P rt) = burn_collected_fees_accounts rt"
  unfolding grok_of_signer_def [abs_def] init_sponsor_fee_accounts_def [abs_def]
    init_sponsor_fee_def [abs_def] set_sponsor_fee_accounts_def [abs_def] set_sponsor_fee_def
    [abs_def] burn_collected_fees_accounts_def [abs_def] confined
  by (rule refl)+

lemma quiet_trader [confined]:
  "init_pump_trader_accounts (confine P rt) = init_pump_trader_accounts rt"
  "fund_pump_trader_accounts (confine P rt) = fund_pump_trader_accounts rt"
  "pump_trader_fund (confine P rt) = pump_trader_fund rt"
  "fund_pump_trader (confine P rt) = fund_pump_trader rt"
  "withdraw_pump_trader_accounts (confine P rt) = withdraw_pump_trader_accounts rt"
  "token_trade_accounts (confine P rt) = token_trade_accounts rt"
  "trader_pda (confine P rt) = trader_pda rt" "pda (confine P rt) = pda rt"
  "validate_pump_pdas (confine P rt) = validate_pump_pdas rt"
  "validate_pump_create_pdas (confine P rt) = validate_pump_create_pdas rt"
  "pump_trade_accounts (confine P rt) = pump_trade_accounts rt"
  unfolding init_pump_trader_accounts_def [abs_def] fund_pump_trader_accounts_def [abs_def]
    pump_trader_fund_def [abs_def] fund_pump_trader_def [abs_def] withdraw_pump_trader_accounts_def
    [abs_def] token_trade_accounts_def [abs_def] trader_pda_def [abs_def] pda_def [abs_def]
    validate_pump_pdas_def [abs_def] validate_pump_create_pdas_def [abs_def] pump_trade_accounts_def
    [abs_def] confined
  by (rule refl)+

section \<open>The table\<close>

text \<open>
  One call of CORE with the amount of the intent, signed by nobody but the agent; a signature of
  the pump trader, and of nothing else the program controls.
\<close>

definition meters :: "'a mouth_scheme \<Rightarrow> u64 \<Rightarrow> instruction \<Rightarrow> seeds list \<Rightarrow> bool" where
  "meters A amount i ss \<longleftrightarrow>
     i = check_grant_ix (m_grok_account A) (m_grant A) (m_agent A) (m_intents_program A) amount \<and> ss = []"

definition as_trader :: "pubkey \<Rightarrow> seeds list \<Rightarrow> bool" where
  "as_trader grok ss \<longleftrightarrow> (\<exists>bump. ss = [[SEED_PUMP_TRADER, pubkey_bytes grok, [bump]]])"

definition as_fee_vault :: "pubkey \<Rightarrow> seeds list \<Rightarrow> bool" where
  "as_fee_vault grok ss \<longleftrightarrow> (\<exists>bump. ss = [[SEED_FEE_VAULT, pubkey_bytes grok, [bump]]])"

text \<open>A token payment to a payee, and a token account of the trader emptied into one of the root.\<close>

definition pays_tokens ::
  "account_info \<Rightarrow> account_info \<Rightarrow> account_info \<Rightarrow> account_info \<Rightarrow> u64 \<Rightarrow> instruction \<Rightarrow> bool" where
  "pays_tokens token_program src dst trader amount i \<longleftrightarrow>
     key token_program \<in> {TOKEN_PROGRAM_ID, TOKEN_2022_PROGRAM_ID}
     \<and> (\<exists>mint dec. i = transfer_checked_ix (key token_program) (key src) mint (key dst) (key trader) amount dec)"

definition sweeps_to_root :: "withdraw_pump_trader_infos \<Rightarrow> instruction \<Rightarrow> ledger \<Rightarrow> bool" where
  "sweeps_to_root A i m \<longleftrightarrow>
     (\<exists>tp src dst amount. tp \<in> {TOKEN_PROGRAM_ID, TOKEN_2022_PROGRAM_ID}
        \<and> i = transfer_ix tp src dst (key (wpt_pump_trader A)) amount
        \<and> token_owner (acc_data (m src)) = key (wpt_pump_trader A)
        \<and> token_owner (acc_data (m dst)) = key (wpt_root A))"

text \<open>
  A call built over remaining accounts hands on no more than the transaction gave: an account
  signs or is written only if it was passed so, or if it is the trader the program signs for.
\<close>

definition forwards :: "account_info list \<Rightarrow> pubkey option \<Rightarrow> instruction \<Rightarrow> bool" where
  "forwards remaining trader i \<longleftrightarrow>
     list_all (\<lambda>mt. \<exists>a \<in> set remaining. meta_pubkey mt = key a
        \<and> (meta_signer mt \<longrightarrow> is_signer a \<or> trader = Some (key a))
        \<and> (meta_writable mt \<longrightarrow> is_writable a \<or> trader = Some (key a))) (ix_accounts i)"

text \<open>
  A swap through Jupiter: the wrap of the input, when it is asked for, and the route. What is wrapped
  goes to one account: the first of the trader's token accounts in the input mint, which is wrapped
  SOL, among the remaining accounts, by the ledger \<open>c\<close> the instruction starts on.
\<close>

definition trader_of :: "runtime \<Rightarrow> pubkey \<Rightarrow> pubkey" where
  "trader_of rt grok = fst (find_program_address rt [SEED_PUMP_TRADER, pubkey_bytes grok] INTENTS_ID)"

definition wraps_into ::
  "chain \<Rightarrow> pubkey \<Rightarrow> token_buy_args \<Rightarrow> account_info list \<Rightarrow> pubkey \<Rightarrow> bool" where
  "wraps_into c trader args remaining k \<longleftrightarrow>
     tb_wrap_sol args \<and> tb_input_mint args = WSOL_MINT
     \<and> map_option key (find (\<lambda>a. holds c trader WSOL_MINT (key a)) remaining) = Some k"

definition trades ::
  "runtime \<Rightarrow> chain \<Rightarrow> token_trade_infos \<Rightarrow> token_buy_args \<Rightarrow> account_info list \<Rightarrow> instruction \<Rightarrow> seeds list
   \<Rightarrow> ledger \<Rightarrow> bool" where
  "trades rt c A args remaining i ss m \<longleftrightarrow>
     (let trader = trader_of rt (key (m_grok_account A)) in
      meters A (token_check_grant_amount (tb_input_mint args) (tb_wrap_sol args) (tb_in_amount args)) i ss
      \<or> (\<exists>k. wraps_into c trader args remaining k \<and> acc_owner (m k) = TOKEN_PROGRAM_ID
           \<and> as_trader (key (m_grok_account A)) ss \<and> i = system_transfer trader k (tb_in_amount args))
      \<or> (\<exists>k. wraps_into c trader args remaining k \<and> ss = [] \<and> i = sync_native_ix k)
      \<or> as_trader (key (m_grok_account A)) ss \<and> ix_program_id i = JUPITER_V6_PROGRAM_ID
         \<and> ix_data i = tb_jupiter_data args \<and> forwards remaining (Some trader) i)"

text \<open>Who a payment may go to: a listed payee, or the merchant of the subscription.\<close>

definition listed_payee :: "chain \<Rightarrow> account_info \<Rightarrow> account_info \<Rightarrow> bool" where
  "listed_payee c registry dst \<longleftrightarrow>
     (case load_merchant_registry c (key registry) of
        Inl e \<Rightarrow> False | Inr reg \<Rightarrow> token_owner (data_of c (key dst)) \<in> set (mr_merchants reg))"

fun capability ::
  "runtime \<Rightarrow> chain \<Rightarrow> program_ix \<Rightarrow> instruction \<Rightarrow> seeds list \<Rightarrow> ledger \<Rightarrow> bool" where
  "capability rt c (Fund_spend_vault A lamports) i ss m \<longleftrightarrow>
     i = system_transfer (key (fsv_root A)) (key (fsv_spend_vault A)) lamports \<and> ss = []"
| "capability rt c (Fund_paymaster A lamports) i ss m \<longleftrightarrow>
     i = system_transfer (key (fpm_root A)) (key (fpm_paymaster A)) lamports \<and> ss = []"
| "capability rt c (Pay A args) i ss m \<longleftrightarrow> meters A (pa_amount_lamports args) i ss"
| "capability rt c (Swap A args) i ss m \<longleftrightarrow> meters A (sw_amount_in_lamports args) i ss"
| "capability rt c (Deploy A args) i ss m \<longleftrightarrow> meters A 0 i ss"
| "capability rt c (Call A args remaining) i ss m \<longleftrightarrow>
     meters A (ca_amount_lamports args) i ss
     \<or> ix_program_id i = ca_target_program args \<and> ix_data i = [] \<and> forwards remaining None i \<and> ss = []"
| "capability rt c (Pump_create A args remaining) i ss m \<longleftrightarrow>
     meters A (pc_max_sol_cost args) i ss
     \<or> as_trader (key (m_grok_account A)) ss \<and> ix_program_id i = PUMP_PROGRAM_ID
        \<and> take 8 (ix_data i) = PUMP_CREATE_V2_DISC"
| "capability rt c (Init_pump_trader A) i ss m \<longleftrightarrow>
     as_trader (key (ipt_grok_account A)) ss
     \<and> i = system_create_account (key (ipt_root A)) (key (ipt_pump_trader A)) (min_balance rt 0) 0 SYSTEM_PROGRAM_ID"
| "capability rt c (Withdraw_pump_trader A lamports remaining) i ss m \<longleftrightarrow>
     as_trader (key (wpt_grok_account A)) ss
     \<and> (i = system_transfer (key (wpt_pump_trader A)) (key (wpt_root A)) lamports \<or> sweeps_to_root A i m)"
| "capability rt c (Token_buy A args remaining) i ss m \<longleftrightarrow> trades rt c A args remaining i ss m"
| "capability rt c (Token_sell A args remaining) i ss m \<longleftrightarrow> trades rt c A (buy_of_sell args) remaining i ss m"
| "capability rt c (Pay_token A args) i ss m \<longleftrightarrow>
     meters A (pt_amount args) i ss
     \<or> as_trader (key (m_grok_account A)) ss
        \<and> pays_tokens (ptk_token_program A) (ptk_source A) (ptk_destination A) (ptk_pump_trader A)
            (pt_amount args) i
        \<and> listed_payee c (ptk_merchant_registry A) (ptk_destination A)"
| "capability rt c (Pay_subscription A args) i ss m \<longleftrightarrow>
     (\<exists>sub. load_subscription c (key (psb_subscription A)) = Inr sub
      \<and> (meters A (sb_amount sub) i ss
         \<or> as_trader (key (m_grok_account A)) ss
            \<and> pays_tokens (psb_token_program A) (psb_source A) (psb_destination A) (psb_pump_trader A)
                (sb_amount sub) i
            \<and> token_owner (data_of c (key (psb_destination A))) = sb_merchant sub
            \<and> listed_payee c (psb_merchant_registry A) (psb_destination A)))"
| "capability rt c (Burn_collected_fees A) i ss m \<longleftrightarrow>
     as_fee_vault (key (bcf_grok_account A)) ss
     \<and> (\<exists>auth amount dec. i = burn_checked_ix (key (bcf_fee_vault A)) auth amount dec)"
| "capability rt c _ i ss m \<longleftrightarrow> False"

section \<open>No instruction leaves it\<close>

lemma and_then_cong:
  "m = m' \<Longrightarrow> (\<And>x. m' = Inr x \<Longrightarrow> f x = g x) \<Longrightarrow> and_then m f = and_then m' g"
  by (cases m') simp_all

lemma invoke_confined:
  "P i ss (accts c) \<Longrightarrow> invoke_signed (confine P rt) i infos ss c = invoke_signed rt i infos ss c"
  by (simp add: invoke_signed_def confine_def)

lemma invoke_confined_plain:
  "P i [] (accts c) \<Longrightarrow> invoke (confine P rt) i infos c = invoke rt i infos c"
  by (simp add: invoke_def invoke_confined)

lemma meter_confined:
  "(\<And>i ss m. meters A a i ss \<Longrightarrow> P i ss m) \<Longrightarrow> mouth_check_grant (confine P rt) A a c = mouth_check_grant rt A a c"
  by (simp add: mouth_check_grant_def check_grant_def invoke_confined_plain meters_def)

lemma as_traderI [simp]: "as_trader g [[SEED_PUMP_TRADER, pubkey_bytes g, [b]]]"
  by (simp add: as_trader_def)

lemma inner_call_forwards [simp]:
  "ix_program_id (inner_call_ix target rs) = target" "ix_data (inner_call_ix target rs) = []"
  "forwards rs None (inner_call_ix target rs)"
  by (auto simp: forwards_def inner_call_ix_def list_all_iff meta_new_def meta_new_readonly_def)

lemma fund_confined:
  "process (confine (capability rt c (Fund_spend_vault A n)) rt) (Fund_spend_vault A n) c = process rt (Fund_spend_vault A n) c"
  "process (confine (capability rt c (Fund_paymaster B n)) rt) (Fund_paymaster B n) c = process rt (Fund_paymaster B n) c"
  by (simp_all add: fund_spend_vault_def spend_vault_fund_def fund_paymaster_def paymaster_fund_def
      invoke_confined_plain confined)

lemma intent_confined:
  "process (confine (capability rt c (Pay A pa)) rt) (Pay A pa) c = process rt (Pay A pa) c"
  "process (confine (capability rt c (Swap B sa)) rt) (Swap B sa) c = process rt (Swap B sa) c"
  "process (confine (capability rt c (Deploy C da)) rt) (Deploy C da) c = process rt (Deploy C da) c"
  "process (confine (capability rt c (Call D ca remaining)) rt) (Call D ca remaining) c
   = process rt (Call D ca remaining) c"
  by (simp_all add: pay_def pay_handler_def swap_def swap_handler_def deploy_def deploy_handler_def
      call_def call_handler_def call_inner_def DEPLOY_CHECK_GRANT_AMOUNT_def
      meter_confined invoke_confined_plain confined cong: prod.case_cong if_cong)

text \<open>Where a call depends on what was checked before, the check is at hand.\<close>

lemma pays_tokens_transfer [simp]:
  "pays_tokens tp src dst trader a (transfer_checked_ix p (key src) mint (key dst) (key trader) a dec) \<longleftrightarrow>
   key tp \<in> {TOKEN_PROGRAM_ID, TOKEN_2022_PROGRAM_ID} \<and> p = key tp"
  "(\<exists>a. pays_tokens tp src dst trader a (transfer_checked_ix p (key src) mint (key dst) (key trader) b dec)) \<longleftrightarrow>
   key tp \<in> {TOKEN_PROGRAM_ID, TOKEN_2022_PROGRAM_ID} \<and> p = key tp"
  by (auto simp: pays_tokens_def transfer_checked_ix_def)

lemma pay_token_confined:
  "process (confine (capability rt c (Pay_token A pa)) rt) (Pay_token A pa) c = process rt (Pay_token A pa) c"
  by (auto simp: pay_token_def pay_token_handler_def listed_payee_def token_account_fields_eq_Inr
      Let_def require_eq_Inr meter_confined confined list_ex_iff dest!: pay_token_accounts_eq_Inr
      intro!: and_then_cong invoke_confined split: prod.split)

lemma pay_subscription_confined:
  "process (confine (capability rt c (Pay_subscription B sa)) rt) (Pay_subscription B sa) c
   = process rt (Pay_subscription B sa) c"
  by (auto simp: pay_subscription_def subscription_pay_def listed_payee_def token_account_fields_eq_Inr
      Let_def require_eq_Inr meter_confined confined list_ex_iff dest!: pay_subscription_accounts_eq_Inr
      intro!: and_then_cong invoke_confined split: prod.split)

lemma trader_confined:
  "process (confine (capability rt c (Init_pump_trader A)) rt) (Init_pump_trader A) c
   = process rt (Init_pump_trader A) c"
  "process (confine (capability rt c (Burn_collected_fees B)) rt) (Burn_collected_fees B) c
   = process rt (Burn_collected_fees B) c"
  by (auto simp: init_pump_trader_def pump_trader_init_def burn_collected_fees_def burn_collected_def
      as_fee_vault_def Let_def PUMP_TRADER_SPACE_def confined
      intro!: exI and_then_cong invoke_confined split: prod.split)

lemma create_confined:
  "process (confine (capability rt c (Pump_create A args remaining)) rt) (Pump_create A args remaining) c
   = process rt (Pump_create A args remaining) c"
  by (auto simp: pump_create_def pump_create_handler_def Let_def meter_confined confined build_pump_create_ix_def
      and_then_eq_Inr require_eq_Inr encode_pump_create_v2_def PUMP_CREATE_V2_DISC_def trader_pda_def
      intro!: and_then_cong invoke_confined split: prod.split)

lemma tradesI:
  "wraps_into c (trader_of rt (key (m_grok_account A))) args rs k \<Longrightarrow> acc_owner (m k) = TOKEN_PROGRAM_ID \<Longrightarrow>
   trades rt c A args rs (system_transfer (trader_of rt (key (m_grok_account A))) k (tb_in_amount args))
     [[SEED_PUMP_TRADER, pubkey_bytes (key (m_grok_account A)), [b]]] m"
  "wraps_into c (trader_of rt (key (m_grok_account A))) args rs k \<Longrightarrow> trades rt c A args rs (sync_native_ix k) [] m"
  "ix_program_id i = JUPITER_V6_PROGRAM_ID \<Longrightarrow> ix_data i = tb_jupiter_data args \<Longrightarrow>
   forwards rs (Some (trader_of rt (key (m_grok_account A)))) i \<Longrightarrow>
   trades rt c A args rs i [[SEED_PUMP_TRADER, pubkey_bytes (key (m_grok_account A)), [b]]] m"
  "meters A (token_check_grant_amount (tb_input_mint args) (tb_wrap_sol args) (tb_in_amount args)) i ss \<Longrightarrow>
   trades rt c A args rs i ss m"
  unfolding trades_def Let_def by auto

lemma forwarded:
  "build_jupiter_ix rs trader bs = Inr i \<Longrightarrow>
   ix_program_id i = JUPITER_V6_PROGRAM_ID \<and> ix_data i = bs \<and> forwards rs (Some trader) i"
  by (auto simp: build_jupiter_ix_eq_Inr forwards_def list_all_iff meta_new_def meta_new_readonly_def)

lemma wrap_step_confined:
  assumes "\<And>i ss m. trades rt c0 A args rs i ss m \<Longrightarrow> P i ss m" and "key ai = trader_of rt (key (m_grok_account A))"
    and "tb_wrap_sol args \<Longrightarrow> wraps_into c0 (trader_of rt (key (m_grok_account A))) args rs (key src)"
  shows "wrap_step (confine P rt) ai src args rs [SEED_PUMP_TRADER, pubkey_bytes (key (m_grok_account A)), [b]] c
    = wrap_step rt ai src args rs [SEED_PUMP_TRADER, pubkey_bytes (key (m_grok_account A)), [b]] c"
  by (auto simp: wrap_step_def wrap_sol_to_wsol_def Let_def confined assms(2) require_eq_Inr owner_of_def
      intro!: and_then_cong invoke_confined invoke_confined_plain assms(1) tradesI(1,2) assms(3))

lemma wraps_intoI:
  "require_wrap_mint (tb_wrap_sol args) (tb_input_mint args) = Inr u \<Longrightarrow>
   find_trader_token_account c rs trader (tb_input_mint args) True = Inr src \<Longrightarrow> tb_wrap_sol args \<Longrightarrow>
   wraps_into c trader args rs (key src)"
  by (simp add: wraps_into_def jupiter_policy_ok find_token_account_eq_Inr)

lemma trade_confined:
  assumes "\<And>i ss m. trades rt c A args rs i ss m \<Longrightarrow> P i ss m"
  shows "trade (confine P rt) A gr pm args s rs c = trade rt A gr pm args s rs c"
proof -
  have meter: "mouth_check_grant (confine P rt) A
      (token_check_grant_amount (tb_input_mint args) (tb_wrap_sol args) (tb_in_amount args)) c
    = mouth_check_grant rt A
      (token_check_grant_amount (tb_input_mint args) (tb_wrap_sol args) (tb_in_amount args)) c" for c
    by (rule meter_confined) (blast intro: assms tradesI(4))
  show ?thesis
    unfolding trade_def Let_def
    by (auto simp: meter confined trader_of_def dest!: forwarded find_trader_mem
        intro!: and_then_cong invoke_confined wrap_step_confined [OF assms] assms tradesI(3)
        elim: wraps_intoI split: prod.split)
qed

lemma sweeps_to_rootI:
  "tp \<in> {TOKEN_PROGRAM_ID, TOKEN_2022_PROGRAM_ID} \<Longrightarrow> token_owner (acc_data (m src)) = key (wpt_pump_trader A) \<Longrightarrow>
   token_owner (acc_data (m dst)) = key (wpt_root A) \<Longrightarrow>
   sweeps_to_root A (transfer_ix tp src dst (key (wpt_pump_trader A)) a) m"
  unfolding sweeps_to_root_def by blast

lemma sweep_token_pair_confined:
  assumes "\<And>i m. sweeps_to_root A i m \<Longrightarrow> P i [ss] m"
  shows "sweep_token_pair (confine P rt) A ss src dst c = sweep_token_pair rt A ss src dst c"
  by (auto simp: sweep_token_pair_def Let_def require_eq_Inr trader_account_fields_eq_Inr data_of_def
      intro!: and_then_cong invoke_confined assms sweeps_to_rootI split: prod.split)

lemma sweep_pairs_confined:
  "(\<And>i m. sweeps_to_root A i m \<Longrightarrow> P i [ss] m) \<Longrightarrow>
   sweep_pairs (confine P rt) A ss rs c = sweep_pairs rt A ss rs c"
  by (induction rt A ss rs c rule: sweep_pairs.induct)
    (auto simp: sweep_token_pair_confined intro!: and_then_cong)

lemma withdraw_confined:
  "process (confine (capability rt c (Withdraw_pump_trader A n rs)) rt) (Withdraw_pump_trader A n rs) c
   = process rt (Withdraw_pump_trader A n rs) c"
  by (auto simp: withdraw_pump_trader_def pump_trader_withdraw_def withdraw_sol_def Let_def confined sweep_pairs_confined
      intro!: and_then_cong invoke_confined)

lemma swap_confined:
  "process (confine (capability rt c (Token_buy A args rs)) rt) (Token_buy A args rs) c = process rt (Token_buy A args rs) c"
  "process (confine (capability rt c (Token_sell B brgs rs)) rt) (Token_sell B brgs rs) c
   = process rt (Token_sell B brgs rs) c"
  by (simp_all add: token_buy_def token_sell_def confined trade_confined cong: prod.case_cong)

lemma process_confined: "process (confine (capability rt c ix) rt) ix c = process rt ix c"
  by (cases ix; hypsubst;
      (rule fund_confined intent_confined pay_token_confined pay_subscription_confined trader_confined create_confined withdraw_confined
         swap_confined
       | (simp only: process.simps confined)))

definition program_signatures :: "pubkey \<Rightarrow> seeds list set" where
  "program_signatures grok =
     {[[seed, pubkey_bytes grok, [bump]]] | seed bump. seed \<in> {SEED_PUMP_TRADER, SEED_FEE_VAULT}}"

lemma capability_signatures: "capability rt c ix i ss m \<Longrightarrow> ss \<in> insert [] (program_signatures (grok_of ix))"
  by (cases ix) (auto simp: meters_def trades_def Let_def as_trader_def as_fee_vault_def program_signatures_def)

text \<open>C6: The capability audit, as behaviour: every instruction runs the same, to the ledger, the log and the
  error, under a runtime that refuses every call outside its line of the table. So \<open>pay\<close>, \<open>swap\<close> and
  \<open>deploy\<close> reach no program but CORE (\<open>deploy\<close> for zero); \<open>call\<close> reaches CORE and its target, to which it
  forwards no data, and no signature or write access that the transaction did not give. Where the
  trader's signature goes is a list: its own creation; the transfer of a payment, of exactly the
  metered amount, to a payee on the registry (for a subscription, its merchant); in a swap, the
  transfer of the input amount into the trader's own wrapped SOL account among the accounts given,
  which the wrap asks for, and a Jupiter route with the client's bytes; a pump.fun launch; and in a
  withdrawal, transfers to the root and from the trader's token accounts into the root's. The fee
  authority's signature goes only into a burn of the fee vault by Token-2022. Without a signature of
  the program, a funding calls the System Program to move lamports of the root into the vault or the
  paymaster, and a wrap has the token program sync the wrapped SOL account. No instruction makes any
  other call. (The creation of an account by Anchor's \<open>init\<close>, which signs for the new address only, is
  the step \<open>init_pda\<close> of the model and not a call of the handlers.) In these calls the program signs
  for the pump trader and the fee vault authority only, of the GrokAccount the instruction acts on:
  never for a vault or a paymaster.\<close>

theorem capability_confined:
  "process (confine (capability rt c ix) rt) ix c = process rt ix c
   \<and> {ss. \<exists>i m. capability rt c ix i ss m} \<subseteq> insert [] (program_signatures (grok_of ix))"
proof
  show "{ss. \<exists>i m. capability rt c ix i ss m} \<subseteq> insert [] (program_signatures (grok_of ix))"
    using capability_signatures by blast
qed (rule process_confined)

end
