(* ===== verification/Trader.thy ===== *)
theory Trader imports Capabilities begin

text \<open>
  The third custody. The pump trader is no account of this program: it is an empty System account at
  an address the program can sign for, and it owns token accounts. What protects it is that
  signature, so \<open>chain_frame\<close> alone says nothing of it. Here the frame is interpreted on what the trader
  holds, over runtimes in which nobody else can take it; with the table of \<open>Capabilities\<close>, which
  tells the instructions that lend the signature, it bounds every history.
\<close>

section \<open>What the trader holds\<close>

text \<open>
  A token account of the trader that nobody else may empty: of the SPL token program, with the trader
  as owner and neither a delegate (bytes 72 to 75) nor a close authority (bytes 129 to 132).
\<close>

definition own_tokens :: "pubkey \<Rightarrow> account \<Rightarrow> bool" where
  "own_tokens t a \<longleftrightarrow>
     acc_owner a = TOKEN_PROGRAM_ID \<and> TOKEN_ACCOUNT_MIN_LEN \<le> length (acc_data a)
     \<and> token_owner (acc_data a) = t
     \<and> take 4 (drop 72 (acc_data a)) = replicate 4 0 \<and> take 4 (drop 129 (acc_data a)) = replicate 4 0"

text \<open>Between two ledgers, a trader loses at most \<open>n\<close> lamports and no tokens.\<close>

definition spared :: "pubkey \<Rightarrow> int \<Rightarrow> ledger \<Rightarrow> ledger \<Rightarrow> bool" where
  "spared t n m m' \<longleftrightarrow>
     (acc_owner (m t) = SYSTEM_PROGRAM_ID \<longrightarrow>
        acc_owner (m' t) = SYSTEM_PROGRAM_ID
        \<and> int (unat (acc_lamports (m t))) - n \<le> int (unat (acc_lamports (m' t))))
     \<and> (\<forall>k. own_tokens t (m k) \<longrightarrow>
          own_tokens t (m' k) \<and> token_mint (acc_data (m' k)) = token_mint (acc_data (m k))
          \<and> token_amount (acc_data (m k)) \<le> token_amount (acc_data (m' k)))"

lemma spared_refl [simp]: "0 \<le> n \<Longrightarrow> spared t n m m"
  by (simp add: spared_def)

lemma spared_trans: "spared t n m m' \<Longrightarrow> spared t n' m' m'' \<Longrightarrow> spared t (n + n') m m''"
  unfolding spared_def by (smt (verit) order.trans)

lemma spared_more: "spared t n m m' \<Longrightarrow> n \<le> n' \<Longrightarrow> spared t n' m m'"
  unfolding spared_def by (smt (verit))

text \<open>
  Documented behaviour of the runtime, of the System and of the token program: an address that is
  derived from a program signs only for that program, and what the System account at such an address
  holds, or a token account it owns and has not opened to others, goes only with that signature. A call without it,
  and the creation of an account of this program, spare the trader.
\<close>

definition sealed :: "pubkey \<Rightarrow> runtime \<Rightarrow> bool" where
  "sealed t rt \<longleftrightarrow>
     (\<forall>ix infos ss m m'. ix_program_id ix \<noteq> INTENTS_ID \<longrightarrow> invoke_cpi rt ix infos ss m = Inr m' \<longrightarrow>
        spared t 0 m m')
     \<and> (\<forall>payer k space ss m m'. account_seeds ss \<longrightarrow> init_pda rt payer k space ss m = Inr m' \<longrightarrow>
        spared t 0 m m')"

definition trader_sealed :: "runtime \<Rightarrow> pubkey \<Rightarrow> bool" where
  "trader_sealed rt grok \<longleftrightarrow>
     (\<forall>ix infos ss m m'. ix_program_id ix \<noteq> INTENTS_ID \<longrightarrow> \<not> as_trader grok ss \<longrightarrow>
        invoke_cpi rt ix infos ss m = Inr m' \<longrightarrow> spared (trader_of rt grok) 0 m m')
     \<and> (\<forall>payer k space ss m m'. account_seeds ss \<longrightarrow> init_pda rt payer k space ss m = Inr m' \<longrightarrow>
        spared (trader_of rt grok) 0 m m')"

section \<open>The frame, on what the trader holds\<close>

definition holds :: "pubkey \<Rightarrow> (pubkey \<Rightarrow> int) \<Rightarrow> chain \<Rightarrow> chain \<Rightarrow> bool" where
  "holds t f c d \<longleftrightarrow> spared t (f t) (accts c) (accts d)"

lemma debit_holds:
  assumes "require_debit err reserve src dst amount c = Inr d"
  shows "holds t (charge_to (Some src) amount) c d"
proof -
  have same: "acc_owner (accts d k) = acc_owner (accts c k)" "acc_data (accts d k) = acc_data (accts c k)" for k
    using debit.frame(2,3) [OF assms] by (simp_all add: owner_of_def data_of_def)
  have "balance c t - charge_to (Some src) amount t \<le> balance d t"
    using assms by (auto simp: require_debit_eq_Inr moved_def balance_def charge_to_def unat_add_small
        unat_sub_le word_le_nat_alt simp del: of_nat_unat)
  then show ?thesis
    by (simp add: holds_def spared_def own_tokens_def same balance_def lamports_of_def del: of_nat_unat)
qed

interpretation assets: chain_frame "\<lambda>rt. isolated rt \<and> sealed t rt" "holds t" for t
proof unfold_locales
  show "holds t no_charge c c" for c
    by (simp add: holds_def no_charge_def)
  show "holds t f c d \<Longrightarrow> holds t g d e \<Longrightarrow> holds t (both f g) c e" for f g c d e
    unfolding holds_def both_def by (rule spared_trans)
  show "holds t f c d \<Longrightarrow> (\<And>k. f k \<le> g k) \<Longrightarrow> holds t g c d" for f g c d
    unfolding holds_def by (rule spared_more)
  show "holds t no_charge c (emit ev c)" for ev c
    by (simp add: holds_def no_charge_def)
  show "require_debit err reserve src dst amount c = Inr d \<Longrightarrow> holds t (charge_to (Some src) amount) c d"
    for err reserve src dst amount c d
    by (rule debit_holds)
  show "holds t no_charge c d"
    if good: "isolated rt \<and> sealed t rt" and "outward ix" and run: "invoke_signed rt ix infos ss c = Inr d" for rt ix infos ss c d
  proof (cases "ix_program_id ix = INTENTS_ID")
    case True
    with that have "accts d = accts c"
      by (auto simp: isolated_def self_call_idle_def outward_def invoke_signed_eq_Inr)
    then show ?thesis
      by (simp add: holds_def no_charge_def)
  next
    case False
    with good run show ?thesis
      by (auto simp: sealed_def holds_def no_charge_def invoke_signed_eq_Inr)
  qed
  show "holds t no_charge c d"
    if "isolated rt \<and> sealed t rt" "account_seeds sd" "create_pda_account rt payer k space sd c = Inr d" for rt payer k space sd c d
    using that by (auto simp: sealed_def holds_def no_charge_def create_pda_account_eq_Inr)
qed simp

text \<open>The last write of an instruction goes to an account of this program, or to one it creates.\<close>

lemma write_spares:
  assumes "holds t f c c1" and "f t = 0 \<or> owner_of c t \<noteq> SYSTEM_PROGRAM_ID"
    and "owner_of c k \<in> {SYSTEM_PROGRAM_ID, INTENTS_ID}"
  shows "spared t 0 (accts c) (accts (with_data k bs c1))"
proof -
  have "\<not> own_tokens t (accts c k)"
    using assms(3) by (auto simp: own_tokens_def owner_of_def token_ids [symmetric])
  with assms(1,2) show ?thesis
    by (auto simp: holds_def spared_def with_data_def owner_of_def)
qed

lemma process_spares:
  assumes iso: "isolated rt" and seal: "sealed t rt" and run: "process rt ix c = Inr d"
  shows "spared t 0 (accts c) (accts d)"
proof -
  have free: "outflow ix t = 0 \<or> owner_of c t \<noteq> SYSTEM_PROGRAM_ID"
    using process_custody [OF run, of t] intents_not_system
    by (auto simp: custody_of_def load_typed_eq_Inr)
  from assets.process_effect [of rt t, OF conjI [OF iso seal] run]
  consider "holds t (outflow ix) c d" | "writes (holds t (outflow ix)) c d"
    | k where "notes_settlement (holds t no_charge) k c d" by blast
  then show ?thesis
  proof cases
    case 1
    with free show ?thesis
      by (auto simp: holds_def spared_def owner_of_def)
  next
    case 2
    then obtain c1 k bs s where "holds t (outflow ix) c c1" "d = with_data k bs c1" "allowed c k s"
      unfolding writes_def by blast
    with free show ?thesis
      using write_spares [of t "outflow ix" c c1 k] by (auto simp: allowed_def)
  next
    case (3 k)
    then obtain c1 e bs u where hold: "holds t no_charge c c1" and d: "d = with_data k bs (emit e c1)"
      and load: "load_subscription c k = Inr u"
      unfolding notes_settlement_def by blast
    have "holds t no_charge c (emit e c1)"
      using hold by (simp add: holds_def)
    then show ?thesis
      unfolding d by (rule write_spares) (use load in \<open>simp_all add: no_charge_def load_typed_eq_Inr\<close>)
  qed
qed

section \<open>Who may lend the signature\<close>

fun signs_as_trader :: "program_ix \<Rightarrow> bool" where
  "signs_as_trader (Init_pump_trader A) \<longleftrightarrow> True"
| "signs_as_trader (Withdraw_pump_trader A lamports remaining) \<longleftrightarrow> True"
| "signs_as_trader (Pump_create A args remaining) \<longleftrightarrow> True"
| "signs_as_trader (Token_buy A args remaining) \<longleftrightarrow> True"
| "signs_as_trader (Token_sell A args remaining) \<longleftrightarrow> True"
| "signs_as_trader (Pay_token A args) \<longleftrightarrow> True"
| "signs_as_trader (Pay_subscription A args) \<longleftrightarrow> True"
| "signs_as_trader _ \<longleftrightarrow> False"

lemma as_trader_inject:
  "as_trader g ss \<Longrightarrow> as_trader h ss \<Longrightarrow> g = h"
  "as_fee_vault h ss \<Longrightarrow> \<not> as_trader g ss"
  by (auto simp: as_trader_def as_fee_vault_def seed_defs dest: arg_cong [where f = dec_pubkey])

lemma unsigned_trader [simp]: "\<not> as_trader g []"
  by (simp add: as_trader_def)

lemma capability_signs:
  "capability rt c ix i ss m \<Longrightarrow> as_trader g ss \<Longrightarrow> signs_as_trader ix \<and> grok_of ix = g"
  by (cases ix) (auto simp: meters_def trades_def Let_def dest: as_trader_inject)

lemma confine_isolated: "isolated rt \<Longrightarrow> isolated (confine P rt)"
  unfolding isolated_def foreign_frame_def init_fresh_def no_forgery_def self_call_idle_def
    rent_from_outside_def confine_def by (auto split: if_splits)

lemma confine_sealed:
  assumes "trader_sealed rt g" and "\<not> (signs_as_trader ix \<and> grok_of ix = g)"
  shows "sealed (trader_of rt g) (confine (capability rt c ix) rt)"
proof -
  have "\<not> as_trader g ss" if "capability rt c ix i ss m" for i ss m
    using assms(2) capability_signs [OF that] by blast
  with assms(1) show ?thesis
    unfolding trader_sealed_def sealed_def by (simp add: confine_def split: if_splits) blast
qed

lemma process_spares_trader:
  assumes "isolated rt" and "trader_sealed rt g" and "process rt ix c = Inr d"
  shows "spared (trader_of rt g) 0 (accts c) (accts d)
    \<or> signs_as_trader ix \<and> grok_of ix = g \<and> authorised rt ix c"
proof (cases "signs_as_trader ix \<and> grok_of ix = g")
  case True
  then show ?thesis
    using process_authorised [OF assms(3)] by blast
next
  case False
  from process_spares [OF confine_isolated [OF assms(1)] confine_sealed [OF assms(2) False, of c]]
  show ?thesis
    using assms(3) process_confined by metis
qed

section \<open>Histories of a trader\<close>

text \<open>
  A run with its trail, beside which other programs do what they can to the trader \<open>t\<close> of \<open>grok\<close>
  without its signature: they spare it.
\<close>

inductive trader_history ::
  "pubkey \<Rightarrow> pubkey \<Rightarrow> chain \<Rightarrow> (runtime \<times> program_ix \<times> chain) list \<Rightarrow> chain \<Rightarrow> bool"
  for grok t where
  start: "trader_history grok t c [] c"
| ours: "trader_history grok t c xs d \<Longrightarrow> isolated rt \<Longrightarrow> trader_sealed rt grok \<Longrightarrow> trader_of rt grok = t \<Longrightarrow>
    process rt ix d = Inr e \<Longrightarrow> trader_history grok t c (xs @ [(rt, ix, d)]) e"
| theirs: "trader_history grok t c xs d \<Longrightarrow> spared t 0 (accts d) (accts e) \<Longrightarrow> trader_history grok t c xs e"

text \<open>The steps that lend the signature of the trader.\<close>

definition lends :: "pubkey \<Rightarrow> runtime \<times> program_ix \<times> chain \<Rightarrow> bool" where
  "lends grok s \<longleftrightarrow> (case s of (rt, ix, b) \<Rightarrow> signs_as_trader ix \<and> grok_of ix = grok)"

lemma trader_history_authorised:
  "trader_history grok t c xs d \<Longrightarrow> (rt, ix, b) \<in> set xs \<Longrightarrow> authorised rt ix b"
  by (induction rule: trader_history.induct) (auto dest: process_authorised)

lemma trader_history_spares:
  "trader_history grok t c xs d \<Longrightarrow> \<not> list_ex (lends grok) xs \<Longrightarrow> spared t 0 (accts c) (accts d)"
proof (induction rule: trader_history.induct)
  case (start c)
  show ?case by simp
next
  case (ours c xs d rt ix e)
  then have "spared t 0 (accts c) (accts d)" and "spared t 0 (accts d) (accts e)"
    using process_spares_trader [OF ours.hyps(2,3,5)] by (auto simp: lends_def)
  then show ?case
    using spared_trans by fastforce
next
  case (theirs c xs d e)
  then show ?case
    using spared_trans by fastforce
qed

text \<open>C4: The pump trader spends by authority only. Over any history of instructions, interleaved with
  whatever other programs do, either the trader of a GrokAccount has lost no lamport, and none of its
  SPL token accounts (without delegate or close authority) a token, or the trail names a step that lent
  its signature: the creation of the trader, a withdrawal, a launch, a swap, a token payment or the
  settlement of a subscription, on that very GrokAccount, and signed by its root or by the agent of a
  grant on it. No other instruction, and none on another GrokAccount, can touch it, whatever accounts it
  is given. Needed of the world outside is that the runtime keeps programs apart, and that what a
  program-derived address holds is not taken without its signature.\<close>

theorem trader_spends_by_authority:
  assumes "trader_history grok t c xs d"
  shows "spared t 0 (accts c) (accts d)
    \<or> (\<exists>(rt, ix, b) \<in> set xs. signs_as_trader ix \<and> grok_of ix = grok \<and> authorised rt ix b)"
proof (cases "list_ex (lends grok) xs")
  case True
  then obtain rt ix b where "(rt, ix, b) \<in> set xs" "signs_as_trader ix" "grok_of ix = grok"
    by (auto simp: list_ex_iff lends_def)
  with trader_history_authorised [OF assms] show ?thesis
    by blast
qed (use trader_history_spares [OF assms] in blast)

text \<open>A demonstration in which the trader is sealed: only CORE is called without its signature.\<close>

lemma confine_weaken:
  assumes "\<And>i ss m. capability rt c ix i ss m \<Longrightarrow> P i ss m"
  shows "process (confine P rt) ix c = process rt ix c"
proof -
  have same: "capability (confine P rt) c ix = capability rt c ix"
    by (intro ext, cases ix) (simp_all add: trades_def trader_of_def confined)
  define once twice where "once = (\<lambda>i infos ss m. if capability rt c ix i ss m then invoke_cpi rt i infos ss m else Inl 0)"
    and "twice = (\<lambda>i infos ss m. if capability rt c ix i ss m
      then if P i ss m then invoke_cpi rt i infos ss m else Inl 0 else Inl 0)"
  have "twice = once"
    using assms by (intro ext) (simp add: once_def twice_def)
  moreover have "confine (capability rt c ix) (confine P rt) = rt\<lparr>invoke_cpi := twice\<rparr>"
    "confine (capability rt c ix) rt = rt\<lparr>invoke_cpi := once\<rparr>"
    by (simp_all add: confine_def once_def twice_def cong: if_cong)
  ultimately have "confine (capability rt c ix) (confine P rt) = confine (capability rt c ix) rt"
    by (simp only:)
  then show ?thesis
    using process_confined [of "confine P rt" c ix] process_confined [of rt c ix] by (simp add: same)
qed

definition core_or_signed :: "instruction \<Rightarrow> seeds list \<Rightarrow> ledger \<Rightarrow> bool" where
  "core_or_signed i ss m \<longleftrightarrow> ix_program_id i = CORE_ID \<or> as_trader k_grok ss"

lemma demo_trader: "trader_of (confine P demo_token_rt) k_grok = k_trader"
  by (simp add: trader_of_def confined)

lemma demo_trader_sealed: "trader_sealed (confine core_or_signed demo_token_rt) k_grok"
  unfolding trader_sealed_def demo_trader
proof (intro conjI allI impI)
  fix ix infos ss and m m' :: ledger
  assume "\<not> as_trader k_grok ss" "invoke_cpi (confine core_or_signed demo_token_rt) ix infos ss m = Inr m'"
  then have "demo_core ix m = Inr m'"
    by (auto simp: confine_def core_or_signed_def demo_token_cpi_def demo_cpi_def token_ids [symmetric] split: if_splits)
  then show "spared k_trader 0 m m'"
    by (auto simp: demo_core_def spared_def own_tokens_def Let_def split: if_splits)
next
  fix payer k :: pubkey and space ss and m m' :: ledger
  assume "init_pda (confine core_or_signed demo_token_rt) payer k space ss m = Inr m'"
  then show "spared k_trader 0 m m'"
    by (auto simp: confined demo_init_def spared_def own_tokens_def split: if_splits)
qed

lemma demo_holding_open:
  "take 4 (drop 72 (demo_holding m k a)) = replicate 4 0" "take 4 (drop 129 (demo_holding m k a)) = replicate 4 0"
  by (simp_all add: demo_holding_def)

lemma trader_spends_by_authority_witness:
  "\<exists>d. pay_token demo_token_rt demo_pay_token_infos
       \<lparr>pt_amount = 2500, pt_decimals = 6, pt_sponsor_lamports = 0\<rparr> demo_payments_chain = Inr d
     \<and> \<not> spared k_trader 0 (accts demo_payments_chain) (accts d)
     \<and> agent_signs (confine core_or_signed demo_token_rt) demo_pay_token_infos demo_payments_chain"
proof -
  let ?rt = "confine core_or_signed demo_token_rt"
    and ?ix = "Pay_token demo_pay_token_infos \<lparr>pt_amount = 2500, pt_decimals = 6, pt_sponsor_lamports = 0\<rparr>"
  obtain d where d: "process demo_token_rt ?ix demo_payments_chain = Inr d"
    and paid: "token_amount (data_of d 31) = 6500"
    using demo_pay_token_ok by auto
  have "process ?rt ?ix demo_payments_chain = Inr d"
    unfolding d [symmetric] by (rule confine_weaken)
      (auto simp: core_or_signed_def meters_def check_grant_ix_def demo_pay_token_infos_def)
  then have run: "trader_history k_grok k_trader demo_payments_chain ([] @ [(?rt, ?ix, demo_payments_chain)]) d"
    by (intro trader_history.ours [OF trader_history.start confine_isolated [OF demo_token_isolated]
        demo_trader_sealed demo_trader])
  have "own_tokens k_trader (accts demo_payments_chain 31)" "token_amount (acc_data (accts demo_payments_chain 31)) = 9000"
    by (simp_all add: own_tokens_def TOKEN_ACCOUNT_MIN_LEN_def demo_holding_open)
  moreover have "token_amount (acc_data (accts demo_payments_chain 31)) \<le> token_amount (acc_data (accts d 31))"
    if "spared k_trader 0 (accts demo_payments_chain) (accts d)" "own_tokens k_trader (accts demo_payments_chain 31)"
    using that unfolding spared_def by blast
  ultimately have "\<not> spared k_trader 0 (accts demo_payments_chain) (accts d)"
    using paid by (auto simp: data_of_def)
  with trader_spends_by_authority [OF run] d show ?thesis
    by auto
qed

end
