(* ===== verification/Books.thy ===== *)
theory Books imports Program begin

text \<open>
  The log against the accounts: \<open>SubscriptionPaid\<close> events of a subscription and its counters
  tell the same story in every ledger the program can reach, so a period is charged at most once
  in the life of a subscription, whoever delivers the settlements and however they interleave
  with everything else.
\<close>

section \<open>Reading the log\<close>

text \<open>What an event says of a settlement of \<open>k\<close>: period, amount, merchant and mint.\<close>

fun settlement :: "pubkey \<Rightarrow> event \<Rightarrow> (i64 \<times> u64 \<times> pubkey \<times> pubkey) list" where
  "settlement k (Payment_event (SubscriptionPaid sub grok merchant mint amount period n ref agent gr gen)) =
     (if sub = k then [(period, amount, merchant, mint)] else [])"
| "settlement k _ = []"

definition settlements :: "pubkey \<Rightarrow> event list \<Rightarrow> (i64 \<times> u64 \<times> pubkey \<times> pubkey) list" where
  "settlements k es = concat (map (settlement k) es)"

lemma settlements_append [simp]: "settlements k (es @ fs) = settlements k es @ settlements k fs"
  by (simp add: settlements_def)

lemma settlements_simps [simp]: "settlements k [] = []" "settlements k (e # es) = settlement k e @ settlements k es"
  by (simp_all add: settlements_def)

lemma no_settlement: "\<not> settles e \<Longrightarrow> settlement k e = []"
  by (cases "(k, e)" rule: settlement.cases) auto

lemma no_settlements: "\<not> list_ex settles es \<Longrightarrow> settlements k es = []"
  by (induction es) (simp_all add: no_settlement)

section \<open>Books that agree\<close>

text \<open>The state of a subscription and the settlements noted for it.\<close>

definition booked :: "subscription \<Rightarrow> (i64 \<times> u64 \<times> pubkey \<times> pubkey) list \<Rightarrow> bool" where
  "booked u ss \<longleftrightarrow>
     list_all (\<lambda>(p, terms). 0 \<le> sint p \<and> sint p \<le> sint (sb_last_paid_period u)
       \<and> terms = (sb_amount u, sb_merchant u, sb_mint u)) ss
     \<and> sorted_wrt (\<lambda>x y. sint (fst x) < sint (fst y)) ss
     \<and> - 1 \<le> sint (sb_last_paid_period u)
     \<and> unat (sb_payments u) = min (length ss) (2 ^ 32 - 1)"

lemma booked_start: "sb_last_paid_period u = PERIOD_NONE \<Longrightarrow> sb_payments u = 0 \<Longrightarrow> booked u []"
  by (simp add: booked_def PERIOD_NONE_def)

lemma booked_cong:
  assumes "booked u ss" and "fixed_subscription v = fixed_subscription u"
    and "counters (Subscription_state v) = counters (Subscription_state u)"
  shows "booked v ss"
proof -
  have "sb_amount v = sb_amount u" "sb_merchant v = sb_merchant u" "sb_mint v = sb_mint u"
    using arg_cong [OF assms(2), of sb_amount] arg_cong [OF assms(2), of sb_merchant]
      arg_cong [OF assms(2), of sb_mint] by (simp_all add: fixed_subscription_def)
  with assms(1,3) show ?thesis
    by (simp add: booked_def)
qed

lemma booked_settle:
  assumes "booked u ss" and "sint (sb_last_paid_period u) < sint p"
  shows "booked (u\<lparr>sb_last_paid_period := p, sb_payments := saturating_add (sb_payments u) 1\<rparr>)
    (ss @ [(p, sb_amount u, sb_merchant u, sb_mint u)])"
  using assms
  by (force simp: booked_def list_all_iff sorted_wrt_append unat_saturating_add)

text \<open>
  The invariant: an address has settlements in the log only while a subscription lives there,
  and every subscription agrees with them.
\<close>

definition books_agree :: "chain \<Rightarrow> bool" where
  "books_agree c \<longleftrightarrow>
     (\<forall>k. (settlements k (events c) \<noteq> [] \<longrightarrow> (\<exists>u. load_subscription c k = Inr u))
        \<and> (\<forall>u. load_subscription c k = Inr u \<longrightarrow> booked u (settlements k (events c))))"

lemma load_subscription_iff:
  "load_subscription c k = Inr u \<longleftrightarrow>
   owner_of c k = INTENTS_ID \<and> decode_account (data_of c k) = Some (Subscription_state u)"
  by (simp add: load_typed_eq_Inr)

text \<open>Both frames at once, so that they speak of the same write.\<close>

definition quietly :: "chain \<Rightarrow> chain \<Rightarrow> bool" where
  "quietly c d \<longleftrightarrow> undisturbed c d \<and> extends_quietly c d"

interpretation unnoted: chain_frame isolated "\<lambda>f. quietly"
  by unfold_locales
    (auto simp: quietly_def intro: quiet.same log.same quiet.emitted log.emitted quiet.debited log.debited
      quiet.called log.called quiet.created log.created dest: quiet.compose log.compose)

lemma quietly_log: "quietly c d \<Longrightarrow> settlements k (events d) = settlements k (events c)"
  by (auto simp: quietly_def extends_quietly_def no_settlements)

lemma undisturbed_load:
  assumes "undisturbed c d"
  shows "load_subscription d k = Inr u \<longleftrightarrow> load_subscription c k = Inr u"
proof (cases "owner_of c k = INTENTS_ID")
  case True
  with assms show ?thesis
    by (simp add: load_subscription_iff undisturbed_def)
next
  case False
  with assms show ?thesis
    unfolding load_subscription_iff undisturbed_def using blank_undecodable by fastforce
qed

lemma books_undisturbed:
  "books_agree c \<Longrightarrow> undisturbed c d \<Longrightarrow> (\<And>k. settlements k (events d) = settlements k (events c)) \<Longrightarrow>
   books_agree d"
  by (simp add: books_agree_def undisturbed_load)

lemma load_with_data:
  "load_subscription (with_data j bs c) k = Inr u \<longleftrightarrow>
   (if k = j then owner_of c k = INTENTS_ID \<and> decode_account bs = Some (Subscription_state u)
    else load_subscription c k = Inr u)"
  by (simp add: load_subscription_iff)

text \<open>A write that is no settlement leaves the counters, or starts a subscription at a fresh address.\<close>

text \<open>A write that is no settlement leaves the account agreeing with the log, whatever it replaces.\<close>

lemma books_at_rewritten:
  assumes "books_agree c" and own: "owner_of c j = INTENTS_ID" "owner_of c1 j = INTENTS_ID"
    and s: "decode_account (data_of c j) = Some s" and t: "decode_account bs = Some t"
    and ev: "evolves s t" "counters t = counters s"
  shows "(settlements j (events c) \<noteq> [] \<longrightarrow> (\<exists>u. load_subscription (with_data j bs c1) j = Inr u))
    \<and> (\<forall>u. load_subscription (with_data j bs c1) j = Inr u \<longrightarrow> booked u (settlements j (events c)))"
proof (cases s)
  case (Subscription_state u)
  then obtain v where v: "t = Subscription_state v" "fixed_subscription v = fixed_subscription u"
    using ev(1) by (cases t) simp_all
  have "booked u (settlements j (events c))"
    using assms(1) own(1) s Subscription_state unfolding books_agree_def load_subscription_iff by blast
  with v ev(2) have "booked v (settlements j (events c))"
    using booked_cong Subscription_state by blast
  with v own(2) t show ?thesis
    by (auto simp: load_with_data)
qed (use own s assms(1) t ev in \<open>cases t; force simp: load_with_data books_agree_def load_subscription_iff
    simp del: decode_account_iff\<close>)+

lemma books_at_fresh:
  assumes "books_agree c" and "owner_of c j = SYSTEM_PROGRAM_ID"
    and t: "decode_account bs = Some t" "initial t"
  shows "(settlements j (events c) \<noteq> [] \<longrightarrow> (\<exists>u. load_subscription (with_data j bs c1) j = Inr u))
    \<and> (\<forall>u. load_subscription (with_data j bs c1) j = Inr u \<longrightarrow> booked u (settlements j (events c)))"
proof -
  have none: "settlements j (events c) = []"
    using assms(1,2) intents_not_system unfolding books_agree_def load_subscription_iff by metis
  have "booked u []" if "t = Subscription_state u" for u
    using t(2) that booked_start by simp
  with none t(1) show ?thesis
    by (auto simp: load_with_data)
qed

lemma books_written:
  assumes "books_agree c" and "quietly c c1" and "decode_account bs = Some t" and "allowed c j t"
  shows "books_agree (with_data j bs c1)"
proof -
  have log: "settlements k (events (with_data j bs c1)) = settlements k (events c)" for k
    using quietly_log [OF assms(2)] by simp
  have load: "load_subscription c1 k = Inr u \<longleftrightarrow> load_subscription c k = Inr u" for k u
    using assms(2) undisturbed_load by (simp add: quietly_def)
  have "owner_of c j = INTENTS_ID \<Longrightarrow> owner_of c1 j = INTENTS_ID"
    using assms(2) by (simp add: quietly_def undisturbed_def)
  then have "(settlements j (events c) \<noteq> [] \<longrightarrow> (\<exists>u. load_subscription (with_data j bs c1) j = Inr u))
      \<and> (\<forall>u. load_subscription (with_data j bs c1) j = Inr u \<longrightarrow> booked u (settlements j (events c)))"
    using assms(4) books_at_fresh [OF assms(1) _ assms(3)] books_at_rewritten [OF assms(1) _ _ _ assms(3)]
    unfolding allowed_def by blast
  then show ?thesis
    unfolding books_agree_def log using assms(1) load
    by (intro allI) (case_tac "k = j", simp_all add: load_with_data books_agree_def)
qed

lemma books_settled:
  assumes "books_agree c" and "notes_settlement quietly j c d"
  shows "books_agree d"
proof -
  obtain u now stated p c1 bs grok ref agent grant gen where load: "load_subscription c j = Inr u"
    and due: "due_period now u stated = Inr p" and quiet: "quietly c c1"
    and d: "d = with_data j bs (emit (Payment_event (SubscriptionPaid j grok (sb_merchant u) (sb_mint u)
      (sb_amount u) p (saturating_add (sb_payments u) 1) ref agent grant gen)) c1)"
    and dec: "decode_account bs = Some (Subscription_state (u\<lparr>sb_last_paid_period := p,
      sb_payments := saturating_add (sb_payments u) 1\<rparr>))"
    using assms(2) unfolding notes_settlement_def by blast
  have log: "settlements k (events d) = settlements k (events c)
      @ (if k = j then [(p, sb_amount u, sb_merchant u, sb_mint u)] else [])" for k
    using quietly_log [OF quiet] by (simp add: d)
  have load1: "load_subscription c1 k = Inr v \<longleftrightarrow> load_subscription c k = Inr v" for k v
    using quiet undisturbed_load by (simp add: quietly_def)
  have own: "owner_of c1 j = INTENTS_ID"
    using load load1 [of j u] by (simp add: load_subscription_iff)
  have "booked u (settlements j (events c))" and "sint (sb_last_paid_period u) < sint p"
    using assms(1) load due by (simp_all add: books_agree_def due_period_eq_Inr)
  from booked_settle [OF this] show ?thesis
    using assms(1) load1 own dec unfolding books_agree_def log
    by (auto simp: d load_with_data)
qed

lemma books_process:
  assumes "isolated rt" and "process rt ix c = Inr d" and "books_agree c"
  shows "books_agree d"
  using unnoted.process_effect [OF assms(1,2)]
proof (elim disjE exE conjE)
  assume "quietly c d"
  then show ?thesis
    using books_undisturbed [OF assms(3)] quietly_log by (simp add: quietly_def)
next
  assume "writes quietly c d"
  then show ?thesis
    unfolding writes_def using books_written [OF assms(3)] by blast
next
  fix k
  assume "notes_settlement quietly k c d"
  then show ?thesis
    by (rule books_settled [OF assms(3)])
qed

lemma books_steps: "steps c d \<Longrightarrow> books_agree c \<Longrightarrow> books_agree d"
proof (induction rule: steps.induct)
  case (more c d e)
  have "books_agree d"
    by (rule more.IH [OF more.prems])
  with more.hyps(2) show ?case
    by (cases rule: step.cases) (auto intro: books_process books_undisturbed)
qed

section \<open>Property\<close>

lemma genesis_open: "genesis c \<Longrightarrow> events c = [] \<and> load_subscription c k \<noteq> Inr u"
  by (simp add: genesis_def load_subscription_iff)

lemma books_opened:
  assumes "events c = []"
    and "\<And>k u. load_subscription c k = Inr u \<Longrightarrow> sb_last_paid_period u = PERIOD_NONE \<and> sb_payments u = 0"
  shows "books_agree c"
  using assms by (simp add: books_agree_def booked_start)

text \<open>Strictly rising numbers between 0 and \<open>n\<close> are at most \<open>n + 1\<close> many.\<close>

lemma rising_length:
  assumes "sorted_wrt (\<lambda>x y. f x < (f y :: int)) xs" and "\<And>x. x \<in> set xs \<Longrightarrow> 0 \<le> f x \<and> f x \<le> n" and "- 1 \<le> n"
  shows "int (length xs) \<le> n + 1"
proof -
  have d: "distinct (map f xs)"
    using assms(1) by (induction xs) auto
  have "length xs = card (set (map f xs))"
    using distinct_card [OF d] by simp
  also have "\<dots> \<le> card {0..n}"
    by (rule card_mono) (use assms(2) in auto)
  finally show ?thesis
    using assms(3) by simp
qed

lemma booked_total:
  assumes "booked u ss"
  shows "(\<Sum>x\<leftarrow>ss. int (unat (fst (snd x)))) \<le> (sint (sb_last_paid_period u) + 1) * int (unat (sb_amount u))"
proof -
  have same: "map (\<lambda>x. int (unat (fst (snd x)))) ss = map (\<lambda>x. int (unat (sb_amount u))) ss"
    using assms by (auto simp: booked_def list_all_iff simp del: of_nat_unat)
  have "(\<Sum>x\<leftarrow>ss. int (unat (fst (snd x)))) = int (length ss) * int (unat (sb_amount u))"
    unfolding same by (simp add: sum_list_triv del: of_nat_unat)
  moreover have "int (length ss) \<le> sint (sb_last_paid_period u) + 1"
    by (rule rising_length [of "\<lambda>x. sint (fst x)"]) (use assms in \<open>auto simp: booked_def list_all_iff\<close>)
  ultimately show ?thesis
    by (simp add: mult_right_mono del: of_nat_unat)
qed

text \<open>C5: No period is charged twice in the life of a subscription: from any ledger with an empty log
  where no subscription was paid yet (before the deployment there is none at all), and over any
  history of instructions interleaved with whatever other programs do, the settlements noted in
  the log for a subscription have strictly rising periods, none later than the last one the
  account remembers, each with the amount, merchant and mint of the subscription; the payment
  counter counts them (it saturates at its width), and the total charged is at most the amount
  times the periods begun.\<close>

theorem no_period_charged_twice:
  assumes "steps c d" and "events c = []"
    and "\<forall>k u. load_subscription c k = Inr u \<longrightarrow> sb_last_paid_period u = PERIOD_NONE \<and> sb_payments u = 0"
    and "load_subscription d k = Inr u"
  shows "sorted_wrt (\<lambda>x y. sint (fst x) < sint (fst y)) (settlements k (events d))
    \<and> list_all (\<lambda>(p, terms). 0 \<le> sint p \<and> sint p \<le> sint (sb_last_paid_period u)
         \<and> terms = (sb_amount u, sb_merchant u, sb_mint u)) (settlements k (events d))
    \<and> unat (sb_payments u) = min (length (settlements k (events d))) (2 ^ 32 - 1)
    \<and> (\<Sum>x\<leftarrow>settlements k (events d). int (unat (fst (snd x))))
        \<le> (sint (sb_last_paid_period u) + 1) * int (unat (sb_amount u))"
proof -
  have "books_agree d"
    by (rule books_steps [OF assms(1) books_opened]) (use assms(2,3) in auto)
  then have "booked u (settlements k (events d))"
    using assms(4) by (simp add: books_agree_def)
  with booked_total [OF this] show ?thesis
    by (simp add: booked_def)
qed

lemma demo_owned: "owner_of demo_chain k = INTENTS_ID \<Longrightarrow> k = k_vault \<or> k = k_paymaster"
proof (rule ccontr)
  assume own: "owner_of demo_chain k = INTENTS_ID" and "\<not> (k = k_vault \<or> k = k_paymaster)"
  then have "acc_owner (accts demo_chain k) \<in> {SYSTEM_PROGRAM_ID, CORE_ID, 0}"
    by (simp add: demo_chain_def fun_upd_def demo_program_def split del: if_split) (simp split: if_split)
  with own show False
    using core_not_intents intents_not_system by (auto simp: owner_of_def key_simps)
qed

lemma demo_billing_open:
  "load_subscription demo_billing_chain k = Inr u \<Longrightarrow> sb_last_paid_period u = PERIOD_NONE \<and> sb_payments u = 0"
proof (cases "k = k_subscription")
  case True
  then show "load_subscription demo_billing_chain k = Inr u \<Longrightarrow> ?thesis"
    by (auto simp: demo_subscription_def PERIOD_NONE_def)
next
  case False
  assume "load_subscription demo_billing_chain k = Inr u"
  then have at: "take 8 (acc_data (accts demo_payments_chain k)) = sb_disc"
    "acc_owner (accts demo_payments_chain k) = INTENTS_ID"
    using False by (auto simp: load_subscription_iff data_of_def owner_of_def dest: deserialize_disc)
  then have "k \<notin> {31, 32, 40, k_merchants}"
    by (auto simp: demo_registry_data_def disc_defs)
  with at have "take 8 (acc_data (accts demo_chain k)) = sb_disc" "owner_of demo_chain k = INTENTS_ID"
    by (simp_all add: owner_of_def)
  then show ?thesis
    using demo_owned [of k] by (auto simp: disc_defs)
qed

lemma no_period_charged_twice_witness:
  "\<exists>d u. pay_subscription demo_token_rt demo_pay_subscription_infos demo_period_args demo_billing_chain = Inr d
     \<and> load_subscription d k_subscription = Inr u \<and> sb_last_paid_period u = 2
     \<and> (\<Sum>x\<leftarrow>settlements k_subscription (events d). int (unat (fst (snd x)))) \<le> 7500"
proof -
  obtain d where d: "pay_subscription demo_token_rt demo_pay_subscription_infos demo_period_args demo_billing_chain = Inr d"
    using demo_pay_subscription_ok by blast
  then have steps: "steps demo_billing_chain d"
    by (intro steps_own [OF steps.none demo_token_isolated, of "Pay_subscription demo_pay_subscription_infos demo_period_args"])
      simp
  obtain sub u where "load_subscription demo_billing_chain k_subscription = Inr sub"
    and p: "period_settled demo_token_rt demo_pay_subscription_infos sub u demo_billing_chain d"
    using pay_subscription_settles [OF demo_token_core_meters demo_token_transfers d]
    by (auto simp: demo_pay_subscription_infos_def)
  then have sub: "sub = demo_subscription"
    by simp
  have u: "load_subscription d k_subscription = Inr u"
    using p by (simp add: period_settled_def demo_pay_subscription_infos_def)
  have last: "sb_last_paid_period u = 2"
    using p demo_period by (simp add: period_settled_def sub demo_subscription_def)
  have "u = sub\<lparr>sb_last_paid_period := sb_last_paid_period u, sb_payments := saturating_add (sb_payments sub) 1\<rparr>"
    using p by (simp add: period_settled_def)
  from arg_cong [OF this, of sb_amount] have amount: "sb_amount u = 2500"
    by (simp add: sub demo_subscription_def)
  show ?thesis
    using no_period_charged_twice [OF steps _ _ u] demo_billing_open d u last amount
    by (auto simp: demo_billing_chain_def demo_payments_chain_def demo_registry_chain_def demo_chain_def)
qed

end
