(* ===== verification/Timed_Payment.thy ===== *)
theory Timed_Payment imports Subscriptions begin

text \<open>
  The claim of the source that a subscription is not a second way to pay: it is \<open>pay_token\<close> with a
  clock and a counter. Both instructions are brought to one form, a guarded core (\<open>goes_through\<close>)
  that checks, meters and transfers, and compared there.
\<close>

section \<open>The payment both make\<close>

text \<open>The accounts of a settlement as those of a plain payment, with the vault \<open>pay_token\<close> wants.\<close>

definition plain_infos :: "account_info \<Rightarrow> pay_subscription_infos \<Rightarrow> pay_token_infos" where
  "plain_infos vault A =
     \<lparr>m_agent = m_agent A, m_grok_account = m_grok_account A, m_grant = m_grant A,
      m_core_program = m_core_program A, m_intents_program = m_intents_program A,
      ptk_spend_vault = vault, ptk_merchant_registry = psb_merchant_registry A,
      ptk_pump_trader = psb_pump_trader A, ptk_source = psb_source A,
      ptk_destination = psb_destination A, ptk_mint = psb_mint A,
      ptk_token_program = psb_token_program A, ptk_reference = psb_reference A,
      ptk_paymaster = None, ptk_fee_payer = None\<rparr>"

definition plain_args :: "u64 \<Rightarrow> u8 \<Rightarrow> pay_token_args" where
  "plain_args amount decimals = \<lparr>pt_amount = amount, pt_decimals = decimals, pt_sponsor_lamports = 0\<rparr>"

text \<open>
  Everything the two have in common: \<open>amount\<close> of \<open>mint\<close> goes from the trader's account to one
  of \<open>payee\<close>, who is on the registry, metered at CORE, and leaves the ledger \<open>d\<close>.
\<close>

definition goes_through ::
  "runtime \<Rightarrow> pay_subscription_infos \<Rightarrow> u64 \<Rightarrow> pubkey \<Rightarrow> pubkey \<Rightarrow> u8 \<Rightarrow> chain \<Rightarrow> chain \<Rightarrow> bool" where
  "goes_through rt A amount mint payee dec c d \<longleftrightarrow>
     (\<exists>ga gr reg bump held had c1.
        mouth_load rt A c = Inr (ga, gr) \<and> mouth_constraints rt A ga gr = Inr ()
        \<and> load_merchant_registry c (key (psb_merchant_registry A)) = Inr reg
        \<and> registry_constraints rt (psb_merchant_registry A) (key (m_grok_account A)) (ga_root ga) reg = Inr ()
        \<and> trader_seeds rt (psb_pump_trader A) (key (m_grok_account A)) = Inr bump
        \<and> is_writable (psb_source A) \<and> is_writable (psb_destination A)
        \<and> mr_mint reg = mint \<and> payee \<in> set (mr_merchants reg)
        \<and> token_account_fields (key (psb_source A)) c = Inr (mint, key (psb_pump_trader A), held)
        \<and> amount \<le> held
        \<and> token_account_fields (key (psb_destination A)) c = Inr (mint, payee, had)
        \<and> mint_decimals mint c = Inr dec
        \<and> mouth_check_grant rt A amount c = Inr c1
        \<and> key (psb_token_program A) \<in> {TOKEN_PROGRAM_ID, TOKEN_2022_PROGRAM_ID}
        \<and> owner_of c1 (key (psb_source A)) = key (psb_token_program A)
        \<and> owner_of c1 (key (psb_destination A)) = key (psb_token_program A)
        \<and> invoke_signed rt (transfer_checked_ix (key (psb_token_program A)) (key (psb_source A)) mint
             (key (psb_destination A)) (key (psb_pump_trader A)) amount dec)
             [psb_source A, psb_mint A, psb_destination A, psb_pump_trader A, psb_token_program A]
             [[SEED_PUMP_TRADER, pubkey_bytes (key (m_grok_account A)), [bump]]] c1 = Inr d)"

lemma plain_infos_simps [simp]:
  "ptk_spend_vault (plain_infos v A) = v" "ptk_merchant_registry (plain_infos v A) = psb_merchant_registry A"
  "ptk_pump_trader (plain_infos v A) = psb_pump_trader A" "ptk_source (plain_infos v A) = psb_source A"
  "ptk_destination (plain_infos v A) = psb_destination A" "ptk_mint (plain_infos v A) = psb_mint A"
  "ptk_token_program (plain_infos v A) = psb_token_program A" "ptk_paymaster (plain_infos v A) = None"
  "ptk_fee_payer (plain_infos v A) = None" "m_grok_account (plain_infos v A) = m_grok_account A"
  by (simp_all add: plain_infos_def)

lemma plain_mouth [simp]:
  "mouth_load rt (plain_infos v A) = mouth_load rt A"
  "mouth_constraints rt (plain_infos v A) = mouth_constraints rt A"
  "mouth_check_grant rt (plain_infos v A) = mouth_check_grant rt A"
  by (intro ext, simp add: mouth_load_def mouth_constraints_def grant_constraints_def mouth_check_grant_def
      plain_infos_def)+

lemma plain_args_simps [simp]:
  "pt_amount (plain_args a d) = a" "pt_decimals (plain_args a d) = d" "pt_sponsor_lamports (plain_args a d) = 0"
  by (simp_all add: plain_args_def)

lemma unsponsored [simp]:
  "load_paymaster_opt c None = Inr None" "signer_opt None = Inr ()" "writable_opt None = Inr ()"
  "payment_paymaster_constraints rt None grok = Inr ()" "reimburse_sponsor rt gai gr pm fp 0 c = Inr c"
  "precheck_sponsor 0 None None = Inr ()"
  by (simp_all add: load_paymaster_opt_def signer_opt_def writable_opt_def payment_paymaster_constraints_def
      reimburse_sponsor_def precheck_sponsor_def require_sponsor_accounts_def require_sponsor_cap_def)

lemmas payment_steps = and_then_eq_Inr require_eq_Inr account_checks_eq_Inr Let_def case_prod_conv
  split_paired_Ex ex_simps simp_thms sum.inject list_ex_iff bex_triv_one_point1

lemma plain_payment_goes:
  assumes "pay_token rt (plain_infos v A) (plain_args amount dec) c = Inr e"
  shows "\<exists>payee d. goes_through rt A amount (key (psb_mint A)) payee dec c d \<and> accts e = accts d"
  using assms
  unfolding pay_token_def pay_token_accounts_def pay_token_handler_def payment_steps
    plain_infos_simps plain_mouth plain_args_simps unsponsored
  by (elim exE conjE; hypsubst) (unfold goes_through_def, fastforce)

lemma goes_plainly:
  assumes "load_spend_vault c (key v) = Inr sv"
    and "idle_vault_constraints rt v (key (m_grok_account A)) sv = Inr ()" and "0 < amount"
    and "goes_through rt A amount (key (psb_mint A)) payee dec c d"
  shows "\<exists>e. pay_token rt (plain_infos v A) (plain_args amount dec) c = Inr e \<and> accts e = accts d"
  using assms(4) unfolding goes_through_def
  by (elim exE conjE)
    (simp add: pay_token_def pay_token_accounts_def pay_token_handler_def assms(1-3) require_def writable_def
      list_ex_iff Let_def)

text \<open>The other side: the same core, behind the clock and before the counter.\<close>

definition unsponsored_args :: "i64 \<Rightarrow> pay_subscription_args" where
  "unsponsored_args period = \<lparr>py_period = period, py_sponsor_lamports = 0\<rparr>"

lemma unsponsored_args_simps [simp]:
  "py_period (unsponsored_args p) = p" "py_sponsor_lamports (unsponsored_args p) = 0"
  by (simp_all add: unsponsored_args_def)

definition counted :: "subscription \<Rightarrow> i64 \<Rightarrow> subscription" where
  "counted u period = u\<lparr>sb_last_paid_period := period, sb_payments := saturating_add (sb_payments u) 1\<rparr>"

lemma subscription_goes:
  assumes "pay_subscription rt A (unsponsored_args p) c = Inr e"
    and "psb_paymaster A = None" and "psb_fee_payer A = None"
    and "load_subscription c (key (psb_subscription A)) = Inr u" and "key (psb_mint A) = sb_mint u"
    and root: "\<And>ga reg. load_grok_account rt c (key (m_grok_account A)) = Inr ga \<Longrightarrow>
      load_merchant_registry c (key (psb_merchant_registry A)) = Inr reg \<Longrightarrow> mr_root reg = ga_root ga"
  shows "due_period (unix_now rt) u p = Inr p
    \<and> (\<exists>dec d ev. goes_through rt A (sb_amount u) (sb_mint u) (sb_merchant u) dec c d
        \<and> store_subscription (counted u p) (key (psb_subscription A)) (emit ev d) = Inr e)"
  using assms(1)
  unfolding pay_subscription_def pay_subscription_accounts_def subscription_pay_def payment_steps
    assms(2-5) unsponsored_args_simps unsponsored
  apply (elim exE conjE; hypsubst)
  apply (intro conjI)
   apply (simp add: due_period_eq_Inr)
  apply (unfold goes_through_def counted_def)
  apply (fastforce simp: payment_blocks_eq_Inr mouth_load_eq_Inr due_period_eq_Inr intro: root)
  done

lemma goes_timely:
  assumes "goes_through rt A (sb_amount u) (sb_mint u) (sb_merchant u) dec c d"
    and "psb_paymaster A = None" and "psb_fee_payer A = None"
    and "load_subscription c (key (psb_subscription A)) = Inr u" and "key (psb_mint A) = sb_mint u"
    and "subscription_seeds rt (psb_subscription A) (key (m_grok_account A)) u = Inr ()"
    and "is_writable (psb_subscription A)" and "sb_grok_account u = key (m_grok_account A)"
    and "due_period (unix_now rt) u p = Inr p"
  shows "\<exists>ev. pay_subscription rt A (unsponsored_args p) c
    = store_subscription (counted u p) (key (psb_subscription A)) (emit ev d)"
  using assms(1) unfolding goes_through_def
  by (elim exE conjE)
    (simp add: pay_subscription_def pay_subscription_accounts_def subscription_pay_def assms(2-9)
      require_def writable_def list_ex_iff Let_def payment_blocks_eq_Inr(2) seeds_bump_def constraint_def
      counted_def, rule exI, rule refl)

text \<open>The write at the end cannot fail: the account held a subscription before.\<close>

lemma goes_keeps_subscription:
  assumes "foreign_frame rt" and "goes_through rt A a mint payee dec c d"
    and "load_subscription c k = Inr u"
  shows "load_subscription d k = Inr u"
proof -
  obtain c1 infos ss where 1: "mouth_check_grant rt A a c = Inr c1"
    and tp: "key (psb_token_program A) \<in> {TOKEN_PROGRAM_ID, TOKEN_2022_PROGRAM_ID}"
    and 2: "invoke_signed rt (transfer_checked_ix (key (psb_token_program A)) (key (psb_source A)) mint
      (key (psb_destination A)) (key (psb_pump_trader A)) a dec) infos ss c1 = Inr d"
    using assms(2) unfolding goes_through_def by blast
  have "kept no_charge c1 d"
    by (rule kept_foreign [OF assms(1) 2]) (use tp in \<open>auto simp: transfer_checked_ix_def\<close>)
  with kept_load [OF kept_check_grant [OF assms(1) 1] assms(3)] show ?thesis
    by (rule kept_load [rotated])
qed

lemma subscription_storable:
  "load_subscription c k = Inr u \<Longrightarrow> \<exists>d. store_subscription x k (emit ev c) = Inr d"
  using sb_account.serialize_fits [of x "data_of c k"]
  by (auto simp: load_typed_eq_Inr [OF intents_not_system] sb_account.deserialize_iff store_typed_def
      and_then_eq_Inr data_of_def sb_codec.enc_length sb_account.disc_length)

text \<open>The ledger decides who is paid and what comes out.\<close>

lemma goes_to_payee:
  "goes_through rt A a mint payee dec c d \<Longrightarrow> token_owner (data_of c (key (psb_destination A))) = payee"
  by (auto simp: goes_through_def token_account_fields_eq_Inr)

lemma goes_once:
  "goes_through rt A a mint payee dec c d \<Longrightarrow> goes_through rt A a mint payee' dec' c d' \<Longrightarrow> d = d'"
  unfolding goes_through_def by auto

text \<open>C29: A subscription is not a second way to pay: it is \<open>pay_token\<close> with a clock and a counter. With
  the accounts of a settlement (its mint account the subscribed one, the registry the root's own,
  nobody sponsoring), \<open>pay_subscription\<close> succeeds exactly when the stated period is due, the
  destination belongs to the subscribed merchant, and \<open>pay_token\<close> of the subscribed amount
  succeeds for some decimals; and both leave the same ledger but for the counters in the
  subscription.\<close>

theorem subscription_is_timed_payment:
  assumes "foreign_frame rt"
    and "psb_paymaster A = None" and "psb_fee_payer A = None" and "key (psb_mint A) = sb_mint u"
    and "load_subscription c (key (psb_subscription A)) = Inr u" and "0 < sb_amount u"
    and "subscription_seeds rt (psb_subscription A) (key (m_grok_account A)) u = Inr ()"
    and "is_writable (psb_subscription A)" and "sb_grok_account u = key (m_grok_account A)"
    and "load_spend_vault c (key v) = Inr sv"
    and "idle_vault_constraints rt v (key (m_grok_account A)) sv = Inr ()"
    and "\<And>ga reg. load_grok_account rt c (key (m_grok_account A)) = Inr ga \<Longrightarrow>
      load_merchant_registry c (key (psb_merchant_registry A)) = Inr reg \<Longrightarrow> mr_root reg = ga_root ga"
  shows "((\<exists>d. pay_subscription rt A (unsponsored_args p) c = Inr d) \<longleftrightarrow>
       due_period (unix_now rt) u p = Inr p
       \<and> token_owner (data_of c (key (psb_destination A))) = sb_merchant u
       \<and> (\<exists>dec e. pay_token rt (plain_infos v A) (plain_args (sb_amount u) dec) c = Inr e))
    \<and> (\<forall>d dec e. pay_subscription rt A (unsponsored_args p) c = Inr d \<longrightarrow>
       pay_token rt (plain_infos v A) (plain_args (sb_amount u) dec) c = Inr e \<longrightarrow>
       (\<forall>k. k \<noteq> key (psb_subscription A) \<longrightarrow> accts d k = accts e k))"
proof -
  let ?s = "key (psb_subscription A)"
  have goes: "due_period (unix_now rt) u p = Inr p
      \<and> (\<exists>dec x ev. goes_through rt A (sb_amount u) (sb_mint u) (sb_merchant u) dec c x
          \<and> store_subscription (counted u p) ?s (emit ev x) = Inr d)"
    if "pay_subscription rt A (unsponsored_args p) c = Inr d" for d
    by (rule subscription_goes [OF that assms(2,3,5,4,12)])
  have plain: "\<exists>e. pay_token rt (plain_infos v A) (plain_args (sb_amount u) dec) c = Inr e"
    if "goes_through rt A (sb_amount u) (sb_mint u) payee dec c x" for payee dec x
    using goes_plainly [OF assms(10,11,6)] that unfolding assms(4) by blast
  have timely: "\<exists>d. pay_subscription rt A (unsponsored_args p) c = Inr d"
    if "goes_through rt A (sb_amount u) (sb_mint u) (sb_merchant u) dec c x"
      and "due_period (unix_now rt) u p = Inr p" for dec x
    using goes_timely [OF that(1) assms(2,3,5,4,7-9) that(2)]
      subscription_storable [OF goes_keeps_subscription [OF assms(1) that(1) assms(5)]] by metis
  show ?thesis
  proof (intro conjI iffI allI impI)
    assume "\<exists>d. pay_subscription rt A (unsponsored_args p) c = Inr d"
    then show "due_period (unix_now rt) u p = Inr p"
      "token_owner (data_of c (key (psb_destination A))) = sb_merchant u"
      "\<exists>dec e. pay_token rt (plain_infos v A) (plain_args (sb_amount u) dec) c = Inr e"
      using goes goes_to_payee plain by blast+
  next
    assume "due_period (unix_now rt) u p = Inr p
      \<and> token_owner (data_of c (key (psb_destination A))) = sb_merchant u
      \<and> (\<exists>dec e. pay_token rt (plain_infos v A) (plain_args (sb_amount u) dec) c = Inr e)"
    then show "\<exists>d. pay_subscription rt A (unsponsored_args p) c = Inr d"
      using plain_payment_goes [of rt v A "sb_amount u" _ c] assms(4) goes_to_payee timely by metis
  next
    fix d dec e k
    assume "pay_subscription rt A (unsponsored_args p) c = Inr d"
      and "pay_token rt (plain_infos v A) (plain_args (sb_amount u) dec) c = Inr e" and "k \<noteq> ?s"
    then show "accts d k = accts e k"
      using goes [of d] plain_payment_goes [of rt v A "sb_amount u" dec c e] assms(4) goes_once
        sb_account.acct.store_frame by fastforce
  qed
qed

lemma demo_timed_vault [simp]: "load_spend_vault demo_billing_chain k_vault = Inr demo_vault"
  by (simp add: res_simps sv_account.deserialize_iff owner_of_def data_of_def)

lemma subscription_is_timed_payment_witness:
  "\<exists>d dec e. pay_subscription demo_token_rt demo_pay_subscription_infos (unsponsored_args 2) demo_billing_chain
        = Inr d
     \<and> pay_token demo_token_rt (plain_infos (info k_vault False False) demo_pay_subscription_infos)
         (plain_args (sb_amount demo_subscription) dec) demo_billing_chain = Inr e
     \<and> accts d 32 = accts e 32"
proof -
  obtain d where d: "pay_subscription demo_token_rt demo_pay_subscription_infos (unsponsored_args 2)
      demo_billing_chain = Inr d"
    using demo_pay_subscription_ok by (auto simp: demo_period_args_def unsponsored_args_def)
  have "((\<exists>d. pay_subscription demo_token_rt demo_pay_subscription_infos (unsponsored_args 2) demo_billing_chain
         = Inr d) \<longleftrightarrow>
       due_period (unix_now demo_token_rt) demo_subscription 2 = Inr 2
       \<and> token_owner (data_of demo_billing_chain (key (psb_destination demo_pay_subscription_infos)))
         = sb_merchant demo_subscription
       \<and> (\<exists>dec e. pay_token demo_token_rt (plain_infos (info k_vault False False) demo_pay_subscription_infos)
         (plain_args (sb_amount demo_subscription) dec) demo_billing_chain = Inr e))
    \<and> (\<forall>d dec e. pay_subscription demo_token_rt demo_pay_subscription_infos (unsponsored_args 2)
         demo_billing_chain = Inr d \<longrightarrow>
       pay_token demo_token_rt (plain_infos (info k_vault False False) demo_pay_subscription_infos)
         (plain_args (sb_amount demo_subscription) dec) demo_billing_chain = Inr e \<longrightarrow>
       (\<forall>k. k \<noteq> key (psb_subscription demo_pay_subscription_infos) \<longrightarrow> accts d k = accts e k))"
    by (rule subscription_is_timed_payment [where sv = demo_vault, OF demo_token_foreign_frame])
      (auto simp: demo_pay_subscription_infos_def demo_subscription_def payment_defs demo_vault_def
        subscription_seeds_def demo_registry_def)
  moreover have "(32 :: pubkey) \<noteq> key (psb_subscription demo_pay_subscription_infos)"
    by (simp add: demo_pay_subscription_infos_def key_simps)
  ultimately show ?thesis
    using d by blast
qed

end
