(* ===== verification/Budget.thy ===== *)
theory Budget imports Custody Accounts begin

text \<open>
  The vault and the grants together: whatever intents are sent, by whichever agents, in
  whatever order and however many fail, the lamports that leave a vault are covered by what
  CORE has added to the spent counters of the grants used, and so by what their caps left.
\<close>

section \<open>Histories of intents\<close>

text \<open>A \<open>call\<close> here is one without an inner instruction.\<close>

datatype intent =
    Pay_intent pay_infos pay_args
  | Swap_intent swap_infos swap_args
  | Deploy_intent deploy_infos deploy_args
  | Call_intent call_infos call_args

fun run_intent :: "runtime \<Rightarrow> intent \<Rightarrow> chain \<Rightarrow> chain res" where
  "run_intent rt (Pay_intent A args) = pay rt A args"
| "run_intent rt (Swap_intent A args) = swap rt A args"
| "run_intent rt (Deploy_intent A args) = deploy rt A args"
| "run_intent rt (Call_intent A args) = call rt A args []"

fun grant_of :: "intent \<Rightarrow> pubkey" where
  "grant_of (Pay_intent A args) = key (m_grant A)"
| "grant_of (Swap_intent A args) = key (m_grant A)"
| "grant_of (Deploy_intent A args) = key (m_grant A)"
| "grant_of (Call_intent A args) = key (m_grant A)"

text \<open>Each intent meets the runtime of its moment; a failed one leaves the ledger as it was.\<close>

primrec run_intents :: "(runtime \<times> intent) list \<Rightarrow> chain \<Rightarrow> chain" where
  "run_intents [] c = c"
| "run_intents (x # xs) c =
     run_intents xs (case run_intent (fst x) (snd x) c of Inr d \<Rightarrow> d | Inl _ \<Rightarrow> c)"

definition spent_by :: "(byte list \<Rightarrow> grant res) \<Rightarrow> chain \<Rightarrow> pubkey \<Rightarrow> int" where
  "spent_by dec c k = (case dec (data_of c k) of Inr g \<Rightarrow> int (unat (gr_spent_lamports g)) | Inl _ \<Rightarrow> 0)"

definition cap_of :: "(byte list \<Rightarrow> grant res) \<Rightarrow> chain \<Rightarrow> pubkey \<Rightarrow> int" where
  "cap_of dec c k = (case dec (data_of c k) of Inr g \<Rightarrow> int (unat (gr_spend_cap_lamports g)) | Inl _ \<Rightarrow> 0)"

section \<open>One intent\<close>

lemma vault_not_paymaster:
  assumes "load_spend_vault c v = Inr sv" and "load_paymaster c k = Inr p"
  shows "k \<noteq> v"
proof
  assume "k = v"
  then have "decode_account (data_of c v) = Some (Vault_state sv)"
    "decode_account (data_of c v) = Some (Paymaster_state p)"
    using assms by (simp_all add: load_typed_eq_Inr)
  then show False
    by (simp del: decode_account_iff)
qed

lemma sponsor_spares_vault:
  assumes "load_spend_vault c v = Inr sv" and "load_paymaster_opt c opt = Inr pm"
    and "reimburse_sponsor rt gai gr pm fp b c2 = Inr d"
  shows "balance c2 v \<le> balance d v"
proof -
  have "Some v \<noteq> map_option (key \<circ> fst) pm"
    using assms(2) by (auto simp: load_paymaster_opt_eq_Inr dest: vault_not_paymaster [OF assms(1)]
        split: option.splits)
  then show ?thesis
    using reimburse_lower [OF assms(3), of v] by simp
qed

text \<open>The three parts every intent has: metering, perhaps a debit of the metered amount, sponsoring.\<close>

definition metered_out :: "runtime \<Rightarrow> pubkey \<Rightarrow> pubkey \<Rightarrow> chain \<Rightarrow> chain \<Rightarrow> bool" where
  "metered_out rt gk v c d \<longleftrightarrow>
     owner_of c gk = CORE_ID
     \<and> (\<exists>a c1. core_step rt gk a c c1 \<and> (\<forall>k. owner_of d k = owner_of c1 k \<and> data_of d k = data_of c1 k)
        \<and> balance c v - int (unat a) \<le> balance d v)"

lemma parts_metered_out:
  assumes core: "core_meters rt" and v: "load_spend_vault c v = Inr sv"
    and mouth: "mouth_load rt A c = Inr (ga, gr)" and pm: "load_paymaster_opt c opt = Inr pm"
    and 1: "mouth_check_grant rt A a c = Inr c1"
    and 2: "c2 = c1 \<or> debit_spend_vault rt src dst a c1 = Inr c2"
    and 3: "reimburse_sponsor rt gai gr pm fp b c2 = Inr c3"
  shows "metered_out rt (key (m_grant A)) v c (emit e c3)"
proof -
  have step: "core_step rt (key (m_grant A)) a c c1"
    using 1 core by (auto simp: mouth_check_grant_def intro: check_grant_step(1))
  have same: "owner_of c2 k = owner_of c1 k \<and> data_of c2 k = data_of c1 k" for k
    using 2 vault.frame(2,3) by metis
  have "balance c1 v - int (unat a) \<le> balance c2 v"
  proof (cases "c2 = c1")
    case False
    then have "require_debit (Base InsufficientSpendVault) (min_balance rt spend_vault_SPACE) src dst a c1 = Inr c2"
      using 2 by (simp add: debit_spend_vault_def)
    from debit_lower [OF this, of v] show ?thesis
      by (simp add: of_nat_0_le_iff [THEN order_trans] del: of_nat_unat split: if_splits)
  qed simp
  moreover have "balance c1 v = balance c v"
    using core_stepD(1) [OF step] by (simp add: balance_def)
  ultimately have "balance c v - int (unat a) \<le> balance c3 v"
    using sponsor_spares_vault [OF v pm 3] by simp
  moreover have "owner_of c (key (m_grant A)) = CORE_ID"
    using mouth by (simp add: mouth_load_eq_Inr load_grant_def load_typed_eq_Inr)
  ultimately show ?thesis
    using step same reimburse_frame(1,2) [OF 3] unfolding metered_out_def by auto
qed

lemmas debit_metered_out = parts_metered_out [OF _ _ _ _ _ disjI2]

lemmas idle_metered_out = parts_metered_out [OF _ _ _ _ _ disjI1 [OF refl]]

lemma intent_metered_out:
  assumes core: "core_meters rt" and v: "load_spend_vault c v = Inr sv"
    and run: "run_intent rt i c = Inr d"
  shows "metered_out rt (grant_of i) v c d"
proof (cases i)
  case (Pay_intent A args)
  then show ?thesis
    using run
    by (auto simp: pay_def pay_accounts_def pay_handler_def and_then_eq_Inr
        elim!: debit_metered_out [OF core v])
next
  case (Swap_intent A args)
  then show ?thesis
    using run
    by (auto simp: swap_def swap_accounts_def swap_handler_def and_then_eq_Inr
        elim!: debit_metered_out [OF core v])
next
  case (Deploy_intent A args)
  then show ?thesis
    using run
    by (auto simp: deploy_def deploy_accounts_def deploy_handler_def and_then_eq_Inr
        elim!: idle_metered_out [OF core v])
next
  case (Call_intent A args)
  then show ?thesis
    using run
    by (auto simp: call_def call_accounts_def call_handler_def call_inner_def and_then_eq_Inr Let_def
        elim: debit_metered_out [OF core v] idle_metered_out [OF core v] split: if_splits)
qed

text \<open>Read on the spent counters: one grant is charged, within its cap, and covers what the vault lost.\<close>

lemma metered_out_spent:
  assumes "metered_out rt gk v c d" and "dec = decode_grant rt"
  shows "spent_by dec c gk \<le> spent_by dec d gk" and "spent_by dec d gk \<le> cap_of dec c gk"
    and "k \<noteq> gk \<Longrightarrow> spent_by dec d k = spent_by dec c k" and "cap_of dec d k = cap_of dec c k"
    and "balance c v - balance d v \<le> spent_by dec d gk - spent_by dec c gk"
proof -
  obtain a c1 where step: "core_step rt gk a c c1"
    and same: "\<And>k. data_of d k = data_of c1 k" and bal: "balance c v - int (unat a) \<le> balance d v"
    using assms(1) unfolding metered_out_def by blast
  obtain g g' where g: "dec (data_of c gk) = Inr g" "dec (data_of d gk) = Inr g'" and m: "metered rt g a g'"
    using step by (auto simp: core_step_def same assms(2))
  have s: "spent_by dec d gk = spent_by dec c gk + int (unat a)"
    using m by (simp add: spent_by_def g metered_def del: of_nat_unat)
  have cap: "gr_spend_cap_lamports g' = gr_spend_cap_lamports g"
    using m arg_cong [of g' _ gr_spend_cap_lamports] by (metis metered_def grant.select_convs(8) grant.surjective grant.update_convs(9))
  show "spent_by dec c gk \<le> spent_by dec d gk"
    using s by simp
  show "spent_by dec d gk \<le> cap_of dec c gk"
    using m cap by (simp add: spent_by_def cap_of_def g metered_def word_le_nat_alt del: of_nat_unat)
  have other: "data_of d k = data_of c k" if "k \<noteq> gk" for k
    using core_stepD(4) [OF step that] same by simp
  then show "k \<noteq> gk \<Longrightarrow> spent_by dec d k = spent_by dec c k"
    by (simp add: spent_by_def)
  show "cap_of dec d k = cap_of dec c k"
    using other [of k] cap by (cases "k = gk") (simp_all add: cap_of_def g)
  show "balance c v - balance d v \<le> spent_by dec d gk - spent_by dec c gk"
    using s bal by simp
qed

lemma metered_out_vault:
  assumes "metered_out rt gk v c d" and "load_spend_vault c v = Inr sv"
  shows "load_spend_vault d v = Inr sv"
proof -
  obtain a c1 where core: "owner_of c gk = CORE_ID" and step: "core_step rt gk a c c1"
    and same: "\<And>k. owner_of d k = owner_of c1 k \<and> data_of d k = data_of c1 k"
    using assms(1) unfolding metered_out_def by blast
  have "v \<noteq> gk"
    using assms(2) core by (auto simp: load_typed_eq_Inr core_not_intents [symmetric])
  then show ?thesis
    using assms(2) core_stepD(2,4) [OF step] same by (simp add: load_typed_eq_Inr)
qed

definition covered :: "(byte list \<Rightarrow> grant res) \<Rightarrow> pubkey set \<Rightarrow> pubkey \<Rightarrow> chain \<Rightarrow> chain \<Rightarrow> bool" where
  "covered dec G v c d \<longleftrightarrow>
     balance c v - balance d v \<le> (\<Sum>k\<in>G. spent_by dec d k - spent_by dec c k)
     \<and> (\<forall>k \<in> G. spent_by dec c k \<le> spent_by dec d k
          \<and> spent_by dec d k \<le> max (spent_by dec c k) (cap_of dec c k)
          \<and> cap_of dec d k = cap_of dec c k)"

lemma covered_refl: "covered dec G v c c"
  by (simp add: covered_def)

lemma covered_trans:
  assumes "covered dec G v a b" and "covered dec G v b c"
  shows "covered dec G v a c"
proof -
  have "(\<Sum>k\<in>G. spent_by dec c k - spent_by dec a k)
      = (\<Sum>k\<in>G. spent_by dec c k - spent_by dec b k) + (\<Sum>k\<in>G. spent_by dec b k - spent_by dec a k)"
    by (simp add: sum_subtractf)
  with assms show ?thesis
    unfolding covered_def by fastforce
qed

lemma metered_out_covered:
  assumes "metered_out rt gk v c d" and "dec = decode_grant rt" and "finite G" and "gk \<in> G"
  shows "covered dec G v c d"
proof -
  note s = metered_out_spent [OF assms(1,2)]
  have "(\<Sum>k\<in>G. spent_by dec d k - spent_by dec c k) = spent_by dec d gk - spent_by dec c gk"
    using s(3) assms(3,4) by (subst sum.remove [OF assms(3,4)]) simp
  moreover have "spent_by dec c k \<le> spent_by dec d k
      \<and> spent_by dec d k \<le> max (spent_by dec c k) (cap_of dec c k)" for k
    using s(1,2,3) by (cases "k = gk") auto
  ultimately show ?thesis
    using s(4,5) by (simp add: covered_def)
qed

lemma run_intents_covered:
  assumes "finite G"
    and "\<forall>(rt, i) \<in> set xs. core_meters rt \<and> decode_grant rt = dec \<and> grant_of i \<in> G"
    and "load_spend_vault c v = Inr sv"
  shows "covered dec G v c (run_intents xs c)"
  using assms(2,3)
proof (induction xs arbitrary: c)
  case Nil
  then show ?case
    by (simp add: covered_refl)
next
  case (Cons x xs)
  obtain rt i where x: "x = (rt, i)"
    by force
  with Cons.prems have ok: "core_meters rt" "dec = decode_grant rt" "grant_of i \<in> G"
    by auto
  show ?case
  proof (cases "run_intent rt i c")
    case (Inl e)
    with Cons x show ?thesis
      by simp
  next
    case (Inr d)
    note m = intent_metered_out [OF ok(1) Cons.prems(2) Inr]
    have "covered dec G v d (run_intents xs d)"
      using Cons.IH [OF _ metered_out_vault [OF m Cons.prems(2)]] Cons.prems(1) by simp
    with covered_trans [OF metered_out_covered [OF m ok(2) assms(1) ok(3)]] show ?thesis
      by (simp add: x Inr)
  qed
qed

section \<open>Property\<close>

text \<open>C7: The budget of a vault: however many payments, swaps, deploys and bare calls are sent, by any
  agents, in any order, at any times, some failing, the lamports the vault has lost are at most
  what CORE added to the spent counters of the grants that were used, each of which ends
  within its cap (or where it already was); so at most the sum of what the caps had left.\<close>

theorem vault_budget:
  assumes "load_spend_vault c v = Inr sv" and "finite G"
    and "\<forall>(rt, i) \<in> set xs. core_meters rt \<and> decode_grant rt = dec \<and> grant_of i \<in> G"
  shows "balance c v - balance (run_intents xs c) v
      \<le> (\<Sum>k\<in>G. spent_by dec (run_intents xs c) k - spent_by dec c k)
    \<and> (\<forall>k \<in> G. spent_by dec (run_intents xs c) k \<le> max (spent_by dec c k) (cap_of dec c k))
    \<and> balance c v - balance (run_intents xs c) v
      \<le> (\<Sum>k\<in>G. max 0 (cap_of dec c k - spent_by dec c k))"
proof -
  have cov: "covered dec G v c (run_intents xs c)"
    by (rule run_intents_covered [OF assms(2,3,1)])
  then have "(\<Sum>k\<in>G. spent_by dec (run_intents xs c) k - spent_by dec c k)
      \<le> (\<Sum>k\<in>G. max 0 (cap_of dec c k - spent_by dec c k))"
    by (intro sum_mono) (auto simp: covered_def max_def split: if_splits)
  with cov show ?thesis
    unfolding covered_def by (auto intro: order_trans)
qed

lemma vault_budget_witness:
  "(\<exists>d. run_intent demo_rt (Pay_intent demo_pay_infos demo_pay_args) demo_chain = Inr d)
   \<and> balance demo_chain k_vault
       - balance (run_intents [(demo_rt, Pay_intent demo_pay_infos demo_pay_args),
           (demo_rt, Call_intent demo_call_infos demo_call_args),
           (demo_rt, Pay_intent demo_pay_infos demo_pay_args)] demo_chain) k_vault \<le> 999600"
proof -
  let ?xs = "[(demo_rt, Pay_intent demo_pay_infos demo_pay_args),
    (demo_rt, Call_intent demo_call_infos demo_call_args), (demo_rt, Pay_intent demo_pay_infos demo_pay_args)]"
  have "key (m_grant demo_pay_infos) = k_grant" "key (m_grant demo_call_infos) = k_grant"
    by (simp_all add: demo_pay_infos_def demo_call_infos_def)
  then have ok: "\<forall>(rt, i) \<in> set ?xs. core_meters rt \<and> decode_grant rt = demo_decode_grant \<and> grant_of i \<in> {k_grant}"
    by (simp add: demo_core_meters)
  have "spent_by demo_decode_grant demo_chain k_grant = 400" "cap_of demo_decode_grant demo_chain k_grant = 1000000"
    by (simp_all add: spent_by_def cap_of_def data_of_def demo_decode_grant_def demo_grant_def word_of_bytes_word_bytes)
  then have "balance demo_chain k_vault - balance (run_intents ?xs demo_chain) k_vault \<le> 999600"
    using vault_budget [OF demo_loads(1) _ ok] by simp
  with demo_pay_ok show ?thesis
    by simp
qed

end
