(* ===== verification/Pump_Amm.thy ===== *)
theory Pump_Amm imports Pump begin

text \<open>
  \<open>instructions/pump_amm.rs\<close>: the adapter for PumpSwap, the pool a coin trades in after its bonding
  curve. The file is outside the module tree of this build; it is modelled as it stands. A buy
  wraps the quote amount into the trader's WSOL account before the call; a sale wraps nothing.
\<close>

section \<open>Slots\<close>

definition AMM_IDX_POOL :: nat where
  "AMM_IDX_POOL = 0"

definition AMM_IDX_USER :: nat where
  "AMM_IDX_USER = 1"

definition AMM_IDX_GLOBAL_CONFIG :: nat where
  "AMM_IDX_GLOBAL_CONFIG = 2"

definition AMM_IDX_BASE_MINT :: nat where
  "AMM_IDX_BASE_MINT = 3"

definition AMM_IDX_QUOTE_MINT :: nat where
  "AMM_IDX_QUOTE_MINT = 4"

definition AMM_IDX_USER_BASE :: nat where
  "AMM_IDX_USER_BASE = 5"

definition AMM_IDX_USER_QUOTE :: nat where
  "AMM_IDX_USER_QUOTE = 6"

definition AMM_IDX_POOL_BASE :: nat where
  "AMM_IDX_POOL_BASE = 7"

definition AMM_IDX_POOL_QUOTE :: nat where
  "AMM_IDX_POOL_QUOTE = 8"

definition AMM_IDX_PROTOCOL_FEE_RECIPIENT :: nat where
  "AMM_IDX_PROTOCOL_FEE_RECIPIENT = 9"

definition AMM_IDX_PROTOCOL_FEE_RECIPIENT_ATA :: nat where
  "AMM_IDX_PROTOCOL_FEE_RECIPIENT_ATA = 10"

definition AMM_IDX_BASE_TOKEN_PROGRAM :: nat where
  "AMM_IDX_BASE_TOKEN_PROGRAM = 11"

definition AMM_IDX_QUOTE_TOKEN_PROGRAM :: nat where
  "AMM_IDX_QUOTE_TOKEN_PROGRAM = 12"

definition AMM_IDX_SYSTEM :: nat where
  "AMM_IDX_SYSTEM = 13"

definition AMM_IDX_ATA_PROGRAM :: nat where
  "AMM_IDX_ATA_PROGRAM = 14"

definition AMM_IDX_EVENT_AUTHORITY :: nat where
  "AMM_IDX_EVENT_AUTHORITY = 15"

definition AMM_IDX_PROGRAM :: nat where
  "AMM_IDX_PROGRAM = 16"

definition AMM_IDX_CREATOR_VAULT_ATA :: nat where
  "AMM_IDX_CREATOR_VAULT_ATA = 17"

definition AMM_IDX_CREATOR_VAULT_AUTH :: nat where
  "AMM_IDX_CREATOR_VAULT_AUTH = 18"

definition AMM_IDX_GLOBAL_VOLUME :: nat where
  "AMM_IDX_GLOBAL_VOLUME = 19"

definition AMM_IDX_USER_VOLUME :: nat where
  "AMM_IDX_USER_VOLUME = 20"

definition AMM_IDX_FEE_CONFIG_BUY :: nat where
  "AMM_IDX_FEE_CONFIG_BUY = 21"

definition AMM_IDX_FEE_PROGRAM_BUY :: nat where
  "AMM_IDX_FEE_PROGRAM_BUY = 22"

definition AMM_IDX_FEE_CONFIG_SELL :: nat where
  "AMM_IDX_FEE_CONFIG_SELL = 19"

definition AMM_IDX_FEE_PROGRAM_SELL :: nat where
  "AMM_IDX_FEE_PROGRAM_SELL = 20"

definition AMM_TOKEN_SYNC_NATIVE :: u8 where
  "AMM_TOKEN_SYNC_NATIVE = 17"

section \<open>The pool account\<close>

text \<open>After the discriminator, bump, index and creator: the mints and vaults, and the coin creator.\<close>

definition pool_base_mint :: "byte list \<Rightarrow> pubkey" where
  "pool_base_mint pool = pubkey_of_bytes (take 32 (drop 43 pool))"

definition pool_quote_mint :: "byte list \<Rightarrow> pubkey" where
  "pool_quote_mint pool = pubkey_of_bytes (take 32 (drop 75 pool))"

definition pool_base_vault :: "byte list \<Rightarrow> pubkey" where
  "pool_base_vault pool = pubkey_of_bytes (take 32 (drop 139 pool))"

definition pool_quote_vault :: "byte list \<Rightarrow> pubkey" where
  "pool_quote_vault pool = pubkey_of_bytes (take 32 (drop 171 pool))"

definition pool_coin_creator :: "byte list \<Rightarrow> pubkey" where
  "pool_coin_creator pool = pubkey_of_bytes (take 32 (drop 211 pool))"

definition ata :: "runtime \<Rightarrow> pubkey \<Rightarrow> pubkey \<Rightarrow> pubkey \<Rightarrow> pubkey" where
  "ata rt own token_program mint =
     pda rt [pubkey_bytes own, pubkey_bytes token_program, pubkey_bytes mint] ASSOCIATED_TOKEN_PROGRAM_ID"

text \<open>The trailing accounts, and the slots of the breaking fee recipient and its token account.\<close>

definition amm_trailing_slots ::
  "runtime \<Rightarrow> account_info list \<Rightarrow> pubkey \<Rightarrow> pubkey \<Rightarrow> pubkey \<Rightarrow> pubkey \<Rightarrow> bool \<Rightarrow> (nat \<times> nat) res" where
  "amm_trailing_slots rt remaining pool_v2 uva quote_token_program quote_mint is_sell =
     (if is_sell then
        and_then (require (length remaining = PUMP_AMM_SELL_ACCOUNT_COUNT) (Pump PumpAmmSellAccountCountMismatch))
          (\<lambda>_.
        and_then (key_eq (remaining ! 21) pool_v2) (\<lambda>_. Inr (22, 23)))
      else
        let gva = pda rt [ascii ''global_volume_accumulator''] PUMP_AMM_PROGRAM_ID in
        and_then (key_eq (remaining ! AMM_IDX_GLOBAL_VOLUME) gva) (\<lambda>_.
        and_then (key_eq (remaining ! AMM_IDX_USER_VOLUME) uva) (\<lambda>_.
        if length remaining = PUMP_AMM_BUY_ACCOUNT_COUNT_CASHBACK then
          and_then (key_eq (remaining ! 23) (ata rt uva quote_token_program quote_mint)) (\<lambda>_.
          and_then (key_eq (remaining ! 24) pool_v2) (\<lambda>_. Inr (25, 26)))
        else
          and_then (require (length remaining = PUMP_AMM_BUY_ACCOUNT_COUNT) (Pump PumpAmmAccountCountMismatch))
            (\<lambda>_.
          and_then (key_eq (remaining ! 23) pool_v2) (\<lambda>_. Inr (24, 25))))))"

definition validate_pump_amm_accounts ::
  "runtime \<Rightarrow> account_info list \<Rightarrow> pubkey \<Rightarrow> bool \<Rightarrow> chain \<Rightarrow> unit res" where
  "validate_pump_amm_accounts rt remaining trader is_sell c =
     (let pool_ai = remaining ! AMM_IDX_POOL in
      and_then (require (owner_of c (key pool_ai) = PUMP_AMM_PROGRAM_ID) (Pump PumpAmmPoolInvalid)) (\<lambda>_.
      and_then (require (245 \<le> length (data_of c (key pool_ai))) (Pump PumpAmmPoolInvalid)) (\<lambda>_.
      let pool = data_of c (key pool_ai);
          base_mint = pool_base_mint pool; quote_mint = pool_quote_mint pool;
          pool_base = pool_base_vault pool; pool_quote = pool_quote_vault pool;
          coin_creator = pool_coin_creator pool in
      and_then (require (key (remaining ! AMM_IDX_BASE_MINT) = base_mint) (Pump PumpAmmPoolInvalid)) (\<lambda>_.
      and_then (require (key (remaining ! AMM_IDX_QUOTE_MINT) = quote_mint) (Pump PumpAmmPoolInvalid)) (\<lambda>_.
      and_then (require (quote_mint = WSOL_MINT) (Pump PumpAmmQuoteMustBeWsol)) (\<lambda>_.
      and_then (key_eq (remaining ! AMM_IDX_POOL_BASE) pool_base) (\<lambda>_.
      and_then (key_eq (remaining ! AMM_IDX_POOL_QUOTE) pool_quote) (\<lambda>_.
      let global_config = pda rt [ascii ''global_config''] PUMP_AMM_PROGRAM_ID in
      and_then (key_eq (remaining ! AMM_IDX_GLOBAL_CONFIG) global_config) (\<lambda>_.
      let ea = pda rt [ascii ''__event_authority''] PUMP_AMM_PROGRAM_ID in
      and_then (key_eq (remaining ! AMM_IDX_EVENT_AUTHORITY) ea) (\<lambda>_.
      let cva = pda rt [ascii ''creator_vault'', pubkey_bytes coin_creator] PUMP_AMM_PROGRAM_ID in
      and_then (key_eq (remaining ! AMM_IDX_CREATOR_VAULT_AUTH) cva) (\<lambda>_.
      let quote_token_program = key (remaining ! AMM_IDX_QUOTE_TOKEN_PROGRAM) in
      and_then (require (quote_token_program = TOKEN_PROGRAM_ID) (Pump InvalidTokenProgram)) (\<lambda>_.
      and_then (key_eq (remaining ! AMM_IDX_CREATOR_VAULT_ATA) (ata rt cva quote_token_program quote_mint)) (\<lambda>_.
      let base_token_program = key (remaining ! AMM_IDX_BASE_TOKEN_PROGRAM) in
      and_then (require (base_token_program = TOKEN_2022_PROGRAM_ID \<or> base_token_program = TOKEN_PROGRAM_ID)
        (Pump InvalidTokenProgram)) (\<lambda>_.
      and_then (key_eq (remaining ! AMM_IDX_USER_BASE) (ata rt trader base_token_program base_mint)) (\<lambda>_.
      and_then (key_eq (remaining ! AMM_IDX_USER_QUOTE) (ata rt trader quote_token_program quote_mint)) (\<lambda>_.
      and_then (key_eq (remaining ! AMM_IDX_SYSTEM) SYSTEM_PROGRAM_ID) (\<lambda>_.
      and_then (key_eq (remaining ! AMM_IDX_ATA_PROGRAM) ASSOCIATED_TOKEN_PROGRAM_ID) (\<lambda>_.
      let idx_fee_config = (if is_sell then AMM_IDX_FEE_CONFIG_SELL else AMM_IDX_FEE_CONFIG_BUY);
          idx_fee_program = (if is_sell then AMM_IDX_FEE_PROGRAM_SELL else AMM_IDX_FEE_PROGRAM_BUY) in
      and_then (key_eq (remaining ! idx_fee_program) PUMP_AMM_FEE_PROGRAM_ID) (\<lambda>_.
      let fee_config = pda rt [ascii ''fee_config'', pubkey_bytes PUMP_AMM_PROGRAM_ID] PUMP_AMM_FEE_PROGRAM_ID in
      and_then (key_eq (remaining ! idx_fee_config) fee_config) (\<lambda>_.
      let pfr = key (remaining ! AMM_IDX_PROTOCOL_FEE_RECIPIENT) in
      and_then (require_pump_amm_protocol_fee_recipient pfr) (\<lambda>_.
      and_then (key_eq (remaining ! AMM_IDX_PROTOCOL_FEE_RECIPIENT_ATA) (ata rt pfr quote_token_program quote_mint))
        (\<lambda>_.
      let pool_v2 = pda rt [ascii ''pool-v2'', pubkey_bytes base_mint] PUMP_AMM_PROGRAM_ID;
          uva = pda rt [ascii ''user_volume_accumulator'', pubkey_bytes trader] PUMP_AMM_PROGRAM_ID in
      and_then (amm_trailing_slots rt remaining pool_v2 uva quote_token_program quote_mint is_sell)
        (\<lambda>(break_idx, ata_idx).
      let break_fee = key (remaining ! break_idx) in
      and_then (require_pump_amm_breaking_fee_recipient break_fee) (\<lambda>_.
      key_eq (remaining ! ata_idx) (ata rt break_fee quote_token_program quote_mint)))))))))))))))))))))))))"

section \<open>Wrapping and the inner instruction\<close>

definition amm_sync_native_ix :: "pubkey \<Rightarrow> instruction" where
  "amm_sync_native_ix wsol_ata =
     \<lparr>ix_program_id = TOKEN_PROGRAM_ID, ix_accounts = [meta_new wsol_ata False],
      ix_data = [AMM_TOKEN_SYNC_NATIVE]\<rparr>"

definition amm_wrap_sol_to_wsol ::
  "runtime \<Rightarrow> account_info \<Rightarrow> account_info \<Rightarrow> account_info \<Rightarrow> account_info \<Rightarrow> u64 \<Rightarrow> seeds \<Rightarrow> chain \<Rightarrow> chain res"
where
  "amm_wrap_sol_to_wsol rt trader wsol_ata system_program quote_token_program amount trader_signer_seeds c =
     and_then (require (key quote_token_program = TOKEN_PROGRAM_ID) (Pump InvalidTokenProgram)) (\<lambda>_.
     and_then (invoke_signed rt (system_transfer (key trader) (key wsol_ata) amount)
       [trader, wsol_ata, system_program] [trader_signer_seeds] c) (\<lambda>c.
     invoke rt (amm_sync_native_ix (key wsol_ata)) [wsol_ata] c))"

text \<open>Dead code in the source.\<close>

definition sweep_trader_to_vault ::
  "runtime \<Rightarrow> account_info \<Rightarrow> account_info \<Rightarrow> seeds \<Rightarrow> account_info \<Rightarrow> chain \<Rightarrow> chain res" where
  "sweep_trader_to_vault rt trader system_program trader_signer_seeds spend_vault c =
     (let rent0 = min_balance rt PUMP_TRADER_SPACE; lamports = lamports_of c (key trader) in
      if lamports \<le> rent0 then Inr c
      else
        and_then (ok_or (checked_sub lamports rent0) (Intents (Base LamportOverflow))) (\<lambda>leftover.
        invoke_signed rt (system_transfer (key trader) (key spend_vault) leftover)
          [trader, spend_vault, system_program] [trader_signer_seeds] c))"

fun amm_metas :: "pubkey \<Rightarrow> nat \<Rightarrow> account_info list \<Rightarrow> account_meta list res" where
  "amm_metas trader i [] = Inr []"
| "amm_metas trader i (acc # rest) =
     and_then (if i = PUMP_AMM_USER_INDEX
               then and_then (require (key acc = trader) (Pump PumpUserMustBeTrader))
                      (\<lambda>_. Inr (meta_new trader True))
               else Inr (client_meta acc)) (\<lambda>m.
     and_then (amm_metas trader (Suc i) rest) (\<lambda>ms. Inr (m # ms)))"

definition build_pump_amm_ix :: "account_info list \<Rightarrow> pubkey \<Rightarrow> byte list \<Rightarrow> instruction res" where
  "build_pump_amm_ix remaining trader bs =
     and_then (require (bs \<noteq> []) (Pump PumpEmptyDataForbidden)) (\<lambda>_.
     and_then (require (length bs = PUMP_AMM_BUY_EXACT_QUOTE_IN_DATA_LEN \<or> length bs = PUMP_AMM_SELL_DATA_LEN)
       (Pump PumpEmptyDataForbidden)) (\<lambda>_.
     and_then (amm_metas trader 0 remaining) (\<lambda>accounts.
     Inr \<lparr>ix_program_id = PUMP_AMM_PROGRAM_ID, ix_accounts = accounts, ix_data = bs\<rparr>)))"

section \<open>Accounts and handlers\<close>

record pump_amm_infos = mouth +
  am_spend_vault :: account_info
  am_system_program :: account_info
  am_pump_amm_program :: account_info
  am_paymaster :: "account_info option"
  am_fee_payer :: "account_info option"

definition pump_amm_accounts ::
  "runtime \<Rightarrow> pump_amm_infos \<Rightarrow> chain \<Rightarrow> (grant \<times> (account_info \<times> paymaster) option) res" where
  "pump_amm_accounts rt A c =
     and_then (mouth_load rt A c) (\<lambda>(ga, gr).
     and_then (load_spend_vault c (key (am_spend_vault A))) (\<lambda>sv.
     and_then (program c (am_system_program A) SYSTEM_PROGRAM_ID) (\<lambda>_.
     and_then (load_paymaster_opt c (am_paymaster A)) (\<lambda>pm.
     and_then (signer_opt (am_fee_payer A)) (\<lambda>_.
     and_then (mouth_constraints rt A ga gr) (\<lambda>_.
     and_then (vault_constraints rt (am_spend_vault A) (key (m_grok_account A)) (ga_root ga) sv) (\<lambda>_.
     and_then (constraint (acc_executable (accts c (key (am_pump_amm_program A)))) ConstraintExecutable) (\<lambda>_.
     and_then (address_is (am_pump_amm_program A) PUMP_AMM_PROGRAM_ID) (\<lambda>_.
     and_then (paymaster_opt_constraints rt pm (key (m_grok_account A)) (ga_root ga)) (\<lambda>_.
     and_then (fee_payer_not_agent (am_fee_payer A) (m_agent A)) (\<lambda>_.
     Inr (gr, pm))))))))))))"

definition amm_agent_not_fee_payer :: "pump_amm_infos \<Rightarrow> unit res" where
  "amm_agent_not_fee_payer A =
     (let fp = map_option key (am_fee_payer A) in require_agent_not_fee_payer (key (m_agent A)) fp)"

definition pump_amm_buy_handler ::
  "runtime \<Rightarrow> pump_amm_infos \<Rightarrow> grant \<Rightarrow> (account_info \<times> paymaster) option \<Rightarrow> pump_amm_buy_args
   \<Rightarrow> account_info list \<Rightarrow> chain \<Rightarrow> chain res" where
  "pump_amm_buy_handler rt A gr pm args remaining c =
     and_then (require_pump_amm_buy_amounts (ab_spendable_quote_in args) (ab_min_base_amount_out args)
       (ab_max_sol_cost args)) (\<lambda>_.
     and_then (precheck_sponsor (ab_sponsor_lamports args) pm (am_fee_payer A)) (\<lambda>_.
     and_then (amm_agent_not_fee_payer A) (\<lambda>_.
     and_then (require_pump_amm_program (key (am_pump_amm_program A))) (\<lambda>_.
     and_then (require_pump_amm_account_count (length remaining)) (\<lambda>_.
     let vault = key (am_spend_vault A); grok = key (m_grok_account A); user = remaining ! AMM_IDX_USER in
     case trader_pda rt grok of (trader, bump) \<Rightarrow>
     and_then (require_pump_trader_ready rt user c) (\<lambda>_.
     and_then (require_pump_user_not_vault (key user) vault) (\<lambda>_.
     and_then (require_pump_user_is_trader (key user) trader) (\<lambda>_.
     and_then (require_pump_trader_system_owned (owner_of c (key user))) (\<lambda>_.
     and_then (require_pump_amm_program (key (remaining ! AMM_IDX_PROGRAM))) (\<lambda>_.
     and_then (validate_pump_amm_accounts rt remaining trader False c) (\<lambda>_.
     and_then (reject_paymaster_in_remaining remaining (map_option (\<lambda>(ai, _). key ai) pm)) (\<lambda>_.
     and_then (mouth_check_grant rt A (ab_max_sol_cost args) c) (\<lambda>c.
     let rent0 = min_balance rt PUMP_TRADER_SPACE in
     and_then (require_pump_trader_prefunded (lamports_of c (key user)) (ab_spendable_quote_in args) rent0) (\<lambda>_.
     and_then (require (data_of c (key (remaining ! AMM_IDX_USER_BASE)) \<noteq> [])
       (Pump PumpAtaCreateRequiresFeePayer)) (\<lambda>_.
     and_then (require (data_of c (key (remaining ! AMM_IDX_USER_QUOTE)) \<noteq> [])
       (Pump PumpAtaCreateRequiresFeePayer)) (\<lambda>_.
     let trader_signer_seeds = [SEED_PUMP_TRADER, pubkey_bytes grok, [bump]] in
     and_then (amm_wrap_sol_to_wsol rt user (remaining ! AMM_IDX_USER_QUOTE) (remaining ! AMM_IDX_SYSTEM)
       (remaining ! AMM_IDX_QUOTE_TOKEN_PROGRAM) (ab_spendable_quote_in args) trader_signer_seeds c) (\<lambda>c.
     let bs = encode_pump_amm_buy_exact_quote_in (ab_spendable_quote_in args) (ab_min_base_amount_out args) True in
     and_then (require_nonempty_pump_amm_data bs) (\<lambda>_.
     and_then (build_pump_amm_ix remaining trader bs) (\<lambda>ix.
     and_then (invoke_signed rt ix remaining [trader_signer_seeds] c) (\<lambda>c.
     and_then (reimburse_sponsor rt (m_grant A) gr pm (am_fee_payer A) (ab_sponsor_lamports args) c) (\<lambda>c.
     Inr (emit (Trader_event (PumpAmmBought vault trader (key (remaining ! AMM_IDX_BASE_MINT))
       (key (remaining ! AMM_IDX_POOL)) (ab_spendable_quote_in args) (ab_min_base_amount_out args) (ab_max_sol_cost args)
       (key (m_agent A)) (key (m_grant A)) (gr_generation gr))) c))))))))))))))))))))))"

definition pump_amm_sell_handler ::
  "runtime \<Rightarrow> pump_amm_infos \<Rightarrow> grant \<Rightarrow> (account_info \<times> paymaster) option \<Rightarrow> pump_amm_sell_args
   \<Rightarrow> account_info list \<Rightarrow> chain \<Rightarrow> chain res" where
  "pump_amm_sell_handler rt A gr pm args remaining c =
     and_then (require_pump_amm_sell_amounts (as_base_amount_in args) (as_min_quote_amount_out args)) (\<lambda>_.
     and_then (precheck_sponsor (as_sponsor_lamports args) pm (am_fee_payer A)) (\<lambda>_.
     and_then (amm_agent_not_fee_payer A) (\<lambda>_.
     and_then (require_pump_amm_program (key (am_pump_amm_program A))) (\<lambda>_.
     and_then (require_pump_amm_sell_account_count (length remaining)) (\<lambda>_.
     let vault = key (am_spend_vault A); grok = key (m_grok_account A); user = remaining ! AMM_IDX_USER in
     case trader_pda rt grok of (trader, bump) \<Rightarrow>
     and_then (require_pump_trader_ready rt user c) (\<lambda>_.
     and_then (require_pump_user_not_vault (key user) vault) (\<lambda>_.
     and_then (require_pump_user_is_trader (key user) trader) (\<lambda>_.
     and_then (require_pump_trader_system_owned (owner_of c (key user))) (\<lambda>_.
     and_then (require_pump_amm_program (key (remaining ! AMM_IDX_PROGRAM))) (\<lambda>_.
     and_then (validate_pump_amm_accounts rt remaining trader True c) (\<lambda>_.
     and_then (reject_paymaster_in_remaining remaining (map_option (\<lambda>(ai, _). key ai) pm)) (\<lambda>_.
     and_then (require_pump_amm_sell_check_grant_amount PUMP_AMM_SELL_CHECK_GRANT_AMOUNT) (\<lambda>_.
     and_then (mouth_check_grant rt A PUMP_AMM_SELL_CHECK_GRANT_AMOUNT c) (\<lambda>c.
     and_then (require (data_of c (key (remaining ! AMM_IDX_USER_BASE)) \<noteq> [])
       (Pump PumpAtaCreateRequiresFeePayer)) (\<lambda>_.
     and_then (require (data_of c (key (remaining ! AMM_IDX_USER_QUOTE)) \<noteq> [])
       (Pump PumpAtaCreateRequiresFeePayer)) (\<lambda>_.
     let trader_signer_seeds = [SEED_PUMP_TRADER, pubkey_bytes grok, [bump]] in
     let bs = encode_pump_amm_sell (as_base_amount_in args) (as_min_quote_amount_out args) in
     and_then (require_nonempty_pump_amm_sell_data bs) (\<lambda>_.
     and_then (build_pump_amm_ix remaining trader bs) (\<lambda>ix.
     and_then (invoke_signed rt ix remaining [trader_signer_seeds] c) (\<lambda>c.
     and_then (reimburse_sponsor rt (m_grant A) gr pm (am_fee_payer A) (as_sponsor_lamports args) c) (\<lambda>c.
     Inr (emit (Trader_event (PumpAmmSold vault trader (key (remaining ! AMM_IDX_BASE_MINT))
       (key (remaining ! AMM_IDX_POOL)) (as_base_amount_in args) (as_min_quote_amount_out args)
       (key (m_agent A)) (key (m_grant A)) (gr_generation gr))) c)))))))))))))))))))))"

definition pump_amm_buy ::
  "runtime \<Rightarrow> pump_amm_infos \<Rightarrow> pump_amm_buy_args \<Rightarrow> account_info list \<Rightarrow> chain \<Rightarrow> chain res" where
  "pump_amm_buy rt A args remaining c =
     and_then (pump_amm_accounts rt A c) (\<lambda>(gr, pm). pump_amm_buy_handler rt A gr pm args remaining c)"

definition pump_amm_sell ::
  "runtime \<Rightarrow> pump_amm_infos \<Rightarrow> pump_amm_sell_args \<Rightarrow> account_info list \<Rightarrow> chain \<Rightarrow> chain res" where
  "pump_amm_sell rt A args remaining c =
     and_then (pump_amm_accounts rt A c) (\<lambda>(gr, pm). pump_amm_sell_handler rt A gr pm args remaining c)"

section \<open>What a trade does\<close>

lemma amm_metas_eq:
  "amm_metas trader i rs = Inr ms \<Longrightarrow>
   map meta_pubkey ms = map key rs
   \<and> (\<forall>j < length rs. i + j \<noteq> PUMP_AMM_USER_INDEX \<longrightarrow>
        meta_signer (ms ! j) = is_signer (rs ! j) \<and> meta_writable (ms ! j) = is_writable (rs ! j))"
proof (induction rs arbitrary: i ms)
  case (Cons a rs)
  then obtain m ns where ms: "ms = m # ns" and rest: "amm_metas trader (Suc i) rs = Inr ns"
    and m: "if i = PUMP_AMM_USER_INDEX then key a = trader \<and> m = meta_new trader True else m = client_meta a"
    by (auto simp: and_then_eq_Inr require_eq_Inr split: if_splits)
  note IH = Cons.IH [OF rest]
  have "meta_signer (ms ! j) = is_signer ((a # rs) ! j) \<and> meta_writable (ms ! j) = is_writable ((a # rs) ! j)"
    if "j < length (a # rs)" "i + j \<noteq> PUMP_AMM_USER_INDEX" for j
    using that IH m by (cases j) (auto simp: ms)
  then show ?case
    using IH m by (auto simp: ms split: if_splits)
qed simp

lemma build_pump_amm_ix_eq_Inr:
  "build_pump_amm_ix rs trader bs = Inr ix \<Longrightarrow>
   ix_program_id ix = PUMP_AMM_PROGRAM_ID \<and> ix_data ix = bs
   \<and> passes_on rs PUMP_AMM_USER_INDEX {} (ix_accounts ix)"
  by (auto simp: build_pump_amm_ix_def passes_on_def and_then_eq_Inr dest: amm_metas_eq)

lemma kept_amm_wrap:
  assumes "foreign_frame rt" and "amm_wrap_sol_to_wsol rt trader w sys q a ss c = Inr d"
  shows "kept no_charge c d"
proof -
  obtain e where 1: "invoke_signed rt (system_transfer (key trader) (key w) a) [trader, w, sys] [ss] c = Inr e"
    and 2: "invoke_signed rt (amm_sync_native_ix (key w)) [w] [] e = Inr d"
    using assms(2) by (auto simp: amm_wrap_sol_to_wsol_def invoke_def and_then_eq_Inr require_eq_Inr)
  have "kept no_charge c e"
    by (rule kept_foreign [OF assms(1) 1]) (simp add: system_transfer_def route_ids)
  also have "kept no_charge e d"
    by (rule kept_foreign [OF assms(1) 2]) (simp add: amm_sync_native_ix_def route_ids)
  finally show ?thesis .
qed

text \<open>What the validation of the accounts establishes.\<close>

lemma validate_amm_official:
  assumes "validate_pump_amm_accounts rt remaining trader is_sell c = Inr u"
  shows "owner_of c (key (remaining ! AMM_IDX_POOL)) = PUMP_AMM_PROGRAM_ID"
    and "pool_quote_mint (data_of c (key (remaining ! AMM_IDX_POOL))) = WSOL_MINT"
    and "key (remaining ! AMM_IDX_BASE_MINT) = pool_base_mint (data_of c (key (remaining ! AMM_IDX_POOL)))"
    and "key (remaining ! AMM_IDX_USER_QUOTE) = ata rt trader TOKEN_PROGRAM_ID WSOL_MINT"
    and "key (remaining ! AMM_IDX_USER_BASE)
      = ata rt trader (key (remaining ! AMM_IDX_BASE_TOKEN_PROGRAM)) (key (remaining ! AMM_IDX_BASE_MINT))"
    and "key (remaining ! AMM_IDX_PROTOCOL_FEE_RECIPIENT)
      \<in> set (PUMP_AMM_PROTOCOL_FEE_RECIPIENTS @ PUMP_AMM_RESERVED_FEE_RECIPIENTS)"
  using assms
  by (simp_all only: validate_pump_amm_accounts_def Let_def and_then_eq_Inr require_eq_Inr key_eq_Inr
      require_pump_amm_protocol_fee_recipient_def list_ex_iff ex_simps simp_thms bex_triv_one_point1
      set_append Un_iff)

definition amm_called ::
  "runtime \<Rightarrow> pump_amm_infos \<Rightarrow> account_info list \<Rightarrow> byte list \<Rightarrow> u64 \<Rightarrow> u64 option \<Rightarrow> u64 \<Rightarrow> chain \<Rightarrow> chain \<Rightarrow> bool"
where
  "amm_called rt A remaining bs amount wraps sponsor c d \<longleftrightarrow>
     is_signer (m_agent A) \<and> map_option key (am_fee_payer A) \<noteq> Some (key (m_agent A))
     \<and> require_pump_trader_ready rt (remaining ! PUMP_AMM_USER_INDEX) c = Inr ()
     \<and> (\<forall>a \<in> set remaining. Some (key a) \<noteq> map_option key (am_paymaster A))
     \<and> (\<exists>c1 c2 ix bump c3.
          core_step rt (key (m_grant A)) amount c c1
          \<and> trader_pda rt (key (m_grok_account A)) = (key (remaining ! PUMP_AMM_USER_INDEX), bump)
          \<and> (case wraps of
               None \<Rightarrow> c2 = c1
             | Some a \<Rightarrow> amm_wrap_sol_to_wsol rt (remaining ! PUMP_AMM_USER_INDEX) (remaining ! AMM_IDX_USER_QUOTE)
                 (remaining ! AMM_IDX_SYSTEM) (remaining ! AMM_IDX_QUOTE_TOKEN_PROGRAM) a
                 [SEED_PUMP_TRADER, pubkey_bytes (key (m_grok_account A)), [bump]] c1 = Inr c2)
          \<and> ix_program_id ix = PUMP_AMM_PROGRAM_ID \<and> ix_data ix = bs
          \<and> passes_on remaining PUMP_AMM_USER_INDEX {} (ix_accounts ix)
          \<and> invoke_signed rt ix remaining
               [[SEED_PUMP_TRADER, pubkey_bytes (key (m_grok_account A)), [bump]]] c2 = Inr c3)
     \<and> kept (charge_to (map_option key (am_paymaster A)) sponsor) c d"

lemma amm_ids [simp]: "PUMP_AMM_PROGRAM_ID \<noteq> INTENTS_ID"
  by (simp add: key_simps)

lemma pump_amm_accountsD:
  assumes "pump_amm_accounts rt A c = Inr (gr, pm)"
  shows "load_paymaster_opt c (am_paymaster A) = Inr pm" and "is_signer (m_agent A)"
    and "map_option key (am_fee_payer A) \<noteq> Some (key (m_agent A))"
  using assms
  by (auto simp: pump_amm_accounts_def mouth_load_eq_Inr fee_payer_not_agent_def and_then_eq_Inr
      require_eq_Inr split: option.splits)

lemma amm_calledI:
  assumes hyps: "core_meters rt" "foreign_frame rt" and acc: "pump_amm_accounts rt A c = Inr (gr, pm)"
    and pda: "trader_pda rt (key (m_grok_account A)) = (key (remaining ! PUMP_AMM_USER_INDEX), bump)"
    and ready: "require_pump_trader_ready rt (remaining ! PUMP_AMM_USER_INDEX) c = Inr ()"
    and rej: "reject_paymaster_in_remaining remaining (map_option (\<lambda>(ai, _). key ai) pm) = Inr ()"
    and 1: "mouth_check_grant rt A amount c = Inr c1"
    and 2: "case wraps of
               None \<Rightarrow> c2 = c1
             | Some a \<Rightarrow> amm_wrap_sol_to_wsol rt (remaining ! PUMP_AMM_USER_INDEX) (remaining ! AMM_IDX_USER_QUOTE)
                 (remaining ! AMM_IDX_SYSTEM) (remaining ! AMM_IDX_QUOTE_TOKEN_PROGRAM) a
                 [SEED_PUMP_TRADER, pubkey_bytes (key (m_grok_account A)), [bump]] c1 = Inr c2"
    and ix: "build_pump_amm_ix remaining trader bs = Inr ix"
    and 3: "invoke_signed rt ix remaining
      [[SEED_PUMP_TRADER, pubkey_bytes (key (m_grok_account A)), [bump]]] c2 = Inr c3"
    and 4: "reimburse_sponsor rt (m_grant A) gr pm (am_fee_payer A) sponsor c3 = Inr c4"
    and d: "d = emit e c4"
  shows "amm_called rt A remaining bs amount wraps sponsor c d"
proof -
  note A = pump_amm_accountsD [OF acc]
  note ix = build_pump_amm_ix_eq_Inr [OF ix]
  have "kept no_charge c c1"
    by (rule kept_check_grant [OF hyps(2) 1])
  also have "kept no_charge c1 c2"
    using 2 by (auto split: option.splits intro: kept_amm_wrap [OF hyps(2)])
  also have "kept no_charge c2 c3"
    by (rule kept_foreign [OF hyps(2) 3]) (simp add: ix)
  also note sponsor_custody.keeps [OF 4, unfolded sponsor_charge [OF A(1)]]
  finally have "kept (charge_to (map_option key (am_paymaster A)) sponsor) c d"
    by (simp add: d)
  moreover have "core_step rt (key (m_grant A)) amount c c1"
    by (rule check_grant_step(1) [OF 1 [unfolded mouth_check_grant_def] hyps(1)])
  moreover have "\<forall>a \<in> set remaining. Some (key a) \<noteq> map_option key (am_paymaster A)"
    using rej unfolding paymaster_keys [OF A(1)] by (simp add: remaining_checks_eq_Inr)
  ultimately show ?thesis
    using pda ready ix 2 3 A(2,3) unfolding amm_called_def by blast
qed

lemma user_slot: "AMM_IDX_USER = PUMP_AMM_USER_INDEX"
  by (simp add: AMM_IDX_USER_def PUMP_AMM_USER_INDEX_def)

lemma amm_buy_runs:
  assumes hyps: "core_meters rt" "foreign_frame rt" and acc: "pump_amm_accounts rt A c = Inr (gr, pm)"
    and run: "pump_amm_buy_handler rt A gr pm args remaining c = Inr d"
  shows "amm_called rt A remaining (encode_pump_amm_buy_exact_quote_in (ab_spendable_quote_in args)
        (ab_min_base_amount_out args) True) (ab_max_sol_cost args) (Some (ab_spendable_quote_in args))
        (ab_sponsor_lamports args) c d
    \<and> 0 < ab_spendable_quote_in args \<and> ab_spendable_quote_in args \<le> ab_max_sol_cost args
    \<and> 0 < ab_min_base_amount_out args
    \<and> unat (ab_spendable_quote_in args) + unat (min_balance rt PUMP_TRADER_SPACE)
        \<le> unat (lamports_of c (key (remaining ! PUMP_AMM_USER_INDEX)))
    \<and> validate_pump_amm_accounts rt remaining (key (remaining ! PUMP_AMM_USER_INDEX)) False c = Inr ()"
proof -
  let ?user = "remaining ! PUMP_AMM_USER_INDEX"
  obtain trader bump where pda: "trader_pda rt (key (m_grok_account A)) = (trader, bump)"
    by fastforce
  obtain c1 c2 ix c3 c4 where amounts: "require_pump_amm_buy_amounts (ab_spendable_quote_in args)
      (ab_min_base_amount_out args) (ab_max_sol_cost args) = Inr ()"
    and ready: "require_pump_trader_ready rt ?user c = Inr ()"
    and user: "require_pump_user_is_trader (key ?user) trader = Inr ()"
    and pdas: "validate_pump_amm_accounts rt remaining trader False c = Inr ()"
    and rej: "reject_paymaster_in_remaining remaining (map_option (\<lambda>(ai, _). key ai) pm) = Inr ()"
    and 1: "mouth_check_grant rt A (ab_max_sol_cost args) c = Inr c1"
    and funds: "require_pump_trader_prefunded (lamports_of c1 (key ?user)) (ab_spendable_quote_in args)
      (min_balance rt PUMP_TRADER_SPACE) = Inr ()"
    and 2: "amm_wrap_sol_to_wsol rt ?user (remaining ! AMM_IDX_USER_QUOTE) (remaining ! AMM_IDX_SYSTEM)
      (remaining ! AMM_IDX_QUOTE_TOKEN_PROGRAM) (ab_spendable_quote_in args)
      [SEED_PUMP_TRADER, pubkey_bytes (key (m_grok_account A)), [bump]] c1 = Inr c2"
    and ix: "build_pump_amm_ix remaining trader (encode_pump_amm_buy_exact_quote_in
      (ab_spendable_quote_in args) (ab_min_base_amount_out args) True) = Inr ix"
    and 3: "invoke_signed rt ix remaining
      [[SEED_PUMP_TRADER, pubkey_bytes (key (m_grok_account A)), [bump]]] c2 = Inr c3"
    and 4: "reimburse_sponsor rt (m_grant A) gr pm (am_fee_payer A) (ab_sponsor_lamports args) c3 = Inr c4"
    and d: "d = emit (Trader_event (PumpAmmBought (key (am_spend_vault A)) trader
      (key (remaining ! AMM_IDX_BASE_MINT)) (key (remaining ! AMM_IDX_POOL)) (ab_spendable_quote_in args)
      (ab_min_base_amount_out args) (ab_max_sol_cost args) (key (m_agent A)) (key (m_grant A))
      (gr_generation gr))) c4"
    using run
    apply (simp only: pump_amm_buy_handler_def pda handler_steps user_slot)
    apply (elim exE conjE, hypsubst)
    apply (rule that, (assumption | erule Inr_unit | rule refl)+)
    done
  have t: "trader = key ?user"
    using user by (simp add: policy_ok)
  have "lamports_of c1 k = lamports_of c k" for k
    using core_stepD(1) [OF check_grant_step(1) [OF 1 [unfolded mouth_check_grant_def] hyps(1)]] .
  with funds have "unat (ab_spendable_quote_in args) + unat (min_balance rt PUMP_TRADER_SPACE)
      \<le> unat (lamports_of c (key ?user))"
    by (simp add: prefunded_ok)
  moreover have "amm_called rt A remaining (encode_pump_amm_buy_exact_quote_in (ab_spendable_quote_in args)
        (ab_min_base_amount_out args) True) (ab_max_sol_cost args) (Some (ab_spendable_quote_in args))
        (ab_sponsor_lamports args) c d"
    by (rule amm_calledI [OF hyps acc pda [unfolded t] ready rej 1 _ ix 3 4 d]) (simp add: 2)
  moreover have "0 < ab_spendable_quote_in args" "ab_spendable_quote_in args \<le> ab_max_sol_cost args"
    "0 < ab_min_base_amount_out args"
    using amounts by (simp_all add: require_pump_amm_buy_amounts_def and_then_eq_Inr require_eq_Inr)
  ultimately show ?thesis
    using pdas by (simp add: t)
qed

lemma amm_sell_runs:
  assumes hyps: "core_meters rt" "foreign_frame rt" and acc: "pump_amm_accounts rt A c = Inr (gr, pm)"
    and run: "pump_amm_sell_handler rt A gr pm args remaining c = Inr d"
  shows "amm_called rt A remaining (encode_pump_amm_sell (as_base_amount_in args) (as_min_quote_amount_out args))
        0 None (as_sponsor_lamports args) c d
    \<and> 0 < as_base_amount_in args
    \<and> validate_pump_amm_accounts rt remaining (key (remaining ! PUMP_AMM_USER_INDEX)) True c = Inr ()"
proof -
  let ?user = "remaining ! PUMP_AMM_USER_INDEX"
  obtain trader bump where pda: "trader_pda rt (key (m_grok_account A)) = (trader, bump)"
    by fastforce
  obtain c1 ix c3 c4 where amounts: "require_pump_amm_sell_amounts (as_base_amount_in args)
      (as_min_quote_amount_out args) = Inr ()"
    and ready: "require_pump_trader_ready rt ?user c = Inr ()"
    and user: "require_pump_user_is_trader (key ?user) trader = Inr ()"
    and pdas: "validate_pump_amm_accounts rt remaining trader True c = Inr ()"
    and rej: "reject_paymaster_in_remaining remaining (map_option (\<lambda>(ai, _). key ai) pm) = Inr ()"
    and 1: "mouth_check_grant rt A PUMP_AMM_SELL_CHECK_GRANT_AMOUNT c = Inr c1"
    and ix: "build_pump_amm_ix remaining trader
      (encode_pump_amm_sell (as_base_amount_in args) (as_min_quote_amount_out args)) = Inr ix"
    and 3: "invoke_signed rt ix remaining
      [[SEED_PUMP_TRADER, pubkey_bytes (key (m_grok_account A)), [bump]]] c1 = Inr c3"
    and 4: "reimburse_sponsor rt (m_grant A) gr pm (am_fee_payer A) (as_sponsor_lamports args) c3 = Inr c4"
    and d: "d = emit (Trader_event (PumpAmmSold (key (am_spend_vault A)) trader
      (key (remaining ! AMM_IDX_BASE_MINT)) (key (remaining ! AMM_IDX_POOL)) (as_base_amount_in args)
      (as_min_quote_amount_out args) (key (m_agent A)) (key (m_grant A)) (gr_generation gr))) c4"
    using run
    apply (simp only: pump_amm_sell_handler_def pda handler_steps user_slot)
    apply (elim exE conjE, hypsubst)
    apply (rule that, (assumption | erule Inr_unit | rule refl)+)
    done
  have t: "trader = key ?user"
    using user by (simp add: policy_ok)
  have "amm_called rt A remaining (encode_pump_amm_sell (as_base_amount_in args) (as_min_quote_amount_out args))
        PUMP_AMM_SELL_CHECK_GRANT_AMOUNT None (as_sponsor_lamports args) c d"
    by (rule amm_calledI [OF hyps acc pda [unfolded t] ready rej 1 _ ix 3 4 d]) simp
  moreover have "0 < as_base_amount_in args"
    using amounts by (simp add: require_pump_amm_sell_amounts_def require_eq_Inr)
  ultimately show ?thesis
    using pdas by (simp add: t PUMP_AMM_SELL_CHECK_GRANT_AMOUNT_def)
qed

section \<open>The property\<close>

text \<open>The pool and the token accounts are the ones the trade names.\<close>

definition amm_official :: "runtime \<Rightarrow> account_info list \<Rightarrow> chain \<Rightarrow> bool" where
  "amm_official rt remaining c \<longleftrightarrow>
     (let pool = key (remaining ! AMM_IDX_POOL); trader = key (remaining ! PUMP_AMM_USER_INDEX) in
      owner_of c pool = PUMP_AMM_PROGRAM_ID \<and> pool_quote_mint (data_of c pool) = WSOL_MINT
      \<and> key (remaining ! AMM_IDX_BASE_MINT) = pool_base_mint (data_of c pool)
      \<and> key (remaining ! AMM_IDX_USER_QUOTE) = ata rt trader TOKEN_PROGRAM_ID WSOL_MINT
      \<and> key (remaining ! AMM_IDX_USER_BASE)
          = ata rt trader (key (remaining ! AMM_IDX_BASE_TOKEN_PROGRAM)) (key (remaining ! AMM_IDX_BASE_MINT))
      \<and> key (remaining ! AMM_IDX_PROTOCOL_FEE_RECIPIENT)
          \<in> set (PUMP_AMM_PROTOCOL_FEE_RECIPIENTS @ PUMP_AMM_RESERVED_FEE_RECIPIENTS))"

lemma amm_officialI:
  "validate_pump_amm_accounts rt remaining (key (remaining ! PUMP_AMM_USER_INDEX)) s c = Inr u \<Longrightarrow>
   amm_official rt remaining c"
  unfolding amm_official_def Let_def by (intro conjI) (erule validate_amm_official)+


section \<open>A demonstration pool\<close>

definition demo_pool :: "byte list" where
  "demo_pool = replicate 43 0 @ pubkey_bytes 50 @ pubkey_bytes WSOL_MINT @ replicate 32 0 @ pubkey_bytes 52
     @ pubkey_bytes 53 @ replicate 8 0 @ pubkey_bytes 54 @ [0, 0]"

lemma demo_pool_reads [simp]:
  "length demo_pool = 245" "pool_base_mint demo_pool = 50" "pool_quote_mint demo_pool = WSOL_MINT"
  "pool_base_vault demo_pool = 52" "pool_quote_vault demo_pool = 53" "pool_coin_creator demo_pool = 54"
  by (simp_all add: demo_pool_def pool_base_mint_def pool_quote_mint_def pool_base_vault_def
      pool_quote_vault_def pool_coin_creator_def)

definition demo_pool_chain :: chain where
  "demo_pool_chain = demo_pump_chain\<lparr>accts := (accts demo_pump_chain)
     (51 := demo_account 300 PUMP_AMM_PROGRAM_ID demo_pool, PUMP_AMM_PROGRAM_ID := demo_program)\<rparr>"

lemma demo_amm_ids [simp]:
  "PUMP_AMM_PROGRAM_ID \<notin> {51, k_trader, k_fee_vault, k_vault, k_grant, k_grok, CORE_ID, SYSTEM_PROGRAM_ID}"
  "SYSTEM_PROGRAM_ID \<notin> {51, PUMP_AMM_PROGRAM_ID}" "CORE_ID \<notin> {51, PUMP_AMM_PROGRAM_ID}"
  by (simp_all add: key_simps)

lemma demo_pool_accts [simp]:
  "accts demo_pool_chain 51 = demo_account 300 PUMP_AMM_PROGRAM_ID demo_pool"
  "accts demo_pool_chain PUMP_AMM_PROGRAM_ID = demo_program"
  "accts demo_pool_chain SYSTEM_PROGRAM_ID = demo_program"
  "accts demo_pool_chain CORE_ID = demo_program"
  "accts demo_pool_chain k_trader = demo_account 5000 SYSTEM_PROGRAM_ID []"
  "accts demo_pool_chain k_fee_vault = demo_account 200 TOKEN_2022_PROGRAM_ID (demo_holding 50 k_trader 20)"
  "accts demo_pool_chain k_vault = accts demo_chain k_vault"
  "accts demo_pool_chain k_grant = accts demo_chain k_grant"
  "accts demo_pool_chain k_grok = accts demo_chain k_grok"
  using demo_amm_ids by (auto simp: demo_pool_chain_def)

lemma demo_pool_loads [simp]:
  "load_spend_vault demo_pool_chain k_vault = Inr demo_vault"
  "load_grant demo_rt demo_pool_chain k_grant = Inr (demo_grant 400)"
  "load_grok_account demo_rt demo_pool_chain k_grok = Inr \<lparr>ga_root = k_root, ga_bump = 255\<rparr>"
  by (simp_all add: load_grant_def load_grok_account_def res_simps owner_of_def data_of_def
      sv_account.deserialize_iff demo_decode_grant_def)

lemma demo_pda_amm [simp]:
  "demo_pda (ascii ''global_config'' # ss) = k_fee_vault" "demo_pda (ascii ''creator_vault'' # ss) = k_fee_vault"
  "demo_pda (ascii ''fee_config'' # ss) = k_fee_vault" "demo_pda (ascii ''pool-v2'' # ss) = k_fee_vault"
  "demo_pda (ascii ''global_volume_accumulator'' # ss) = k_fee_vault"
  by (simp_all add: demo_pda_def seed_defs)

definition demo_amm_infos :: pump_amm_infos where
  "demo_amm_infos =
     \<lparr>m_agent = info k_agent True False, m_grok_account = info k_grok False False,
      m_grant = info k_grant False True, m_core_program = info CORE_ID False False,
      m_intents_program = info INTENTS_ID False False,
      am_spend_vault = info k_vault False True, am_system_program = info SYSTEM_PROGRAM_ID False False,
      am_pump_amm_program = info PUMP_AMM_PROGRAM_ID False False,
      am_paymaster = None, am_fee_payer = None\<rparr>"

lemma demo_amm_accounts:
  "pump_amm_accounts demo_rt demo_amm_infos demo_pool_chain = Inr (demo_grant 400, None)"
  by (simp add: pump_amm_accounts_def demo_amm_infos_def payment_defs fee_payer_not_agent_def
      constraint_def demo_vault_def demo_grant_def)

definition demo_amm_remaining :: "account_info list" where
  "demo_amm_remaining = map (\<lambda>k. info k False True)
     [51, k_trader, 24, 50, WSOL_MINT, 24, 24, 52, 53, hd PUMP_AMM_PROTOCOL_FEE_RECIPIENTS, 24,
      TOKEN_2022_PROGRAM_ID, TOKEN_PROGRAM_ID, SYSTEM_PROGRAM_ID, ASSOCIATED_TOKEN_PROGRAM_ID, 24,
      PUMP_AMM_PROGRAM_ID, 24, 24, 24, 24, 24, PUMP_AMM_FEE_PROGRAM_ID, 24,
      hd PUMP_AMM_BREAKING_FEE_RECIPIENTS, 24]"

lemma demo_amm_slots:
  "length demo_amm_remaining = PUMP_AMM_BUY_ACCOUNT_COUNT"
  "demo_amm_remaining ! AMM_IDX_USER = info k_trader False True"
  "demo_amm_remaining ! PUMP_AMM_USER_INDEX = info k_trader False True"
  "demo_amm_remaining ! AMM_IDX_PROGRAM = info PUMP_AMM_PROGRAM_ID False True"
  "demo_amm_remaining ! AMM_IDX_USER_BASE = info 24 False True"
  "demo_amm_remaining ! AMM_IDX_USER_QUOTE = info 24 False True"
  "demo_amm_remaining ! AMM_IDX_SYSTEM = info SYSTEM_PROGRAM_ID False True"
  "demo_amm_remaining ! AMM_IDX_QUOTE_TOKEN_PROGRAM = info TOKEN_PROGRAM_ID False True"
  "demo_amm_remaining ! AMM_IDX_BASE_MINT = info 50 False True"
  "demo_amm_remaining ! AMM_IDX_POOL = info 51 False True"
  by (simp_all add: demo_amm_remaining_def PUMP_AMM_BUY_ACCOUNT_COUNT_def AMM_IDX_USER_def
      PUMP_AMM_USER_INDEX_def AMM_IDX_PROGRAM_def AMM_IDX_USER_BASE_def AMM_IDX_USER_QUOTE_def
      AMM_IDX_SYSTEM_def AMM_IDX_QUOTE_TOKEN_PROGRAM_def AMM_IDX_BASE_MINT_def AMM_IDX_POOL_def
      eval_nat_numeral)

lemma demo_recipients:
  "require_pump_amm_protocol_fee_recipient (hd PUMP_AMM_PROTOCOL_FEE_RECIPIENTS) = Inr ()"
  "require_pump_amm_breaking_fee_recipient (hd PUMP_AMM_BREAKING_FEE_RECIPIENTS) = Inr ()"
  by (simp_all add: require_pump_amm_protocol_fee_recipient_def require_pump_amm_breaking_fee_recipient_def
      PUMP_AMM_PROTOCOL_FEE_RECIPIENTS_def PUMP_AMM_BREAKING_FEE_RECIPIENTS_def require_eq_Inr)

lemma demo_amm_more_slots:
  "demo_amm_remaining ! AMM_IDX_QUOTE_MINT = info WSOL_MINT False True"
  "demo_amm_remaining ! AMM_IDX_POOL_BASE = info 52 False True"
  "demo_amm_remaining ! AMM_IDX_POOL_QUOTE = info 53 False True"
  "demo_amm_remaining ! AMM_IDX_GLOBAL_CONFIG = info 24 False True"
  "demo_amm_remaining ! AMM_IDX_EVENT_AUTHORITY = info 24 False True"
  "demo_amm_remaining ! AMM_IDX_CREATOR_VAULT_AUTH = info 24 False True"
  "demo_amm_remaining ! AMM_IDX_CREATOR_VAULT_ATA = info 24 False True"
  "demo_amm_remaining ! AMM_IDX_BASE_TOKEN_PROGRAM = info TOKEN_2022_PROGRAM_ID False True"
  "demo_amm_remaining ! AMM_IDX_ATA_PROGRAM = info ASSOCIATED_TOKEN_PROGRAM_ID False True"
  "demo_amm_remaining ! AMM_IDX_FEE_PROGRAM_BUY = info PUMP_AMM_FEE_PROGRAM_ID False True"
  "demo_amm_remaining ! AMM_IDX_FEE_CONFIG_BUY = info 24 False True"
  "demo_amm_remaining ! AMM_IDX_PROTOCOL_FEE_RECIPIENT = info (hd PUMP_AMM_PROTOCOL_FEE_RECIPIENTS) False True"
  "demo_amm_remaining ! AMM_IDX_PROTOCOL_FEE_RECIPIENT_ATA = info 24 False True"
  "demo_amm_remaining ! AMM_IDX_GLOBAL_VOLUME = info 24 False True"
  "demo_amm_remaining ! AMM_IDX_USER_VOLUME = info 24 False True"
  "demo_amm_remaining ! 23 = info 24 False True"
  "demo_amm_remaining ! 24 = info (hd PUMP_AMM_BREAKING_FEE_RECIPIENTS) False True"
  "demo_amm_remaining ! 25 = info 24 False True"
  by (simp_all add: demo_amm_remaining_def AMM_IDX_QUOTE_MINT_def AMM_IDX_POOL_BASE_def AMM_IDX_POOL_QUOTE_def
      AMM_IDX_GLOBAL_CONFIG_def AMM_IDX_EVENT_AUTHORITY_def AMM_IDX_CREATOR_VAULT_AUTH_def
      AMM_IDX_CREATOR_VAULT_ATA_def AMM_IDX_BASE_TOKEN_PROGRAM_def AMM_IDX_ATA_PROGRAM_def
      AMM_IDX_FEE_PROGRAM_BUY_def AMM_IDX_FEE_CONFIG_BUY_def AMM_IDX_PROTOCOL_FEE_RECIPIENT_def
      AMM_IDX_PROTOCOL_FEE_RECIPIENT_ATA_def AMM_IDX_GLOBAL_VOLUME_def AMM_IDX_USER_VOLUME_def
      eval_nat_numeral)

lemma demo_amm_valid:
  "validate_pump_amm_accounts demo_rt demo_amm_remaining k_trader False demo_pool_chain = Inr ()"
proof -
  have pda: "pda demo_rt ss p = demo_pda ss" for ss p
    by (simp add: pda_def)
  have ata: "ata demo_rt a b m = k_fee_vault" for a b m
    by (simp add: ata_def pda)
  have pool: "owner_of demo_pool_chain 51 = PUMP_AMM_PROGRAM_ID" "data_of demo_pool_chain 51 = demo_pool"
    by (simp_all add: owner_of_def data_of_def)
  have "amm_trailing_slots demo_rt demo_amm_remaining k_fee_vault k_fee_vault TOKEN_PROGRAM_ID WSOL_MINT False
      = Inr (24, 25)"
    by (simp add: amm_trailing_slots_def pda ata demo_amm_more_slots demo_amm_slots(1) key_eq_def require_def
        PUMP_AMM_BUY_ACCOUNT_COUNT_def PUMP_AMM_BUY_ACCOUNT_COUNT_CASHBACK_def Let_def)
  then show ?thesis
    by (simp add: validate_pump_amm_accounts_def Let_def demo_amm_slots demo_amm_more_slots pda ata pool
        and_then_eq_Inr require_eq_Inr key_eq_Inr demo_recipients)
qed

lemma amm_metas_total:
  "(\<And>j. j < length rs \<Longrightarrow> i + j = PUMP_AMM_USER_INDEX \<Longrightarrow> key (rs ! j) = trader) \<Longrightarrow>
   \<exists>ms. amm_metas trader i rs = Inr ms"
proof (induction rs arbitrary: i)
  case (Cons a rs)
  have "\<exists>ns. amm_metas trader (Suc i) rs = Inr ns"
    using Cons.prems [of "Suc _"] by (intro Cons.IH) simp
  with Cons.prems [of 0] show ?case
    by (auto simp: require_def)
qed simp

lemma amm_encoders_pass:
  "require_nonempty_pump_amm_data (encode_pump_amm_buy_exact_quote_in a b t) = Inr ()"
  "require_nonempty_pump_amm_sell_data (encode_pump_amm_sell a b) = Inr ()"
  by (simp_all add: require_nonempty_pump_amm_data_def require_nonempty_pump_amm_sell_data_def res_simps
      encode_pump_amm_buy_exact_quote_in_def encode_pump_amm_sell_def PUMP_AMM_BUY_EXACT_QUOTE_IN_DISC_def
      PUMP_AMM_SELL_DISC_def PUMP_AMM_BUY_EXACT_QUOTE_IN_DATA_LEN_def PUMP_AMM_SELL_DATA_LEN_def)

definition demo_amm_args :: pump_amm_buy_args where
  "demo_amm_args = \<lparr>ab_spendable_quote_in = 1500, ab_min_base_amount_out = 7, ab_max_sol_cost = 2000,
     ab_sponsor_lamports = 0\<rparr>"

lemma demo_amm_ix:
  "\<exists>ix. build_pump_amm_ix demo_amm_remaining k_trader (encode_pump_amm_buy_exact_quote_in a b t) = Inr ix
     \<and> ix_program_id ix = PUMP_AMM_PROGRAM_ID"
proof -
  have "\<exists>ms. amm_metas k_trader 0 demo_amm_remaining = Inr ms"
    by (rule amm_metas_total) (simp add: demo_amm_slots)
  then show ?thesis
    using amm_encoders_pass(1) [of a b t]
    by (auto simp: build_pump_amm_ix_def require_nonempty_pump_amm_data_def and_then_eq_Inr require_eq_Inr)
qed

lemma demo_amm_policy:
  "precheck_sponsor 0 pm fp = Inr ()" "amm_agent_not_fee_payer demo_amm_infos = Inr ()"
  "require_pump_amm_buy_amounts 1500 7 2000 = Inr ()" "require_pump_amm_program PUMP_AMM_PROGRAM_ID = Inr ()"
  "require_pump_amm_program (key (am_pump_amm_program demo_amm_infos)) = Inr ()"
  "require_pump_amm_account_count (length demo_amm_remaining) = Inr ()"
  "require_pump_trader_ready demo_rt (info k_trader False True) demo_pool_chain = Inr ()"
  "require_pump_user_not_vault k_trader (key (am_spend_vault demo_amm_infos)) = Inr ()"
  "require_pump_user_is_trader k_trader k_trader = Inr ()"
  "require_pump_trader_system_owned (owner_of demo_pool_chain k_trader) = Inr ()"
  "reject_paymaster_in_remaining rs None = Inr ()"
  by (simp_all add: policy_ok precheck_sponsor_eq_Inr remaining_checks_eq_Inr owner_of_def data_of_def
      lamports_of_def demo_rent_def PUMP_TRADER_SPACE_def amm_agent_not_fee_payer_def demo_amm_infos_def
      require_pump_amm_buy_amounts_def require_pump_amm_program_def require_pump_amm_account_count_def
      demo_amm_slots require_eq_Inr)

lemma demo_pump_amm_buy_ok:
  "\<exists>d. pump_amm_buy demo_rt demo_amm_infos demo_amm_args demo_amm_remaining demo_pool_chain = Inr d"
proof -
  let ?c1 = "with_data k_grant (word_bytes (2400 :: u64)) demo_pool_chain"
  obtain ix where ix: "build_pump_amm_ix demo_amm_remaining k_trader
      (encode_pump_amm_buy_exact_quote_in 1500 7 True) = Inr ix" "ix_program_id ix = PUMP_AMM_PROGRAM_ID"
    using demo_amm_ix by blast
  have grant: "mouth_check_grant demo_rt demo_amm_infos 2000 demo_pool_chain = Inr ?c1"
    by (simp add: mouth_check_grant_def demo_amm_infos_def check_grant_def invoke_def invoke_signed_def
        demo_cpi_def demo_core_def check_grant_ix_def meta_new_def CHECK_GRANT_DISCRIMINATOR_def with_data_def)
  have funds: "require_pump_trader_prefunded (lamports_of ?c1 k_trader) 1500 (demo_rent PUMP_TRADER_SPACE) = Inr ()"
    by (simp add: prefunded_ok demo_rent_def PUMP_TRADER_SPACE_def) (simp add: lamports_of_def)
  have atas: "data_of ?c1 24 \<noteq> []"
    by (simp add: data_of_def demo_holding_def)
  obtain c2 where wrap: "amm_wrap_sol_to_wsol demo_rt (info k_trader False True) (info 24 False True)
      (info SYSTEM_PROGRAM_ID False True) (info TOKEN_PROGRAM_ID False True) 1500 ss ?c1 = Inr c2" for ss
  proof -
    have "\<exists>m. demo_system (system_transfer k_trader 24 1500) (accts ?c1) = Inr m"
      by (simp add: demo_system_def system_transfer_def meta_new_def with_data_def)
    then obtain m where m: "demo_system (system_transfer k_trader 24 1500) (accts ?c1) = Inr m"
      by blast
    have "invoke_signed demo_rt (system_transfer k_trader 24 1500) infos ss ?c1 = Inr (?c1\<lparr>accts := m\<rparr>)" for infos ss
      by (simp add: invoke_signed_def demo_cpi_def m) (simp add: system_transfer_def core_not_system [symmetric])
    moreover have "invoke demo_rt (amm_sync_native_ix 24) infos c = Inr c" for infos c
      by (simp add: invoke_def invoke_signed_def amm_sync_native_ix_def demo_cpi_def token_ids)
    ultimately show thesis
      by (intro that [of "?c1\<lparr>accts := m\<rparr>"]) (simp add: amm_wrap_sol_to_wsol_def require_def)
  qed
  have amm: "invoke_signed demo_rt ix infos ss c = Inr c" for infos ss c
    using demo_amm_ids(1) by (simp add: invoke_signed_def demo_cpi_def ix(2))
  show ?thesis
    by (simp add: pump_amm_buy_def demo_amm_accounts)
      (simp add: pump_amm_buy_handler_def demo_amm_args_def demo_trader_pda demo_amm_slots demo_amm_valid
        demo_amm_policy [unfolded demo_amm_slots] grant funds atas wrap amm_encoders_pass ix amm reimburse_sponsor_def
        del: with_data_reads)
qed


end
