(* ===== verification/Conformance.thy ===== *)
theory Conformance imports Subscriptions begin

text \<open>
  The repository's own unit tests, run on the model: each test function of \<open>lib.rs\<close>,
  \<open>policy.rs\<close>, \<open>subscription.rs\<close> and \<open>capability_audit.rs\<close> that asserts about values only is the
  conjunction of its assertions, in their order, with \<open>unwrap\<close> as \<open>Ok\<close> and the results of
  \<open>Pubkey::new_unique\<close> as parameters. Tests that hash a name are in \<open>Discriminators\<close>.
\<close>

definition is_ok :: "'e + 'a \<Rightarrow> bool" where
  "is_ok r \<longleftrightarrow> \<not> isl r"

definition is_err :: "'e + 'a \<Rightarrow> bool" where
  "is_err r \<longleftrightarrow> isl r"

section \<open>\<open>lib.rs\<close>\<close>

definition test_spaces_match_spec :: bool where
  "test_spaces_match_spec \<longleftrightarrow>
      spend_vault_SPACE = 73
      \<and> paymaster_SPACE = 106
      \<and> merchant_registry_SPACE = (8 + 32 + 32 + 32 + 1 + 4 + 32 * 32)
      \<and> subscription_SPACE = (8 + 32 * 4 + 8 * 4 + 4 + 1 + 1)"

definition test_payment_seeds_and_bounds :: bool where
  "test_payment_seeds_and_bounds \<longleftrightarrow>
      SEED_MERCHANTS = ascii ''merchants''
      \<and> SEED_SUBSCRIPTION = ascii ''subscription''
      \<and> MAX_MERCHANTS = 32
      \<and> MIN_PERIOD_SECONDS = 86400
      \<and> sint PERIOD_NONE < sint (0 :: i64)"

definition test_subscription_periods_are_exact :: bool where
  "test_subscription_periods_are_exact \<longleftrightarrow>
     (let start = 1700000000 in
     (let day = 86400 in
      current_period start start day = Inr 0
      \<and> current_period (start + day - 1) start day = Inr 0
      \<and> current_period (start + day) start day = Inr 1
      \<and> is_err (current_period (start - 1) start day)))"

definition test_swap_outcome_is_bounded_by_balances :: bool where
  "test_swap_outcome_is_bounded_by_balances \<longleftrightarrow>
      is_ok (enforce_swap_outcome 1000 500 1000 500)
      \<and> is_err (enforce_swap_outcome 1001 500 1000 500)
      \<and> is_err (enforce_swap_outcome 1000 499 1000 500)"

definition test_seeds_match_spec :: bool where
  "test_seeds_match_spec \<longleftrightarrow>
      SEED_SPEND_VAULT = ascii ''spend-vault''
      \<and> SEED_PAYMASTER = ascii ''paymaster''
      \<and> SEED_PUMP_TRADER = ascii ''pump-trader''
      \<and> PUMP_TRADER_SPACE = 0
      \<and> SEED_SPEND_VAULT = [115, 112, 101, 110, 100, 45, 118, 97, 117, 108, 116]
      \<and> SEED_PAYMASTER = [112, 97, 121, 109, 97, 115, 116, 101, 114]
      \<and> SEED_PUMP_TRADER = [112, 117, 109, 112, 45, 116, 114, 97, 100, 101, 114]
      \<and> MAX_SPONSOR_LAMPORTS = 10000000
      \<and> SEED_GROK_ACCOUNT = ascii ''grok-account''
      \<and> SEED_GRANT = ascii ''grant''"

definition test_error_discriminants_0_to_54 :: bool where
  "test_error_discriminants_0_to_54 \<longleftrightarrow>
      error_code (Base UnauthorizedRoot) = 0
      \<and> error_code (Base AgentMismatch) = 1
      \<and> error_code (Base ZeroPayAmount) = 2
      \<and> error_code (Base ZeroAmount) = 3
      \<and> error_code (Base InsufficientSpendVault) = 4
      \<and> error_code (Base InsufficientPaymaster) = 5
      \<and> error_code (Base PaymasterPaused) = 6
      \<and> error_code (Base RelayerMismatch) = 7
      \<and> error_code (Base NotSponsorEligible) = 8
      \<and> error_code (Base SponsorAccountsRequired) = 9
      \<and> error_code (Base SponsorCapExceeded) = 10
      \<and> error_code (Base IntentStub) = 11
      \<and> error_code (Base GrokAccountMismatch) = 12
      \<and> error_code (Base LamportOverflow) = 13
      \<and> error_code (Base InvalidCoreProgram) = 14
      \<and> error_code (Base MinOutNotMet) = 15
      \<and> error_code (Base CallTargetMismatch) = 16
      \<and> error_code (Base TargetNotExecutable) = 17
      \<and> error_code (Base ProtectedAccountInRemaining) = 18
      \<and> error_code (Pump PumpProgramMismatch) = 19
      \<and> error_code (Pump PumpAccountCountMismatch) = 20
      \<and> error_code (Pump PumpUserMustBeVault) = 21
      \<and> error_code (Pump AgentCannotFeePay) = 22
      \<and> error_code (Pump PumpEmptyDataForbidden) = 23
      \<and> error_code (Pump PumpAtaCreateRequiresFeePayer) = 24
      \<and> error_code (Pump InvalidTokenProgram) = 25
      \<and> error_code (Pump PumpPdaMismatch) = 26
      \<and> error_code (Pump PumpUserMustBeVault) = 21
      \<and> error_code (Pump PumpUserMustBeTrader) = 27
      \<and> error_code (Pump PumpTraderNotSystemOwned) = 28
      \<and> error_code (Pump PumpTraderAlreadyExists) = 29
      \<and> error_code (Pump PumpTraderNotInitialized) = 30
      \<and> error_code (Pump PumpMintMustBeSigner) = 31
      \<and> error_code (Pump PumpCreateNameTooLong) = 32
      \<and> error_code (Pump PumpCreateSymbolTooLong) = 33
      \<and> error_code (Pump PumpCreateUriTooLong) = 34
      \<and> error_code (Pump PumpAmmProgramMismatch) = 35
      \<and> error_code (Pump PumpAmmAccountCountMismatch) = 36
      \<and> error_code (Pump PumpAmmPoolInvalid) = 37
      \<and> error_code (Pump PumpAmmQuoteMustBeWsol) = 38
      \<and> error_code (Pump PumpAmmFeeRecipientInvalid) = 39
      \<and> error_code (Pump PumpTraderUnderfunded) = 40
      \<and> error_code (Pump PumpAmmSellCheckGrantAmountMustBeZero) = 41
      \<and> error_code (Pump PumpAmmSellAccountCountMismatch) = 42
      \<and> error_code (Token WithdrawRemainingAccountsOdd) = 43
      \<and> error_code (Token WithdrawTokenAccountInvalid) = 44
      \<and> error_code (Token WithdrawTokenOwnerNotTrader) = 45
      \<and> error_code (Token WithdrawTokenMintMismatch) = 46
      \<and> error_code (Token WithdrawTokenDestOwnerNotRoot) = 47
      \<and> error_code (Token InsufficientPumpTrader) = 48
      \<and> error_code (Token JupiterProgramMismatch) = 49
      \<and> error_code (Token JupiterEmptyDataForbidden) = 50
      \<and> error_code (Token JupiterInAmountMismatch) = 51
      \<and> error_code (Token JupiterSourceOwnerNotTrader) = 52
      \<and> error_code (Token JupiterDestOwnerNotTrader) = 53
      \<and> error_code (Token TokenWrapMintMustBeWsol) = 54"

definition test_intent_stub_reserved_and_unused_by_new_handlers :: bool where
  "test_intent_stub_reserved_and_unused_by_new_handlers \<longleftrightarrow>
      error_code (Base IntentStub) = 11
      \<and> error_code (Base MinOutNotMet) \<noteq> 11
      \<and> error_code (Base CallTargetMismatch) \<noteq> 11
      \<and> error_code (Base TargetNotExecutable) \<noteq> 11
      \<and> error_code (Base ProtectedAccountInRemaining) \<noteq> 11
      \<and> error_code (Pump PumpProgramMismatch) \<noteq> 11
      \<and> error_code (Pump AgentCannotFeePay) \<noteq> 11"

definition test_pay_policy_without_runtime :: bool where
  "test_pay_policy_without_runtime \<longleftrightarrow>
     (let zero = \<lparr>pa_amount_lamports = 0, pa_sponsor_lamports = 0\<rparr> in
      is_err (require_pay_amount (pa_amount_lamports zero))
      \<and>
     (let over = \<lparr>pa_amount_lamports = 1, pa_sponsor_lamports = (MAX_SPONSOR_LAMPORTS + 1)\<rparr> in
      MAX_SPONSOR_LAMPORTS < (pa_sponsor_lamports over)
      \<and> is_err (require_sponsor_cap (pa_sponsor_lamports over))
      \<and>
     (let ok = \<lparr>pa_amount_lamports = 1, pa_sponsor_lamports = MAX_SPONSOR_LAMPORTS\<rparr> in
      0 < (pa_amount_lamports ok)
      \<and> pa_sponsor_lamports ok \<le> MAX_SPONSOR_LAMPORTS
      \<and> is_ok (require_pay_amount (pa_amount_lamports ok))
      \<and> is_ok (require_sponsor_cap (pa_sponsor_lamports ok))
      \<and>
     (let skip = \<lparr>pa_amount_lamports = 500, pa_sponsor_lamports = 0\<rparr> in
      pa_sponsor_lamports skip = 0))))"

definition test_swap_policy_without_runtime :: bool where
  "test_swap_policy_without_runtime \<longleftrightarrow>
     (let zero = \<lparr>sw_amount_in_lamports = 0, sw_min_out_lamports = 0, sw_sponsor_lamports = 0\<rparr> in
      is_err (require_swap_amounts (sw_amount_in_lamports zero) (sw_min_out_lamports zero))
      \<and>
     (let min_too_high = \<lparr>sw_amount_in_lamports = 100, sw_min_out_lamports = 101, sw_sponsor_lamports = 0\<rparr> in
      is_err (require_swap_amounts (sw_amount_in_lamports min_too_high) (sw_min_out_lamports min_too_high))
      \<and>
     (let ok = \<lparr>sw_amount_in_lamports = 100, sw_min_out_lamports = 100, sw_sponsor_lamports = 0\<rparr> in
      is_ok (require_swap_amounts (sw_amount_in_lamports ok) (sw_min_out_lamports ok))
      \<and>
     (let over = \<lparr>sw_amount_in_lamports = 1, sw_min_out_lamports = 1, sw_sponsor_lamports = (MAX_SPONSOR_LAMPORTS + 1)\<rparr> in
      is_err (require_sponsor_cap (sw_sponsor_lamports over))))))"

definition test_deploy_and_call_allow_amount_zero :: bool where
  "test_deploy_and_call_allow_amount_zero \<longleftrightarrow>
      DEPLOY_CHECK_GRANT_AMOUNT = 0
      \<and>
     (let ping = \<lparr>ca_amount_lamports = 0, ca_sponsor_lamports = 0, ca_target_program = INTENTS_ID\<rparr> in
      ca_amount_lamports ping = 0
      \<and> is_ok (require_sponsor_cap (ca_sponsor_lamports ping))
      \<and>
     (let deploy = \<lparr>dp_sponsor_lamports = 0, dp_program_id = INTENTS_ID\<rparr> in
      dp_sponsor_lamports deploy = 0
      \<and> is_ok (require_sponsor_accounts (dp_sponsor_lamports deploy) False)
      \<and> is_err (require_sponsor_accounts 1 False)))"

definition test_amount_zero_forbidden_for_swap_and_pay_allowed_for_call_deploy :: bool where
  "test_amount_zero_forbidden_for_swap_and_pay_allowed_for_call_deploy \<longleftrightarrow>
      is_err (require_pay_amount 0)
      \<and> is_err (require_swap_amounts 0 0)
      \<and> DEPLOY_CHECK_GRANT_AMOUNT = 0"

definition test_pump_amm_buy_requires_prefund :: bool where
  "test_pump_amm_buy_requires_prefund \<longleftrightarrow>
      is_err (require_pump_trader_prefunded 0 100000000 890880)
      \<and> is_err (require_pump_trader_prefunded 100000000 100000000 890880)
      \<and> is_ok (require_pump_trader_prefunded 100890880 100000000 890880)"

definition test_pump_buy_requires_prefund :: bool where
  "test_pump_buy_requires_prefund \<longleftrightarrow>
      is_err (require_pump_trader_prefunded 0 100000000 890880)
      \<and> is_err (require_pump_trader_prefunded 100000000 100000000 890880)
      \<and> is_ok (require_pump_trader_prefunded 100890880 100000000 890880)
      \<and> error_code (Pump PumpTraderUnderfunded) = 40"

definition test_pump_amm_sell_check_grant_zero_and_amounts :: bool where
  "test_pump_amm_sell_check_grant_zero_and_amounts \<longleftrightarrow>
      PUMP_SELL_CHECK_GRANT_AMOUNT = 0
      \<and> PUMP_AMM_SELL_CHECK_GRANT_AMOUNT = 0
      \<and> is_ok (require_pump_amm_sell_check_grant_amount 0)
      \<and> is_err (require_pump_amm_sell_check_grant_amount 1)
      \<and> is_err (require_pump_amm_sell_amounts 0 1)
      \<and> is_ok (require_pump_amm_sell_amounts 1 0)
      \<and> is_ok (require_pump_amm_sell_amounts 1 1)
      \<and> is_ok (require_pump_amm_sell_account_count 24)
      \<and> is_err (require_pump_amm_sell_account_count 26)
      \<and> is_err (require_pump_amm_sell_account_count 27)
      \<and>
     (let data = encode_pump_amm_sell 1000 1 in
      length data = 24
      \<and> take 8 data = PUMP_AMM_SELL_DISC
      \<and> is_ok (require_nonempty_pump_amm_sell_data data)
      \<and>
     (let buy = encode_pump_amm_buy_exact_quote_in 1 1 True in
      is_err (require_nonempty_pump_amm_sell_data buy)))"

definition test_token_buy_sell_policy_without_runtime :: bool where
  "test_token_buy_sell_policy_without_runtime \<longleftrightarrow>
      is_err (require_token_amounts 0)
      \<and> is_ok (require_token_amounts 1)
      \<and> is_ok (enforce_swap_outcome 1 1 1 1)
      \<and> is_err (enforce_swap_outcome 2 1 1 1)
      \<and> is_err (enforce_swap_outcome 1 0 1 1)
      \<and>
     (let data = replicate 8 9 in
     (let data = data @ word_bytes (42 :: u64) in
      is_ok (require_nonempty_jupiter_data data)
      \<and> is_ok (require_jupiter_in_amount data 42)
      \<and> is_err (require_jupiter_in_amount data 1)
      \<and> is_ok (require_jupiter_program JUPITER_V6_PROGRAM_ID)
      \<and> is_ok (require_wrap_mint True WSOL_MINT)
      \<and> token_check_grant_amount WSOL_MINT False 7 = 7
      \<and> token_check_grant_amount USDC_MINT False 7 = 0
      \<and> TOKEN_NON_SOL_CHECK_GRANT_AMOUNT = 0))"

section \<open>\<open>subscription.rs\<close>\<close>

definition test_periods_advance_on_the_boundary_not_before :: bool where
  "test_periods_advance_on_the_boundary_not_before \<longleftrightarrow>
     (let start = 1700000000 in
     (let day = 86400 in
      current_period start start day = Inr 0
      \<and> current_period (start + day - 1) start day = Inr 0
      \<and> current_period (start + day) start day = Inr 1
      \<and> current_period (start + 30 * day) start day = Inr 30))"

definition test_a_period_before_the_start_is_an_error_not_a_negative_period :: bool where
  "test_a_period_before_the_start_is_an_error_not_a_negative_period \<longleftrightarrow>
     (let start = 1700000000 in
      is_err (current_period (start - 1) start 86400)
      \<and> is_err (current_period start start 0))"

definition test_the_sentinel_makes_period_zero_payable_exactly_once :: bool where
  "test_the_sentinel_makes_period_zero_payable_exactly_once \<longleftrightarrow>
      sint PERIOD_NONE < sint (0 :: i64)
      \<and> \<not> sint (0 :: i64) < sint (0 :: i64)"

section \<open>\<open>policy.rs\<close>\<close>

definition test_pay_zero_fails :: bool where
  "test_pay_zero_fails \<longleftrightarrow>
      is_err (require_pay_amount 0)
      \<and> is_ok (require_pay_amount 1)"

definition test_swap_zero_fails_and_min_out_is_enforced :: bool where
  "test_swap_zero_fails_and_min_out_is_enforced \<longleftrightarrow>
      is_err (require_swap_amounts 0 0)
      \<and> is_err (require_swap_amounts 0 1)
      \<and> is_err (require_swap_amounts 5 6)
      \<and> is_ok (require_swap_amounts 5 5)
      \<and> is_ok (require_swap_amounts 6 5)"

definition test_swap_outcome_bounds_a_route_we_did_not_build :: bool where
  "test_swap_outcome_bounds_a_route_we_did_not_build \<longleftrightarrow>
      is_ok (enforce_swap_outcome 1000 500 1000 500)
      \<and> is_ok (enforce_swap_outcome 900 600 1000 500)
      \<and> is_err (enforce_swap_outcome 1001 500 1000 500)
      \<and> is_err (enforce_swap_outcome 1000 499 1000 500)
      \<and> is_err (enforce_swap_outcome 1000 0 1000 1)
      \<and> is_ok (enforce_swap_outcome 1000 0 1000 0)
      \<and> is_err (enforce_swap_outcome 1001 0 1000 0)"

definition test_sponsor_cap_and_accounts :: bool where
  "test_sponsor_cap_and_accounts \<longleftrightarrow>
      is_ok (require_sponsor_cap 0)
      \<and> is_ok (require_sponsor_cap MAX_SPONSOR_LAMPORTS)
      \<and> is_err (require_sponsor_cap (MAX_SPONSOR_LAMPORTS + 1))
      \<and> is_ok (require_sponsor_accounts 0 False)
      \<and> is_err (require_sponsor_accounts 1 False)
      \<and> is_ok (require_sponsor_accounts 1 True)"

definition test_deploy_check_grant_amount_is_zero :: bool where
  "test_deploy_check_grant_amount_is_zero \<longleftrightarrow>
      DEPLOY_CHECK_GRANT_AMOUNT = 0"

definition test_target_not_pump_id_fails :: bool where
  "test_target_not_pump_id_fails \<longleftrightarrow>
      is_ok (require_pump_program PUMP_PROGRAM_ID)
      \<and> is_err (require_pump_program INTENTS_ID)
      \<and> is_err (require_pump_program DEFAULT_PUBKEY)"

definition test_agent_cannot_be_fee_payer :: "pubkey \<Rightarrow> pubkey \<Rightarrow> bool" where
  "test_agent_cannot_be_fee_payer agent relayer \<longleftrightarrow>
      is_ok (require_agent_not_fee_payer agent None)
      \<and> is_ok (require_agent_not_fee_payer agent (Some relayer))
      \<and> is_err (require_agent_not_fee_payer agent (Some agent))"

definition test_pump_buy_empty_data_forbidden_and_amounts :: bool where
  "test_pump_buy_empty_data_forbidden_and_amounts \<longleftrightarrow>
      is_err (require_nonempty_pump_data [])
      \<and> is_err (require_nonempty_pump_data [1, 2, 3])
      \<and>
     (let good = encode_pump_buy_v2 1 2 in
      length good = 24
      \<and> is_ok (require_nonempty_pump_data good)
      \<and> is_err (require_pump_buy_amounts 0 1)
      \<and> is_err (require_pump_buy_amounts 1 0)
      \<and> is_ok (require_pump_buy_amounts 1 1)
      \<and> is_err (require_pump_sell_amounts 0 0)
      \<and> is_ok (require_pump_sell_amounts 1 0)
      \<and> PUMP_SELL_CHECK_GRANT_AMOUNT = 0)"

definition test_pump_user_must_be_vault_and_count :: "pubkey \<Rightarrow> pubkey \<Rightarrow> bool" where
  "test_pump_user_must_be_vault_and_count vault other \<longleftrightarrow>
      is_ok (require_pump_user_is_vault vault vault)
      \<and> is_err (require_pump_user_is_vault other vault)
      \<and> is_ok (require_pump_account_count 27 27)
      \<and> is_err (require_pump_account_count 26 27)
      \<and> is_ok (require_pump_account_count 26 26)"

definition test_pump_user_must_be_trader_vault_as_user_fails :: "pubkey \<Rightarrow> pubkey \<Rightarrow> pubkey \<Rightarrow> bool" where
  "test_pump_user_must_be_trader_vault_as_user_fails vault trader unique1 \<longleftrightarrow>
      is_ok (require_pump_user_is_trader trader trader)
      \<and> is_err (require_pump_user_is_trader vault trader)
      \<and> is_ok (require_pump_user_not_vault trader vault)
      \<and> is_err (require_pump_user_not_vault vault vault)
      \<and> is_ok (require_pump_trader_system_owned SYSTEM_PROGRAM_ID)
      \<and> is_err (require_pump_trader_system_owned INTENTS_ID)
      \<and> is_err (require_pump_trader_system_owned unique1)"

definition test_pump_create_strings_mint_signer_and_data :: "pubkey \<Rightarrow> bool" where
  "test_pump_create_strings_mint_signer_and_data creator \<longleftrightarrow>
      is_ok (require_pump_create_strings [110] [115] [117])
      \<and> is_ok (require_pump_create_strings (replicate 32 110) (replicate 13 115) (replicate 200 117))
      \<and> is_err (require_pump_create_strings (replicate 33 110) [115] [117])
      \<and> is_err (require_pump_create_strings [110] (replicate 14 115) [117])
      \<and> is_err (require_pump_create_strings [110] [115] (replicate 201 117))
      \<and> is_err (require_pump_create_amounts 0)
      \<and> is_ok (require_pump_create_amounts 1)
      \<and> is_ok (require_pump_mint_is_signer True)
      \<and> is_err (require_pump_mint_is_signer False)
      \<and> is_ok (require_pump_create_account_count 16)
      \<and> is_ok (require_pump_create_account_count 19)
      \<and> is_err (require_pump_create_account_count 17)
      \<and> is_err (require_pump_create_account_count 27)
      \<and>
     (let good = encode_pump_create_v2 [78] [83] [117, 114, 105] creator False False in
      is_ok (require_nonempty_pump_create_data good)
      \<and> is_err (require_nonempty_pump_create_data [])
      \<and> is_err (require_nonempty_pump_create_data [1, 2, 3])
      \<and> take 8 good = PUMP_CREATE_V2_DISC)"

definition test_pump_amm_program_count_amounts_and_fees :: "pubkey \<Rightarrow> pubkey \<Rightarrow> bool" where
  "test_pump_amm_program_count_amounts_and_fees unique1 unique2 \<longleftrightarrow>
      is_ok (require_pump_amm_program PUMP_AMM_PROGRAM_ID)
      \<and> is_err (require_pump_amm_program PUMP_PROGRAM_ID)
      \<and> is_err (require_pump_amm_program INTENTS_ID)
      \<and> is_ok (require_pump_amm_account_count 26)
      \<and> is_ok (require_pump_amm_account_count 27)
      \<and> is_err (require_pump_amm_account_count 23)
      \<and> is_err (require_pump_amm_account_count 25)
      \<and> is_err (require_pump_amm_buy_amounts 0 1 1)
      \<and> is_err (require_pump_amm_buy_amounts 1 0 1)
      \<and> is_err (require_pump_amm_buy_amounts 2 1 1)
      \<and> is_ok (require_pump_amm_buy_amounts 1 1 1)
      \<and> is_ok (require_pump_amm_buy_amounts 1 1 2)
      \<and>
     (let good = encode_pump_amm_buy_exact_quote_in 100 1 True in
      length good = 25
      \<and> is_ok (require_nonempty_pump_amm_data good)
      \<and> is_err (require_nonempty_pump_amm_data [])
      \<and> is_ok (require_pump_amm_protocol_fee_recipient (PUMP_AMM_PROTOCOL_FEE_RECIPIENTS ! 5))
      \<and> is_ok (require_pump_amm_protocol_fee_recipient (PUMP_AMM_RESERVED_FEE_RECIPIENTS ! 0))
      \<and> is_err (require_pump_amm_protocol_fee_recipient unique1)
      \<and> is_ok (require_pump_amm_breaking_fee_recipient (PUMP_AMM_BREAKING_FEE_RECIPIENTS ! 0))
      \<and> is_err (require_pump_amm_breaking_fee_recipient unique2)
      \<and> is_ok (require_pump_amm_sell_account_count 24)
      \<and> is_err (require_pump_amm_sell_account_count 26)
      \<and> is_err (require_pump_amm_sell_account_count 23)
      \<and> is_err (require_pump_amm_sell_account_count 25)
      \<and> is_err (require_pump_amm_sell_account_count 27)
      \<and> is_err (require_pump_amm_sell_amounts 0 1)
      \<and> is_ok (require_pump_amm_sell_amounts 1 0)
      \<and> is_ok (require_pump_amm_sell_amounts 1 1)
      \<and>
     (let sell = encode_pump_amm_sell 100 1 in
      length sell = 24
      \<and> take 8 sell = PUMP_AMM_SELL_DISC
      \<and> is_ok (require_nonempty_pump_amm_sell_data sell)
      \<and> is_err (require_nonempty_pump_amm_sell_data [])
      \<and> is_err (require_nonempty_pump_amm_sell_data good)
      \<and> PUMP_SELL_CHECK_GRANT_AMOUNT = 0
      \<and> PUMP_AMM_SELL_CHECK_GRANT_AMOUNT = 0
      \<and> is_ok (require_pump_amm_sell_check_grant_amount 0)
      \<and> is_err (require_pump_amm_sell_check_grant_amount 1)
      \<and> is_ok (require_pump_amm_sell_check_grant_amount PUMP_AMM_SELL_CHECK_GRANT_AMOUNT)))"

definition test_token_jupiter_policy :: "pubkey \<Rightarrow> pubkey \<Rightarrow> bool" where
  "test_token_jupiter_policy a b \<longleftrightarrow>
      TOKEN_NON_SOL_CHECK_GRANT_AMOUNT = 0
      \<and> is_err (require_token_amounts 0)
      \<and> is_ok (require_token_amounts 1)
      \<and> is_ok (require_token_mints_distinct a b)
      \<and> is_err (require_token_mints_distinct a a)
      \<and> is_ok (require_wrap_mint False a)
      \<and> is_ok (require_wrap_mint True WSOL_MINT)
      \<and> is_err (require_wrap_mint True a)
      \<and> is_ok (require_jupiter_program JUPITER_V6_PROGRAM_ID)
      \<and> is_err (require_jupiter_program INTENTS_ID)
      \<and> is_err (require_jupiter_program PUMP_PROGRAM_ID)
      \<and> is_err (require_nonempty_jupiter_data [])
      \<and> is_err (require_nonempty_jupiter_data [1, 2, 3])
      \<and>
     (let data = [1, 2, 3, 4, 5, 6, 7, 8] in
     (let data = data @ word_bytes (1000 :: u64) in
      is_ok (require_nonempty_jupiter_data data)
      \<and> is_ok (require_jupiter_in_amount data 1000)
      \<and> is_err (require_jupiter_in_amount data 2)
      \<and> token_check_grant_amount WSOL_MINT False 9 = 9
      \<and> token_check_grant_amount WSOL_MINT True 9 = 9
      \<and> token_check_grant_amount a False 9 = 0
      \<and> token_check_grant_amount a True 9 = 9))"

section \<open>\<open>capability_audit.rs\<close>\<close>

definition test_encoded_ix_data_is_nonempty :: "pubkey \<Rightarrow> bool" where
  "test_encoded_ix_data_is_nonempty creator \<longleftrightarrow>
     (let data = encode_pump_buy_v2 1000000 10000000 in
      length data = 24
      \<and> take 8 data = PUMP_BUY_V2_DISC
      \<and>
     (let sell = encode_pump_sell_v2 1000000 1 in
      length sell = 24
      \<and> take 8 sell = PUMP_SELL_V2_DISC
      \<and>
     (let created = encode_pump_create_v2 [78, 97, 109, 101] [83, 89, 77]
            [104, 116, 116, 112, 115, 58, 47, 47, 101, 120, 97, 109, 112, 108, 101, 46, 99, 111, 109, 47, 109, 46, 106, 115, 111, 110]
            creator False True in
      take 8 created = PUMP_CREATE_V2_DISC
      \<and> 54 \<le> length created
      \<and> is_ok (require_nonempty_pump_create_data created) = True
      \<and>
     (let amm = encode_pump_amm_buy_exact_quote_in 100000000 1 True in
      length amm = 25
      \<and> take 8 amm = PUMP_AMM_BUY_EXACT_QUOTE_IN_DISC
      \<and> is_ok (require_nonempty_pump_amm_data amm)
      \<and>
     (let amm_sell = encode_pump_amm_sell 1000000 1 in
      length amm_sell = PUMP_AMM_SELL_DATA_LEN
      \<and> length amm_sell = 24
      \<and> take 8 amm_sell = PUMP_AMM_SELL_DISC
      \<and> is_ok (require_nonempty_pump_amm_sell_data amm_sell)
      \<and> is_err (require_nonempty_pump_amm_sell_data amm)
      \<and> is_err (require_nonempty_pump_amm_data amm_sell))))))"

section \<open>They pass\<close>

lemmas policy_defs =
  DEPLOY_CHECK_GRANT_AMOUNT_def PUMP_SELL_CHECK_GRANT_AMOUNT_def
  PUMP_AMM_SELL_CHECK_GRANT_AMOUNT_def require_pump_amm_sell_check_grant_amount_def
  require_pay_amount_def require_swap_amounts_def require_sponsor_cap_def
  require_sponsor_accounts_def require_pump_program_def require_agent_not_fee_payer_def
  require_pump_user_is_vault_def require_pump_user_is_trader_def
  require_pump_user_not_vault_def require_pump_trader_system_owned_def
  require_pump_account_count_def require_nonempty_pump_data_def require_pump_buy_amounts_def
  require_pump_sell_amounts_def require_pump_create_strings_def require_pump_create_amounts_def
  require_pump_mint_is_signer_def require_pump_create_account_count_def
  require_nonempty_pump_create_data_def require_pump_amm_program_def
  require_pump_amm_account_count_def require_nonempty_pump_amm_data_def
  require_pump_amm_buy_amounts_def require_pump_amm_sell_account_count_def
  require_nonempty_pump_amm_sell_data_def require_pump_amm_sell_amounts_def
  
  require_pump_trader_prefunded_def TOKEN_NON_SOL_CHECK_GRANT_AMOUNT_def
  token_check_grant_amount_def require_token_amounts_def enforce_swap_outcome_def
  require_token_mints_distinct_def require_wrap_mint_def require_jupiter_program_def
  require_nonempty_jupiter_data_def require_jupiter_in_amount_def

lemma verdicts [simp]:
  "is_ok (Inr x)" "\<not> is_ok (Inl e)" "is_err (Inl e)" "\<not> is_err (Inr x)"
  by (simp_all add: is_ok_def is_err_def)

lemma two_not_below_one: "\<not> (2 :: u64) \<le> 1"
  by (simp add: word_le_nat_alt)

lemma listed:
  "i < length xs \<Longrightarrow> list_ex (\<lambda>p. p = xs ! i) xs"
  "k \<notin> set xs \<Longrightarrow> \<not> list_ex (\<lambda>p. p = k) xs"
  by (auto simp: list_ex_iff)

lemma recipients_checked:
  "is_ok (require_pump_amm_protocol_fee_recipient (PUMP_AMM_PROTOCOL_FEE_RECIPIENTS ! 5))"
  "is_ok (require_pump_amm_protocol_fee_recipient (PUMP_AMM_RESERVED_FEE_RECIPIENTS ! 0))"
  "is_ok (require_pump_amm_breaking_fee_recipient (PUMP_AMM_BREAKING_FEE_RECIPIENTS ! 0))"
  "k \<notin> set (PUMP_AMM_PROTOCOL_FEE_RECIPIENTS @ PUMP_AMM_RESERVED_FEE_RECIPIENTS)
   \<Longrightarrow> is_err (require_pump_amm_protocol_fee_recipient k)"
  "k \<notin> set PUMP_AMM_BREAKING_FEE_RECIPIENTS \<Longrightarrow> is_err (require_pump_amm_breaking_fee_recipient k)"
proof -
  have "5 < length PUMP_AMM_PROTOCOL_FEE_RECIPIENTS" "0 < length PUMP_AMM_RESERVED_FEE_RECIPIENTS"
      "0 < length PUMP_AMM_BREAKING_FEE_RECIPIENTS"
    by (simp_all add: PUMP_AMM_PROTOCOL_FEE_RECIPIENTS_def PUMP_AMM_RESERVED_FEE_RECIPIENTS_def
        PUMP_AMM_BREAKING_FEE_RECIPIENTS_def)
  note here = this [THEN listed(1)]
  show "is_ok (require_pump_amm_protocol_fee_recipient (PUMP_AMM_PROTOCOL_FEE_RECIPIENTS ! 5))"
      "is_ok (require_pump_amm_protocol_fee_recipient (PUMP_AMM_RESERVED_FEE_RECIPIENTS ! 0))"
      "is_ok (require_pump_amm_breaking_fee_recipient (PUMP_AMM_BREAKING_FEE_RECIPIENTS ! 0))"
    by (simp_all add: require_pump_amm_protocol_fee_recipient_def
        require_pump_amm_breaking_fee_recipient_def require_def ensure_def here)
next
  show "k \<notin> set (PUMP_AMM_PROTOCOL_FEE_RECIPIENTS @ PUMP_AMM_RESERVED_FEE_RECIPIENTS)
      \<Longrightarrow> is_err (require_pump_amm_protocol_fee_recipient k)"
    "k \<notin> set PUMP_AMM_BREAKING_FEE_RECIPIENTS \<Longrightarrow> is_err (require_pump_amm_breaking_fee_recipient k)"
    by (simp_all add: require_pump_amm_protocol_fee_recipient_def
        require_pump_amm_breaking_fee_recipient_def require_def ensure_def listed(2))
qed

lemmas test_eval = two_not_below_one policy_defs checked_add_def require_def ensure_def Let_def MAX_SPONSOR_LAMPORTS_def

lemmas seed_values = seed_defs PUMP_TRADER_SPACE_def MAX_MERCHANTS_def MIN_PERIOD_SECONDS_def PERIOD_NONE_def

lemmas space_values = spend_vault_SPACE_def paymaster_SPACE_def merchant_registry_SPACE_def
  subscription_SPACE_def MAX_MERCHANTS_def

lemmas encoder_values = encode_pump_buy_v2_def encode_pump_sell_v2_def encode_pump_create_v2_def
  encode_borsh_string_def encode_pump_amm_buy_exact_quote_in_def encode_pump_amm_sell_def
  PUMP_BUY_V2_DISC_def PUMP_SELL_V2_DISC_def PUMP_CREATE_V2_DISC_def
  PUMP_AMM_BUY_EXACT_QUOTE_IN_DISC_def PUMP_AMM_SELL_DISC_def PUMP_TRADE_IX_DATA_LEN_def
  PUMP_AMM_BUY_EXACT_QUOTE_IN_DATA_LEN_def PUMP_AMM_SELL_DATA_LEN_def
  PUMP_CREATE_V2_IX_DATA_MIN_def utf8_char_def as_bytes_def

lemmas count_values = PUMP_AMM_SELL_ACCOUNT_COUNT_def PUMP_AMM_BUY_ACCOUNT_COUNT_def
  PUMP_AMM_BUY_ACCOUNT_COUNT_CASHBACK_def PUMP_CREATE_V2_ACCOUNT_COUNT_def
  PUMP_CREATE_V2_ACCOUNT_COUNT_WITH_QUOTE_def

lemma spaces_match_spec: "test_spaces_match_spec"
  by (simp add: test_spaces_match_spec_def test_eval space_values)

lemma payment_seeds_and_bounds: "test_payment_seeds_and_bounds"
  by (simp add: test_payment_seeds_and_bounds_def test_eval seed_values)

lemma subscription_periods_are_exact: "test_subscription_periods_are_exact"
  by (simp add: test_subscription_periods_are_exact_def test_eval current_period_cases)

lemma swap_outcome_is_bounded_by_balances: "test_swap_outcome_is_bounded_by_balances"
  by (simp add: test_swap_outcome_is_bounded_by_balances_def test_eval)

lemma seeds_match_spec: "test_seeds_match_spec"
  by (simp add: test_seeds_match_spec_def test_eval seed_values)

lemma error_discriminants_0_to_54: "test_error_discriminants_0_to_54"
  by (simp add: test_error_discriminants_0_to_54_def test_eval)

lemma intent_stub_reserved_and_unused_by_new_handlers:
  "test_intent_stub_reserved_and_unused_by_new_handlers"
  by (simp add: test_intent_stub_reserved_and_unused_by_new_handlers_def test_eval)

lemma pay_policy_without_runtime: "test_pay_policy_without_runtime"
  by (simp add: test_pay_policy_without_runtime_def test_eval)

lemma swap_policy_without_runtime: "test_swap_policy_without_runtime"
  by (simp add: test_swap_policy_without_runtime_def test_eval)

lemma deploy_and_call_allow_amount_zero: "test_deploy_and_call_allow_amount_zero"
  by (simp add: test_deploy_and_call_allow_amount_zero_def test_eval)

lemma amount_zero_forbidden_for_swap_and_pay_allowed_for_call_deploy:
  "test_amount_zero_forbidden_for_swap_and_pay_allowed_for_call_deploy"
  by (simp add: test_amount_zero_forbidden_for_swap_and_pay_allowed_for_call_deploy_def test_eval)

lemma pump_amm_buy_requires_prefund: "test_pump_amm_buy_requires_prefund"
  by (simp add: test_pump_amm_buy_requires_prefund_def test_eval)

lemma pump_buy_requires_prefund: "test_pump_buy_requires_prefund"
  by (simp add: test_pump_buy_requires_prefund_def test_eval)

lemma pump_amm_sell_check_grant_zero_and_amounts: "test_pump_amm_sell_check_grant_zero_and_amounts"
  by (simp add: test_pump_amm_sell_check_grant_zero_and_amounts_def test_eval encoder_values count_values)

lemma token_buy_sell_policy_without_runtime: "test_token_buy_sell_policy_without_runtime"
  by (simp add: test_token_buy_sell_policy_without_runtime_def test_eval word_bytes_def byte_eval key_simps)

lemma periods_advance_on_the_boundary_not_before: "test_periods_advance_on_the_boundary_not_before"
  by (simp add: test_periods_advance_on_the_boundary_not_before_def test_eval current_period_cases)

lemma a_period_before_the_start_is_an_error_not_a_negative_period:
  "test_a_period_before_the_start_is_an_error_not_a_negative_period"
  by (simp add: test_a_period_before_the_start_is_an_error_not_a_negative_period_def test_eval current_period_cases)

lemma the_sentinel_makes_period_zero_payable_exactly_once:
  "test_the_sentinel_makes_period_zero_payable_exactly_once"
  by (simp add: test_the_sentinel_makes_period_zero_payable_exactly_once_def test_eval PERIOD_NONE_def)

lemma pay_zero_fails: "test_pay_zero_fails"
  by (simp add: test_pay_zero_fails_def test_eval)

lemma swap_zero_fails_and_min_out_is_enforced: "test_swap_zero_fails_and_min_out_is_enforced"
  by (simp add: test_swap_zero_fails_and_min_out_is_enforced_def test_eval)

lemma swap_outcome_bounds_a_route_we_did_not_build:
  "test_swap_outcome_bounds_a_route_we_did_not_build"
  by (simp add: test_swap_outcome_bounds_a_route_we_did_not_build_def test_eval)

lemma sponsor_cap_and_accounts: "test_sponsor_cap_and_accounts"
  by (simp add: test_sponsor_cap_and_accounts_def test_eval)

lemma deploy_check_grant_amount_is_zero: "test_deploy_check_grant_amount_is_zero"
  by (simp add: test_deploy_check_grant_amount_is_zero_def test_eval)

lemma target_not_pump_id_fails: "test_target_not_pump_id_fails"
  by (simp add: test_target_not_pump_id_fails_def test_eval key_simps DEFAULT_PUBKEY_def)

lemma agent_cannot_be_fee_payer:
  "agent \<noteq> relayer
   \<Longrightarrow> test_agent_cannot_be_fee_payer agent relayer"
  by (simp add: test_agent_cannot_be_fee_payer_def test_eval)

lemma pump_buy_empty_data_forbidden_and_amounts: "test_pump_buy_empty_data_forbidden_and_amounts"
  by (simp add: test_pump_buy_empty_data_forbidden_and_amounts_def test_eval encoder_values)

lemma pump_user_must_be_vault_and_count:
  "vault \<noteq> other
   \<Longrightarrow> test_pump_user_must_be_vault_and_count vault other"
  by (simp add: test_pump_user_must_be_vault_and_count_def test_eval)

lemma pump_user_must_be_trader_vault_as_user_fails:
  "vault \<noteq> trader
   \<Longrightarrow> unique1 \<noteq> SYSTEM_PROGRAM_ID
   \<Longrightarrow> test_pump_user_must_be_trader_vault_as_user_fails vault trader unique1"
  by (simp add: test_pump_user_must_be_trader_vault_as_user_fails_def test_eval key_simps)

lemma pump_create_strings_mint_signer_and_data:
  "test_pump_create_strings_mint_signer_and_data creator"
  by (simp add: test_pump_create_strings_mint_signer_and_data_def test_eval encoder_values count_values PUMP_CREATE_NAME_MAX_def PUMP_CREATE_SYMBOL_MAX_def PUMP_CREATE_URI_MAX_def)

lemma pump_amm_program_count_amounts_and_fees:
  assumes "unique1 \<notin> set (PUMP_AMM_PROTOCOL_FEE_RECIPIENTS @ PUMP_AMM_RESERVED_FEE_RECIPIENTS)"
    "unique2 \<notin> set PUMP_AMM_BREAKING_FEE_RECIPIENTS"
  shows "test_pump_amm_program_count_amounts_and_fees unique1 unique2"
  unfolding test_pump_amm_program_count_amounts_and_fees_def
  by (simp only: recipients_checked recipients_checked(4) [OF assms(1)] recipients_checked(5) [OF assms(2)])
    (simp add: test_eval encoder_values count_values key_simps)

lemma token_jupiter_policy:
  "a \<noteq> b
   \<Longrightarrow> a \<noteq> WSOL_MINT
   \<Longrightarrow> test_token_jupiter_policy a b"
  by (simp add: test_token_jupiter_policy_def test_eval word_bytes_def byte_eval key_simps)

lemma encoded_ix_data_is_nonempty: "test_encoded_ix_data_is_nonempty creator"
  by (simp add: test_encoded_ix_data_is_nonempty_def test_eval encoder_values)

end
