(* ===== verification/Discriminators.thy ===== *)
theory Discriminators imports Conformance begin

text \<open>
  The tests that hash: the 8-byte discriminators Anchor derives from SHA-256 of a name. The hash
  (\<open>solana_program::hash\<close>) is code of another crate and a parameter here, so a test is a predicate
  on the hash, and what it says of the program is proved for every hash that passes it. The
  second half holds the assertions about values that \<open>capability_audit.rs\<close> makes beside its
  searches of the source text; those searches are replaced by \<open>capability_confined\<close>.
\<close>

section \<open>Discriminators\<close>

definition disc :: "(byte list \<Rightarrow> byte list) \<Rightarrow> string \<Rightarrow> string \<Rightarrow> byte list" where
  "disc hash kind name = take 8 (hash (ascii (kind @ '':'' @ name)))"

definition global_disc :: "(byte list \<Rightarrow> byte list) \<Rightarrow> string \<Rightarrow> byte list" where
  "global_disc hash name = take 8 (hash (ascii (''global:'' @ name)))"

definition test_account_instruction_event_discriminators :: "(byte list \<Rightarrow> byte list) \<Rightarrow> bool" where
  "test_account_instruction_event_discriminators hash \<longleftrightarrow>
      disc hash ''account'' ''SpendVault'' = [75, 166, 253, 76, 235, 57, 134, 93]
      \<and> disc hash ''account'' ''Paymaster'' = [79, 131, 123, 96, 75, 37, 131, 106]
      \<and> disc hash ''global'' ''init_spend_vault'' = [241, 173, 7, 179, 120, 124, 213, 61]
      \<and> disc hash ''global'' ''fund_spend_vault'' = [105, 178, 22, 113, 64, 88, 201, 233]
      \<and> disc hash ''global'' ''withdraw_spend_vault'' = [41, 235, 152, 150, 129, 122, 224, 37]
      \<and> disc hash ''global'' ''init_paymaster'' = [23, 62, 252, 40, 178, 70, 114, 54]
      \<and> disc hash ''global'' ''fund_paymaster'' = [84, 67, 136, 170, 168, 163, 220, 103]
      \<and> disc hash ''global'' ''withdraw_paymaster'' = [54, 60, 197, 226, 34, 179, 149, 189]
      \<and> disc hash ''global'' ''set_relayer'' = [23, 243, 33, 88, 110, 84, 196, 37]
      \<and> disc hash ''global'' ''pause_paymaster'' = [97, 26, 152, 173, 59, 148, 244, 77]
      \<and> disc hash ''global'' ''unpause_paymaster'' = [143, 248, 211, 216, 98, 113, 49, 251]
      \<and> disc hash ''global'' ''pay'' = [119, 18, 216, 65, 192, 117, 122, 220]
      \<and> disc hash ''global'' ''swap'' = [248, 198, 158, 145, 225, 117, 135, 200]
      \<and> disc hash ''global'' ''deploy'' = [67, 36, 143, 118, 36, 164, 92, 217]
      \<and> disc hash ''global'' ''call'' = [181, 94, 56, 161, 194, 221, 200, 3]
      \<and> disc hash ''event'' ''Paid'' = [240, 193, 17, 238, 238, 210, 129, 235]
      \<and> disc hash ''event'' ''Sponsored'' = [13, 53, 40, 13, 165, 80, 85, 131]
      \<and> disc hash ''event'' ''Swapped'' = [217, 52, 52, 83, 147, 135, 96, 109]
      \<and> disc hash ''event'' ''DeployRequested'' = [236, 93, 153, 180, 211, 112, 67, 252]
      \<and> disc hash ''event'' ''Called'' = [30, 97, 254, 149, 60, 38, 255, 5]
      \<and> disc hash ''global'' ''pump_buy'' = [82, 225, 119, 231, 78, 29, 45, 70]
      \<and> disc hash ''global'' ''pump_sell'' = [93, 88, 60, 34, 91, 18, 86, 197]
      \<and> disc hash ''event'' ''PumpBought'' = [209, 183, 238, 75, 181, 1, 117, 110]
      \<and> disc hash ''event'' ''PumpSold'' = [17, 201, 39, 152, 27, 110, 49, 106]
      \<and> disc hash ''global'' ''init_pump_trader'' = [92, 98, 75, 2, 93, 219, 250, 5]
      \<and> disc hash ''global'' ''fund_pump_trader'' = [63, 189, 216, 54, 81, 101, 241, 97]
      \<and> disc hash ''event'' ''PumpTraderInitialized'' = [197, 80, 95, 239, 242, 153, 144, 179]
      \<and> disc hash ''event'' ''PumpTraderFunded'' = [60, 253, 86, 159, 109, 54, 46, 170]
      \<and> disc hash ''global'' ''pump_create'' = [24, 176, 142, 141, 243, 152, 56, 128]
      \<and> disc hash ''event'' ''PumpCreated'' = [126, 79, 125, 229, 148, 39, 13, 70]
      \<and> disc hash ''global'' ''pump_amm_buy'' = [129, 59, 179, 195, 110, 135, 61, 2]
      \<and> disc hash ''event'' ''PumpAmmBought'' = [234, 79, 225, 112, 20, 215, 78, 43]
      \<and> disc hash ''global'' ''pump_amm_sell'' = [238, 234, 142, 38, 107, 206, 76, 195]
      \<and> disc hash ''event'' ''PumpAmmSold'' = [66, 145, 209, 9, 84, 220, 173, 113]
      \<and> disc hash ''global'' ''withdraw_pump_trader'' = [188, 237, 135, 114, 143, 224, 45, 178]
      \<and> disc hash ''event'' ''PumpTraderWithdrawn'' = [55, 235, 116, 220, 179, 244, 66, 235]
      \<and> disc hash ''global'' ''token_buy'' = [116, 167, 118, 40, 127, 96, 55, 234]
      \<and> disc hash ''global'' ''token_sell'' = [154, 76, 173, 221, 122, 208, 158, 103]
      \<and> disc hash ''event'' ''TokenBought'' = [197, 182, 3, 228, 82, 236, 7, 143]
      \<and> disc hash ''event'' ''TokenSold'' = [88, 61, 1, 247, 185, 6, 252, 86]"

text \<open>\<open>to_string\<close> of a key is compared through the number the string denotes (\<open>base58\<close>).\<close>

definition test_check_grant_cpi_surface_matches_core :: "(byte list \<Rightarrow> byte list) \<Rightarrow> bool" where
  "test_check_grant_cpi_surface_matches_core hash \<longleftrightarrow>
      CHECK_GRANT_DISCRIMINATOR = [223, 172, 131, 140, 15, 133, 209, 250]
      \<and> disc hash ''global'' ''check_grant'' = CHECK_GRANT_DISCRIMINATOR
      \<and> CHECK_GRANT_META_WRITABLE = [False, True, False, False]
      \<and> CHECK_GRANT_META_SIGNER = [False, False, True, False]
      \<and> CORE_ID = base58 ''44fxwzuEyNxZtgDr87mTtMYYJ1LJm6cB5aZNLyBsPjNd''
      \<and> length CHECK_GRANT_DISCRIMINATOR + 8 = 16"

definition test_discs_match_task_hex :: "(byte list \<Rightarrow> byte list) \<Rightarrow> bool" where
  "test_discs_match_task_hex hash \<longleftrightarrow>
      global_disc hash ''buy'' = [0x66, 0x06, 0x3d, 0x12, 0x01, 0xda, 0xeb, 0xea]
      \<and> global_disc hash ''sell'' = [0x33, 0xe6, 0x85, 0xa4, 0x01, 0x7f, 0x83, 0xad]
      \<and> global_disc hash ''create'' = [0x18, 0x1e, 0xc8, 0x28, 0x05, 0x1c, 0x07, 0x77]
      \<and> global_disc hash ''buy_v2'' = [0xb8, 0x17, 0xee, 0x61, 0x67, 0xc5, 0xd3, 0x3d]
      \<and> global_disc hash ''sell_v2'' = [0x5d, 0xf6, 0x82, 0x3c, 0xe7, 0xe9, 0x40, 0xb2]
      \<and> global_disc hash ''create_v2'' = [0xd6, 0x90, 0x4c, 0xec, 0x5f, 0x8b, 0x31, 0xb4]
      \<and> global_disc hash ''buy_v2'' = PUMP_BUY_V2_DISC
      \<and> global_disc hash ''sell_v2'' = PUMP_SELL_V2_DISC
      \<and> global_disc hash ''create_v2'' = PUMP_CREATE_V2_DISC
      \<and> global_disc hash ''buy_exact_quote_in'' = PUMP_AMM_BUY_EXACT_QUOTE_IN_DISC
      \<and> global_disc hash ''buy_exact_quote_in'' = [198, 46, 21, 82, 180, 217, 232, 112]
      \<and> global_disc hash ''sell'' = PUMP_AMM_SELL_DISC
      \<and> global_disc hash ''sell'' = [51, 230, 133, 164, 1, 127, 131, 173]
      \<and> global_disc hash ''sell'' \<noteq> global_disc hash ''sell_v2''"

section \<open>Assertions about values\<close>

definition audit_target_not_pump_amm_id_fails :: bool where
  "audit_target_not_pump_amm_id_fails \<longleftrightarrow>
      is_ok (require_pump_amm_program PUMP_AMM_PROGRAM_ID)
      \<and> is_err (require_pump_amm_program PUMP_PROGRAM_ID)
      \<and> is_err (require_pump_amm_program INTENTS_ID)"

definition audit_vault_as_user_fails :: "pubkey \<Rightarrow> pubkey \<Rightarrow> bool" where
  "audit_vault_as_user_fails vault trader \<longleftrightarrow>
      is_ok (require_pump_user_is_trader trader trader)
      \<and> is_err (require_pump_user_is_trader vault trader)
      \<and> is_err (require_pump_user_not_vault vault vault)
      \<and> is_ok (require_pump_user_not_vault trader vault)
      \<and> error_code (Pump PumpUserMustBeVault) = 21
      \<and> error_code (Pump PumpUserMustBeTrader) = 27"

definition audit_create_v2_disc_mint_must_be_signer :: "(byte list \<Rightarrow> byte list) \<Rightarrow> bool" where
  "audit_create_v2_disc_mint_must_be_signer hash \<longleftrightarrow>
      global_disc hash ''create_v2'' = PUMP_CREATE_V2_DISC
      \<and> global_disc hash ''create_v2'' = [0xd6, 0x90, 0x4c, 0xec, 0x5f, 0x8b, 0x31, 0xb4]
      \<and> is_ok (require_pump_mint_is_signer True)
      \<and> is_err (require_pump_mint_is_signer False)
      \<and> error_code (Pump PumpMintMustBeSigner) = 31"

definition audit_pump_amm_sell_official :: "(byte list \<Rightarrow> byte list) \<Rightarrow> bool" where
  "audit_pump_amm_sell_official hash \<longleftrightarrow>
      PUMP_AMM_SELL_DISC = global_disc hash ''sell''
      \<and> PUMP_AMM_SELL_DISC \<noteq> global_disc hash ''sell_v2''
      \<and> PUMP_AMM_SELL_DATA_LEN = 24
      \<and> PUMP_AMM_SELL_ACCOUNT_COUNT = 24
      \<and> PUMP_AMM_SELL_ACCOUNT_COUNT_CASHBACK = 26"

definition audit_pump_amm_sell_counts :: bool where
  "audit_pump_amm_sell_counts \<longleftrightarrow>
      PUMP_SELL_CHECK_GRANT_AMOUNT = 0
      \<and> PUMP_AMM_SELL_CHECK_GRANT_AMOUNT = 0
      \<and> is_ok (require_pump_amm_sell_account_count 24)
      \<and> is_err (require_pump_amm_sell_account_count 26)
      \<and> is_err (require_pump_amm_sell_account_count 27)"

definition audit_token_is_jupiter_v6 :: bool where
  "audit_token_is_jupiter_v6 \<longleftrightarrow>
      JUPITER_V6_PROGRAM_ID = base58 ''JUP6LkbZbjS1jKKwapdHNy74zcZ3tLUZoi5QNyVTaV4''
      \<and> USDC_MINT = base58 ''EPjFWdd5AufqSSqeM2qN1xzybapC8G4wEGGkZwyTDt1v''
      \<and> is_ok (require_jupiter_program JUPITER_V6_PROGRAM_ID)
      \<and> is_err (require_jupiter_program PUMP_PROGRAM_ID)
      \<and> error_code (Token JupiterProgramMismatch) = 49
      \<and> error_code (Token JupiterEmptyDataForbidden) = 50
      \<and> error_code (Token JupiterInAmountMismatch) = 51
      \<and> error_code (Token JupiterSourceOwnerNotTrader) = 52
      \<and> error_code (Token JupiterDestOwnerNotTrader) = 53
      \<and> error_code (Token TokenWrapMintMustBeWsol) = 54
      \<and> TOKEN_NON_SOL_CHECK_GRANT_AMOUNT = 0
      \<and> token_check_grant_amount WSOL_MINT True 5 = 5
      \<and> token_check_grant_amount USDC_MINT False 5 = 0"

section \<open>What they say of the program\<close>

text \<open>The assertions that do not hash hold; those that do pin the constants of the program to the names.\<close>

lemma values_hold:
  "audit_target_not_pump_amm_id_fails" "vault \<noteq> trader \<Longrightarrow> audit_vault_as_user_fails vault trader"
  "audit_pump_amm_sell_counts" "audit_token_is_jupiter_v6"
  by (simp_all add: audit_target_not_pump_amm_id_fails_def audit_vault_as_user_fails_def
      audit_pump_amm_sell_counts_def audit_token_is_jupiter_v6_def test_eval count_values
      JUPITER_V6_PROGRAM_ID_def [symmetric] USDC_MINT_def [symmetric])
    (simp_all add: key_simps)

lemma pinned:
  "test_account_instruction_event_discriminators h \<Longrightarrow>
   disc h ''account'' ''SpendVault'' = sv_disc \<and> disc h ''account'' ''Paymaster'' = pm_disc"
  "test_check_grant_cpi_surface_matches_core h \<Longrightarrow>
   ix_data (check_grant_ix g gr a t n) = disc h ''global'' ''check_grant'' @ word_bytes n"
  "test_discs_match_task_hex h \<Longrightarrow>
   take 8 (encode_pump_create_v2 nm sy uri cr m cb) = global_disc h ''create_v2''
   \<and> audit_create_v2_disc_mint_must_be_signer h \<and> audit_pump_amm_sell_official h"
  by (simp_all add: test_account_instruction_event_discriminators_def sv_disc_def pm_disc_def
      test_check_grant_cpi_surface_matches_core_def check_grant_ix_def test_discs_match_task_hex_def
      audit_create_v2_disc_mint_must_be_signer_def audit_pump_amm_sell_official_def test_eval
      encoder_values count_values PUMP_AMM_SELL_ACCOUNT_COUNT_CASHBACK_def)

text \<open>No two instructions of the table share a selector, so data built for one is never taken for another.\<close>

definition selectors :: "string list" where
  "selectors =
     [''init_spend_vault'', ''fund_spend_vault'', ''withdraw_spend_vault'', ''init_paymaster'',
      ''fund_paymaster'', ''withdraw_paymaster'', ''set_relayer'', ''pause_paymaster'',
      ''unpause_paymaster'', ''pay'', ''swap'', ''deploy'', ''call'', ''pump_buy'', ''pump_sell'',
      ''init_pump_trader'', ''fund_pump_trader'', ''pump_create'', ''pump_amm_buy'',
      ''pump_amm_sell'', ''withdraw_pump_trader'', ''token_buy'', ''token_sell'']"

lemma selectors_distinct:
  "test_account_instruction_event_discriminators h \<Longrightarrow> distinct (map (disc h ''global'') selectors)"
  by (simp add: test_account_instruction_event_discriminators_def selectors_def)

text \<open>The tests can pass together: a hash that is right on the names they mention, and on the other entry points.\<close>

definition known_discs :: "(string \<times> byte list) list" where
  "known_discs =
     [(''account:SpendVault'', [75, 166, 253, 76, 235, 57, 134, 93]), (''account:Paymaster'', [79,
      131, 123, 96, 75, 37, 131, 106]), (''global:init_spend_vault'', [241, 173, 7, 179, 120, 124,
      213, 61]), (''global:fund_spend_vault'', [105, 178, 22, 113, 64, 88, 201, 233]),
      (''global:withdraw_spend_vault'', [41, 235, 152, 150, 129, 122, 224, 37]),
      (''global:init_paymaster'', [23, 62, 252, 40, 178, 70, 114, 54]), (''global:fund_paymaster'',
      [84, 67, 136, 170, 168, 163, 220, 103]), (''global:withdraw_paymaster'', [54, 60, 197, 226,
      34, 179, 149, 189]), (''global:set_relayer'', [23, 243, 33, 88, 110, 84, 196, 37]),
      (''global:pause_paymaster'', [97, 26, 152, 173, 59, 148, 244, 77]),
      (''global:unpause_paymaster'', [143, 248, 211, 216, 98, 113, 49, 251]), (''global:pay'', [119,
      18, 216, 65, 192, 117, 122, 220]), (''global:swap'', [248, 198, 158, 145, 225, 117, 135,
      200]), (''global:deploy'', [67, 36, 143, 118, 36, 164, 92, 217]), (''global:call'', [181, 94,
      56, 161, 194, 221, 200, 3]), (''event:Paid'', [240, 193, 17, 238, 238, 210, 129, 235]),
      (''event:Sponsored'', [13, 53, 40, 13, 165, 80, 85, 131]), (''event:Swapped'', [217, 52, 52,
      83, 147, 135, 96, 109]), (''event:DeployRequested'', [236, 93, 153, 180, 211, 112, 67, 252]),
      (''event:Called'', [30, 97, 254, 149, 60, 38, 255, 5]), (''global:pump_buy'', [82, 225, 119,
      231, 78, 29, 45, 70]), (''global:pump_sell'', [93, 88, 60, 34, 91, 18, 86, 197]),
      (''event:PumpBought'', [209, 183, 238, 75, 181, 1, 117, 110]), (''event:PumpSold'', [17, 201,
      39, 152, 27, 110, 49, 106]), (''global:init_pump_trader'', [92, 98, 75, 2, 93, 219, 250, 5]),
      (''global:fund_pump_trader'', [63, 189, 216, 54, 81, 101, 241, 97]),
      (''event:PumpTraderInitialized'', [197, 80, 95, 239, 242, 153, 144, 179]),
      (''event:PumpTraderFunded'', [60, 253, 86, 159, 109, 54, 46, 170]), (''global:pump_create'',
      [24, 176, 142, 141, 243, 152, 56, 128]), (''event:PumpCreated'', [126, 79, 125, 229, 148, 39,
      13, 70]), (''global:pump_amm_buy'', [129, 59, 179, 195, 110, 135, 61, 2]),
      (''event:PumpAmmBought'', [234, 79, 225, 112, 20, 215, 78, 43]), (''global:pump_amm_sell'',
      [238, 234, 142, 38, 107, 206, 76, 195]), (''event:PumpAmmSold'', [66, 145, 209, 9, 84, 220,
      173, 113]), (''global:withdraw_pump_trader'', [188, 237, 135, 114, 143, 224, 45, 178]),
      (''event:PumpTraderWithdrawn'', [55, 235, 116, 220, 179, 244, 66, 235]),
      (''global:token_buy'', [116, 167, 118, 40, 127, 96, 55, 234]), (''global:token_sell'', [154,
      76, 173, 221, 122, 208, 158, 103]), (''event:TokenBought'', [197, 182, 3, 228, 82, 236, 7,
      143]), (''event:TokenSold'', [88, 61, 1, 247, 185, 6, 252, 86]), (''global:check_grant'',
      [223, 172, 131, 140, 15, 133, 209, 250]), (''global:buy'', [0x66, 0x06, 0x3d, 0x12, 0x01,
      0xda, 0xeb, 0xea]), (''global:sell'', [0x33, 0xe6, 0x85, 0xa4, 0x01, 0x7f, 0x83, 0xad]),
      (''global:create'', [0x18, 0x1e, 0xc8, 0x28, 0x05, 0x1c, 0x07, 0x77]), (''global:buy_v2'',
      [0xb8, 0x17, 0xee, 0x61, 0x67, 0xc5, 0xd3, 0x3d]), (''global:sell_v2'', [0x5d, 0xf6, 0x82,
      0x3c, 0xe7, 0xe9, 0x40, 0xb2]), (''global:create_v2'', [0xd6, 0x90, 0x4c, 0xec, 0x5f, 0x8b,
      0x31, 0xb4]), (''global:buy_exact_quote_in'', [198, 46, 21, 82, 180, 217, 232, 112]),
      (''global:issue_sub_grant'', [70, 3, 13, 77, 155, 184, 166, 177]),
      (''global:revise_sub_grant'', [10, 206, 227, 230, 30, 200, 30, 197]),
      (''global:revoke_sub_grant'', [175, 168, 35, 194, 158, 69, 17, 147]),
      (''global:init_sponsor_fee'', [177, 104, 19, 158, 146, 247, 138, 177]),
      (''global:set_sponsor_fee'', [19, 21, 185, 21, 252, 201, 172, 211]),
      (''global:burn_collected_fees'', [69, 37, 174, 6, 164, 154, 123, 157]),
      (''global:init_merchant_registry'', [50, 15, 122, 207, 163, 181, 242, 7]),
      (''global:add_merchant'', [198, 82, 166, 156, 165, 93, 203, 72]),
      (''global:remove_merchant'', [55, 213, 255, 172, 106, 179, 207, 38]),
      (''global:pay_token'', [165, 233, 248, 250, 110, 155, 215, 142]),
      (''global:create_subscription'', [65, 71, 10, 60, 249, 82, 197, 12]),
      (''global:cancel_subscription'', [60, 139, 189, 242, 191, 208, 143, 18]),
      (''global:pay_subscription'', [214, 139, 186, 253, 169, 248, 196, 11])]"

definition table_hash :: "byte list \<Rightarrow> byte list" where
  "table_hash bs = the (map_of known_discs (map (\<lambda>b. char_of (unat b)) bs))"

lemma byte_char: "char_of (unat (of_char c :: byte)) = c"
proof -
  have "(of_char c :: byte) = of_nat (of_char c :: nat)" and "(of_char c :: nat) < 256"
    by (simp_all add: of_nat_of_char)
  then show ?thesis
    by (simp add: unat_of_nat take_bit_eq_mod)
qed

lemma known_names_distinct: "distinct (map fst known_discs)"
  unfolding known_discs_def by code_simp

lemma table_hash_known: "list_all (\<lambda>(s, bs). table_hash (ascii s) = bs) known_discs"
  using known_names_distinct
  by (auto simp: list_all_iff table_hash_def ascii_def comp_def byte_char)

lemma tests_pass_together:
  "test_account_instruction_event_discriminators table_hash
   \<and> test_check_grant_cpi_surface_matches_core table_hash \<and> test_discs_match_task_hex table_hash"
  using table_hash_known unfolding known_discs_def list.pred_inject prod.case
  by (simp add: test_account_instruction_event_discriminators_def disc_def global_disc_def
      test_check_grant_cpi_surface_matches_core_def test_discs_match_task_hex_def CHECK_GRANT_DISCRIMINATOR_def
      CHECK_GRANT_META_WRITABLE_def CHECK_GRANT_META_SIGNER_def CORE_ID_def encoder_values)

end
