(* ===== verification/Arguments.thy ===== *)
theory Arguments imports Layouts begin

text \<open>
  The argument structs of \<open>state.rs\<close> on the wire: Borsh writes the fields in the order of the
  struct, a \<open>String\<close> as its UTF-8 bytes and a \<open>Vec<u8>\<close> as its bytes, each after a \<open>u32\<close> length.
  The decoder of a \<open>String\<close> refuses bytes that are not UTF-8, as \<open>String::from_utf8\<close> does
  (continuation bytes out of place, overlong forms, surrogates, values above \<open>0x10FFFF\<close>).
  Every codec is interpreted as \<open>borsh\<close>, and as \<open>fixed_borsh\<close> where the struct has a fixed size.
\<close>

section \<open>Strings\<close>

definition scalar_value :: "nat \<Rightarrow> bool" where
  "scalar_value c \<longleftrightarrow> c < 0x110000 \<and> \<not> (0xD800 \<le> c \<and> c < 0xE000)"

primrec utf8_tail :: "nat \<Rightarrow> nat \<Rightarrow> nat decoder" where
  "utf8_tail 0 c bs = Some (c, bs)"
| "utf8_tail (Suc n) c bs =
     (case bs of
        [] \<Rightarrow> None
      | b # bs \<Rightarrow>
          if 128 \<le> unat b \<and> unat b < 192 then utf8_tail n (64 * c + (unat b - 128)) bs else None)"

definition utf8_long :: "nat \<Rightarrow> (nat \<times> byte list) option \<Rightarrow> (nat \<times> byte list) option" where
  "utf8_long least p = do {
      (c, bs) \<leftarrow> p;
      if least \<le> c \<and> scalar_value c then Some (c, bs) else None }"

fun utf8_next :: "nat decoder" where
  "utf8_next [] = None"
| "utf8_next (b # bs) =
     (if unat b < 128 then Some (unat b, bs)
      else if unat b < 192 then None
      else if unat b < 224 then utf8_long 128 (utf8_tail 1 (unat b - 192) bs)
      else if unat b < 240 then utf8_long 2048 (utf8_tail 2 (unat b - 224) bs)
      else if unat b < 248 then utf8_long 65536 (utf8_tail 3 (unat b - 240) bs)
      else None)"

definition byte_of :: "nat \<Rightarrow> byte" where
  "byte_of n = word_of_nat n"

lemma unat_byte_of [simp]: "n < 256 \<Longrightarrow> unat (byte_of n) = n"
  by (simp add: byte_of_def unat_of_nat)

lemma unat_byte_iff: "unat b = n \<longleftrightarrow> n < 256 \<and> b = byte_of n" for b :: byte
  using unsigned_less [of b] by (auto simp: byte_of_def unat_of_nat)

lemma byte_in_range:
  fixes b :: byte
  assumes "lo + n \<le> 256"
  shows "lo \<le> unat b \<and> unat b < lo + n \<longleftrightarrow> (\<exists>x < n. b = byte_of (lo + x))"
proof
  assume b: "lo \<le> unat b \<and> unat b < lo + n"
  then obtain x where x: "unat b = lo + x"
    using le_Suc_ex by blast
  with b have "x < n" "b = byte_of (lo + x)"
    using unat_byte_iff by auto
  then show "\<exists>x < n. b = byte_of (lo + x)"
    by blast
next
  assume "\<exists>x < n. b = byte_of (lo + x)"
  with assms show "lo \<le> unat b \<and> unat b < lo + n"
    by auto
qed

text \<open>A tail of \<open>n\<close> bytes carries \<open>6 n\<close> bits.\<close>

primrec tail_bytes :: "nat \<Rightarrow> nat \<Rightarrow> byte list" where
  "tail_bytes 0 c = []"
| "tail_bytes (Suc n) c = byte_of (128 + c div 64 ^ n mod 64) # tail_bytes n c"

lemma tail_bytes_high: "tail_bytes n (64 ^ n * x + d) = tail_bytes n d"
proof -
  have "k \<le> n \<Longrightarrow> tail_bytes k (64 ^ n * x + d) = tail_bytes k d" for k
  proof (induction k)
    case 0
    then show ?case by simp
  next
    case (Suc k)
    then obtain m where "n = Suc k + m"
      using le_Suc_ex by blast
    then have "64 ^ n * x + d = d + 64 ^ k * (64 * (64 ^ m * x))"
      by (simp add: power_add)
    then have "(64 ^ n * x + d) div 64 ^ k = 64 * (64 ^ m * x) + d div 64 ^ k"
      by (simp only: div_mult_self4 div_mult_self1 power_not_zero) simp
    then have "(64 ^ n * x + d) div 64 ^ k mod 64 = d div 64 ^ k mod 64"
      by simp
    with Suc show ?case
      by simp
  qed
  then show ?thesis by simp
qed

lemma utf8_tail_iff:
  "utf8_tail n a bs = Some (c, r) \<longleftrightarrow> (\<exists>d < 64 ^ n. c = 64 ^ n * a + d \<and> bs = tail_bytes n d @ r)"
proof (induction n arbitrary: a bs)
  case 0
  then show ?case by auto
next
  case (Suc n)
  have "utf8_tail (Suc n) a bs = Some (c, r) \<longleftrightarrow>
      (\<exists>x < 64. \<exists>d < 64 ^ n. c = 64 ^ n * (64 * a + x) + d \<and> bs = byte_of (128 + x) # tail_bytes n d @ r)"
    using byte_in_range [of 128 64]
    by (cases bs) (auto simp: Suc)
  also have "\<dots> \<longleftrightarrow> (\<exists>e < 64 ^ Suc n. c = 64 ^ Suc n * a + e \<and> bs = tail_bytes (Suc n) e @ r)"
  proof safe
    fix x d :: nat
    assume x: "x < 64" and d: "d < 64 ^ n"
    have "64 ^ n * x + d < 64 ^ n * (x + 1)"
      using d by simp
    also have "\<dots> \<le> 64 ^ Suc n"
      using x by (subst power_Suc2, intro mult_le_mono2) simp
    finally have "64 ^ n * x + d < 64 ^ Suc n" .
    moreover have "tail_bytes (Suc n) (64 ^ n * x + d) = byte_of (128 + x) # tail_bytes n d"
      using x d tail_bytes_high [of n x d] by simp
    ultimately show "\<exists>e < 64 ^ Suc n. 64 ^ n * (64 * a + x) + d = 64 ^ Suc n * a + e
        \<and> byte_of (128 + x) # tail_bytes n d @ r = tail_bytes (Suc n) e @ r"
      by (intro exI [of _ "64 ^ n * x + d"]) (simp add: algebra_simps)
  next
    fix e :: nat
    assume e: "e < 64 ^ Suc n"
    define x d where "x = e div 64 ^ n" and "d = e mod 64 ^ n"
    have "x < 64" "d < 64 ^ n" and split: "e = 64 ^ n * x + d"
      using e by (simp_all add: x_def d_def less_mult_imp_div_less)
    then show "\<exists>x < 64. \<exists>d < 64 ^ n. 64 ^ Suc n * a + e = 64 ^ n * (64 * a + x) + d
        \<and> tail_bytes (Suc n) e @ r = byte_of (128 + x) # tail_bytes n d @ r"
      using tail_bytes_high [of n x d]
      by (intro exI [of _ x] conjI exI [of _ d]) (simp_all add: algebra_simps)
  qed
  finally show ?case .
qed

lemma utf8_long_iff:
  "utf8_long least p = Some (c, r) \<longleftrightarrow> p = Some (c, r) \<and> least \<le> c \<and> scalar_value c"
  by (auto simp: utf8_long_def bind_eq_Some_conv)

lemma utf8_char_tail:
  "c < 128 \<Longrightarrow> utf8_char c = [byte_of c]"
  "128 \<le> c \<Longrightarrow> c < 2048 \<Longrightarrow> utf8_char c = byte_of (192 + c div 64) # tail_bytes 1 c"
  "2048 \<le> c \<Longrightarrow> c < 65536 \<Longrightarrow> utf8_char c = byte_of (224 + c div 4096) # tail_bytes 2 c"
  "65536 \<le> c \<Longrightarrow> utf8_char c = byte_of (240 + c div 262144) # tail_bytes 3 c"
  by (simp_all add: utf8_char_def byte_of_def numeral_2_eq_2 numeral_3_eq_3)

lemma utf8_tail_eq:
  "utf8_tail n a bs = Some (c, r) \<longleftrightarrow> a = c div 64 ^ n \<and> bs = tail_bytes n c @ r"
proof
  assume "utf8_tail n a bs = Some (c, r)"
  then show "a = c div 64 ^ n \<and> bs = tail_bytes n c @ r"
    using tail_bytes_high by (auto simp: utf8_tail_iff)
next
  assume "a = c div 64 ^ n \<and> bs = tail_bytes n c @ r"
  then show "utf8_tail n a bs = Some (c, r)"
    unfolding utf8_tail_iff using tail_bytes_high [of n "c div 64 ^ n" "c mod 64 ^ n"]
    by (intro exI [of _ "c mod 64 ^ n"]) simp
qed

declare utf8_tail.simps [simp del] tail_bytes.simps [simp del]

lemma utf8_next_iff:
  "utf8_next bs = Some (c, r) \<longleftrightarrow> scalar_value c \<and> bs = utf8_char c @ r"
proof
  assume dec: "utf8_next bs = Some (c, r)"
  then obtain b rest where bs: "bs = b # rest"
    by (cases bs) auto
  consider "unat b < 128" | "192 \<le> unat b" "unat b < 224" | "224 \<le> unat b" "unat b < 240"
    | "240 \<le> unat b" "unat b < 248"
    using dec bs by (auto split: if_splits)
  then show "scalar_value c \<and> bs = utf8_char c @ r"
  proof cases
    case 1
    then show ?thesis
      using dec bs unat_byte_iff [of b c] by (auto simp: scalar_value_def utf8_char_tail)
  next
    case 2
    then have "unat b = 192 + c div 64" "c < 2048"
      using dec bs by (auto simp: utf8_long_iff utf8_tail_eq)
    then show ?thesis
      using dec bs 2 by (auto simp: utf8_long_iff utf8_tail_eq utf8_char_tail unat_byte_iff)
  next
    case 3
    then have "unat b = 224 + c div 4096" "c < 65536"
      using dec bs by (auto simp: utf8_long_iff utf8_tail_eq)
    then show ?thesis
      using dec bs 3 by (auto simp: utf8_long_iff utf8_tail_eq utf8_char_tail unat_byte_iff)
  next
    case 4
    then have "unat b = 240 + c div 262144"
      using dec bs by (auto simp: utf8_long_iff utf8_tail_eq)
    then show ?thesis
      using dec bs 4 by (auto simp: utf8_long_iff utf8_tail_eq utf8_char_tail unat_byte_iff)
  qed
next
  assume "scalar_value c \<and> bs = utf8_char c @ r"
  then have "scalar_value c" and bs: "bs = utf8_char c @ r"
    by simp_all
  then have max: "c < 0x110000"
    by (simp add: scalar_value_def)
  consider "c < 128" | "128 \<le> c" "c < 2048" | "2048 \<le> c" "c < 65536" | "65536 \<le> c"
    by linarith
  then show "utf8_next bs = Some (c, r)"
  proof cases
    case 1
    then show ?thesis
      by (simp add: bs utf8_char_tail)
  next
    case 2
    then have "c div 64 < 32" by auto
    with 2 \<open>scalar_value c\<close> show ?thesis
      by (simp add: bs utf8_char_tail utf8_long_iff utf8_tail_eq)
  next
    case 3
    then have "c div 4096 < 16" by auto
    with 3 \<open>scalar_value c\<close> show ?thesis
      by (simp add: bs utf8_char_tail utf8_long_iff utf8_tail_eq)
  next
    case 4
    then have "c div 262144 < 8" using max by auto
    with 4 \<open>scalar_value c\<close> show ?thesis
      by (simp add: bs utf8_char_tail utf8_long_iff utf8_tail_eq)
  qed
qed

lemma utf8_char_nonempty [simp]: "utf8_char c \<noteq> []"
  by (simp add: utf8_char_def)

lemma utf8_next_shorter: "utf8_next bs = Some (c, r) \<Longrightarrow> length r < length bs"
  by (simp add: utf8_next_iff)

text \<open>\<open>String::from_utf8\<close>: every step consumes at least one byte.\<close>

function from_utf8 :: "byte list \<Rightarrow> rust_str option" where
  "from_utf8 bs =
     (if bs = [] then Some []
      else case utf8_next bs of
             None \<Rightarrow> None
           | Some (c, rest) \<Rightarrow> map_option ((#) c) (from_utf8 rest))"
  by pat_completeness simp

termination
  by (relation "measure length") (auto simp: utf8_next_shorter)

declare from_utf8.simps [simp del]

lemma from_utf8_Nil [simp]: "from_utf8 [] = Some []"
  by (simp add: from_utf8.simps)

lemma from_utf8_step:
  "bs \<noteq> [] \<Longrightarrow> from_utf8 bs = Some s \<longleftrightarrow>
   (\<exists>c rest t. utf8_next bs = Some (c, rest) \<and> from_utf8 rest = Some t \<and> s = c # t)"
  by (subst from_utf8.simps) (auto split: option.splits)

lemma from_utf8_iff: "from_utf8 bs = Some s \<longleftrightarrow> (\<forall>c \<in> set s. scalar_value c) \<and> bs = as_bytes s"
proof
  show "from_utf8 bs = Some s \<Longrightarrow> (\<forall>c \<in> set s. scalar_value c) \<and> bs = as_bytes s"
  proof (induction bs arbitrary: s rule: from_utf8.induct)
    case (1 bs)
    then show ?case
      by (cases "bs = []") (auto simp: from_utf8_step utf8_next_iff as_bytes_def)
  qed
next
  have "\<forall>c \<in> set s. scalar_value c \<Longrightarrow> from_utf8 (as_bytes s) = Some s"
  proof (induction s)
    case Nil
    then show ?case
      by (simp add: as_bytes_def)
  next
    case (Cons c s)
    then have "utf8_next (utf8_char c @ as_bytes s) = Some (c, as_bytes s)"
      by (simp add: utf8_next_iff)
    with Cons show ?case
      by (simp add: as_bytes_def from_utf8_step)
  qed
  then show "(\<forall>c \<in> set s. scalar_value c) \<and> bs = as_bytes s \<Longrightarrow> from_utf8 bs = Some s"
    by simp
qed

definition dec_string :: "rust_str decoder" where
  "dec_string bs = do {
      (n, bs) \<leftarrow> (dec_word :: u32 decoder) bs;
      if unat n \<le> length bs then do { s \<leftarrow> from_utf8 (take (unat n) bs); Some (s, drop (unat n) bs) }
      else None }"

definition sendable :: "rust_str \<Rightarrow> bool" where
  "sendable s \<longleftrightarrow> (\<forall>c \<in> set s. scalar_value c) \<and> length (as_bytes s) < 2 ^ 32"

lemma dec_string_iff [borsh_simps]:
  "dec_string bs = Some (s, r) \<longleftrightarrow> sendable s \<and> bs = encode_borsh_string s @ r"
proof
  assume "dec_string bs = Some (s, r)"
  then obtain n rest where bs: "bs = word_bytes (n :: u32) @ rest" and n: "unat n \<le> length rest"
    and s: "\<forall>c \<in> set s. scalar_value c" "take (unat n) rest = as_bytes s" "drop (unat n) rest = r"
    by (auto simp: dec_string_def bind_eq_Some_conv borsh_simps from_utf8_iff split: if_splits)
  then have len: "unat n = length (as_bytes s)" "rest = as_bytes s @ r"
    by (metis length_take min.absorb2, metis append_take_drop_id)
  then have "n = word_of_nat (length (as_bytes s))" "length (as_bytes s) < 2 ^ 32"
    using unsigned_less [of n, where 'a = nat] by (simp_all flip: len(1))
  with s bs len show "sendable s \<and> bs = encode_borsh_string s @ r"
    by (simp add: sendable_def encode_borsh_string_def)
next
  assume "sendable s \<and> bs = encode_borsh_string s @ r"
  then show "dec_string bs = Some (s, r)"
    by (auto simp: dec_string_def sendable_def encode_borsh_string_def bind_eq_Some_conv borsh_simps
        from_utf8_iff unat_of_nat)
qed

interpretation string_codec: borsh encode_borsh_string dec_string sendable
  by unfold_locales (rule dec_string_iff)

section \<open>The structs\<close>

interpretation bytes_codec: borsh "enc_vec word_bytes" "dec_vec (dec_word :: u8 decoder)" "\<lambda>xs. length xs < 2 ^ 32"
  by unfold_locales (simp add: u8_codec.dec_vec_iff)

lemmas dec_bytes_iff [borsh_simps] = bytes_codec.dec_iff

lemma strings_inject [borsh_simps]:
  "sendable s \<Longrightarrow> sendable t \<Longrightarrow>
   encode_borsh_string s @ r = encode_borsh_string t @ u \<longleftrightarrow> s = t \<and> r = u"
  using string_codec.enc_prefix_free [of s t r u] by blast

lemma bytes_inject [borsh_simps]:
  "length xs < 2 ^ 32 \<Longrightarrow> length ys < 2 ^ 32 \<Longrightarrow>
   enc_vec word_bytes (xs :: byte list) = enc_vec word_bytes ys \<longleftrightarrow> xs = ys"
  using bytes_codec.enc_prefix_free [of xs ys "[]" "[]"] by auto

definition enc_pay_args :: "pay_args \<Rightarrow> byte list" where
  "enc_pay_args x =
     word_bytes (pa_amount_lamports x) @ word_bytes (pa_sponsor_lamports x)"

definition dec_pay_args :: "pay_args decoder" where
  "dec_pay_args bs = do {
      (amount_lamports, bs) \<leftarrow> dec_word bs; (sponsor_lamports, bs) \<leftarrow> dec_word bs;
      Some (\<lparr>pa_amount_lamports = amount_lamports, pa_sponsor_lamports = sponsor_lamports\<rparr>, bs) }"

interpretation pa_codec: fixed_borsh enc_pay_args dec_pay_args "\<lambda>_. True" 16
  by unfold_locales (auto simp: enc_pay_args_def dec_pay_args_def bind_eq_Some_conv borsh_simps)

definition enc_swap_args :: "swap_args \<Rightarrow> byte list" where
  "enc_swap_args x =
     word_bytes (sw_amount_in_lamports x) @ word_bytes (sw_min_out_lamports x) @
     word_bytes (sw_sponsor_lamports x)"

definition dec_swap_args :: "swap_args decoder" where
  "dec_swap_args bs = do {
      (amount_in_lamports, bs) \<leftarrow> dec_word bs; (min_out_lamports, bs) \<leftarrow> dec_word bs;
      (sponsor_lamports, bs) \<leftarrow> dec_word bs;
      Some (\<lparr>sw_amount_in_lamports = amount_in_lamports, sw_min_out_lamports = min_out_lamports,
         sw_sponsor_lamports = sponsor_lamports\<rparr>, bs) }"

interpretation sw_codec: fixed_borsh enc_swap_args dec_swap_args "\<lambda>_. True" 24
  by unfold_locales (auto simp: enc_swap_args_def dec_swap_args_def bind_eq_Some_conv borsh_simps)

definition enc_deploy_args :: "deploy_args \<Rightarrow> byte list" where
  "enc_deploy_args x =
     word_bytes (dp_sponsor_lamports x) @ pubkey_bytes (dp_program_id x)"

definition dec_deploy_args :: "deploy_args decoder" where
  "dec_deploy_args bs = do {
      (sponsor_lamports, bs) \<leftarrow> dec_word bs; (program_id, bs) \<leftarrow> dec_pubkey bs;
      Some (\<lparr>dp_sponsor_lamports = sponsor_lamports, dp_program_id = program_id\<rparr>, bs) }"

interpretation dp_codec: fixed_borsh enc_deploy_args dec_deploy_args "\<lambda>_. True" 40
  by unfold_locales (auto simp: enc_deploy_args_def dec_deploy_args_def bind_eq_Some_conv borsh_simps)

definition enc_call_args :: "call_args \<Rightarrow> byte list" where
  "enc_call_args x =
     word_bytes (ca_amount_lamports x) @ word_bytes (ca_sponsor_lamports x) @
     pubkey_bytes (ca_target_program x)"

definition dec_call_args :: "call_args decoder" where
  "dec_call_args bs = do {
      (amount_lamports, bs) \<leftarrow> dec_word bs; (sponsor_lamports, bs) \<leftarrow> dec_word bs;
      (target_program, bs) \<leftarrow> dec_pubkey bs;
      Some (\<lparr>ca_amount_lamports = amount_lamports, ca_sponsor_lamports = sponsor_lamports,
         ca_target_program = target_program\<rparr>, bs) }"

interpretation ca_codec: fixed_borsh enc_call_args dec_call_args "\<lambda>_. True" 48
  by unfold_locales (auto simp: enc_call_args_def dec_call_args_def bind_eq_Some_conv borsh_simps)

definition enc_pump_buy_args :: "pump_buy_args \<Rightarrow> byte list" where
  "enc_pump_buy_args x =
     word_bytes (pb_amount x) @ word_bytes (pb_max_sol_cost x) @
     word_bytes (pb_sponsor_lamports x)"

definition dec_pump_buy_args :: "pump_buy_args decoder" where
  "dec_pump_buy_args bs = do {
      (amount, bs) \<leftarrow> dec_word bs; (max_sol_cost, bs) \<leftarrow> dec_word bs;
      (sponsor_lamports, bs) \<leftarrow> dec_word bs;
      Some (\<lparr>pb_amount = amount, pb_max_sol_cost = max_sol_cost, pb_sponsor_lamports = sponsor_lamports\<rparr>, bs) }"

interpretation pb_codec: fixed_borsh enc_pump_buy_args dec_pump_buy_args "\<lambda>_. True" 24
  by unfold_locales (auto simp: enc_pump_buy_args_def dec_pump_buy_args_def bind_eq_Some_conv borsh_simps)

definition enc_pump_sell_args :: "pump_sell_args \<Rightarrow> byte list" where
  "enc_pump_sell_args x =
     word_bytes (ps_amount x) @ word_bytes (ps_min_sol_output x) @
     word_bytes (ps_sponsor_lamports x)"

definition dec_pump_sell_args :: "pump_sell_args decoder" where
  "dec_pump_sell_args bs = do {
      (amount, bs) \<leftarrow> dec_word bs; (min_sol_output, bs) \<leftarrow> dec_word bs;
      (sponsor_lamports, bs) \<leftarrow> dec_word bs;
      Some (\<lparr>ps_amount = amount, ps_min_sol_output = min_sol_output, ps_sponsor_lamports = sponsor_lamports\<rparr>, bs) }"

interpretation ps_codec: fixed_borsh enc_pump_sell_args dec_pump_sell_args "\<lambda>_. True" 24
  by unfold_locales (auto simp: enc_pump_sell_args_def dec_pump_sell_args_def bind_eq_Some_conv borsh_simps)

definition enc_pump_create_args :: "pump_create_args \<Rightarrow> byte list" where
  "enc_pump_create_args x =
     encode_borsh_string (pc_name x) @ encode_borsh_string (pc_symbol x) @
     encode_borsh_string (pc_uri x) @ [bool_byte (pc_is_mayhem_mode x)] @
     [bool_byte (pc_is_cashback_enabled x)] @ word_bytes (pc_max_sol_cost x) @
     word_bytes (pc_sponsor_lamports x)"

definition dec_pump_create_args :: "pump_create_args decoder" where
  "dec_pump_create_args bs = do {
      (name, bs) \<leftarrow> dec_string bs; (symbol, bs) \<leftarrow> dec_string bs;
      (uri, bs) \<leftarrow> dec_string bs; (is_mayhem_mode, bs) \<leftarrow> dec_bool bs;
      (is_cashback_enabled, bs) \<leftarrow> dec_bool bs; (max_sol_cost, bs) \<leftarrow> dec_word bs;
      (sponsor_lamports, bs) \<leftarrow> dec_word bs;
      Some (\<lparr>pc_name = name, pc_symbol = symbol, pc_uri = uri, pc_is_mayhem_mode = is_mayhem_mode,
         pc_is_cashback_enabled = is_cashback_enabled, pc_max_sol_cost = max_sol_cost,
         pc_sponsor_lamports = sponsor_lamports\<rparr>, bs) }"

interpretation pc_codec: borsh enc_pump_create_args dec_pump_create_args
  "\<lambda>x. sendable (pc_name x) \<and> sendable (pc_symbol x) \<and> sendable (pc_uri x)"
  by unfold_locales
    (auto simp: enc_pump_create_args_def dec_pump_create_args_def bind_eq_Some_conv borsh_simps cong: conj_cong)

definition enc_pump_amm_buy_args :: "pump_amm_buy_args \<Rightarrow> byte list" where
  "enc_pump_amm_buy_args x =
     word_bytes (ab_spendable_quote_in x) @ word_bytes (ab_min_base_amount_out x) @
     word_bytes (ab_max_sol_cost x) @ word_bytes (ab_sponsor_lamports x)"

definition dec_pump_amm_buy_args :: "pump_amm_buy_args decoder" where
  "dec_pump_amm_buy_args bs = do {
      (spendable_quote_in, bs) \<leftarrow> dec_word bs; (min_base_amount_out, bs) \<leftarrow> dec_word bs;
      (max_sol_cost, bs) \<leftarrow> dec_word bs; (sponsor_lamports, bs) \<leftarrow> dec_word bs;
      Some (\<lparr>ab_spendable_quote_in = spendable_quote_in, ab_min_base_amount_out = min_base_amount_out,
         ab_max_sol_cost = max_sol_cost, ab_sponsor_lamports = sponsor_lamports\<rparr>, bs) }"

interpretation ab_codec: fixed_borsh enc_pump_amm_buy_args dec_pump_amm_buy_args "\<lambda>_. True" 32
  by unfold_locales (auto simp: enc_pump_amm_buy_args_def dec_pump_amm_buy_args_def bind_eq_Some_conv borsh_simps)

definition enc_pump_amm_sell_args :: "pump_amm_sell_args \<Rightarrow> byte list" where
  "enc_pump_amm_sell_args x =
     word_bytes (as_base_amount_in x) @ word_bytes (as_min_quote_amount_out x) @
     word_bytes (as_sponsor_lamports x)"

definition dec_pump_amm_sell_args :: "pump_amm_sell_args decoder" where
  "dec_pump_amm_sell_args bs = do {
      (base_amount_in, bs) \<leftarrow> dec_word bs; (min_quote_amount_out, bs) \<leftarrow> dec_word bs;
      (sponsor_lamports, bs) \<leftarrow> dec_word bs;
      Some (\<lparr>as_base_amount_in = base_amount_in, as_min_quote_amount_out = min_quote_amount_out,
         as_sponsor_lamports = sponsor_lamports\<rparr>, bs) }"

interpretation as_codec: fixed_borsh enc_pump_amm_sell_args dec_pump_amm_sell_args "\<lambda>_. True" 24
  by unfold_locales (auto simp: enc_pump_amm_sell_args_def dec_pump_amm_sell_args_def bind_eq_Some_conv borsh_simps)

definition enc_token_buy_args :: "token_buy_args \<Rightarrow> byte list" where
  "enc_token_buy_args x =
     word_bytes (tb_in_amount x) @ word_bytes (tb_min_out x) @
     word_bytes (tb_sponsor_lamports x) @ pubkey_bytes (tb_input_mint x) @
     pubkey_bytes (tb_output_mint x) @ [bool_byte (tb_wrap_sol x)] @
     enc_vec word_bytes (tb_jupiter_data x)"

definition dec_token_buy_args :: "token_buy_args decoder" where
  "dec_token_buy_args bs = do {
      (in_amount, bs) \<leftarrow> dec_word bs; (min_out, bs) \<leftarrow> dec_word bs;
      (sponsor_lamports, bs) \<leftarrow> dec_word bs; (input_mint, bs) \<leftarrow> dec_pubkey bs;
      (output_mint, bs) \<leftarrow> dec_pubkey bs; (wrap_sol, bs) \<leftarrow> dec_bool bs;
      (jupiter_data, bs) \<leftarrow> dec_vec dec_word bs;
      Some (\<lparr>tb_in_amount = in_amount, tb_min_out = min_out, tb_sponsor_lamports = sponsor_lamports,
         tb_input_mint = input_mint, tb_output_mint = output_mint, tb_wrap_sol = wrap_sol,
         tb_jupiter_data = jupiter_data\<rparr>, bs) }"

interpretation tb_codec: borsh enc_token_buy_args dec_token_buy_args
  "\<lambda>x. length (tb_jupiter_data x) < 2 ^ 32"
  by unfold_locales
    (auto simp: enc_token_buy_args_def dec_token_buy_args_def bind_eq_Some_conv borsh_simps cong: conj_cong)

definition enc_token_sell_args :: "token_sell_args \<Rightarrow> byte list" where
  "enc_token_sell_args x =
     word_bytes (ts_in_amount x) @ word_bytes (ts_min_out x) @
     word_bytes (ts_sponsor_lamports x) @ pubkey_bytes (ts_input_mint x) @
     pubkey_bytes (ts_output_mint x) @ [bool_byte (ts_wrap_sol x)] @
     enc_vec word_bytes (ts_jupiter_data x)"

definition dec_token_sell_args :: "token_sell_args decoder" where
  "dec_token_sell_args bs = do {
      (in_amount, bs) \<leftarrow> dec_word bs; (min_out, bs) \<leftarrow> dec_word bs;
      (sponsor_lamports, bs) \<leftarrow> dec_word bs; (input_mint, bs) \<leftarrow> dec_pubkey bs;
      (output_mint, bs) \<leftarrow> dec_pubkey bs; (wrap_sol, bs) \<leftarrow> dec_bool bs;
      (jupiter_data, bs) \<leftarrow> dec_vec dec_word bs;
      Some (\<lparr>ts_in_amount = in_amount, ts_min_out = min_out, ts_sponsor_lamports = sponsor_lamports,
         ts_input_mint = input_mint, ts_output_mint = output_mint, ts_wrap_sol = wrap_sol,
         ts_jupiter_data = jupiter_data\<rparr>, bs) }"

interpretation ts_codec: borsh enc_token_sell_args dec_token_sell_args
  "\<lambda>x. length (ts_jupiter_data x) < 2 ^ 32"
  by unfold_locales
    (auto simp: enc_token_sell_args_def dec_token_sell_args_def bind_eq_Some_conv borsh_simps cong: conj_cong)

definition enc_pay_token_args :: "pay_token_args \<Rightarrow> byte list" where
  "enc_pay_token_args x =
     word_bytes (pt_amount x) @ word_bytes (pt_decimals x) @ word_bytes (pt_sponsor_lamports x)"

definition dec_pay_token_args :: "pay_token_args decoder" where
  "dec_pay_token_args bs = do {
      (amount, bs) \<leftarrow> dec_word bs; (decimals, bs) \<leftarrow> dec_word bs;
      (sponsor_lamports, bs) \<leftarrow> dec_word bs;
      Some (\<lparr>pt_amount = amount, pt_decimals = decimals, pt_sponsor_lamports = sponsor_lamports\<rparr>, bs) }"

interpretation pt_codec: fixed_borsh enc_pay_token_args dec_pay_token_args "\<lambda>_. True" 17
  by unfold_locales (auto simp: enc_pay_token_args_def dec_pay_token_args_def bind_eq_Some_conv borsh_simps)

definition enc_subscription_args :: "subscription_args \<Rightarrow> byte list" where
  "enc_subscription_args x =
     pubkey_bytes (su_merchant x) @ word_bytes (su_amount x) @
     word_bytes (su_period_seconds x) @ word_bytes (su_start_unix x)"

definition dec_subscription_args :: "subscription_args decoder" where
  "dec_subscription_args bs = do {
      (merchant, bs) \<leftarrow> dec_pubkey bs; (amount, bs) \<leftarrow> dec_word bs;
      (period_seconds, bs) \<leftarrow> dec_word bs; (start_unix, bs) \<leftarrow> dec_word bs;
      Some (\<lparr>su_merchant = merchant, su_amount = amount, su_period_seconds = period_seconds,
         su_start_unix = start_unix\<rparr>, bs) }"

interpretation su_codec: fixed_borsh enc_subscription_args dec_subscription_args "\<lambda>_. True" 56
  by unfold_locales (auto simp: enc_subscription_args_def dec_subscription_args_def bind_eq_Some_conv borsh_simps)

definition enc_pay_subscription_args :: "pay_subscription_args \<Rightarrow> byte list" where
  "enc_pay_subscription_args x =
     word_bytes (py_period x) @ word_bytes (py_sponsor_lamports x)"

definition dec_pay_subscription_args :: "pay_subscription_args decoder" where
  "dec_pay_subscription_args bs = do {
      (period, bs) \<leftarrow> dec_word bs; (sponsor_lamports, bs) \<leftarrow> dec_word bs;
      Some (\<lparr>py_period = period, py_sponsor_lamports = sponsor_lamports\<rparr>, bs) }"

interpretation py_codec: fixed_borsh enc_pay_subscription_args dec_pay_subscription_args "\<lambda>_. True" 16
  by unfold_locales (auto simp: enc_pay_subscription_args_def dec_pay_subscription_args_def bind_eq_Some_conv borsh_simps)

end
