(* ===== verification/Dispatch.thy ===== *)
theory Dispatch imports Discriminators Program Arguments begin

text \<open>
  The data of an instruction, one string of bytes. As SPEC.md (5.4) fixes it
  for the Anchor version of the build, the data of an instruction are its selector, the first 8 bytes
  of the hash of \<open>global:<name>\<close>, and the Borsh encoding of its arguments. \<open>read_instruction\<close> reads
  them by the table of the program module: exactly what \<open>instruction_data\<close> writes (\<open>read_write\<close>). The
  hash is a parameter; what is needed of it is \<open>selectors_ok\<close>.
\<close>

section \<open>Requests\<close>

text \<open>One constructor per entry point of \<open>lib.rs\<close>, with its arguments.\<close>

datatype request =
    Req_init_spend_vault
  | Req_fund_spend_vault u64
  | Req_withdraw_spend_vault u64
  | Req_init_paymaster pubkey
  | Req_fund_paymaster u64
  | Req_withdraw_paymaster u64
  | Req_set_relayer pubkey
  | Req_pause_paymaster
  | Req_unpause_paymaster
  | Req_pay pay_args
  | Req_swap swap_args
  | Req_deploy deploy_args
  | Req_call call_args
  | Req_pump_create pump_create_args
  | Req_issue_sub_grant pubkey u64 i64
  | Req_revise_sub_grant u64 i64
  | Req_revoke_sub_grant
  | Req_init_sponsor_fee
  | Req_set_sponsor_fee u64
  | Req_burn_collected_fees
  | Req_init_pump_trader
  | Req_fund_pump_trader u64
  | Req_withdraw_pump_trader u64
  | Req_token_buy token_buy_args
  | Req_token_sell token_sell_args
  | Req_init_merchant_registry pubkey
  | Req_add_merchant pubkey
  | Req_remove_merchant pubkey
  | Req_pay_token pay_token_args
  | Req_create_subscription subscription_args
  | Req_cancel_subscription
  | Req_pay_subscription pay_subscription_args

fun entry_point :: "request \<Rightarrow> string" where
  "entry_point Req_init_spend_vault = ''init_spend_vault''"
| "entry_point (Req_fund_spend_vault n) = ''fund_spend_vault''"
| "entry_point (Req_withdraw_spend_vault n) = ''withdraw_spend_vault''"
| "entry_point (Req_init_paymaster k) = ''init_paymaster''"
| "entry_point (Req_fund_paymaster n) = ''fund_paymaster''"
| "entry_point (Req_withdraw_paymaster n) = ''withdraw_paymaster''"
| "entry_point (Req_set_relayer k) = ''set_relayer''"
| "entry_point Req_pause_paymaster = ''pause_paymaster''"
| "entry_point Req_unpause_paymaster = ''unpause_paymaster''"
| "entry_point (Req_pay x) = ''pay''"
| "entry_point (Req_swap x) = ''swap''"
| "entry_point (Req_deploy x) = ''deploy''"
| "entry_point (Req_call x) = ''call''"
| "entry_point (Req_pump_create x) = ''pump_create''"
| "entry_point (Req_issue_sub_grant k n t) = ''issue_sub_grant''"
| "entry_point (Req_revise_sub_grant n t) = ''revise_sub_grant''"
| "entry_point Req_revoke_sub_grant = ''revoke_sub_grant''"
| "entry_point Req_init_sponsor_fee = ''init_sponsor_fee''"
| "entry_point (Req_set_sponsor_fee n) = ''set_sponsor_fee''"
| "entry_point Req_burn_collected_fees = ''burn_collected_fees''"
| "entry_point Req_init_pump_trader = ''init_pump_trader''"
| "entry_point (Req_fund_pump_trader n) = ''fund_pump_trader''"
| "entry_point (Req_withdraw_pump_trader n) = ''withdraw_pump_trader''"
| "entry_point (Req_token_buy x) = ''token_buy''"
| "entry_point (Req_token_sell x) = ''token_sell''"
| "entry_point (Req_init_merchant_registry k) = ''init_merchant_registry''"
| "entry_point (Req_add_merchant k) = ''add_merchant''"
| "entry_point (Req_remove_merchant k) = ''remove_merchant''"
| "entry_point (Req_pay_token x) = ''pay_token''"
| "entry_point (Req_create_subscription x) = ''create_subscription''"
| "entry_point Req_cancel_subscription = ''cancel_subscription''"
| "entry_point (Req_pay_subscription x) = ''pay_subscription''"

fun argument_bytes :: "request \<Rightarrow> byte list" where
  "argument_bytes Req_init_spend_vault = []"
| "argument_bytes (Req_fund_spend_vault n) = word_bytes n"
| "argument_bytes (Req_withdraw_spend_vault n) = word_bytes n"
| "argument_bytes (Req_init_paymaster k) = pubkey_bytes k"
| "argument_bytes (Req_fund_paymaster n) = word_bytes n"
| "argument_bytes (Req_withdraw_paymaster n) = word_bytes n"
| "argument_bytes (Req_set_relayer k) = pubkey_bytes k"
| "argument_bytes Req_pause_paymaster = []"
| "argument_bytes Req_unpause_paymaster = []"
| "argument_bytes (Req_pay x) = enc_pay_args x"
| "argument_bytes (Req_swap x) = enc_swap_args x"
| "argument_bytes (Req_deploy x) = enc_deploy_args x"
| "argument_bytes (Req_call x) = enc_call_args x"
| "argument_bytes (Req_pump_create x) = enc_pump_create_args x"
| "argument_bytes (Req_issue_sub_grant k n t) = pubkey_bytes k @ word_bytes n @ word_bytes t"
| "argument_bytes (Req_revise_sub_grant n t) = word_bytes n @ word_bytes t"
| "argument_bytes Req_revoke_sub_grant = []"
| "argument_bytes Req_init_sponsor_fee = []"
| "argument_bytes (Req_set_sponsor_fee n) = word_bytes n"
| "argument_bytes Req_burn_collected_fees = []"
| "argument_bytes Req_init_pump_trader = []"
| "argument_bytes (Req_fund_pump_trader n) = word_bytes n"
| "argument_bytes (Req_withdraw_pump_trader n) = word_bytes n"
| "argument_bytes (Req_token_buy x) = enc_token_buy_args x"
| "argument_bytes (Req_token_sell x) = enc_token_sell_args x"
| "argument_bytes (Req_init_merchant_registry k) = pubkey_bytes k"
| "argument_bytes (Req_add_merchant k) = pubkey_bytes k"
| "argument_bytes (Req_remove_merchant k) = pubkey_bytes k"
| "argument_bytes (Req_pay_token x) = enc_pay_token_args x"
| "argument_bytes (Req_create_subscription x) = enc_subscription_args x"
| "argument_bytes Req_cancel_subscription = []"
| "argument_bytes (Req_pay_subscription x) = enc_pay_subscription_args x"

definition instruction_data :: "(byte list \<Rightarrow> byte list) \<Rightarrow> request \<Rightarrow> byte list" where
  "instruction_data hash r = disc hash ''global'' (entry_point r) @ argument_bytes r"

text \<open>What Borsh can carry: strings of scalar values, and lengths that fit their prefix.\<close>

fun writable :: "request \<Rightarrow> bool" where
  "writable (Req_pump_create x) \<longleftrightarrow> sendable (pc_name x) \<and> sendable (pc_symbol x) \<and> sendable (pc_uri x)"
| "writable (Req_token_buy x) \<longleftrightarrow> length (tb_jupiter_data x) < 2 ^ 32"
| "writable (Req_token_sell x) \<longleftrightarrow> length (ts_jupiter_data x) < 2 ^ 32"
| "writable _ \<longleftrightarrow> True"

section \<open>Reading\<close>

datatype wire_error =
    InstructionMissing
  | InstructionFallbackNotFound
  | InstructionDidNotDeserialize
  | AccountNotEnoughKeys

definition dec_pair :: "'a decoder \<Rightarrow> 'b decoder \<Rightarrow> ('a \<times> 'b) decoder" where
  "dec_pair d e bs = do { (x, bs) \<leftarrow> d bs; (y, bs) \<leftarrow> e bs; Some ((x, y), bs) }"

text \<open>The bytes after the arguments are ignored.\<close>

definition reads :: "'a decoder \<Rightarrow> ('a \<Rightarrow> request) \<Rightarrow> byte list \<Rightarrow> request option" where
  "reads d f bs = map_option (f \<circ> fst) (d bs)"

definition bare :: "request \<Rightarrow> byte list \<Rightarrow> request option" where
  "bare r bs = Some r"

definition entries :: "(string \<times> (byte list \<Rightarrow> request option)) list" where
  "entries =
     [(''init_spend_vault'', bare Req_init_spend_vault),
      (''fund_spend_vault'', reads dec_word Req_fund_spend_vault),
      (''withdraw_spend_vault'', reads dec_word Req_withdraw_spend_vault),
      (''init_paymaster'', reads dec_pubkey Req_init_paymaster),
      (''fund_paymaster'', reads dec_word Req_fund_paymaster),
      (''withdraw_paymaster'', reads dec_word Req_withdraw_paymaster),
      (''set_relayer'', reads dec_pubkey Req_set_relayer),
      (''pause_paymaster'', bare Req_pause_paymaster),
      (''unpause_paymaster'', bare Req_unpause_paymaster),
      (''pay'', reads dec_pay_args Req_pay),
      (''swap'', reads dec_swap_args Req_swap),
      (''deploy'', reads dec_deploy_args Req_deploy),
      (''call'', reads dec_call_args Req_call),
      (''pump_create'', reads dec_pump_create_args Req_pump_create),
      (''issue_sub_grant'', reads (dec_pair dec_pubkey (dec_pair dec_word dec_word)) (\<lambda>(k, n, t). Req_issue_sub_grant k n t)),
      (''revise_sub_grant'', reads (dec_pair dec_word dec_word) (\<lambda>(n, t). Req_revise_sub_grant n t)),
      (''revoke_sub_grant'', bare Req_revoke_sub_grant),
      (''init_sponsor_fee'', bare Req_init_sponsor_fee),
      (''set_sponsor_fee'', reads dec_word Req_set_sponsor_fee),
      (''burn_collected_fees'', bare Req_burn_collected_fees),
      (''init_pump_trader'', bare Req_init_pump_trader),
      (''fund_pump_trader'', reads dec_word Req_fund_pump_trader),
      (''withdraw_pump_trader'', reads dec_word Req_withdraw_pump_trader),
      (''token_buy'', reads dec_token_buy_args Req_token_buy),
      (''token_sell'', reads dec_token_sell_args Req_token_sell),
      (''init_merchant_registry'', reads dec_pubkey Req_init_merchant_registry),
      (''add_merchant'', reads dec_pubkey Req_add_merchant),
      (''remove_merchant'', reads dec_pubkey Req_remove_merchant),
      (''pay_token'', reads dec_pay_token_args Req_pay_token),
      (''create_subscription'', reads dec_subscription_args Req_create_subscription),
      (''cancel_subscription'', bare Req_cancel_subscription),
      (''pay_subscription'', reads dec_pay_subscription_args Req_pay_subscription)]"

definition read_instruction :: "(byte list \<Rightarrow> byte list) \<Rightarrow> byte list \<Rightarrow> wire_error + request" where
  "read_instruction hash data =
     (if length data < 8 then Inl InstructionMissing
      else case map_of (map (\<lambda>(name, read). (disc hash ''global'' name, read)) entries) (take 8 data) of
             None \<Rightarrow> Inl InstructionFallbackNotFound
           | Some read \<Rightarrow>
               (case read (drop 8 data) of
                  None \<Rightarrow> Inl InstructionDidNotDeserialize
                | Some r \<Rightarrow> Inr r))"

definition selectors_ok :: "(byte list \<Rightarrow> byte list) \<Rightarrow> bool" where
  "selectors_ok hash \<longleftrightarrow>
     distinct (map (disc hash ''global'' \<circ> fst) entries)
     \<and> (\<forall>(name, read) \<in> set entries. length (disc hash ''global'' name) = 8)"

section \<open>Reading is the inverse of writing\<close>

lemma dec_pair_iff [borsh_simps]:
  "dec_pair d e bs = Some ((x, y), r) \<longleftrightarrow> (\<exists>mid. d bs = Some (x, mid) \<and> e mid = Some (y, r))"
  by (auto simp: dec_pair_def bind_eq_Some_conv)

lemma reads_iff [borsh_simps]:
  "reads d f bs = Some r \<longleftrightarrow> (\<exists>x rest. d bs = Some (x, rest) \<and> r = f x)"
  by (auto simp: reads_def)

lemma bare_iff [borsh_simps]: "bare r bs = Some s \<longleftrightarrow> s = r"
  by (auto simp: bare_def)

lemmas argument_codecs [borsh_simps] = pa_codec.dec_iff sw_codec.dec_iff dp_codec.dec_iff ca_codec.dec_iff
  pc_codec.dec_iff tb_codec.dec_iff ts_codec.dec_iff pt_codec.dec_iff su_codec.dec_iff py_codec.dec_iff

lemma entry_reads:
  assumes "(name, read) \<in> set entries" and "read bs = Some r"
  shows "name = entry_point r \<and> writable r \<and> (\<exists>rest. bs = argument_bytes r @ rest)"
  by (insert assms, unfold entries_def list.set insert_iff empty_iff prod.inject,
      elim disjE conjE FalseE; hypsubst; auto simp: borsh_simps)

lemma entry_exists:
  assumes "writable r"
  shows "\<exists>read. (entry_point r, read) \<in> set entries \<and> read (argument_bytes r @ rest) = Some r"
  using assms unfolding entries_def
  by (cases r) (auto simp: borsh_simps)


lemma read_instruction_iff:
  assumes "selectors_ok hash"
  shows "read_instruction hash data = Inr r \<longleftrightarrow>
    (\<exists>name read bs. (name, read) \<in> set entries \<and> data = disc hash ''global'' name @ bs \<and> read bs = Some r)"
proof -
  let ?table = "map (\<lambda>(name, read). (disc hash ''global'' name, read)) entries"
  have dist: "distinct (map fst ?table)"
    using assms by (simp add: selectors_ok_def comp_def case_prod_beta)
  have len: "length (disc hash ''global'' name) = 8" if "(name, read) \<in> set entries" for name read
    using assms that by (auto simp: selectors_ok_def)
  have "read_instruction hash data = Inr r \<longleftrightarrow>
      8 \<le> length data \<and> (\<exists>read. map_of ?table (take 8 data) = Some read \<and> read (drop 8 data) = Some r)"
    by (auto simp: read_instruction_def split: option.splits)
  also have "\<dots> \<longleftrightarrow> (\<exists>name read. (name, read) \<in> set entries
      \<and> 8 \<le> length data \<and> take 8 data = disc hash ''global'' name \<and> read (drop 8 data) = Some r)"
    unfolding map_of_eq_Some_iff [OF dist] by (auto simp: image_iff Bex_def)
  also have "\<dots> \<longleftrightarrow> (\<exists>name read bs. (name, read) \<in> set entries
      \<and> data = disc hash ''global'' name @ bs \<and> read bs = Some r)"
    using take_drop_eq_append [of 8 data] len by metis
  finally show ?thesis .
qed

lemma read_write:
  assumes "selectors_ok hash"
  shows "read_instruction hash data = Inr r \<longleftrightarrow> writable r \<and> (\<exists>rest. data = instruction_data hash r @ rest)"
  unfolding read_instruction_iff [OF assms] instruction_data_def append_assoc
  using entry_reads entry_exists by metis

text \<open>The selectors of the build, as the tests and SHA-256 give them, are eight bytes each and distinct.\<close>

lemma table_disc: "disc table_hash ''global'' name = take 8 (the (map_of known_discs (''global:'' @ name)))"
proof -
  have "table_hash (ascii s) = the (map_of known_discs s)" for s
    by (simp add: table_hash_def ascii_def comp_def byte_char)
  then show ?thesis
    by (simp add: disc_def)
qed

definition table_selectors :: "byte list list" where
  "table_selectors = map (\<lambda>e. take 8 (the (map_of known_discs (''global:'' @ fst e)))) entries"

lemma table_selectors_ok: "distinct table_selectors \<and> list_all (\<lambda>bs. length bs = 8) table_selectors"
  by code_simp

lemma selectors_ok_table: "selectors_ok table_hash"
  using table_selectors_ok
  by (auto simp: selectors_ok_def table_selectors_def table_disc list_all_iff comp_def case_prod_beta)

end
