(* ===== verification/Entry.thy ===== *)
theory Entry imports Dispatch begin

text \<open>
  The entry point: the accounts of the transaction, as a list, and the data, as bytes. Anchor assigns
  the accounts in the order of the fields of the instruction's struct; a field \<open>Option<..>\<close> is \<open>None\<close>
  when the account in its place is this program itself; what is left over are the remaining accounts.
  Each struct has a reader, interpreted as \<open>account_struct\<close>, and with \<open>Dispatch\<close> they give \<open>entry\<close>,
  the program as the runtime calls it. The property says that it runs exactly what was submitted.
\<close>

section \<open>Reading accounts\<close>

named_theorems struct_simps \<open>inversion of account readers\<close>

type_synonym 'a account_reader = "account_info list \<Rightarrow> ('a \<times> account_info list) option"

fun next_account :: "account_info account_reader" where
  "next_account [] = None"
| "next_account (a # rest) = Some (a, rest)"

fun next_optional :: "account_info option account_reader" where
  "next_optional [] = None"
| "next_optional (a # rest) = Some (if key a = INTENTS_ID then None else Some a, rest)"

text \<open>What may stand in the place of a field, and the values a field \<open>Option<..>\<close> can have.\<close>

definition stands_for :: "account_info option \<Rightarrow> account_info \<Rightarrow> bool" where
  "stands_for slot a \<longleftrightarrow> (case slot of None \<Rightarrow> key a = INTENTS_ID | Some b \<Rightarrow> a = b)"

definition absent_or_other :: "account_info option \<Rightarrow> bool" where
  "absent_or_other slot \<longleftrightarrow> (case slot of None \<Rightarrow> True | Some b \<Rightarrow> key b \<noteq> INTENTS_ID)"

lemma next_account_iff [struct_simps]: "next_account as = Some (a, rest) \<longleftrightarrow> as = a # rest"
  by (cases as) auto

lemma next_optional_iff [struct_simps]:
  "next_optional as = Some (slot, rest) \<longleftrightarrow> (\<exists>a. as = a # rest \<and> absent_or_other slot \<and> stands_for slot a)"
  by (cases as) (auto simp: stands_for_def absent_or_other_def split: option.splits)

lemma stands_for_Some [struct_simps]: "stands_for (Some b) a \<longleftrightarrow> a = b"
  by (simp add: stands_for_def)

lemmas slots_iff [struct_simps] = list_all2_Cons1 list_all2_Nil bind_eq_Some_conv

text \<open>
  A reader succeeds exactly when accounts that may stand for the fields come first. So a list that is
  too short is refused, and the accounts after the struct play no part in it.
\<close>

locale account_struct =
  fixes read :: "'a account_reader" and slots :: "'a \<Rightarrow> account_info option list" and named :: "'a \<Rightarrow> bool"
  assumes read_iff:
    "read as = Some (x, rest) \<longleftrightarrow> named x \<and> (\<exists>bs. list_all2 stands_for (slots x) bs \<and> as = bs @ rest)"
begin

lemma read_length: "read as = Some (x, rest) \<Longrightarrow> length as = length (slots x) + length rest"
  by (auto simp: read_iff dest: list_all2_lengthD)

lemma read_more: "read as = Some (x, rest) \<Longrightarrow> read (as @ extra) = Some (x, rest @ extra)"
  by (auto simp: read_iff)

end

section \<open>The structs\<close>

definition read_init_spend_vault :: "init_spend_vault_infos account_reader" where
  "read_init_spend_vault rest = do {
      (root, rest) \<leftarrow> next_account rest;
      (grok_account, rest) \<leftarrow> next_account rest;
      (spend_vault, rest) \<leftarrow> next_account rest;
      (system_program, rest) \<leftarrow> next_account rest;
      Some (\<lparr>isv_root = root, isv_grok_account = grok_account, isv_spend_vault = spend_vault,
         isv_system_program = system_program\<rparr>, rest) }"

definition init_spend_vault_slots :: "init_spend_vault_infos \<Rightarrow> account_info option list" where
  "init_spend_vault_slots A =
    [Some (isv_root A), Some (isv_grok_account A), Some (isv_spend_vault A),
     Some (isv_system_program A)]"

interpretation init_spend_vault_struct: account_struct read_init_spend_vault init_spend_vault_slots
  "\<lambda>_. True"
  by (unfold_locales, rename_tac as x rest, case_tac x)
    (auto simp: read_init_spend_vault_def init_spend_vault_slots_def struct_simps)

definition read_fund_spend_vault :: "fund_spend_vault_infos account_reader" where
  "read_fund_spend_vault rest = do {
      (root, rest) \<leftarrow> next_account rest;
      (grok_account, rest) \<leftarrow> next_account rest;
      (spend_vault, rest) \<leftarrow> next_account rest;
      (system_program, rest) \<leftarrow> next_account rest;
      Some (\<lparr>fsv_root = root, fsv_grok_account = grok_account, fsv_spend_vault = spend_vault,
         fsv_system_program = system_program\<rparr>, rest) }"

definition fund_spend_vault_slots :: "fund_spend_vault_infos \<Rightarrow> account_info option list" where
  "fund_spend_vault_slots A =
    [Some (fsv_root A), Some (fsv_grok_account A), Some (fsv_spend_vault A),
     Some (fsv_system_program A)]"

interpretation fund_spend_vault_struct: account_struct read_fund_spend_vault fund_spend_vault_slots
  "\<lambda>_. True"
  by (unfold_locales, rename_tac as x rest, case_tac x)
    (auto simp: read_fund_spend_vault_def fund_spend_vault_slots_def struct_simps)

definition read_withdraw_spend_vault :: "withdraw_spend_vault_infos account_reader" where
  "read_withdraw_spend_vault rest = do {
      (root, rest) \<leftarrow> next_account rest;
      (grok_account, rest) \<leftarrow> next_account rest;
      (spend_vault, rest) \<leftarrow> next_account rest;
      Some (\<lparr>wsv_root = root, wsv_grok_account = grok_account, wsv_spend_vault = spend_vault\<rparr>, rest) }"

definition withdraw_spend_vault_slots :: "withdraw_spend_vault_infos \<Rightarrow> account_info option list" where
  "withdraw_spend_vault_slots A =
    [Some (wsv_root A), Some (wsv_grok_account A), Some (wsv_spend_vault A)]"

interpretation withdraw_spend_vault_struct: account_struct read_withdraw_spend_vault withdraw_spend_vault_slots
  "\<lambda>_. True"
  by (unfold_locales, rename_tac as x rest, case_tac x)
    (auto simp: read_withdraw_spend_vault_def withdraw_spend_vault_slots_def struct_simps)

definition read_init_paymaster :: "init_paymaster_infos account_reader" where
  "read_init_paymaster rest = do {
      (root, rest) \<leftarrow> next_account rest;
      (grok_account, rest) \<leftarrow> next_account rest;
      (paymaster, rest) \<leftarrow> next_account rest;
      (system_program, rest) \<leftarrow> next_account rest;
      Some (\<lparr>ipm_root = root, ipm_grok_account = grok_account, ipm_paymaster = paymaster,
         ipm_system_program = system_program\<rparr>, rest) }"

definition init_paymaster_slots :: "init_paymaster_infos \<Rightarrow> account_info option list" where
  "init_paymaster_slots A =
    [Some (ipm_root A), Some (ipm_grok_account A), Some (ipm_paymaster A),
     Some (ipm_system_program A)]"

interpretation init_paymaster_struct: account_struct read_init_paymaster init_paymaster_slots
  "\<lambda>_. True"
  by (unfold_locales, rename_tac as x rest, case_tac x)
    (auto simp: read_init_paymaster_def init_paymaster_slots_def struct_simps)

definition read_fund_paymaster :: "fund_paymaster_infos account_reader" where
  "read_fund_paymaster rest = do {
      (root, rest) \<leftarrow> next_account rest;
      (grok_account, rest) \<leftarrow> next_account rest;
      (paymaster, rest) \<leftarrow> next_account rest;
      (system_program, rest) \<leftarrow> next_account rest;
      Some (\<lparr>fpm_root = root, fpm_grok_account = grok_account, fpm_paymaster = paymaster,
         fpm_system_program = system_program\<rparr>, rest) }"

definition fund_paymaster_slots :: "fund_paymaster_infos \<Rightarrow> account_info option list" where
  "fund_paymaster_slots A =
    [Some (fpm_root A), Some (fpm_grok_account A), Some (fpm_paymaster A),
     Some (fpm_system_program A)]"

interpretation fund_paymaster_struct: account_struct read_fund_paymaster fund_paymaster_slots
  "\<lambda>_. True"
  by (unfold_locales, rename_tac as x rest, case_tac x)
    (auto simp: read_fund_paymaster_def fund_paymaster_slots_def struct_simps)

definition read_withdraw_paymaster :: "withdraw_paymaster_infos account_reader" where
  "read_withdraw_paymaster rest = do {
      (root, rest) \<leftarrow> next_account rest;
      (grok_account, rest) \<leftarrow> next_account rest;
      (paymaster, rest) \<leftarrow> next_account rest;
      Some (\<lparr>wpm_root = root, wpm_grok_account = grok_account, wpm_paymaster = paymaster\<rparr>, rest) }"

definition withdraw_paymaster_slots :: "withdraw_paymaster_infos \<Rightarrow> account_info option list" where
  "withdraw_paymaster_slots A =
    [Some (wpm_root A), Some (wpm_grok_account A), Some (wpm_paymaster A)]"

interpretation withdraw_paymaster_struct: account_struct read_withdraw_paymaster withdraw_paymaster_slots
  "\<lambda>_. True"
  by (unfold_locales, rename_tac as x rest, case_tac x)
    (auto simp: read_withdraw_paymaster_def withdraw_paymaster_slots_def struct_simps)

definition read_manage_paymaster :: "manage_paymaster_infos account_reader" where
  "read_manage_paymaster rest = do {
      (root, rest) \<leftarrow> next_account rest;
      (grok_account, rest) \<leftarrow> next_account rest;
      (paymaster, rest) \<leftarrow> next_account rest;
      Some (\<lparr>mpm_root = root, mpm_grok_account = grok_account, mpm_paymaster = paymaster\<rparr>, rest) }"

definition manage_paymaster_slots :: "manage_paymaster_infos \<Rightarrow> account_info option list" where
  "manage_paymaster_slots A =
    [Some (mpm_root A), Some (mpm_grok_account A), Some (mpm_paymaster A)]"

interpretation manage_paymaster_struct: account_struct read_manage_paymaster manage_paymaster_slots
  "\<lambda>_. True"
  by (unfold_locales, rename_tac as x rest, case_tac x)
    (auto simp: read_manage_paymaster_def manage_paymaster_slots_def struct_simps)

definition read_pay :: "pay_infos account_reader" where
  "read_pay rest = do {
      (agent, rest) \<leftarrow> next_account rest;
      (grok_account, rest) \<leftarrow> next_account rest;
      (grant, rest) \<leftarrow> next_account rest;
      (core_program, rest) \<leftarrow> next_account rest;
      (intents_program, rest) \<leftarrow> next_account rest;
      (spend_vault, rest) \<leftarrow> next_account rest;
      (recipient, rest) \<leftarrow> next_account rest;
      (system_program, rest) \<leftarrow> next_account rest;
      (paymaster, rest) \<leftarrow> next_optional rest;
      (fee_payer, rest) \<leftarrow> next_optional rest;
      Some (\<lparr>m_agent = agent, m_grok_account = grok_account, m_grant = grant,
         m_core_program = core_program, m_intents_program = intents_program,
         pay_spend_vault = spend_vault, pay_recipient = recipient,
         pay_system_program = system_program, pay_paymaster = paymaster, pay_fee_payer = fee_payer\<rparr>, rest) }"

definition pay_slots :: "pay_infos \<Rightarrow> account_info option list" where
  "pay_slots A =
    [Some (m_agent A), Some (m_grok_account A), Some (m_grant A), Some (m_core_program A),
     Some (m_intents_program A), Some (pay_spend_vault A), Some (pay_recipient A),
     Some (pay_system_program A), pay_paymaster A, pay_fee_payer A]"

interpretation pay_struct: account_struct read_pay pay_slots
  "\<lambda>A. absent_or_other (pay_paymaster A) \<and> absent_or_other (pay_fee_payer A)"
  by (unfold_locales, rename_tac as x rest, case_tac x)
    (auto simp: read_pay_def pay_slots_def struct_simps)

definition read_swap :: "swap_infos account_reader" where
  "read_swap rest = do {
      (agent, rest) \<leftarrow> next_account rest;
      (grok_account, rest) \<leftarrow> next_account rest;
      (grant, rest) \<leftarrow> next_account rest;
      (core_program, rest) \<leftarrow> next_account rest;
      (intents_program, rest) \<leftarrow> next_account rest;
      (spend_vault, rest) \<leftarrow> next_account rest;
      (out_destination, rest) \<leftarrow> next_account rest;
      (system_program, rest) \<leftarrow> next_account rest;
      (paymaster, rest) \<leftarrow> next_optional rest;
      (fee_payer, rest) \<leftarrow> next_optional rest;
      Some (\<lparr>m_agent = agent, m_grok_account = grok_account, m_grant = grant,
         m_core_program = core_program, m_intents_program = intents_program,
         swap_spend_vault = spend_vault, swap_out_destination = out_destination,
         swap_system_program = system_program, swap_paymaster = paymaster,
         swap_fee_payer = fee_payer\<rparr>, rest) }"

definition swap_slots :: "swap_infos \<Rightarrow> account_info option list" where
  "swap_slots A =
    [Some (m_agent A), Some (m_grok_account A), Some (m_grant A), Some (m_core_program A),
     Some (m_intents_program A), Some (swap_spend_vault A), Some (swap_out_destination A),
     Some (swap_system_program A), swap_paymaster A, swap_fee_payer A]"

interpretation swap_struct: account_struct read_swap swap_slots
  "\<lambda>A. absent_or_other (swap_paymaster A) \<and> absent_or_other (swap_fee_payer A)"
  by (unfold_locales, rename_tac as x rest, case_tac x)
    (auto simp: read_swap_def swap_slots_def struct_simps)

definition read_deploy :: "deploy_infos account_reader" where
  "read_deploy rest = do {
      (agent, rest) \<leftarrow> next_account rest;
      (grok_account, rest) \<leftarrow> next_account rest;
      (grant, rest) \<leftarrow> next_account rest;
      (core_program, rest) \<leftarrow> next_account rest;
      (intents_program, rest) \<leftarrow> next_account rest;
      (spend_vault, rest) \<leftarrow> next_account rest;
      (system_program, rest) \<leftarrow> next_account rest;
      (paymaster, rest) \<leftarrow> next_optional rest;
      (fee_payer, rest) \<leftarrow> next_optional rest;
      Some (\<lparr>m_agent = agent, m_grok_account = grok_account, m_grant = grant,
         m_core_program = core_program, m_intents_program = intents_program,
         deploy_spend_vault = spend_vault, deploy_system_program = system_program,
         deploy_paymaster = paymaster, deploy_fee_payer = fee_payer\<rparr>, rest) }"

definition deploy_slots :: "deploy_infos \<Rightarrow> account_info option list" where
  "deploy_slots A =
    [Some (m_agent A), Some (m_grok_account A), Some (m_grant A), Some (m_core_program A),
     Some (m_intents_program A), Some (deploy_spend_vault A), Some (deploy_system_program A),
     deploy_paymaster A, deploy_fee_payer A]"

interpretation deploy_struct: account_struct read_deploy deploy_slots
  "\<lambda>A. absent_or_other (deploy_paymaster A) \<and> absent_or_other (deploy_fee_payer A)"
  by (unfold_locales, rename_tac as x rest, case_tac x)
    (auto simp: read_deploy_def deploy_slots_def struct_simps)

definition read_call :: "call_infos account_reader" where
  "read_call rest = do {
      (agent, rest) \<leftarrow> next_account rest;
      (grok_account, rest) \<leftarrow> next_account rest;
      (grant, rest) \<leftarrow> next_account rest;
      (core_program, rest) \<leftarrow> next_account rest;
      (intents_program, rest) \<leftarrow> next_account rest;
      (spend_vault, rest) \<leftarrow> next_account rest;
      (recipient, rest) \<leftarrow> next_account rest;
      (system_program, rest) \<leftarrow> next_account rest;
      (target, rest) \<leftarrow> next_account rest;
      (paymaster, rest) \<leftarrow> next_optional rest;
      (fee_payer, rest) \<leftarrow> next_optional rest;
      Some (\<lparr>m_agent = agent, m_grok_account = grok_account, m_grant = grant,
         m_core_program = core_program, m_intents_program = intents_program,
         call_spend_vault = spend_vault, call_recipient = recipient,
         call_system_program = system_program, call_target = target, call_paymaster = paymaster,
         call_fee_payer = fee_payer\<rparr>, rest) }"

definition call_slots :: "call_infos \<Rightarrow> account_info option list" where
  "call_slots A =
    [Some (m_agent A), Some (m_grok_account A), Some (m_grant A), Some (m_core_program A),
     Some (m_intents_program A), Some (call_spend_vault A), Some (call_recipient A),
     Some (call_system_program A), Some (call_target A), call_paymaster A, call_fee_payer A]"

interpretation call_struct: account_struct read_call call_slots
  "\<lambda>A. absent_or_other (call_paymaster A) \<and> absent_or_other (call_fee_payer A)"
  by (unfold_locales, rename_tac as x rest, case_tac x)
    (auto simp: read_call_def call_slots_def struct_simps)

definition read_pump_trade :: "pump_trade_infos account_reader" where
  "read_pump_trade rest = do {
      (agent, rest) \<leftarrow> next_account rest;
      (grok_account, rest) \<leftarrow> next_account rest;
      (grant, rest) \<leftarrow> next_account rest;
      (core_program, rest) \<leftarrow> next_account rest;
      (intents_program, rest) \<leftarrow> next_account rest;
      (spend_vault, rest) \<leftarrow> next_account rest;
      (system_program, rest) \<leftarrow> next_account rest;
      (pump_program, rest) \<leftarrow> next_account rest;
      (paymaster, rest) \<leftarrow> next_optional rest;
      (fee_payer, rest) \<leftarrow> next_optional rest;
      Some (\<lparr>m_agent = agent, m_grok_account = grok_account, m_grant = grant,
         m_core_program = core_program, m_intents_program = intents_program,
         pp_spend_vault = spend_vault, pp_system_program = system_program,
         pp_pump_program = pump_program, pp_paymaster = paymaster, pp_fee_payer = fee_payer\<rparr>, rest) }"

definition pump_trade_slots :: "pump_trade_infos \<Rightarrow> account_info option list" where
  "pump_trade_slots A =
    [Some (m_agent A), Some (m_grok_account A), Some (m_grant A), Some (m_core_program A),
     Some (m_intents_program A), Some (pp_spend_vault A), Some (pp_system_program A),
     Some (pp_pump_program A), pp_paymaster A, pp_fee_payer A]"

interpretation pump_trade_struct: account_struct read_pump_trade pump_trade_slots
  "\<lambda>A. absent_or_other (pp_paymaster A) \<and> absent_or_other (pp_fee_payer A)"
  by (unfold_locales, rename_tac as x rest, case_tac x)
    (auto simp: read_pump_trade_def pump_trade_slots_def struct_simps)

definition read_issue_sub_grant :: "issue_sub_grant_infos account_reader" where
  "read_issue_sub_grant rest = do {
      (issuer, rest) \<leftarrow> next_account rest; (payer, rest) \<leftarrow> next_account rest;
      (grok_account, rest) \<leftarrow> next_account rest;
      (grant, rest) \<leftarrow> next_account rest; (parent, rest) \<leftarrow> next_optional rest;
      (sub_grant, rest) \<leftarrow> next_account rest;
      (system_program, rest) \<leftarrow> next_account rest;
      Some (\<lparr>isg_issuer = issuer, isg_payer = payer, isg_grok_account = grok_account,
         isg_grant = grant, isg_parent = parent, isg_sub_grant = sub_grant,
         isg_system_program = system_program\<rparr>, rest) }"

definition issue_sub_grant_slots :: "issue_sub_grant_infos \<Rightarrow> account_info option list" where
  "issue_sub_grant_slots A =
    [Some (isg_issuer A), Some (isg_payer A), Some (isg_grok_account A), Some (isg_grant A),
     isg_parent A, Some (isg_sub_grant A), Some (isg_system_program A)]"

interpretation issue_sub_grant_struct: account_struct read_issue_sub_grant issue_sub_grant_slots
  "\<lambda>A. absent_or_other (isg_parent A)"
  by (unfold_locales, rename_tac as x rest, case_tac x)
    (auto simp: read_issue_sub_grant_def issue_sub_grant_slots_def struct_simps)

definition read_manage_sub_grant :: "manage_sub_grant_infos account_reader" where
  "read_manage_sub_grant rest = do {
      (authority, rest) \<leftarrow> next_account rest;
      (grok_account, rest) \<leftarrow> next_account rest;
      (sub_grant, rest) \<leftarrow> next_account rest;
      Some (\<lparr>msg_authority = authority, msg_grok_account = grok_account, msg_sub_grant = sub_grant\<rparr>, rest) }"

definition manage_sub_grant_slots :: "manage_sub_grant_infos \<Rightarrow> account_info option list" where
  "manage_sub_grant_slots A =
    [Some (msg_authority A), Some (msg_grok_account A), Some (msg_sub_grant A)]"

interpretation manage_sub_grant_struct: account_struct read_manage_sub_grant manage_sub_grant_slots
  "\<lambda>_. True"
  by (unfold_locales, rename_tac as x rest, case_tac x)
    (auto simp: read_manage_sub_grant_def manage_sub_grant_slots_def struct_simps)

definition read_init_sponsor_fee :: "init_sponsor_fee_infos account_reader" where
  "read_init_sponsor_fee rest = do {
      (root, rest) \<leftarrow> next_account rest;
      (grok_account, rest) \<leftarrow> next_account rest;
      (sponsor_fee, rest) \<leftarrow> next_account rest;
      (system_program, rest) \<leftarrow> next_account rest;
      Some (\<lparr>isf_root = root, isf_grok_account = grok_account, isf_sponsor_fee = sponsor_fee,
         isf_system_program = system_program\<rparr>, rest) }"

definition init_sponsor_fee_slots :: "init_sponsor_fee_infos \<Rightarrow> account_info option list" where
  "init_sponsor_fee_slots A =
    [Some (isf_root A), Some (isf_grok_account A), Some (isf_sponsor_fee A),
     Some (isf_system_program A)]"

interpretation init_sponsor_fee_struct: account_struct read_init_sponsor_fee init_sponsor_fee_slots
  "\<lambda>_. True"
  by (unfold_locales, rename_tac as x rest, case_tac x)
    (auto simp: read_init_sponsor_fee_def init_sponsor_fee_slots_def struct_simps)

definition read_set_sponsor_fee :: "set_sponsor_fee_infos account_reader" where
  "read_set_sponsor_fee rest = do {
      (root, rest) \<leftarrow> next_account rest;
      (grok_account, rest) \<leftarrow> next_account rest;
      (sponsor_fee, rest) \<leftarrow> next_account rest;
      Some (\<lparr>ssf_root = root, ssf_grok_account = grok_account, ssf_sponsor_fee = sponsor_fee\<rparr>, rest) }"

definition set_sponsor_fee_slots :: "set_sponsor_fee_infos \<Rightarrow> account_info option list" where
  "set_sponsor_fee_slots A =
    [Some (ssf_root A), Some (ssf_grok_account A), Some (ssf_sponsor_fee A)]"

interpretation set_sponsor_fee_struct: account_struct read_set_sponsor_fee set_sponsor_fee_slots
  "\<lambda>_. True"
  by (unfold_locales, rename_tac as x rest, case_tac x)
    (auto simp: read_set_sponsor_fee_def set_sponsor_fee_slots_def struct_simps)

definition read_burn_collected_fees :: "burn_collected_fees_infos account_reader" where
  "read_burn_collected_fees rest = do {
      (burner, rest) \<leftarrow> next_account rest;
      (grok_account, rest) \<leftarrow> next_account rest;
      (mint, rest) \<leftarrow> next_account rest;
      (fee_vault, rest) \<leftarrow> next_account rest;
      (fee_vault_authority, rest) \<leftarrow> next_account rest;
      (token_program, rest) \<leftarrow> next_account rest;
      Some (\<lparr>bcf_burner = burner, bcf_grok_account = grok_account, bcf_mint = mint,
         bcf_fee_vault = fee_vault, bcf_fee_vault_authority = fee_vault_authority,
         bcf_token_program = token_program\<rparr>, rest) }"

definition burn_collected_fees_slots :: "burn_collected_fees_infos \<Rightarrow> account_info option list" where
  "burn_collected_fees_slots A =
    [Some (bcf_burner A), Some (bcf_grok_account A), Some (bcf_mint A), Some (bcf_fee_vault A),
     Some (bcf_fee_vault_authority A), Some (bcf_token_program A)]"

interpretation burn_collected_fees_struct: account_struct read_burn_collected_fees burn_collected_fees_slots
  "\<lambda>_. True"
  by (unfold_locales, rename_tac as x rest, case_tac x)
    (auto simp: read_burn_collected_fees_def burn_collected_fees_slots_def struct_simps)

definition read_init_pump_trader :: "init_pump_trader_infos account_reader" where
  "read_init_pump_trader rest = do {
      (root, rest) \<leftarrow> next_account rest;
      (grok_account, rest) \<leftarrow> next_account rest;
      (pump_trader, rest) \<leftarrow> next_account rest;
      (system_program, rest) \<leftarrow> next_account rest;
      Some (\<lparr>ipt_root = root, ipt_grok_account = grok_account, ipt_pump_trader = pump_trader,
         ipt_system_program = system_program\<rparr>, rest) }"

definition init_pump_trader_slots :: "init_pump_trader_infos \<Rightarrow> account_info option list" where
  "init_pump_trader_slots A =
    [Some (ipt_root A), Some (ipt_grok_account A), Some (ipt_pump_trader A),
     Some (ipt_system_program A)]"

interpretation init_pump_trader_struct: account_struct read_init_pump_trader init_pump_trader_slots
  "\<lambda>_. True"
  by (unfold_locales, rename_tac as x rest, case_tac x)
    (auto simp: read_init_pump_trader_def init_pump_trader_slots_def struct_simps)

definition read_fund_pump_trader :: "fund_pump_trader_infos account_reader" where
  "read_fund_pump_trader rest = do {
      (root, rest) \<leftarrow> next_account rest;
      (grok_account, rest) \<leftarrow> next_account rest;
      (spend_vault, rest) \<leftarrow> next_account rest;
      (pump_trader, rest) \<leftarrow> next_account rest;
      Some (\<lparr>fpt_root = root, fpt_grok_account = grok_account, fpt_spend_vault = spend_vault,
         fpt_pump_trader = pump_trader\<rparr>, rest) }"

definition fund_pump_trader_slots :: "fund_pump_trader_infos \<Rightarrow> account_info option list" where
  "fund_pump_trader_slots A =
    [Some (fpt_root A), Some (fpt_grok_account A), Some (fpt_spend_vault A),
     Some (fpt_pump_trader A)]"

interpretation fund_pump_trader_struct: account_struct read_fund_pump_trader fund_pump_trader_slots
  "\<lambda>_. True"
  by (unfold_locales, rename_tac as x rest, case_tac x)
    (auto simp: read_fund_pump_trader_def fund_pump_trader_slots_def struct_simps)

definition read_withdraw_pump_trader :: "withdraw_pump_trader_infos account_reader" where
  "read_withdraw_pump_trader rest = do {
      (root, rest) \<leftarrow> next_account rest;
      (grok_account, rest) \<leftarrow> next_account rest;
      (pump_trader, rest) \<leftarrow> next_account rest;
      (system_program, rest) \<leftarrow> next_account rest;
      (token_program, rest) \<leftarrow> next_account rest;
      (token_2022_program, rest) \<leftarrow> next_account rest;
      Some (\<lparr>wpt_root = root, wpt_grok_account = grok_account, wpt_pump_trader = pump_trader,
         wpt_system_program = system_program, wpt_token_program = token_program,
         wpt_token_2022_program = token_2022_program\<rparr>, rest) }"

definition withdraw_pump_trader_slots :: "withdraw_pump_trader_infos \<Rightarrow> account_info option list" where
  "withdraw_pump_trader_slots A =
    [Some (wpt_root A), Some (wpt_grok_account A), Some (wpt_pump_trader A),
     Some (wpt_system_program A), Some (wpt_token_program A), Some (wpt_token_2022_program A)]"

interpretation withdraw_pump_trader_struct: account_struct read_withdraw_pump_trader withdraw_pump_trader_slots
  "\<lambda>_. True"
  by (unfold_locales, rename_tac as x rest, case_tac x)
    (auto simp: read_withdraw_pump_trader_def withdraw_pump_trader_slots_def struct_simps)

definition read_token_trade :: "token_trade_infos account_reader" where
  "read_token_trade rest = do {
      (agent, rest) \<leftarrow> next_account rest;
      (grok_account, rest) \<leftarrow> next_account rest;
      (grant, rest) \<leftarrow> next_account rest;
      (core_program, rest) \<leftarrow> next_account rest;
      (intents_program, rest) \<leftarrow> next_account rest;
      (spend_vault, rest) \<leftarrow> next_account rest;
      (system_program, rest) \<leftarrow> next_account rest;
      (jupiter_program, rest) \<leftarrow> next_account rest;
      (paymaster, rest) \<leftarrow> next_optional rest;
      (fee_payer, rest) \<leftarrow> next_optional rest;
      Some (\<lparr>m_agent = agent, m_grok_account = grok_account, m_grant = grant,
         m_core_program = core_program, m_intents_program = intents_program,
         tt_spend_vault = spend_vault, tt_system_program = system_program,
         tt_jupiter_program = jupiter_program, tt_paymaster = paymaster, tt_fee_payer = fee_payer\<rparr>, rest) }"

definition token_trade_slots :: "token_trade_infos \<Rightarrow> account_info option list" where
  "token_trade_slots A =
    [Some (m_agent A), Some (m_grok_account A), Some (m_grant A), Some (m_core_program A),
     Some (m_intents_program A), Some (tt_spend_vault A), Some (tt_system_program A),
     Some (tt_jupiter_program A), tt_paymaster A, tt_fee_payer A]"

interpretation token_trade_struct: account_struct read_token_trade token_trade_slots
  "\<lambda>A. absent_or_other (tt_paymaster A) \<and> absent_or_other (tt_fee_payer A)"
  by (unfold_locales, rename_tac as x rest, case_tac x)
    (auto simp: read_token_trade_def token_trade_slots_def struct_simps)

definition read_init_merchant_registry :: "init_merchant_registry_infos account_reader" where
  "read_init_merchant_registry rest = do {
      (root, rest) \<leftarrow> next_account rest;
      (grok_account, rest) \<leftarrow> next_account rest;
      (merchant_registry, rest) \<leftarrow> next_account rest;
      (system_program, rest) \<leftarrow> next_account rest;
      Some (\<lparr>imr_root = root, imr_grok_account = grok_account,
         imr_merchant_registry = merchant_registry, imr_system_program = system_program\<rparr>, rest) }"

definition init_merchant_registry_slots :: "init_merchant_registry_infos \<Rightarrow> account_info option list" where
  "init_merchant_registry_slots A =
    [Some (imr_root A), Some (imr_grok_account A), Some (imr_merchant_registry A),
     Some (imr_system_program A)]"

interpretation init_merchant_registry_struct: account_struct read_init_merchant_registry init_merchant_registry_slots
  "\<lambda>_. True"
  by (unfold_locales, rename_tac as x rest, case_tac x)
    (auto simp: read_init_merchant_registry_def init_merchant_registry_slots_def struct_simps)

definition read_update_merchant_registry :: "update_merchant_registry_infos account_reader" where
  "read_update_merchant_registry rest = do {
      (root, rest) \<leftarrow> next_account rest;
      (grok_account, rest) \<leftarrow> next_account rest;
      (merchant_registry, rest) \<leftarrow> next_account rest;
      Some (\<lparr>umr_root = root, umr_grok_account = grok_account,
         umr_merchant_registry = merchant_registry\<rparr>, rest) }"

definition update_merchant_registry_slots :: "update_merchant_registry_infos \<Rightarrow> account_info option list" where
  "update_merchant_registry_slots A =
    [Some (umr_root A), Some (umr_grok_account A), Some (umr_merchant_registry A)]"

interpretation update_merchant_registry_struct: account_struct read_update_merchant_registry update_merchant_registry_slots
  "\<lambda>_. True"
  by (unfold_locales, rename_tac as x rest, case_tac x)
    (auto simp: read_update_merchant_registry_def update_merchant_registry_slots_def struct_simps)

definition read_pay_token :: "pay_token_infos account_reader" where
  "read_pay_token rest = do {
      (agent, rest) \<leftarrow> next_account rest;
      (grok_account, rest) \<leftarrow> next_account rest;
      (grant, rest) \<leftarrow> next_account rest;
      (core_program, rest) \<leftarrow> next_account rest;
      (intents_program, rest) \<leftarrow> next_account rest;
      (spend_vault, rest) \<leftarrow> next_account rest;
      (merchant_registry, rest) \<leftarrow> next_account rest;
      (pump_trader, rest) \<leftarrow> next_account rest;
      (source, rest) \<leftarrow> next_account rest;
      (destination, rest) \<leftarrow> next_account rest;
      (mint, rest) \<leftarrow> next_account rest;
      (token_program, rest) \<leftarrow> next_account rest;
      (reference, rest) \<leftarrow> next_optional rest;
      (paymaster, rest) \<leftarrow> next_optional rest;
      (fee_payer, rest) \<leftarrow> next_optional rest;
      Some (\<lparr>m_agent = agent, m_grok_account = grok_account, m_grant = grant,
         m_core_program = core_program, m_intents_program = intents_program,
         ptk_spend_vault = spend_vault, ptk_merchant_registry = merchant_registry,
         ptk_pump_trader = pump_trader, ptk_source = source, ptk_destination = destination,
         ptk_mint = mint, ptk_token_program = token_program, ptk_reference = reference,
         ptk_paymaster = paymaster, ptk_fee_payer = fee_payer\<rparr>, rest) }"

definition pay_token_slots :: "pay_token_infos \<Rightarrow> account_info option list" where
  "pay_token_slots A =
    [Some (m_agent A), Some (m_grok_account A), Some (m_grant A), Some (m_core_program A),
     Some (m_intents_program A), Some (ptk_spend_vault A), Some (ptk_merchant_registry A),
     Some (ptk_pump_trader A), Some (ptk_source A), Some (ptk_destination A), Some (ptk_mint A),
     Some (ptk_token_program A), ptk_reference A, ptk_paymaster A, ptk_fee_payer A]"

interpretation pay_token_struct: account_struct read_pay_token pay_token_slots
  "\<lambda>A. absent_or_other (ptk_reference A) \<and> absent_or_other (ptk_paymaster A) \<and> absent_or_other (ptk_fee_payer A)"
  by (unfold_locales, rename_tac as x rest, case_tac x)
    (auto simp: read_pay_token_def pay_token_slots_def struct_simps)

definition read_create_subscription :: "create_subscription_infos account_reader" where
  "read_create_subscription rest = do {
      (root, rest) \<leftarrow> next_account rest;
      (grok_account, rest) \<leftarrow> next_account rest;
      (merchant_registry, rest) \<leftarrow> next_account rest;
      (mint, rest) \<leftarrow> next_account rest;
      (subscription, rest) \<leftarrow> next_account rest;
      (system_program, rest) \<leftarrow> next_account rest;
      Some (\<lparr>csb_root = root, csb_grok_account = grok_account,
         csb_merchant_registry = merchant_registry, csb_mint = mint,
         csb_subscription = subscription, csb_system_program = system_program\<rparr>, rest) }"

definition create_subscription_slots :: "create_subscription_infos \<Rightarrow> account_info option list" where
  "create_subscription_slots A =
    [Some (csb_root A), Some (csb_grok_account A), Some (csb_merchant_registry A),
     Some (csb_mint A), Some (csb_subscription A), Some (csb_system_program A)]"

interpretation create_subscription_struct: account_struct read_create_subscription create_subscription_slots
  "\<lambda>_. True"
  by (unfold_locales, rename_tac as x rest, case_tac x)
    (auto simp: read_create_subscription_def create_subscription_slots_def struct_simps)

definition read_cancel_subscription :: "cancel_subscription_infos account_reader" where
  "read_cancel_subscription rest = do {
      (root, rest) \<leftarrow> next_account rest;
      (grok_account, rest) \<leftarrow> next_account rest;
      (subscription, rest) \<leftarrow> next_account rest;
      Some (\<lparr>xsb_root = root, xsb_grok_account = grok_account, xsb_subscription = subscription\<rparr>, rest) }"

definition cancel_subscription_slots :: "cancel_subscription_infos \<Rightarrow> account_info option list" where
  "cancel_subscription_slots A =
    [Some (xsb_root A), Some (xsb_grok_account A), Some (xsb_subscription A)]"

interpretation cancel_subscription_struct: account_struct read_cancel_subscription cancel_subscription_slots
  "\<lambda>_. True"
  by (unfold_locales, rename_tac as x rest, case_tac x)
    (auto simp: read_cancel_subscription_def cancel_subscription_slots_def struct_simps)

definition read_pay_subscription :: "pay_subscription_infos account_reader" where
  "read_pay_subscription rest = do {
      (agent, rest) \<leftarrow> next_account rest;
      (grok_account, rest) \<leftarrow> next_account rest;
      (grant, rest) \<leftarrow> next_account rest;
      (core_program, rest) \<leftarrow> next_account rest;
      (intents_program, rest) \<leftarrow> next_account rest;
      (subscription, rest) \<leftarrow> next_account rest;
      (merchant_registry, rest) \<leftarrow> next_account rest;
      (pump_trader, rest) \<leftarrow> next_account rest;
      (source, rest) \<leftarrow> next_account rest;
      (destination, rest) \<leftarrow> next_account rest;
      (mint, rest) \<leftarrow> next_account rest;
      (token_program, rest) \<leftarrow> next_account rest;
      (reference, rest) \<leftarrow> next_optional rest;
      (paymaster, rest) \<leftarrow> next_optional rest;
      (fee_payer, rest) \<leftarrow> next_optional rest;
      Some (\<lparr>m_agent = agent, m_grok_account = grok_account, m_grant = grant,
         m_core_program = core_program, m_intents_program = intents_program,
         psb_subscription = subscription, psb_merchant_registry = merchant_registry,
         psb_pump_trader = pump_trader, psb_source = source, psb_destination = destination,
         psb_mint = mint, psb_token_program = token_program, psb_reference = reference,
         psb_paymaster = paymaster, psb_fee_payer = fee_payer\<rparr>, rest) }"

definition pay_subscription_slots :: "pay_subscription_infos \<Rightarrow> account_info option list" where
  "pay_subscription_slots A =
    [Some (m_agent A), Some (m_grok_account A), Some (m_grant A), Some (m_core_program A),
     Some (m_intents_program A), Some (psb_subscription A), Some (psb_merchant_registry A),
     Some (psb_pump_trader A), Some (psb_source A), Some (psb_destination A), Some (psb_mint A),
     Some (psb_token_program A), psb_reference A, psb_paymaster A, psb_fee_payer A]"

interpretation pay_subscription_struct: account_struct read_pay_subscription pay_subscription_slots
  "\<lambda>A. absent_or_other (psb_reference A) \<and> absent_or_other (psb_paymaster A) \<and> absent_or_other (psb_fee_payer A)"
  by (unfold_locales, rename_tac as x rest, case_tac x)
    (auto simp: read_pay_subscription_def pay_subscription_slots_def struct_simps)

section \<open>The program module\<close>

text \<open>The request an instruction is made of, and the instruction a request makes of the accounts.\<close>

fun request_of :: "program_ix \<Rightarrow> request" where
  "request_of (Init_spend_vault A) = Req_init_spend_vault"
| "request_of (Fund_spend_vault A lamports) = Req_fund_spend_vault lamports"
| "request_of (Withdraw_spend_vault A lamports) = Req_withdraw_spend_vault lamports"
| "request_of (Init_paymaster A relayer) = Req_init_paymaster relayer"
| "request_of (Fund_paymaster A lamports) = Req_fund_paymaster lamports"
| "request_of (Withdraw_paymaster A lamports) = Req_withdraw_paymaster lamports"
| "request_of (Set_relayer A relayer) = Req_set_relayer relayer"
| "request_of (Pause_paymaster A) = Req_pause_paymaster"
| "request_of (Unpause_paymaster A) = Req_unpause_paymaster"
| "request_of (Pay A args) = Req_pay args"
| "request_of (Swap A args) = Req_swap args"
| "request_of (Deploy A args) = Req_deploy args"
| "request_of (Call A args remaining) = Req_call args"
| "request_of (Pump_create A args remaining) = Req_pump_create args"
| "request_of (Issue_sub_grant A agent cap expires_at_unix) = Req_issue_sub_grant agent cap expires_at_unix"
| "request_of (Revise_sub_grant A cap expires_at_unix) = Req_revise_sub_grant cap expires_at_unix"
| "request_of (Revoke_sub_grant A) = Req_revoke_sub_grant"
| "request_of (Init_sponsor_fee A) = Req_init_sponsor_fee"
| "request_of (Set_sponsor_fee A fee_per_intent) = Req_set_sponsor_fee fee_per_intent"
| "request_of (Burn_collected_fees A) = Req_burn_collected_fees"
| "request_of (Init_pump_trader A) = Req_init_pump_trader"
| "request_of (Fund_pump_trader A lamports) = Req_fund_pump_trader lamports"
| "request_of (Withdraw_pump_trader A lamports remaining) = Req_withdraw_pump_trader lamports"
| "request_of (Token_buy A args remaining) = Req_token_buy args"
| "request_of (Token_sell A args remaining) = Req_token_sell args"
| "request_of (Init_merchant_registry A mint) = Req_init_merchant_registry mint"
| "request_of (Add_merchant A merchant) = Req_add_merchant merchant"
| "request_of (Remove_merchant A merchant) = Req_remove_merchant merchant"
| "request_of (Pay_token A args) = Req_pay_token args"
| "request_of (Create_subscription A args) = Req_create_subscription args"
| "request_of (Cancel_subscription A) = Req_cancel_subscription"
| "request_of (Pay_subscription A args) = Req_pay_subscription args"

fun read_accounts :: "request \<Rightarrow> account_info list \<Rightarrow> program_ix option" where
  "read_accounts Req_init_spend_vault as =
     map_option (\<lambda>(A, _). Init_spend_vault A) (read_init_spend_vault as)"
| "read_accounts (Req_fund_spend_vault lamports) as =
     map_option (\<lambda>(A, _). Fund_spend_vault A lamports) (read_fund_spend_vault as)"
| "read_accounts (Req_withdraw_spend_vault lamports) as =
     map_option (\<lambda>(A, _). Withdraw_spend_vault A lamports) (read_withdraw_spend_vault as)"
| "read_accounts (Req_init_paymaster relayer) as =
     map_option (\<lambda>(A, _). Init_paymaster A relayer) (read_init_paymaster as)"
| "read_accounts (Req_fund_paymaster lamports) as =
     map_option (\<lambda>(A, _). Fund_paymaster A lamports) (read_fund_paymaster as)"
| "read_accounts (Req_withdraw_paymaster lamports) as =
     map_option (\<lambda>(A, _). Withdraw_paymaster A lamports) (read_withdraw_paymaster as)"
| "read_accounts (Req_set_relayer relayer) as =
     map_option (\<lambda>(A, _). Set_relayer A relayer) (read_manage_paymaster as)"
| "read_accounts Req_pause_paymaster as =
     map_option (\<lambda>(A, _). Pause_paymaster A) (read_manage_paymaster as)"
| "read_accounts Req_unpause_paymaster as =
     map_option (\<lambda>(A, _). Unpause_paymaster A) (read_manage_paymaster as)"
| "read_accounts (Req_pay args) as =
     map_option (\<lambda>(A, _). Pay A args) (read_pay as)"
| "read_accounts (Req_swap args) as =
     map_option (\<lambda>(A, _). Swap A args) (read_swap as)"
| "read_accounts (Req_deploy args) as =
     map_option (\<lambda>(A, _). Deploy A args) (read_deploy as)"
| "read_accounts (Req_call args) as =
     map_option (\<lambda>(A, remaining). Call A args remaining) (read_call as)"
| "read_accounts (Req_pump_create args) as =
     map_option (\<lambda>(A, remaining). Pump_create A args remaining) (read_pump_trade as)"
| "read_accounts (Req_issue_sub_grant agent cap expires_at_unix) as =
     map_option (\<lambda>(A, _). Issue_sub_grant A agent cap expires_at_unix) (read_issue_sub_grant as)"
| "read_accounts (Req_revise_sub_grant cap expires_at_unix) as =
     map_option (\<lambda>(A, _). Revise_sub_grant A cap expires_at_unix) (read_manage_sub_grant as)"
| "read_accounts Req_revoke_sub_grant as =
     map_option (\<lambda>(A, _). Revoke_sub_grant A) (read_manage_sub_grant as)"
| "read_accounts Req_init_sponsor_fee as =
     map_option (\<lambda>(A, _). Init_sponsor_fee A) (read_init_sponsor_fee as)"
| "read_accounts (Req_set_sponsor_fee fee_per_intent) as =
     map_option (\<lambda>(A, _). Set_sponsor_fee A fee_per_intent) (read_set_sponsor_fee as)"
| "read_accounts Req_burn_collected_fees as =
     map_option (\<lambda>(A, _). Burn_collected_fees A) (read_burn_collected_fees as)"
| "read_accounts Req_init_pump_trader as =
     map_option (\<lambda>(A, _). Init_pump_trader A) (read_init_pump_trader as)"
| "read_accounts (Req_fund_pump_trader lamports) as =
     map_option (\<lambda>(A, _). Fund_pump_trader A lamports) (read_fund_pump_trader as)"
| "read_accounts (Req_withdraw_pump_trader lamports) as =
     map_option (\<lambda>(A, remaining). Withdraw_pump_trader A lamports remaining) (read_withdraw_pump_trader as)"
| "read_accounts (Req_token_buy args) as =
     map_option (\<lambda>(A, remaining). Token_buy A args remaining) (read_token_trade as)"
| "read_accounts (Req_token_sell args) as =
     map_option (\<lambda>(A, remaining). Token_sell A args remaining) (read_token_trade as)"
| "read_accounts (Req_init_merchant_registry mint) as =
     map_option (\<lambda>(A, _). Init_merchant_registry A mint) (read_init_merchant_registry as)"
| "read_accounts (Req_add_merchant merchant) as =
     map_option (\<lambda>(A, _). Add_merchant A merchant) (read_update_merchant_registry as)"
| "read_accounts (Req_remove_merchant merchant) as =
     map_option (\<lambda>(A, _). Remove_merchant A merchant) (read_update_merchant_registry as)"
| "read_accounts (Req_pay_token args) as =
     map_option (\<lambda>(A, _). Pay_token A args) (read_pay_token as)"
| "read_accounts (Req_create_subscription args) as =
     map_option (\<lambda>(A, _). Create_subscription A args) (read_create_subscription as)"
| "read_accounts Req_cancel_subscription as =
     map_option (\<lambda>(A, _). Cancel_subscription A) (read_cancel_subscription as)"
| "read_accounts (Req_pay_subscription args) as =
     map_option (\<lambda>(A, _). Pay_subscription A args) (read_pay_subscription as)"

text \<open>
  What the runtime calls: on data that are no request, or with too few accounts, no handler runs;
  otherwise the instruction does. (Anchor pops and checks one account after the other, so where accounts
  are missing it may already have failed on an earlier one, with the error of that check.)
\<close>

definition read_submission ::
  "(byte list \<Rightarrow> byte list) \<Rightarrow> account_info list \<Rightarrow> byte list \<Rightarrow> wire_error + program_ix" where
  "read_submission hash as data =
     (case read_instruction hash data of
        Inl e \<Rightarrow> Inl e
      | Inr r \<Rightarrow> (case read_accounts r as of None \<Rightarrow> Inl AccountNotEnoughKeys | Some ix \<Rightarrow> Inr ix))"

definition entry ::
  "(byte list \<Rightarrow> byte list) \<Rightarrow> runtime \<Rightarrow> account_info list \<Rightarrow> byte list \<Rightarrow> chain \<Rightarrow> wire_error + chain res" where
  "entry hash rt as data c = map_sum id (\<lambda>ix. process rt ix c) (read_submission hash as data)"

section \<open>What was submitted\<close>

text \<open>The accounts an instruction names, in the order of its struct, and those it takes beside them.\<close>

fun slots_of :: "program_ix \<Rightarrow> account_info option list" where
  "slots_of (Init_spend_vault A) = init_spend_vault_slots A"
| "slots_of (Fund_spend_vault A lamports) = fund_spend_vault_slots A"
| "slots_of (Withdraw_spend_vault A lamports) = withdraw_spend_vault_slots A"
| "slots_of (Init_paymaster A relayer) = init_paymaster_slots A"
| "slots_of (Fund_paymaster A lamports) = fund_paymaster_slots A"
| "slots_of (Withdraw_paymaster A lamports) = withdraw_paymaster_slots A"
| "slots_of (Set_relayer A relayer) = manage_paymaster_slots A"
| "slots_of (Pause_paymaster A) = manage_paymaster_slots A"
| "slots_of (Unpause_paymaster A) = manage_paymaster_slots A"
| "slots_of (Pay A args) = pay_slots A"
| "slots_of (Swap A args) = swap_slots A"
| "slots_of (Deploy A args) = deploy_slots A"
| "slots_of (Call A args remaining) = call_slots A"
| "slots_of (Pump_create A args remaining) = pump_trade_slots A"
| "slots_of (Issue_sub_grant A agent cap expires_at_unix) = issue_sub_grant_slots A"
| "slots_of (Revise_sub_grant A cap expires_at_unix) = manage_sub_grant_slots A"
| "slots_of (Revoke_sub_grant A) = manage_sub_grant_slots A"
| "slots_of (Init_sponsor_fee A) = init_sponsor_fee_slots A"
| "slots_of (Set_sponsor_fee A fee_per_intent) = set_sponsor_fee_slots A"
| "slots_of (Burn_collected_fees A) = burn_collected_fees_slots A"
| "slots_of (Init_pump_trader A) = init_pump_trader_slots A"
| "slots_of (Fund_pump_trader A lamports) = fund_pump_trader_slots A"
| "slots_of (Withdraw_pump_trader A lamports remaining) = withdraw_pump_trader_slots A"
| "slots_of (Token_buy A args remaining) = token_trade_slots A"
| "slots_of (Token_sell A args remaining) = token_trade_slots A"
| "slots_of (Init_merchant_registry A mint) = init_merchant_registry_slots A"
| "slots_of (Add_merchant A merchant) = update_merchant_registry_slots A"
| "slots_of (Remove_merchant A merchant) = update_merchant_registry_slots A"
| "slots_of (Pay_token A args) = pay_token_slots A"
| "slots_of (Create_subscription A args) = create_subscription_slots A"
| "slots_of (Cancel_subscription A) = cancel_subscription_slots A"
| "slots_of (Pay_subscription A args) = pay_subscription_slots A"

fun named_of :: "program_ix \<Rightarrow> bool" where
  "named_of (Pay A args) \<longleftrightarrow> absent_or_other (pay_paymaster A) \<and> absent_or_other (pay_fee_payer A)"
| "named_of (Swap A args) \<longleftrightarrow> absent_or_other (swap_paymaster A) \<and> absent_or_other (swap_fee_payer A)"
| "named_of (Deploy A args) \<longleftrightarrow> absent_or_other (deploy_paymaster A) \<and> absent_or_other (deploy_fee_payer A)"
| "named_of (Call A args remaining) \<longleftrightarrow> absent_or_other (call_paymaster A) \<and> absent_or_other (call_fee_payer A)"
| "named_of (Pump_create A args remaining) \<longleftrightarrow> absent_or_other (pp_paymaster A) \<and> absent_or_other (pp_fee_payer A)"
| "named_of (Issue_sub_grant A agent cap expires_at_unix) \<longleftrightarrow> absent_or_other (isg_parent A)"
| "named_of (Token_buy A args remaining) \<longleftrightarrow> absent_or_other (tt_paymaster A) \<and> absent_or_other (tt_fee_payer A)"
| "named_of (Token_sell A args remaining) \<longleftrightarrow> absent_or_other (tt_paymaster A) \<and> absent_or_other (tt_fee_payer A)"
| "named_of (Pay_token A args) \<longleftrightarrow> absent_or_other (ptk_reference A) \<and> absent_or_other (ptk_paymaster A) \<and> absent_or_other (ptk_fee_payer A)"
| "named_of (Pay_subscription A args) \<longleftrightarrow> absent_or_other (psb_reference A) \<and> absent_or_other (psb_paymaster A) \<and> absent_or_other (psb_fee_payer A)"
| "named_of _ \<longleftrightarrow> True"

fun remaining_of :: "program_ix \<Rightarrow> account_info list option" where
  "remaining_of (Call A args remaining) = Some remaining"
| "remaining_of (Pump_create A args remaining) = Some remaining"
| "remaining_of (Withdraw_pump_trader A lamports remaining) = Some remaining"
| "remaining_of (Token_buy A args remaining) = Some remaining"
| "remaining_of (Token_sell A args remaining) = Some remaining"
| "remaining_of _ = None"

definition placed :: "program_ix \<Rightarrow> account_info list \<Rightarrow> bool" where
  "placed ix as \<longleftrightarrow>
     named_of ix
     \<and> (\<exists>bs rest. list_all2 stands_for (slots_of ix) bs \<and> as = bs @ rest
          \<and> (case remaining_of ix of None \<Rightarrow> True | Some remaining \<Rightarrow> rest = remaining))"

definition submitted :: "(byte list \<Rightarrow> byte list) \<Rightarrow> program_ix \<Rightarrow> account_info list \<Rightarrow> byte list \<Rightarrow> bool" where
  "submitted hash ix as data \<longleftrightarrow>
     writable (request_of ix) \<and> (\<exists>rest. data = instruction_data hash (request_of ix) @ rest) \<and> placed ix as"

lemmas struct_reads =
  init_spend_vault_struct.read_iff fund_spend_vault_struct.read_iff
  withdraw_spend_vault_struct.read_iff init_paymaster_struct.read_iff
  fund_paymaster_struct.read_iff withdraw_paymaster_struct.read_iff
  manage_paymaster_struct.read_iff pay_struct.read_iff swap_struct.read_iff deploy_struct.read_iff
  call_struct.read_iff pump_trade_struct.read_iff issue_sub_grant_struct.read_iff
  manage_sub_grant_struct.read_iff init_sponsor_fee_struct.read_iff set_sponsor_fee_struct.read_iff
  burn_collected_fees_struct.read_iff init_pump_trader_struct.read_iff
  fund_pump_trader_struct.read_iff withdraw_pump_trader_struct.read_iff token_trade_struct.read_iff
  init_merchant_registry_struct.read_iff update_merchant_registry_struct.read_iff
  pay_token_struct.read_iff create_subscription_struct.read_iff cancel_subscription_struct.read_iff
  pay_subscription_struct.read_iff

lemma read_accounts_iff: "read_accounts r as = Some ix \<longleftrightarrow> request_of ix = r \<and> placed ix as"
proof
  show "read_accounts r as = Some ix \<Longrightarrow> request_of ix = r \<and> placed ix as"
    by (cases r) (auto simp: struct_reads placed_def)
  have "placed ix as \<Longrightarrow> read_accounts (request_of ix) as = Some ix"
    by (cases ix) (auto simp: struct_reads placed_def)
  then show "request_of ix = r \<and> placed ix as \<Longrightarrow> read_accounts r as = Some ix"
    by blast
qed

lemma read_submission_iff:
  assumes "selectors_ok hash"
  shows "read_submission hash as data = Inr ix \<longleftrightarrow> submitted hash ix as data"
proof -
  have "read_submission hash as data = Inr ix \<longleftrightarrow>
      (\<exists>r. read_instruction hash data = Inr r \<and> read_accounts r as = Some ix)"
    by (auto simp: read_submission_def split: sum.splits option.splits)
  then show ?thesis
    unfolding read_write [OF assms] read_accounts_iff submitted_def by blast
qed

text \<open>Every instruction can be submitted: this program stands where a field is absent.\<close>

definition placeholder :: "account_info option \<Rightarrow> account_info" where
  "placeholder slot =
     (case slot of None \<Rightarrow> \<lparr>key = INTENTS_ID, is_signer = False, is_writable = False\<rparr> | Some a \<Rightarrow> a)"

definition account_list :: "program_ix \<Rightarrow> account_info list" where
  "account_list ix =
     map placeholder (slots_of ix) @ (case remaining_of ix of None \<Rightarrow> [] | Some remaining \<Rightarrow> remaining)"

lemma stands_placeholder: "list_all2 stands_for slots (map placeholder slots)"
  by (induction slots) (auto simp: stands_for_def placeholder_def split: option.splits)

lemma account_list_placed: "named_of ix \<Longrightarrow> placed ix (account_list ix)"
  using stands_placeholder [of "slots_of ix"]
  by (auto simp: placed_def account_list_def split: option.splits)

section \<open>The property\<close>

text \<open>C20: What is submitted is what runs. For any accounts and any bytes, the entry point comes to run an
  instruction exactly when they spell one: the data begin with the selector of its entry point and the
  Borsh encoding of its arguments, and the accounts are those of its struct, in order (this program
  standing for an absent one), followed by its remaining accounts where it takes any. Then it is that
  instruction that runs, on nothing else. No submission spells two instructions, and each instruction can be spelled.
  Data without a whole selector, with the selector of no entry point, with arguments cut
  short or malformed (text that is not UTF-8 included), and too few accounts are refused before any handler runs. The
  hash is only required to give the 32 entry points distinct selectors.\<close>

theorem submission_exact:
  assumes "selectors_ok hash"
  shows "(entry hash rt as data c = Inr out \<longleftrightarrow> (\<exists>ix. submitted hash ix as data \<and> out = process rt ix c))
    \<and> (submitted hash ix as data \<and> submitted hash ix' as data \<longrightarrow> ix = ix')
    \<and> (writable (request_of ix) \<and> named_of ix \<longrightarrow>
         submitted hash ix (account_list ix) (instruction_data hash (request_of ix)))"
proof (intro conjI impI)
  show "entry hash rt as data c = Inr out \<longleftrightarrow> (\<exists>ix. submitted hash ix as data \<and> out = process rt ix c)"
    unfolding entry_def read_submission_iff [OF assms, symmetric]
    by (cases "read_submission hash as data") auto
  show "submitted hash ix as data \<and> submitted hash ix' as data \<Longrightarrow> ix = ix'"
    unfolding read_submission_iff [OF assms, symmetric] by auto
  show "writable (request_of ix) \<and> named_of ix \<Longrightarrow>
      submitted hash ix (account_list ix) (instruction_data hash (request_of ix))"
    by (simp add: submitted_def account_list_placed)
qed

text \<open>A payment, from the bytes on the wire: the selector of \<open>pay\<close> and two amounts.\<close>

lemma pay_selector: "disc table_hash ''global'' ''pay'' = [119, 18, 216, 65, 192, 117, 122, 220]"
  using tests_pass_together by (simp add: test_account_instruction_event_discriminators_def)

theorem submission_exact_witness:
  "selectors_ok table_hash
   \<and> (\<exists>d. entry table_hash demo_rt
        (account_list (Pay demo_pay_infos demo_pay_args))
        ([119, 18, 216, 65, 192, 117, 122, 220] @ word_bytes (pa_amount_lamports demo_pay_args)
           @ word_bytes (pa_sponsor_lamports demo_pay_args)) demo_chain = Inr (Inr d))"
proof -
  let ?ix = "Pay demo_pay_infos demo_pay_args"
  have data: "instruction_data table_hash (request_of ?ix)
      = [119, 18, 216, 65, 192, 117, 122, 220] @ word_bytes (pa_amount_lamports demo_pay_args)
          @ word_bytes (pa_sponsor_lamports demo_pay_args)"
    by (simp add: instruction_data_def pay_selector enc_pay_args_def)
  have "named_of ?ix"
    by (simp add: absent_or_other_def demo_pay_infos_def key_simps)
  then have "submitted table_hash ?ix (account_list ?ix) (instruction_data table_hash (request_of ?ix))"
    using submission_exact [OF selectors_ok_table, of _ _ _ _ _ ?ix] by simp
  moreover obtain d where "process demo_rt ?ix demo_chain = Inr d"
    using demo_pay_ok by auto
  ultimately have "entry table_hash demo_rt (account_list ?ix) (instruction_data table_hash (request_of ?ix)) demo_chain
      = Inr (Inr d)"
    using submission_exact [OF selectors_ok_table] by metis
  then show ?thesis
    unfolding data using selectors_ok_table by blast
qed

end
