(* ===== verification/Spec2Isabelle.thy ===== *)
theory Spec2Isabelle imports Trader Books Timed_Payment Budget Pump_Amm Entry begin

text \<open>
  Verification library of \<open>grok_chain_intents\<close>, the Solana program under
  \<open>programs/grok_chain_intents/src\<close> that lets an agent spend a human's money within a grant.

  \<^bold>\<open>The program.\<close> A human (the root) owns a GrokAccount and grants in another program, CORE. This
  program keeps three kinds of custody for it: a SpendVault (lamports the agent may send), a
  Paymaster (lamports that reimburse the relayer which pays the fees) and a pump trader (an empty
  System account that holds tokens and trades). An agent signs an \<^emph>\<open>intent\<close> and never pays its
  fee. Every intent takes the same course: a check of its shape and of the sponsor, one call of
  CORE's \<open>check_grant\<close>, which meters the amount against the grant or fails, the effect (a debit of
  the vault, a token transfer, a call into another program), the reimbursement of the relayer, and
  an event. Beside the intents stand the root's own instructions: creating, funding and emptying
  the custody accounts, the payee registry, subscriptions, sub-grants, the sponsor fee.

  \<^bold>\<open>The model.\<close> A \<open>chain\<close> is the ledger (lamports, owner, data, executable flag by key) and the
  events emitted. An instruction is a function \<open>runtime \<Rightarrow> infos \<Rightarrow> args \<Rightarrow> chain \<Rightarrow> chain res\<close>: its
  accounts struct with every constraint (\<open>*_accounts\<close>), then its handler. A failed instruction is
  \<open>Inl\<close> of the error; the runtime then discards the transaction, so only \<open>Inr\<close> carries a ledger.
  Integers are words of the width of the source; checked arithmetic is an \<open>option\<close>, and where the
  source may panic the model has the value \<open>Panic\<close>. Accounts of this program are stored as bytes
  and go through the Borsh codec at each load and at the write-back Anchor does on exit.

  \<^bold>\<open>Theories, and the source they model.\<close>
  \<^item> \<open>Prelude\<close>: widths, results, loops over fallible bodies, little-endian bytes, collections
    (\<open>res_simps\<close> and others) the proofs share. \<open>Errors\<close>: \<open>errors.rs\<close>, and the numbering as a
    bijection. \<open>Constants\<close>: \<open>constants.rs\<close> with the encoders of inner instructions. \<open>Borsh\<close>,
    \<open>Layouts\<close>, \<open>Arguments\<close>: \<open>state.rs\<close>; the locales \<open>borsh\<close>, \<open>fixed_borsh\<close> and \<open>account_codec\<close> state what
    a codec promises and are interpreted on every account type (\<open>Layouts\<close>) and every argument struct
    (\<open>Arguments\<close>, with UTF-8 for the strings of a launch). \<open>Events\<close>: \<open>events.rs\<close>.
  \<^item> \<open>Chain\<close>: the ledger, the runtime, typed loads and stores (locale \<open>typed_account\<close>, a sublocale of
    every codec), account declarations. \<open>Policy\<close>: \<open>policy.rs\<close>. \<open>Core_Cpi\<close>: \<open>core_cpi.rs\<close>. \<open>Common\<close>:
    \<open>instructions/mod.rs\<close> and \<open>common.rs\<close>, with the locale \<open>lamport_mover\<close> for guarded debits.
    \<open>Demo\<close>: a concrete runtime and ledger that meet all the hypotheses; witnesses run on it.
  \<^item> \<open>Vaults\<close> (\<open>spend_vault.rs\<close>, \<open>paymaster.rs\<close>), \<open>Intents\<close> (\<open>pay.rs\<close>, \<open>swap.rs\<close>, \<open>deploy.rs\<close>,
    \<open>call.rs\<close>), \<open>Merchants\<close> (\<open>merchants.rs\<close>, locale \<open>allowlist\<close>), \<open>Sub_Grants\<close> (\<open>sub_grant.rs\<close>),
    \<open>Tokens\<close> and \<open>Pay_Token\<close> (\<open>pay_token.rs\<close>), \<open>Subscriptions\<close> (\<open>subscription.rs\<close>), \<open>Sponsor_Fee\<close>
    (\<open>sponsor_fee.rs\<close>), \<open>Pump_Trader\<close> (\<open>pump_trader.rs\<close>), \<open>Token_Trade\<close> (\<open>token.rs\<close>, Jupiter),
    \<open>Pump\<close> (\<open>pump.rs\<close>), \<open>Pump_Amm\<close> (\<open>pump_amm.rs\<close>).
  \<^item> \<open>Custody\<close>: the locale \<open>custody\<close>, what one block of a handler may take from which account, and
    with it what bounds \<open>call\<close>.
    \<open>Accounts\<close>: the six account types as one. \<open>Frame\<close>: the locale \<open>chain_frame\<close>, what every
    instruction leaves alone up to what it charges; it is interpreted for the data of the accounts,
    for the log and for the lamports, in \<open>Books\<close> for data and log at once, and in \<open>Trader\<close> for what a
    trader holds. \<open>Program\<close>: \<open>lib.rs\<close> as the dispatcher \<open>process\<close>, what one instruction does
    (\<open>process_effect\<close>), steps, reachable ledgers. \<open>Dispatch\<close>: the data of an instruction, as bytes,
    and the request they are read as. \<open>Entry\<close>: the accounts struct of each instruction, read from a
    list (locale \<open>account_struct\<close>), and the entry point on accounts and bytes.
  \<^item> Over the whole program: \<open>Authority\<close> (who must sign for what, histories with their trail), \<open>Books\<close>
    (the log of settlements against the subscription accounts), \<open>Capabilities\<close> (which calls into
    other programs an instruction can make), \<open>Trader\<close> (what the pump trader holds, and which
    instructions can touch it), \<open>Budget\<close> (histories of intents against a grant) and
    \<open>Timed_Payment\<close> (\<open>pay_subscription\<close> against \<open>pay_token\<close>).
  \<^item> \<open>Conformance\<close>, \<open>Discriminators\<close>: the repository's unit tests, evaluated on the model.

  \<^bold>\<open>What the properties show.\<close>
  \<^item> Per instruction: what a success has checked and exactly what it changed (\<open>*_effect\<close>,
    \<open>pay_authorised\<close>), in which order it reports errors (\<open>pay_error_order\<close>), and what bounds a call
    into a program the client chooses (\<open>call_bounded\<close>, \<open>token_trade_bounded\<close>) or into a market (the
    pump adapters, whose address checks are listed slot by slot: \<open>pump_official\<close>,
    \<open>pump_create_official\<close>, \<open>amm_official\<close>).
  \<^item> Per component: the registry implements a bounded set, sub-grants attenuate and are revoked with
    their whole chain, a period is settled exactly once however often it is delivered, the fee rate
    is bounded and the burn destroys what was collected, layouts round-trip in their space, and
    accounts and bytes are run as the instruction they were written for and no other
    (\<open>submission_exact\<close>), so what is shown of \<open>process\<close> holds of every submission.
  \<^item> Of the whole: over every history the accounts keep their type and evolve in one direction
    (\<open>accounts_evolve\<close>), in every reachable ledger they are sound (\<open>reachable_accounts_sound\<close>),
    cancelling and revoking are final (\<open>endings_are_final\<close>), the root can always take its money out
    (\<open>root_can_withdraw\<close>), money leaves a vault or paymaster only by instructions that carry the
    signature of its GrokAccount's root or agent (\<open>money_leaves_by_authority\<close>), and no more of it than
    CORE has metered (\<open>vault_budget\<close>); the lamports and tokens of a pump trader go only by an
    instruction of that kind that lends its signature (\<open>trader_spends_by_authority\<close>); the log never shows a period of a subscription twice
    (\<open>no_period_charged_twice\<close>); and no instruction calls another program, or lends its signature,
    outside a fixed table over the ledger it starts on (\<open>capability_confined\<close>; account creation by
    Anchor's \<open>init\<close> is the runtime's \<open>init_pda\<close> and stands beside it).
  \<^item> Between instructions: \<open>swap\<close> is \<open>pay\<close> with a minimum (\<open>swap_refines_pay\<close>), and a subscription is
    \<open>pay_token\<close> with a clock and a counter (\<open>subscription_is_timed_payment\<close>).
  \<^item> Two properties state defects, as the code has them: \<open>pay_to_vault_inflates\<close> (a vault paid to
    itself is credited without being debited; the runtime's balance check is what stops it) and
    \<open>issue_accepts_foreign_parent\<close> (a sub-grant of another account is accepted as parent).

  \<^bold>\<open>What is assumed.\<close> Other programs are the field \<open>invoke_cpi\<close> of the runtime; the properties name
  what they need of it, and \<open>Demo\<close>, \<open>Tokens\<close> and the demonstrations of the trade theories meet it:
  \<^item> \<open>core_meters\<close>: a successful \<open>check_grant\<close> found the grant alive, added the amount to its spent
    counter within the cap and wrote nothing else.
  \<^item> \<open>foreign_frame\<close>: another program cannot change data or owner of this program's accounts nor
    take their lamports, a rule of the Solana runtime (which also forbids indirect reentrancy).
    \<open>isolated\<close> adds that an account cannot be handed over with data that decode (\<open>no_forgery\<close>; the
    runtime requires zeroed data), that \<open>init\<close> takes only fresh addresses (\<open>init_fresh\<close>) and its rent
    from no account of this program (\<open>rent_from_outside\<close>: a data account cannot fund another), and that a
    call into this program with empty data, the one \<open>call\<close> can make, changes nothing
    (\<open>self_call_idle\<close>: no instruction has an empty discriminator). \<open>call_bounded\<close> needs the last only
    where the target of the call is this program.
  \<^item> \<open>trader_sealed\<close>: the System account at the address of a trader, and the token accounts it owns without
    delegate or close authority, are not debited without the signature of that address, which only this
    program can give.
  \<^item> \<open>selectors_ok\<close>: the hash gives the 32 entry points distinct selectors of 8 bytes (SHA-256 does; the
    table in \<open>Discriminators\<close> holds its values).
  \<^item> \<open>transfer_exact\<close>, \<open>create_exact\<close>: the System Program; \<open>token_transfers\<close>, \<open>plain_transfers\<close>,
    \<open>token_burns\<close>: the token programs move and burn what the instruction says. A payment from a token
    account to itself (the root may list the trader as payee) is checked and moves nothing, and the
    properties of payments cover it; a burn is never from the mint itself. Where it matters, that an
    empty account needs some rent is stated.

  \<^bold>\<open>Termination and bounds.\<close> Every loop of the source runs over a list it is given (remaining
  accounts, the chain of sub-grants, the payees), so its model is structural recursion and total; no
  fuel is used. Reading UTF-8 is recursion on the bytes that are left, with the measure \<open>length\<close>. Sizes
  are the source's: 32 payees, three levels of sub-grants, a fee of at most \<open>MAX_FEE_PER_INTENT\<close>, a
  period of at least a day.

  \<^bold>\<open>Not modelled.\<close> The assertions of \<open>capability_audit.rs\<close> that search the text of source files: they
  are about text, and \<open>capability_confined\<close> and \<open>money_leaves_by_authority\<close> state of the behaviour what
  they stand for. SHA-256 is a parameter of the tests in \<open>Discriminators\<close>, and discriminators are constants of
  the model, pinned to the names by those tests. Of the
  runtime: compute and size limits, borrow failures of \<open>RefCell\<close> (the handlers drop their borrows
  before each call), failing sysvar reads, and the final check that balances add up. Anchor's
  write-back of an account the handler did not change is the identity (\<open>account_roundtrip\<close>) and
  is left out. The instructions Anchor adds of its own (the IDL account, which none of this program's
  code reads) are not modelled; \<open>entry\<close> refuses their selectors.
  \<open>pump_amm.rs\<close> is not in the module tree of this build and so not in \<open>process\<close>.
\<close>

end
